(* ===== verification/Prelude.thy ===== *)
theory Prelude
  imports Main "HOL-Library.Word"
begin

text \<open>
  Shared vocabulary of the development: Rust's fixed-width integers and byte
  slices, the outcome of a fallible call, checked arithmetic, slicing, and the
  generic lemmas the components use.

  The crate is built with \<^verbatim>\<open>overflow-checks = true\<close> and \<^verbatim>\<open>panic = 'abort'\<close>
  (\<^verbatim>\<open>[profile.release]\<close> of \<^verbatim>\<open>Cargo.toml\<close>), so an arithmetic overflow, an index out of
  range, an \<^verbatim>\<open>unwrap\<close> of \<^verbatim>\<open>None\<close> and a division by zero all abort the call: they
  are the outcome \<open>Panic\<close>, distinct from a returned error.
\<close>

section \<open>Machine types\<close>

type_synonym byte = "8 word"
type_synonym bytes = "byte list"
type_synonym u64 = "64 word"

text \<open>Width of \<^verbatim>\<open>usize\<close> on \<^verbatim>\<open>wasm32-unknown-unknown\<close>, the target the contract is built for.\<close>

definition usize_bits :: nat where
  "usize_bits = 32"

text \<open>\<^verbatim>\<open>std::cmp::Ordering\<close>.\<close>

datatype ordering = Less | Equal | Greater

section \<open>Outcome of a fallible call\<close>

datatype ('a, 'e) result = Ok 'a | Err 'e | Panic

named_theorems result_iff "characterisations of the outcome of a composed call"

text \<open>The \<^verbatim>\<open>?\<close> operator: continue with the value, return early with the error.\<close>

definition and_then :: "('a, 'e) result \<Rightarrow> ('a \<Rightarrow> ('b, 'e) result) \<Rightarrow> ('b, 'e) result" where
  "and_then m f = (case m of Ok a \<Rightarrow> f a | Err e \<Rightarrow> Err e | Panic \<Rightarrow> Panic)"

text \<open>\<^verbatim>\<open>Result::map_err\<close>.\<close>

definition map_err :: "('e \<Rightarrow> 'f) \<Rightarrow> ('a, 'e) result \<Rightarrow> ('a, 'f) result" where
  "map_err f m = (case m of Ok a \<Rightarrow> Ok a | Err e \<Rightarrow> Err (f e) | Panic \<Rightarrow> Panic)"

text \<open>
  \<^verbatim>\<open>let r = call();\<close> where the \<^verbatim>\<open>Result\<close> is kept as a value and inspected later: the
  continuation sees \<open>Ok\<close> or \<open>Err\<close>, a panic has already aborted.
\<close>

definition let_result ::
    "('a, 'e) result \<Rightarrow> (('a, 'e) result \<Rightarrow> ('b, 'f) result) \<Rightarrow> ('b, 'f) result" where
  "let_result m f = (case m of Panic \<Rightarrow> Panic | Ok a \<Rightarrow> f (Ok a) | Err e \<Rightarrow> f (Err e))"

text \<open>\<^verbatim>\<open>Option::unwrap\<close>, and \<^verbatim>\<open>Option\<close>/\<^verbatim>\<open>Result\<close> turned into an outcome with a given error.\<close>

definition unwrap :: "'a option \<Rightarrow> ('a, 'e) result" where
  "unwrap x = (case x of Some a \<Rightarrow> Ok a | None \<Rightarrow> Panic)"

definition ok_or :: "'a option \<Rightarrow> 'e \<Rightarrow> ('a, 'e) result" where
  "ok_or x e = (case x of Some a \<Rightarrow> Ok a | None \<Rightarrow> Err e)"

text \<open>\<^verbatim>\<open>Result::unwrap\<close> and \<^verbatim>\<open>expect\<close>, and \<^verbatim>\<open>assert!\<close>.\<close>

fun unwrap_result :: "('a, 'e) result \<Rightarrow> ('a, 'f) result" where
  "unwrap_result (Ok a) = Ok a"
| "unwrap_result _ = Panic"

definition assert_that :: "bool \<Rightarrow> (unit, 'e) result" where
  "assert_that b = (if b then Ok () else Panic)"

text \<open>\<^verbatim>\<open>iter().map(f).collect::<Result<Vec<_>, _>>()\<close>: stops at the first error.\<close>

fun collect :: "('a \<Rightarrow> ('b, 'e) result) \<Rightarrow> 'a list \<Rightarrow> ('b list, 'e) result" where
  "collect f [] = Ok []"
| "collect f (x # xs) = and_then (f x) (\<lambda>y. and_then (collect f xs) (\<lambda>ys. Ok (y # ys)))"

text \<open>
  The \<^verbatim>\<open>?\<close> operator in a method with \<^verbatim>\<open>&mut self\<close>: the state the method has reached is kept
  on an early return.
\<close>

definition try_state ::
    "('a, 'e) result \<Rightarrow> 's \<Rightarrow> ('a \<Rightarrow> ('b, 'e) result \<times> 's) \<Rightarrow> ('b, 'e) result \<times> 's" where
  "try_state m st f = (case m of Ok a \<Rightarrow> f a | Err e \<Rightarrow> (Err e, st) | Panic \<Rightarrow> (Panic, st))"

lemma try_state_simps [simp]:
  "try_state (Ok a) st f = f a"
  "try_state (Err e) st f = (Err e, st)"
  "try_state Panic st f = (Panic, st)"
  by (simp_all add: try_state_def)

lemma and_then_simps [simp]:
  "and_then (Ok a) f = f a"
  "and_then (Err e) f = Err e"
  "and_then Panic f = Panic"
  by (simp_all add: and_then_def)

lemma map_err_simps [simp]:
  "map_err g (Ok a) = Ok a"
  "map_err g (Err e) = Err (g e)"
  "map_err g Panic = Panic"
  by (simp_all add: map_err_def)

lemma let_result_simps [simp]:
  "let_result (Ok a) h = h (Ok a)"
  "let_result (Err e) h = h (Err e)"
  "let_result Panic h = Panic"
  by (simp_all add: let_result_def)

lemma unwrap_simps [simp]:
  "unwrap (Some a) = Ok a"
  "unwrap None = Panic"
  by (simp_all add: unwrap_def)

lemma ok_or_simps [simp]:
  "ok_or (Some a) e = Ok a"
  "ok_or None e = Err e"
  by (simp_all add: ok_or_def)

lemma and_then_eq_Ok [result_iff]:
  "and_then m f = Ok b \<longleftrightarrow> (\<exists>a. m = Ok a \<and> f a = Ok b)"
  by (cases m) simp_all

lemma and_then_eq_Err [result_iff]:
  "and_then m f = Err e \<longleftrightarrow> m = Err e \<or> (\<exists>a. m = Ok a \<and> f a = Err e)"
  by (cases m) simp_all

lemma and_then_eq_Panic [result_iff]:
  "and_then m f = Panic \<longleftrightarrow> m = Panic \<or> (\<exists>a. m = Ok a \<and> f a = Panic)"
  by (cases m) simp_all

lemma try_state_eq_Ok [result_iff]:
  "try_state m st f = (Ok b, st') \<longleftrightarrow> (\<exists>a. m = Ok a \<and> f a = (Ok b, st'))"
  by (cases m) simp_all

lemma try_state_eq_Err [result_iff]:
  "try_state m st f = (Err e, st') \<longleftrightarrow>
     m = Err e \<and> st' = st \<or> (\<exists>a. m = Ok a \<and> f a = (Err e, st'))"
  by (cases m) auto

text \<open>A \<^verbatim>\<open>&mut\<close> operation called with \<^verbatim>\<open>?\<close>: its result is inspected in the state it left.\<close>

lemma call_state_eq_Ok [result_iff]:
  "(case p of (r, s) \<Rightarrow> try_state r s (\<lambda>x. f x s)) = (Ok b, st') \<longleftrightarrow>
     (\<exists>a s. p = (Ok a, s) \<and> f a s = (Ok b, st'))"
  by (cases p; cases "fst p") auto

lemma call_map_err_eq_Ok [result_iff]:
  "(case p of (r, s) \<Rightarrow> try_state (map_err g r) st (\<lambda>x. f x s)) = (Ok b, st') \<longleftrightarrow>
     (\<exists>a s. p = (Ok a, s) \<and> f a s = (Ok b, st'))"
  by (cases p; cases "fst p") auto

lemma map_err_eq_Ok [result_iff]: "map_err g m = Ok a \<longleftrightarrow> m = Ok a"
  by (cases m) simp_all

lemma map_err_eq_Err [result_iff]: "map_err g m = Err e \<longleftrightarrow> (\<exists>e'. m = Err e' \<and> e = g e')"
  by (cases m) auto

lemma map_err_eq_Panic [result_iff]: "map_err g m = Panic \<longleftrightarrow> m = Panic"
  by (cases m) simp_all

lemma unwrap_eq_Ok [result_iff]: "unwrap x = Ok a \<longleftrightarrow> x = Some a"
  by (cases x) simp_all

lemma unwrap_eq_Panic [result_iff]: "unwrap x = Panic \<longleftrightarrow> x = None"
  by (cases x) simp_all

lemma unwrap_ne_Err [simp]: "unwrap x \<noteq> Err e" "Err e \<noteq> unwrap x"
  by (cases x; simp)+

lemma ok_or_eq_Ok [result_iff]: "ok_or x e = Ok a \<longleftrightarrow> x = Some a"
  by (cases x) simp_all

lemma ok_or_eq_Err [result_iff]: "ok_or x e = Err e' \<longleftrightarrow> x = None \<and> e' = e"
  by (cases x) auto

lemma ok_or_ne_Panic [simp]: "ok_or x e \<noteq> Panic" "Panic \<noteq> ok_or x e"
  by (cases x; simp)+

lemma if_Err_eq_Ok [result_iff]: "(if b then Err e else m) = Ok u \<longleftrightarrow> \<not> b \<and> m = Ok u"
  by simp

lemma and_then_assoc: "and_then (and_then m f) g = and_then m (\<lambda>a. and_then (f a) g)"
  by (cases m) simp_all

lemma collect_map_Ok: "(\<And>x. x \<in> set xs \<Longrightarrow> f (g x) = Ok (h x)) \<Longrightarrow>
    collect f (map g xs) = Ok (map h xs)"
  by (induction xs) simp_all

lemma collect_Ok_iff [result_iff]:
  "collect f xs = Ok ys \<longleftrightarrow> list_all2 (\<lambda>x y. f x = Ok y) xs ys"
  by (induction xs arbitrary: ys) (auto simp: and_then_eq_Ok list_all2_Cons1)

lemma collect_length: "collect f xs = Ok ys \<Longrightarrow> length ys = length xs"
  by (auto simp: collect_Ok_iff dest: list_all2_lengthD)

section \<open>Slices\<close>

text \<open>\<^verbatim>\<open>&data[..n]\<close> and \<^verbatim>\<open>&data[n..]\<close>: both panic when \<open>n\<close> is past the end.\<close>

definition slice_to :: "'a list \<Rightarrow> nat \<Rightarrow> ('a list, 'e) result" where
  "slice_to xs n = (if n \<le> length xs then Ok (take n xs) else Panic)"

definition slice_from :: "'a list \<Rightarrow> nat \<Rightarrow> ('a list, 'e) result" where
  "slice_from xs n = (if n \<le> length xs then Ok (drop n xs) else Panic)"

text \<open>\<^verbatim>\<open>xs[i]\<close>.\<close>

definition index :: "'a list \<Rightarrow> nat \<Rightarrow> ('a, 'e) result" where
  "index xs i = (if i < length xs then Ok (xs ! i) else Panic)"

section \<open>Checked arithmetic\<close>

text \<open>\<^verbatim>\<open>u64\<close> operations under \<^verbatim>\<open>overflow-checks\<close>.\<close>

definition u64_add :: "u64 \<Rightarrow> u64 \<Rightarrow> (u64, 'e) result" where
  "u64_add a b = (if unat a + unat b < 2 ^ 64 then Ok (a + b) else Panic)"

definition u64_sub :: "u64 \<Rightarrow> u64 \<Rightarrow> (u64, 'e) result" where
  "u64_sub a b = (if b \<le> a then Ok (a - b) else Panic)"

definition u64_mul :: "u64 \<Rightarrow> u64 \<Rightarrow> (u64, 'e) result" where
  "u64_mul a b = (if unat a * unat b < 2 ^ 64 then Ok (a * b) else Panic)"

definition u64_div :: "u64 \<Rightarrow> u64 \<Rightarrow> (u64, 'e) result" where
  "u64_div a b = (if b = 0 then Panic else Ok (a div b))"

definition u64_rem :: "u64 \<Rightarrow> u64 \<Rightarrow> (u64, 'e) result" where
  "u64_rem a b = (if b = 0 then Panic else Ok (a mod b))"

text \<open>The range \<^verbatim>\<open>a..b\<close> of a loop.\<close>

definition u64_range :: "u64 \<Rightarrow> u64 \<Rightarrow> u64 list" where
  "u64_range a b = map of_nat [unat a..<unat b]"

text \<open>\<^verbatim>\<open>usize\<close> operations, on the lengths of vectors.\<close>

definition usize_add :: "nat \<Rightarrow> nat \<Rightarrow> (nat, 'e) result" where
  "usize_add a b = (if a + b < 2 ^ usize_bits then Ok (a + b) else Panic)"

definition usize_sub :: "nat \<Rightarrow> nat \<Rightarrow> (nat, 'e) result" where
  "usize_sub a b = (if b \<le> a then Ok (a - b) else Panic)"

definition usize_mul :: "nat \<Rightarrow> nat \<Rightarrow> (nat, 'e) result" where
  "usize_mul a b = (if a * b < 2 ^ usize_bits then Ok (a * b) else Panic)"

lemma u64_add_eq_Ok:
  "u64_add a b = Ok c \<longleftrightarrow> unat a + unat b < 2 ^ 64 \<and> c = a + b"
  by (auto simp: u64_add_def)

lemma unat_add_u64: "unat a + unat b < 2 ^ 64 \<Longrightarrow> unat (a + b :: u64) = unat a + unat b"
  by (simp add: unat_word_ariths)

lemma unat_mul_u64: "unat a * unat b < 2 ^ 64 \<Longrightarrow> unat (a * b :: u64) = unat a * unat b"
  by (simp add: unat_word_ariths)

lemma unat_sub_u64: "b \<le> a \<Longrightarrow> unat (a - b :: u64) = unat a - unat b"
  by (simp add: unat_sub_if' word_le_nat_alt)

lemma unat_u64_lt: "unat (a :: u64) < 2 ^ 64"
  using unsigned_less [of a] by simp

section \<open>Lists\<close>

lemma enumerate_filter_map_snd_subset:
  "set (map snd (filter P (enumerate n xs))) \<subseteq> set xs"
  by (force simp: in_set_enumerate_eq)

lemma map_snd_enumerate: "map snd (enumerate n xs) = xs"
  by (simp add: enumerate_eq_zip)

lemma distinct_map_filter_enumerate:
  "distinct (map f xs) \<Longrightarrow> distinct (map f (map snd (filter P (enumerate n xs))))"
proof (induction xs arbitrary: n)
  case Nil
  then show ?case by simp
next
  case (Cons x xs)
  have "f x \<notin> f ` set (map snd (filter P (enumerate (Suc n) xs)))"
    using Cons.prems enumerate_filter_map_snd_subset [of P "Suc n" xs] by auto
  with Cons show ?case by auto
qed

end
