(* ===== verification/Errors.thy ===== *)
theory Errors
  imports Prelude
begin

text \<open>
  \<^verbatim>\<open>src/errors.rs\<close>: the error kinds of the library (\<^verbatim>\<open>Error = anomaly::Error<Kind>\<close>;
  the attached context is only ever printed and is left out), and
  \<^verbatim>\<open>src/macros.rs\<close>: \<^verbatim>\<open>slice_as_array_ref!\<close>.
  \<^verbatim>\<open>DecoderError\<close> is the error type of the \<^verbatim>\<open>rlp\<close> crate: the source builds only its
  \<open>Custom\<close> variant, the crate's own variants are \<open>LibraryError\<close>.
\<close>

datatype kind =
    InvalidDataLength (current: nat) (expected: nat)
  | RlpDecodeError
  | InvalidValidatorSetDiff string
  | InvalidChainInsertion
  | MissingSeals nat nat
  | BlsVerifyError
  | BlsInvalidSignature
  | BlsInvalidPublicKey
  | HeaderVerificationError string
  | UnknownError

datatype decoder_error = Custom string | LibraryError nat

definition slice_as_array_ref :: "bytes \<Rightarrow> nat \<Rightarrow> (bytes, kind) result" where
  "slice_as_array_ref sl len =
     (if length sl \<noteq> len
      then Err (InvalidDataLength (length sl) len)
      else Ok sl)"

text \<open>
  The four \<^verbatim>\<open>FromBytes\<close> implementations have one shape,
  \<^verbatim>\<open>slice_as_array_ref!(&data[..N], N)\<close>, with \<open>N\<close> the array length.
\<close>

definition array_from_bytes :: "nat \<Rightarrow> bytes \<Rightarrow> (bytes, kind) result" where
  "array_from_bytes n data = and_then (slice_to data n) (\<lambda>s. slice_as_array_ref s n)"

text \<open>
  The length check of the macro never fires, because the slice it is given has
  just been cut to the length it checks: short input panics in the slicing and
  long input is truncated.
\<close>

lemma array_from_bytes_eq:
  "array_from_bytes n data = (if n \<le> length data then Ok (take n data) else Panic)"
  by (simp add: array_from_bytes_def slice_to_def slice_as_array_ref_def)

lemma array_from_bytes_exact [simp]: "length data = n \<Longrightarrow> array_from_bytes n data = Ok data"
  by (simp add: array_from_bytes_eq)

lemma array_from_bytes_length: "array_from_bytes n data = Ok a \<Longrightarrow> length a = n"
  by (auto simp: array_from_bytes_eq split: if_splits)

end
