(* ===== verification/Crates.thy ===== *)
theory Crates
  imports Errors
begin

text \<open>
  The third-party crates the library calls, as parameters of the model: \<^verbatim>\<open>num-bigint\<close>,
  \<^verbatim>\<open>rlp\<close>, \<^verbatim>\<open>sha3\<close> and \<^verbatim>\<open>bls-crypto\<close>. Their code is not part of the repository, so each
  function that is called is a field of the record \<open>crates\<close>, which the model's
  definitions take as their first argument. What the library relies on is stated in
  the locales at the end (\<open>num_bigint\<close>, \<open>rlp_crate\<close>, \<open>keccak_crate\<close>): documented
  behaviour of those crates, interpreted on a reference implementation in \<open>Ref_Crates\<close>.

  A \<^verbatim>\<open>num_bigint::BigInt\<close> (\<^verbatim>\<open>Integer\<close> in the source) is an \<open>int\<close>, an \<^verbatim>\<open>rlp::Rlp\<close> view is
  the byte string it looks at, and the calls a struct makes on an \<^verbatim>\<open>rlp::RlpStream\<close> are a
  list of \<open>rlp_op\<close>. Public keys (\<open>'pk\<close>) and signatures (\<open>'sig\<close>) of \<^verbatim>\<open>bls-crypto\<close> are
  abstract.
\<close>

section \<open>Calls on an RLP stream\<close>

datatype rlp_op = BeginList nat | AppendBytes bytes | AppendU64 u64

section \<open>The crates\<close>

record ('pk, 'sig) crates =
  \<comment> \<open>\<^verbatim>\<open>num_bigint::BigInt\<close>: \<^verbatim>\<open>bits\<close>, \<^verbatim>\<open>bit\<close>, \<^verbatim>\<open>is_zero\<close>, \<^verbatim>\<open>to_u64\<close>,
    \<^verbatim>\<open>from_bytes_be(Sign::Plus, _)\<close>, \<^verbatim>\<open>to_bytes_be().1\<close>\<close>
  bi_bits :: "int \<Rightarrow> nat"
  bi_bit :: "int \<Rightarrow> nat \<Rightarrow> bool"
  bi_is_zero :: "int \<Rightarrow> bool"
  bi_to_u64 :: "int \<Rightarrow> u64 option"
  bi_from_bytes_be :: "bytes \<Rightarrow> int"
  bi_to_bytes_be :: "int \<Rightarrow> bytes"
  \<comment> \<open>\<^verbatim>\<open>RlpStream\<close> from \<^verbatim>\<open>new()\<close> to \<^verbatim>\<open>out()\<close>; \<^verbatim>\<open>Rlp::at\<close>, \<^verbatim>\<open>iter\<close>, the bytes given to
    \<^verbatim>\<open>decoder().decode_value\<close>, \<^verbatim>\<open>Vec<u8>::decode\<close> and \<^verbatim>\<open>u64::decode\<close>\<close>
  rlp_out :: "rlp_op list \<Rightarrow> bytes"
  rlp_at :: "bytes \<Rightarrow> nat \<Rightarrow> (bytes, decoder_error) result"
  rlp_iter :: "bytes \<Rightarrow> bytes list"
  rlp_value :: "bytes \<Rightarrow> (bytes, decoder_error) result"
  rlp_as_vec :: "bytes \<Rightarrow> (bytes, decoder_error) result"
  rlp_as_u64 :: "bytes \<Rightarrow> (u64, decoder_error) result"
  \<comment> \<open>\<^verbatim>\<open>Keccak256::digest\<close>\<close>
  keccak256 :: "bytes \<Rightarrow> bytes"
  \<comment> \<open>\<^verbatim>\<open>PublicKey::deserialize\<close>, \<^verbatim>\<open>Signature::deserialize\<close>, \<^verbatim>\<open>PublicKey::aggregate\<close> and
    \<^verbatim>\<open>PublicKey::verify(message, extra_data, signature, DIRECT_HASH_TO_G1)\<close>\<close>
  pk_deserialize :: "bytes \<Rightarrow> 'pk option"
  sig_deserialize :: "bytes \<Rightarrow> 'sig option"
  pk_aggregate :: "'pk list \<Rightarrow> 'pk"
  pk_verify :: "'pk \<Rightarrow> bytes \<Rightarrow> bytes \<Rightarrow> 'sig \<Rightarrow> bool"

text \<open>\<^verbatim>\<open>rlp.decoder().decode_value(f)\<close> and \<^verbatim>\<open>rlp.val_at::<T>(i)\<close> for a \<open>T\<close> with decoder \<open>f\<close>.\<close>

definition decode_value :: "('pk, 'sig, 'z) crates_scheme \<Rightarrow> bytes \<Rightarrow>
    (bytes \<Rightarrow> ('a, decoder_error) result) \<Rightarrow> ('a, decoder_error) result" where
  "decode_value L rlp f = and_then (rlp_value L rlp) f"

definition val_at :: "('pk, 'sig, 'z) crates_scheme \<Rightarrow>
    (bytes \<Rightarrow> ('a, decoder_error) result) \<Rightarrow> bytes \<Rightarrow> nat \<Rightarrow> ('a, decoder_error) result" where
  "val_at L decode rlp i = and_then (rlp_at L rlp i) decode"

section \<open>RLP items\<close>

text \<open>
  The data model of the RLP format: an item is a byte string or a list of items;
  a \<^verbatim>\<open>u64\<close> is appended as a number. \<open>item_ops\<close> are the stream calls that write an item.
\<close>

datatype rlp_item = RStr bytes | RNum u64 | RList "rlp_item list"

fun item_ops :: "rlp_item \<Rightarrow> rlp_op list" where
  "item_ops (RStr b) = [AppendBytes b]"
| "item_ops (RNum n) = [AppendU64 n]"
| "item_ops (RList ts) = BeginList (length ts) # concat (map item_ops ts)"

definition rlp_enc :: "('pk, 'sig, 'z) crates_scheme \<Rightarrow> rlp_item \<Rightarrow> bytes" where
  "rlp_enc L t = rlp_out L (item_ops t)"

text \<open>The crate's own form of a \<^verbatim>\<open>bool\<close>, for the structs whose codec is derived.\<close>

definition bool_item :: "bool \<Rightarrow> rlp_item" where
  "bool_item b = RStr [if b then 1 else 0]"

text \<open>
  A bound on the encoded size (nine bytes of header at most per item), used to say that an
  item fits the address space: every buffer the crate handles has a \<^verbatim>\<open>usize\<close> length.
\<close>

fun rlp_size :: "rlp_item \<Rightarrow> nat" where
  "rlp_size (RStr b) = length b + 9"
| "rlp_size (RNum n) = 9 + 8"
| "rlp_size (RList ts) = sum_list (map rlp_size ts) + 9"

definition rlp_fits :: "rlp_item \<Rightarrow> bool" where
  "rlp_fits t \<longleftrightarrow> rlp_size t < 2 ^ usize_bits"

lemma rlp_size_member: "t \<in> set ts \<Longrightarrow> rlp_size t \<le> sum_list (map rlp_size ts)"
  by (induction ts) auto

lemma rlp_fits_member: "rlp_fits (RList ts) \<Longrightarrow> t \<in> set ts \<Longrightarrow> rlp_fits t"
  using rlp_size_member [of t ts] by (simp add: rlp_fits_def)

lemma rlp_fits_nth: "rlp_fits (RList ts) \<Longrightarrow> i < length ts \<Longrightarrow> rlp_fits (ts ! i)"
  by (auto intro: rlp_fits_member)

section \<open>Documented behaviour the library relies on\<close>

text \<open>Value of a big-endian byte string.\<close>

definition be_value :: "bytes \<Rightarrow> nat" where
  "be_value bs = foldl (\<lambda>a b. a * 256 + unat b) 0 bs"

locale num_bigint =
  fixes L :: "('pk, 'sig, 'z) crates_scheme"
  assumes bits_zero: "bi_bits L n = 0 \<longleftrightarrow> n = 0"
    and bits_bound: "0 \<le> n \<Longrightarrow> n < 2 ^ bi_bits L n"
    and bit_eq: "bi_bit L n i \<longleftrightarrow> bit n i"
    and is_zero_eq: "bi_is_zero L n \<longleftrightarrow> n = 0"
    and to_u64_eq: "bi_to_u64 L n = (if 0 \<le> n \<and> n < 2 ^ 64 then Some (word_of_int n) else None)"
    and from_bytes_be_eq: "bi_from_bytes_be L bs = int (be_value bs)"
    and to_bytes_be_value: "0 \<le> n \<Longrightarrow> int (be_value (bi_to_bytes_be L n)) = n"
begin

lemma from_to_bytes_be: "0 \<le> n \<Longrightarrow> bi_from_bytes_be L (bi_to_bytes_be L n) = n"
  by (simp add: from_bytes_be_eq to_bytes_be_value)

lemma bit_lt_bits:
  assumes "0 \<le> n" and "bi_bit L n i"
  shows "i < bi_bits L n"
proof (rule ccontr)
  assume "\<not> i < bi_bits L n"
  then have "(2::int) ^ bi_bits L n \<le> 2 ^ i" by (simp add: power_increasing)
  then have "n < 2 ^ i" using bits_bound [OF assms(1)] by linarith
  then have "n div 2 ^ i = 0" using assms(1) by simp
  then show False using assms(2) by (simp add: bit_eq bit_iff_odd)
qed

end

locale rlp_crate =
  fixes L :: "('pk, 'sig, 'z) crates_scheme"
  assumes at_list: "rlp_fits (RList ts) \<Longrightarrow> i < length ts \<Longrightarrow>
      rlp_at L (rlp_enc L (RList ts)) i = Ok (rlp_enc L (ts ! i))"
    and iter_list: "rlp_fits (RList ts) \<Longrightarrow>
      rlp_iter L (rlp_enc L (RList ts)) = map (rlp_enc L) ts"
    and value_str: "rlp_fits (RStr b) \<Longrightarrow> rlp_value L (rlp_enc L (RStr b)) = Ok b"
    and as_vec_str: "rlp_fits (RStr b) \<Longrightarrow> rlp_as_vec L (rlp_enc L (RStr b)) = Ok b"
    and as_u64_num: "rlp_as_u64 L (rlp_enc L (RNum n)) = Ok n"
begin

lemma decode_value_str:
  "rlp_fits (RStr b) \<Longrightarrow> decode_value L (rlp_enc L (RStr b)) f = f b"
  by (simp add: decode_value_def value_str)

lemma val_at_list: "rlp_fits (RList ts) \<Longrightarrow> i < length ts \<Longrightarrow>
    val_at L decode (rlp_enc L (RList ts)) i = decode (rlp_enc L (ts ! i))"
  by (simp add: val_at_def at_list)

end

locale keccak_crate =
  fixes L :: "('pk, 'sig, 'z) crates_scheme"
  assumes digest_length: "length (keccak256 L b) = 32"

locale library_crates = num_bigint L + rlp_crate L + keccak_crate L
  for L :: "('pk, 'sig, 'z) crates_scheme"

section \<open>Wire formats\<close>

text \<open>
  The contract between a type's \<^verbatim>\<open>ToRlp\<close> and \<^verbatim>\<open>FromRlp\<close> implementations (\<^verbatim>\<open>src/traits.rs\<close>), for the
  values that fit: decoding inverts encoding, so the bytes identify the value.
\<close>

locale wire_codec =
  fixes to_rlp :: "'a \<Rightarrow> bytes" and from_rlp :: "bytes \<Rightarrow> ('a, 'e) result" and fits :: "'a \<Rightarrow> bool"
  assumes from_to: "fits x \<Longrightarrow> from_rlp (to_rlp x) = Ok x"
begin

lemma to_rlp_inject: "fits x \<Longrightarrow> fits y \<Longrightarrow> to_rlp x = to_rlp y \<longleftrightarrow> x = y"
  by (metis from_to result.inject(1))

lemma from_rlp_Ok_unique: "fits x \<Longrightarrow> from_rlp (to_rlp x) = Ok y \<longleftrightarrow> y = x"
  using from_to [of x] by (metis result.inject(1))

end

end
