(* ===== verification/Ref_Rlp.thy ===== *)
theory Ref_Rlp
  imports Crates
begin

text \<open>
  A reference implementation of the RLP format, written from the format's published
  definition, to show that the laws of the locale \<open>rlp_crate\<close> can hold: strings
  and lists with one-byte or length-prefixed headers, minimal big-endian numbers. It
  stands for the \<^verbatim>\<open>rlp\<close> crate in the witnesses; nothing of \<^verbatim>\<open>src/\<close> is modelled here.
\<close>

section \<open>Big-endian numbers\<close>

fun be_bytes :: "nat \<Rightarrow> bytes" where
  "be_bytes n = (if n = 0 then [] else be_bytes (n div 256) @ [of_nat (n mod 256)])"

declare be_bytes.simps [simp del]

lemma be_value_snoc [simp]: "be_value (bs @ [b]) = be_value bs * 256 + unat b"
  by (simp add: be_value_def)

lemma be_value_Nil [simp]: "be_value [] = 0"
  by (simp add: be_value_def)

lemma unat_of_nat_byte [simp]: "n < 256 \<Longrightarrow> unat (of_nat n :: byte) = n"
  by (simp add: unat_of_nat take_bit_nat_eq_self)

lemma be_value_be_bytes [simp]: "be_value (be_bytes n) = n"
proof (induction n rule: be_bytes.induct)
  case (1 n)
  then show ?case
    by (cases "n = 0") (simp_all add: be_bytes.simps [of n] be_bytes.simps [of 0])
qed

lemma length_be_bytes: "n < 256 ^ k \<Longrightarrow> length (be_bytes n) \<le> k"
proof (induction k arbitrary: n)
  case 0
  then show ?case by (simp add: be_bytes.simps)
next
  case (Suc k)
  have "n div 256 < 256 ^ k"
    using Suc.prems by (simp add: less_mult_imp_div_less mult.commute)
  then have "length (be_bytes (n div 256)) \<le> k" by (rule Suc.IH)
  then show ?case by (simp add: be_bytes.simps [of n])
qed

lemma be_bytes_ne_Nil: "0 < n \<Longrightarrow> be_bytes n \<noteq> []"
  by (simp add: be_bytes.simps [of n])

section \<open>Encoder\<close>

definition ref_header :: "nat \<Rightarrow> nat \<Rightarrow> bytes" where
  "ref_header off len =
     (if len \<le> 55 then [of_nat (off + len)]
      else of_nat (off + 55 + length (be_bytes len)) # be_bytes len)"

definition ref_enc_str :: "bytes \<Rightarrow> bytes" where
  "ref_enc_str b =
     (if length b = 1 \<and> unat (hd b) < 128 then b else ref_header 128 (length b) @ b)"

fun ref_enc :: "rlp_item \<Rightarrow> bytes" where
  "ref_enc (RStr b) = ref_enc_str b"
| "ref_enc (RNum n) = ref_enc_str (be_bytes (unat n))"
| "ref_enc (RList ts) =
     ref_header 192 (length (concat (map ref_enc ts))) @ concat (map ref_enc ts)"

text \<open>The items a sequence of stream calls writes, read from the last call to the first.\<close>

fun ref_op :: "rlp_op \<Rightarrow> rlp_item list \<Rightarrow> rlp_item list" where
  "ref_op (AppendBytes b) st = RStr b # st"
| "ref_op (AppendU64 n) st = RNum n # st"
| "ref_op (BeginList k) st = RList (take k st) # drop k st"

definition ref_out :: "rlp_op list \<Rightarrow> bytes" where
  "ref_out ops = concat (map ref_enc (foldr ref_op ops []))"

lemma foldr_item_ops: "foldr ref_op (item_ops t) st = t # st"
proof (induction t arbitrary: st)
  case (RList ts)
  have "foldr ref_op (concat (map item_ops ts)) st = ts @ st" for st
    using RList.IH by (induction ts) simp_all
  then show ?case by simp
qed simp_all

lemma ref_out_item [simp]: "ref_out (item_ops t) = ref_enc t"
  by (simp add: ref_out_def foldr_item_ops)

section \<open>Decoder\<close>

text \<open>Kind, header length and payload length of the first item of a byte string.\<close>

definition ref_head :: "bytes \<Rightarrow> (bool \<times> nat \<times> nat) option" where
  "ref_head bs = (case bs of [] \<Rightarrow> None | b # rest \<Rightarrow>
     (let v = unat b;
          (is_list, h, p) =
            (if v < 128 then (False, 0, 1)
             else if v \<le> 183 then (False, 1, v - 128)
             else if v \<le> 191 then (False, 1 + (v - 183), be_value (take (v - 183) rest))
             else if v \<le> 247 then (True, 1, v - 192)
             else (True, 1 + (v - 247), be_value (take (v - 247) rest)))
      in if h + p \<le> length bs then Some (is_list, h, p) else None))"

lemma ref_head_bounds: "ref_head bs = Some (l, h, p) \<Longrightarrow> 0 < h + p \<and> h + p \<le> length bs"
  by (auto simp: ref_head_def Let_def split: list.splits if_splits)

function ref_items :: "bytes \<Rightarrow> bytes list option" where
  "ref_items bs =
     (if bs = [] then Some []
      else case ref_head bs of None \<Rightarrow> None
           | Some (l, h, p) \<Rightarrow>
               map_option (Cons (take (h + p) bs)) (ref_items (drop (h + p) bs)))"
  by pat_completeness auto
termination
  by (relation "measure length") (auto dest: ref_head_bounds)

declare ref_items.simps [simp del]

definition ref_list :: "bytes \<Rightarrow> bytes list option" where
  "ref_list bs = (case ref_head bs of
     Some (True, h, p) \<Rightarrow> ref_items (take p (drop h bs)) | _ \<Rightarrow> None)"

definition ref_at :: "bytes \<Rightarrow> nat \<Rightarrow> (bytes, decoder_error) result" where
  "ref_at bs i = (case ref_list bs of
     None \<Rightarrow> Err (LibraryError 0)
   | Some xs \<Rightarrow> if i < length xs then Ok (xs ! i) else Err (LibraryError 1))"

definition ref_iter :: "bytes \<Rightarrow> bytes list" where
  "ref_iter bs = (case ref_list bs of None \<Rightarrow> [] | Some xs \<Rightarrow> xs)"

definition ref_value :: "bytes \<Rightarrow> (bytes, decoder_error) result" where
  "ref_value bs = (case ref_head bs of
     Some (False, h, p) \<Rightarrow> Ok (take p (drop h bs)) | _ \<Rightarrow> Err (LibraryError 2))"

definition ref_as_u64 :: "bytes \<Rightarrow> (u64, decoder_error) result" where
  "ref_as_u64 bs = and_then (ref_value bs) (\<lambda>b.
     if 8 < length b then Err (LibraryError 3) else Ok (of_nat (be_value b)))"

section \<open>The laws\<close>

lemma length_ref_header: "len < 2 ^ 64 \<Longrightarrow> length (ref_header off len) \<le> 9"
  using length_be_bytes [of len 8] by (simp add: ref_header_def)

text \<open>A header that announces \<open>len\<close> payload bytes is read back, whatever follows.\<close>

definition head_check :: "bytes \<Rightarrow> bool \<Rightarrow> nat \<Rightarrow> nat \<Rightarrow> (bool \<times> nat \<times> nat) option" where
  "head_check bs l h p = (if h + p \<le> length bs then Some (l, h, p) else None)"

lemma ref_head_Cons:
  "ref_head (b # rest) =
     (if unat b < 128 then head_check (b # rest) False 0 1
      else if unat b \<le> 183 then head_check (b # rest) False 1 (unat b - 128)
      else if unat b \<le> 191 then
        head_check (b # rest) False (1 + (unat b - 183)) (be_value (take (unat b - 183) rest))
      else if unat b \<le> 247 then head_check (b # rest) True 1 (unat b - 192)
      else head_check (b # rest) True (1 + (unat b - 247)) (be_value (take (unat b - 247) rest)))"
  by (simp add: ref_head_def Let_def head_check_def)

lemma ref_head_short:
  assumes "unat b = off + len" and "len \<le> 55" and "len \<le> length rest"
    and "off = 128 \<and> \<not> l \<or> off = 192 \<and> l"
  shows "ref_head (b # rest) = Some (l, 1, len)"
  using assms(4) assms(1-3) by (elim disjE conjE) (simp_all add: ref_head_Cons head_check_def)

lemma ref_head_long:
  assumes "unat b = off + 55 + length k" and "0 < length k" and "length k \<le> 8"
    and "be_value k \<le> length rest" and "off = 128 \<and> \<not> l \<or> off = 192 \<and> l"
  shows "ref_head (b # k @ rest) = Some (l, 1 + length k, be_value k)"
  using assms(5) assms(1-4) by (elim disjE conjE) (simp_all add: ref_head_Cons head_check_def)

lemma ref_head_header:
  assumes off: "off = 128 \<and> \<not> l \<or> off = 192 \<and> l"
    and len: "len < 2 ^ 64" and payload: "len \<le> length rest"
  shows "ref_head (ref_header off len @ rest) = Some (l, length (ref_header off len), len)"
proof (cases "len \<le> 55")
  case True
  have "unat (of_nat (off + len) :: byte) = off + len"
    using off True by (intro unat_of_nat_byte) linarith
  then show ?thesis
    using ref_head_short [OF _ True payload off] True by (simp add: ref_header_def)
next
  case False
  let ?k = "be_bytes len"
  have k: "0 < length ?k" "length ?k \<le> 8"
    using be_bytes_ne_Nil [of len] False length_be_bytes [of len 8] len by simp_all
  then have "unat (of_nat (off + 55 + length ?k) :: byte) = off + 55 + length ?k"
    using off by (intro unat_of_nat_byte) linarith
  from ref_head_long [OF this k _ off, of rest] show ?thesis
    using False payload by (simp add: ref_header_def)
qed

lemma ref_head_str:
  assumes "length b < 2 ^ 64"
  shows "\<exists>h. ref_head (ref_enc_str b @ rest) = Some (False, h, length b) \<and>
             length (ref_enc_str b) = h + length b \<and> drop h (ref_enc_str b) = b"
proof (cases "length b = 1 \<and> unat (hd b) < 128")
  case True
  then obtain x where "b = [x]" by (auto simp: length_Suc_conv)
  with True show ?thesis by (simp add: ref_enc_str_def ref_head_def)
next
  case False
  have "ref_head (ref_header 128 (length b) @ b @ rest) =
      Some (False, length (ref_header 128 (length b)), length b)"
    using assms by (intro ref_head_header) auto
  with False show ?thesis by (auto simp: ref_enc_str_def)
qed

lemma length_be_bytes_u64: "length (be_bytes (unat (n :: u64))) \<le> 8"
  using unat_u64_lt [of n] by (intro length_be_bytes) simp

lemma length_ref_enc_str: "length b < 2 ^ 64 \<Longrightarrow> length (ref_enc_str b) \<le> length b + 9"
  using length_ref_header [of "length b" 128] by (simp add: ref_enc_str_def)

lemma length_ref_enc: "rlp_size t < 2 ^ 64 \<Longrightarrow> length (ref_enc t) \<le> rlp_size t"
proof (induction t)
  case (RStr b)
  then show ?case using length_ref_enc_str [of b] by simp
next
  case (RNum n)
  then show ?case
    using length_be_bytes_u64 [of n] length_ref_enc_str [of "be_bytes (unat n)"] by simp
next
  case (RList ts)
  have "length (concat (map ref_enc ts)) \<le> sum_list (map rlp_size ts)"
    using RList.IH RList.prems
  proof (induction ts)
    case (Cons t ts)
    have "length (ref_enc t) \<le> rlp_size t"
      using Cons.prems(2) by (intro Cons.prems(1)) simp_all
    moreover have "length (concat (map ref_enc ts)) \<le> sum_list (map rlp_size ts)"
      using Cons.prems by (intro Cons.IH) simp_all
    ultimately show ?case by simp
  qed simp
  with RList.prems show ?case
    using length_ref_header [of "length (concat (map ref_enc ts))" 192] by simp
qed

lemma ref_head_list:
  assumes "rlp_size (RList ts) < 2 ^ 64"
  shows "\<exists>h. ref_head (ref_enc (RList ts) @ rest) = Some (True, h, length (concat (map ref_enc ts))) \<and>
             length (ref_enc (RList ts)) = h + length (concat (map ref_enc ts)) \<and>
             drop h (ref_enc (RList ts)) = concat (map ref_enc ts)"
proof -
  let ?p = "concat (map ref_enc ts)"
  have "length ?p < 2 ^ 64"
    using length_ref_enc [OF assms] assms by simp
  then have "ref_head (ref_header 192 (length ?p) @ ?p @ rest) =
      Some (True, length (ref_header 192 (length ?p)), length ?p)"
    by (intro ref_head_header) auto
  then show ?thesis by simp
qed

lemma ref_head_enc:
  assumes "rlp_size t < 2 ^ 64"
  shows "\<exists>l h p. ref_head (ref_enc t @ rest) = Some (l, h, p) \<and> length (ref_enc t) = h + p"
proof (cases t)
  case (RStr b)
  then show ?thesis using ref_head_str [of b rest] assms by auto
next
  case (RNum n)
  then show ?thesis
    using ref_head_str [of "be_bytes (unat n)" rest] length_be_bytes_u64 [of n] by auto
next
  case (RList ts)
  then show ?thesis using ref_head_list [of ts rest] assms by auto
qed

lemma ref_items_enc:
  "(\<And>t. t \<in> set ts \<Longrightarrow> rlp_size t < 2 ^ 64) \<Longrightarrow>
     ref_items (concat (map ref_enc ts)) = Some (map ref_enc ts)"
proof (induction ts)
  case Nil
  then show ?case by (simp add: ref_items.simps)
next
  case (Cons t ts)
  obtain l h p where hd: "ref_head (ref_enc t @ concat (map ref_enc ts)) = Some (l, h, p)"
    and len: "length (ref_enc t) = h + p"
    using ref_head_enc [of t] Cons.prems by (metis list.set_intros(1))
  have "ref_enc t @ concat (map ref_enc ts) \<noteq> []"
    using ref_head_bounds [OF hd] by (cases "ref_enc t @ concat (map ref_enc ts) = []") auto
  then show ?case
    using Cons hd len by (simp add: ref_items.simps [of "ref_enc t @ concat (map ref_enc ts)"])
qed

lemma ref_list_enc:
  assumes "rlp_size (RList ts) < 2 ^ 64"
  shows "ref_list (ref_enc (RList ts)) = Some (map ref_enc ts)"
proof -
  let ?p = "concat (map ref_enc ts)"
  obtain h where h: "ref_head (ref_enc (RList ts)) = Some (True, h, length ?p)"
    "drop h (ref_enc (RList ts)) = ?p"
    using ref_head_list [OF assms, of "[]"] by auto
  have "ref_items ?p = Some (map ref_enc ts)"
    using assms rlp_size_member [of _ ts] by (intro ref_items_enc) fastforce
  then show ?thesis using h by (simp add: ref_list_def del: ref_enc.simps)
qed

lemma ref_value_enc_str: "length b < 2 ^ 64 \<Longrightarrow> ref_value (ref_enc_str b) = Ok b"
  using ref_head_str [of b "[]"] by (auto simp: ref_value_def)

lemma ref_as_u64_enc: "ref_as_u64 (ref_enc (RNum n)) = Ok n"
  using length_be_bytes_u64 [of n]
  by (simp add: ref_as_u64_def ref_value_enc_str)

end
