(* ===== verification/Ref_Crates.thy ===== *)
theory Ref_Crates
  imports Ref_Rlp
begin

text \<open>
  A concrete value of the record \<open>crates\<close>, used by the witnesses, and the interpretation
  of the locales of \<open>Crates\<close> on it: integers with HOL's arithmetic, the RLP format of
  \<open>Ref_Rlp\<close>, a stand-in digest of 32 bytes and a stand-in signature scheme (the signature
  of a list of keys under a message is a fixed string of 48 bytes). Neither of the
  last two is cryptography; no law of the development asks it of them.
\<close>

fun nat_bits :: "nat \<Rightarrow> nat" where
  "nat_bits n = (if n = 0 then 0 else Suc (nat_bits (n div 2)))"

declare nat_bits.simps [simp del]

lemma nat_bits_bound: "n < 2 ^ nat_bits n"
proof (induction n rule: nat_bits.induct)
  case (1 n)
  show ?case
  proof (cases "n = 0")
    case True
    then show ?thesis by (simp add: nat_bits.simps)
  next
    case False
    with 1 have "n div 2 < 2 ^ nat_bits (n div 2)" by simp
    then have "n < 2 * 2 ^ nat_bits (n div 2)" by linarith
    with False show ?thesis by (simp add: nat_bits.simps [of n])
  qed
qed

definition ref_digest :: "bytes \<Rightarrow> bytes" where
  "ref_digest b = take 32 (b @ replicate 32 0)"

definition ref_signature :: bytes where
  "ref_signature = replicate 48 7"

definition ref_crates :: "(bytes list, bytes) crates" where
  "ref_crates =
     \<lparr>bi_bits = (\<lambda>n. nat_bits (nat \<bar>n\<bar>)),
      bi_bit = bit,
      bi_is_zero = (\<lambda>n. n = 0),
      bi_to_u64 = (\<lambda>n. if 0 \<le> n \<and> n < 2 ^ 64 then Some (word_of_int n) else None),
      bi_from_bytes_be = (\<lambda>bs. int (be_value bs)),
      bi_to_bytes_be = (\<lambda>n. if n = 0 then [0] else be_bytes (nat \<bar>n\<bar>)),
      rlp_out = ref_out,
      rlp_at = ref_at,
      rlp_iter = ref_iter,
      rlp_value = ref_value,
      rlp_as_vec = ref_value,
      rlp_as_u64 = ref_as_u64,
      keccak256 = ref_digest,
      pk_deserialize = (\<lambda>b. if length b = 96 then Some [b] else None),
      sig_deserialize = (\<lambda>b. if length b = 48 then Some b else None),
      pk_aggregate = concat,
      pk_verify = (\<lambda>apk msg ed sig. apk \<noteq> [] \<and> sig = ref_signature)\<rparr>"

lemma ref_crates_simps [simp]:
  "bi_bits ref_crates n = nat_bits (nat \<bar>n\<bar>)"
  "bi_bit ref_crates = bit"
  "bi_is_zero ref_crates n \<longleftrightarrow> n = 0"
  "bi_to_u64 ref_crates n = (if 0 \<le> n \<and> n < 2 ^ 64 then Some (word_of_int n) else None)"
  "bi_from_bytes_be ref_crates bs = int (be_value bs)"
  "bi_to_bytes_be ref_crates n = (if n = 0 then [0] else be_bytes (nat \<bar>n\<bar>))"
  "rlp_out ref_crates = ref_out"
  "rlp_at ref_crates = ref_at"
  "rlp_iter ref_crates = ref_iter"
  "rlp_value ref_crates = ref_value"
  "rlp_as_vec ref_crates = ref_value"
  "rlp_as_u64 ref_crates = ref_as_u64"
  "keccak256 ref_crates = ref_digest"
  "pk_deserialize ref_crates b = (if length b = 96 then Some [b] else None)"
  "sig_deserialize ref_crates b = (if length b = 48 then Some b else None)"
  "pk_aggregate ref_crates = concat"
  "pk_verify ref_crates apk msg ed sig \<longleftrightarrow> apk \<noteq> [] \<and> sig = ref_signature"
  by (simp_all add: ref_crates_def)

lemma rlp_enc_ref [simp]: "rlp_enc ref_crates t = ref_enc t"
  by (simp add: rlp_enc_def)

lemma rlp_fits_size: "rlp_fits t \<Longrightarrow> rlp_size t < 2 ^ 64"
  by (simp add: rlp_fits_def usize_bits_def)

lemma ref_num_bigint: "num_bigint ref_crates"
proof
  fix n :: int
  show "bi_bits ref_crates n = 0 \<longleftrightarrow> n = 0"
    by (auto simp: nat_bits.simps [of "nat \<bar>n\<bar>"])
  show "n < 2 ^ bi_bits ref_crates n" if "0 \<le> n"
  proof -
    have "int (nat n) < int (2 ^ nat_bits (nat n))"
      using nat_bits_bound [of "nat n"] by (rule of_nat_less_iff [THEN iffD2])
    with that show ?thesis by simp
  qed
  show "int (be_value (bi_to_bytes_be ref_crates n)) = n" if "0 \<le> n"
    using that be_value_snoc [of "[]" 0] by simp
qed simp_all

lemma ref_rlp_crate: "rlp_crate ref_crates"
proof
  fix ts :: "rlp_item list" and b n
  show "rlp_at ref_crates (rlp_enc ref_crates (RList ts)) i = Ok (rlp_enc ref_crates (ts ! i))"
    if "rlp_fits (RList ts)" and "i < length ts" for i
    using that rlp_fits_size [of "RList ts"]
    by (simp add: ref_at_def ref_list_enc del: ref_enc.simps rlp_size.simps)
  show "rlp_iter ref_crates (rlp_enc ref_crates (RList ts)) = map (rlp_enc ref_crates) ts"
    if "rlp_fits (RList ts)"
    using that rlp_fits_size [of "RList ts"]
    by (simp add: ref_iter_def ref_list_enc del: ref_enc.simps rlp_size.simps)
  show "rlp_value ref_crates (rlp_enc ref_crates (RStr b)) = Ok b" if "rlp_fits (RStr b)"
    using rlp_fits_size [OF that] by (simp add: ref_value_enc_str)
  show "rlp_as_vec ref_crates (rlp_enc ref_crates (RStr b)) = Ok b" if "rlp_fits (RStr b)"
    using rlp_fits_size [OF that] by (simp add: ref_value_enc_str)
  show "rlp_as_u64 ref_crates (rlp_enc ref_crates (RNum n)) = Ok n"
    by (simp add: ref_as_u64_enc del: ref_enc.simps)
qed

lemma ref_keccak_crate: "keccak_crate ref_crates"
  by unfold_locales (simp add: ref_digest_def)

interpretation ref: library_crates ref_crates
  using ref_num_bigint ref_rlp_crate ref_keccak_crate by (rule library_crates.intro)

text \<open>The laws are about the fields of \<open>crates\<close>, whatever a record extends it with.\<close>

lemma library_crates_extend:
  assumes "library_crates L"
  shows "library_crates (crates.extend L m)"
proof -
  have enc: "rlp_enc (crates.extend L m) = rlp_enc L"
    by (rule ext) (simp add: rlp_enc_def crates.extend_def)
  show ?thesis
    using assms unfolding library_crates_def num_bigint_def rlp_crate_def keccak_crate_def enc
    by (simp add: crates.extend_def)
qed

end
