(* ===== verification/Rlp_Serialization.thy ===== *)
theory Rlp_Serialization
  imports Ref_Crates
begin

text \<open>
  \<^verbatim>\<open>src/serialization/rlp.rs\<close>: the helpers with which the types read fixed-size arrays and
  big integers out of an RLP view, and write big integers. The \<^verbatim>\<open>FromBytes\<close>
  implementation that the type parameter \<open>T\<close> selects is the argument \<open>from_bytes\<close>.
\<close>

definition rlp_list_field_from_bytes ::
    "('pk, 'sig, 'z) crates_scheme \<Rightarrow> (bytes \<Rightarrow> (bytes, kind) result) \<Rightarrow> bytes \<Rightarrow> nat \<Rightarrow>
     (bytes, decoder_error) result" where
  "rlp_list_field_from_bytes L from_bytes rlp idx =
     and_then (rlp_at L rlp idx) (\<lambda>r.
       decode_value L r (\<lambda>data. map_err (\<lambda>_. Custom ''invalid length data'') (from_bytes data)))"

definition rlp_field_from_bytes ::
    "('pk, 'sig, 'z) crates_scheme \<Rightarrow> (bytes \<Rightarrow> (bytes, kind) result) \<Rightarrow> bytes \<Rightarrow>
     (bytes, decoder_error) result" where
  "rlp_field_from_bytes L from_bytes rlp =
     decode_value L rlp (\<lambda>data. map_err (\<lambda>_. Custom ''invalid length data'') (from_bytes data))"

definition rlp_to_big_int ::
    "('pk, 'sig, 'z) crates_scheme \<Rightarrow> bytes \<Rightarrow> nat \<Rightarrow> (int, decoder_error) result" where
  "rlp_to_big_int L rlp idx =
     and_then (rlp_at L rlp idx) (\<lambda>r. decode_value L r (\<lambda>bs. Ok (bi_from_bytes_be L bs)))"

definition big_int_to_rlp_compat_bytes :: "('pk, 'sig, 'z) crates_scheme \<Rightarrow> int \<Rightarrow> bytes" where
  "big_int_to_rlp_compat_bytes L v = (if bi_is_zero L v then [] else bi_to_bytes_be L v)"

context library_crates
begin

lemma compat_bytes_value:
  "0 \<le> n \<Longrightarrow> bi_from_bytes_be L (big_int_to_rlp_compat_bytes L n) = n"
  by (simp add: big_int_to_rlp_compat_bytes_def is_zero_eq from_to_bytes_be)
    (simp add: from_bytes_be_eq be_value_def)

lemma rlp_to_big_int_at:
  assumes "rlp_fits (RList ts)" and "i < length ts"
    and "ts ! i = RStr (big_int_to_rlp_compat_bytes L n)" and "0 \<le> n"
  shows "rlp_to_big_int L (rlp_enc L (RList ts)) i = Ok n"
proof -
  have "rlp_fits (RStr (big_int_to_rlp_compat_bytes L n))"
    using rlp_fits_nth [OF assms(1,2)] assms(3) by simp
  then show ?thesis
    using assms by (simp add: rlp_to_big_int_def at_list decode_value_str compat_bytes_value)
qed

lemma rlp_field_from_bytes_str:
  "rlp_fits (RStr b) \<Longrightarrow>
     rlp_field_from_bytes L f (rlp_enc L (RStr b)) = map_err (\<lambda>_. Custom ''invalid length data'') (f b)"
  by (simp add: rlp_field_from_bytes_def decode_value_str)

lemma rlp_list_field_at:
  assumes "rlp_fits (RList ts)" and "i < length ts" and "ts ! i = RStr b"
  shows "rlp_list_field_from_bytes L f (rlp_enc L (RList ts)) i =
           map_err (\<lambda>_. Custom ''invalid length data'') (f b)"
  using assms rlp_fits_nth [OF assms(1,2)]
  by (simp add: rlp_list_field_from_bytes_def at_list decode_value_str)

lemma val_at_u64:
  "rlp_fits (RList ts) \<Longrightarrow> i < length ts \<Longrightarrow> ts ! i = RNum n \<Longrightarrow>
     val_at L (rlp_as_u64 L) (rlp_enc L (RList ts)) i = Ok n"
  by (simp add: val_at_list as_u64_num)

lemma val_at_vec:
  assumes "rlp_fits (RList ts)" and "i < length ts" and "ts ! i = RStr b"
  shows "val_at L (rlp_as_vec L) (rlp_enc L (RList ts)) i = Ok b"
  using assms rlp_fits_nth [OF assms(1,2)] by (simp add: val_at_list as_vec_str)

end

text \<open>A non-negative big integer written with \<^verbatim>\<open>big_int_to_rlp_compat_bytes\<close> as the
  \<open>i\<close>-th item of an RLP list is read back by \<^verbatim>\<open>rlp_to_big_int\<close>, and zero is written as the
  empty string that celo-blockchain expects, not as the byte zero. \<close>

theorem big_int_rlp_roundtrip:
  assumes "library_crates L" and "rlp_fits (RList ts)" and "i < length ts" and "0 \<le> n"
    and "ts ! i = RStr (big_int_to_rlp_compat_bytes L n)"
  shows "rlp_to_big_int L (rlp_enc L (RList ts)) i = Ok n \<and>
         big_int_to_rlp_compat_bytes L 0 = []"
  using assms(1) library_crates.rlp_to_big_int_at [OF assms(1,2,3,5,4)]
  by (simp add: big_int_to_rlp_compat_bytes_def num_bigint.is_zero_eq library_crates_def)

theorem big_int_rlp_roundtrip_witness:
  "rlp_to_big_int ref_crates (ref_enc (RList [RStr (big_int_to_rlp_compat_bytes ref_crates 300)])) 0
     = Ok 300"
proof -
  have "library_crates ref_crates" by unfold_locales
  moreover have "rlp_fits (RList [RStr (big_int_to_rlp_compat_bytes ref_crates 300)])"
    by (simp add: rlp_fits_def usize_bits_def big_int_to_rlp_compat_bytes_def be_bytes.simps)
  ultimately show ?thesis
    using big_int_rlp_roundtrip [of ref_crates "[RStr (big_int_to_rlp_compat_bytes ref_crates 300)]" 0 300]
    by (simp del: ref_enc.simps)
qed

end
