(* ===== verification/Istanbul_Types.thy ===== *)
theory Istanbul_Types
  imports Rlp_Serialization
begin

text \<open>
  \<^verbatim>\<open>src/types/istanbul.rs\<close>: the consensus data in a header's extra-data field, its RLP
  layout and the two codecs. A fixed-size array is a byte list, the predicates \<open>wf_seal\<close>
  and \<open>wf_extra\<close> carry the lengths the Rust types enforce and the sign the encoding drops.
\<close>

section \<open>Constants and arrays\<close>

definition PUBLIC_KEY_LENGTH :: nat where "PUBLIC_KEY_LENGTH = 96"
definition ISTANBUL_EXTRA_VANITY_LENGTH :: nat where "ISTANBUL_EXTRA_VANITY_LENGTH = 32"
definition ADDRESS_LENGTH :: nat where "ADDRESS_LENGTH = 20"

lemmas length_consts [simp] =
  PUBLIC_KEY_LENGTH_def ISTANBUL_EXTRA_VANITY_LENGTH_def ADDRESS_LENGTH_def

type_synonym address = bytes
type_synonym serialized_public_key = bytes

text \<open>\<^verbatim>\<open>FromBytes\<close> for \<^verbatim>\<open>IstanbulExtraVanity\<close> (and so for \<^verbatim>\<open>Hash\<close>, the same array type), for
  \<^verbatim>\<open>SerializedPublicKey\<close>, and for \<^verbatim>\<open>Address\<close> of \<^verbatim>\<open>src/types/header.rs\<close>.\<close>

definition vanity_from_bytes :: "bytes \<Rightarrow> (bytes, kind) result" where
  "vanity_from_bytes data =
     and_then (slice_to data ISTANBUL_EXTRA_VANITY_LENGTH)
       (\<lambda>s. slice_as_array_ref s ISTANBUL_EXTRA_VANITY_LENGTH)"

definition public_key_from_bytes :: "bytes \<Rightarrow> (serialized_public_key, kind) result" where
  "public_key_from_bytes data =
     and_then (slice_to data PUBLIC_KEY_LENGTH) (\<lambda>s. slice_as_array_ref s PUBLIC_KEY_LENGTH)"

definition address_from_bytes :: "bytes \<Rightarrow> (address, kind) result" where
  "address_from_bytes data =
     and_then (slice_to data ADDRESS_LENGTH) (\<lambda>s. slice_as_array_ref s ADDRESS_LENGTH)"

definition public_key_default :: serialized_public_key where
  "public_key_default = replicate PUBLIC_KEY_LENGTH 0"

lemma from_bytes_array:
  "vanity_from_bytes = array_from_bytes 32"
  "public_key_from_bytes = array_from_bytes 96"
  "address_from_bytes = array_from_bytes 20"
  by (rule ext, simp add: vanity_from_bytes_def public_key_from_bytes_def
      address_from_bytes_def array_from_bytes_def)+

section \<open>Messages and seals\<close>

datatype istanbul_msg = PrePrepare | Prepare | Commit | RoundChange

text \<open>\<^verbatim>\<open>msg as u8\<close>: the discriminant.\<close>

fun istanbul_msg_u8 :: "istanbul_msg \<Rightarrow> byte" where
  "istanbul_msg_u8 PrePrepare = 0"
| "istanbul_msg_u8 Prepare = 1"
| "istanbul_msg_u8 Commit = 2"
| "istanbul_msg_u8 RoundChange = 3"

record istanbul_aggregated_seal =
  seal_bitmap :: int
  seal_signature :: bytes
  seal_round :: int

definition istanbul_aggregated_seal_new :: istanbul_aggregated_seal where
  "istanbul_aggregated_seal_new = \<lparr>seal_bitmap = 0, seal_signature = [], seal_round = 0\<rparr>"

definition seal_append ::
    "('pk, 'sig, 'z) crates_scheme \<Rightarrow> istanbul_aggregated_seal \<Rightarrow> rlp_op list" where
  "seal_append L s =
     [BeginList 3,
      AppendBytes (big_int_to_rlp_compat_bytes L (seal_bitmap s)),
      AppendBytes (seal_signature s),
      AppendBytes (big_int_to_rlp_compat_bytes L (seal_round s))]"

definition seal_decode ::
    "('pk, 'sig, 'z) crates_scheme \<Rightarrow> bytes \<Rightarrow> (istanbul_aggregated_seal, decoder_error) result" where
  "seal_decode L rlp =
     and_then (rlp_to_big_int L rlp 0) (\<lambda>bitmap.
     and_then (val_at L (rlp_as_vec L) rlp 1) (\<lambda>signature.
     and_then (rlp_to_big_int L rlp 2) (\<lambda>round.
       Ok \<lparr>seal_bitmap = bitmap, seal_signature = signature, seal_round = round\<rparr>)))"

section \<open>Extra data\<close>

record istanbul_extra =
  added_validators :: "address list"
  added_validators_public_keys :: "serialized_public_key list"
  removed_validators :: int
  seal :: bytes
  aggregated_seal :: istanbul_aggregated_seal
  parent_aggregated_seal :: istanbul_aggregated_seal

definition extra_append ::
    "('pk, 'sig, 'z) crates_scheme \<Rightarrow> istanbul_extra \<Rightarrow> rlp_op list" where
  "extra_append L e =
     [BeginList 6, BeginList (length (added_validators e))]
     @ map AppendBytes (added_validators e)
     @ [BeginList (length (added_validators_public_keys e))]
     @ map AppendBytes (added_validators_public_keys e)
     @ [AppendBytes (big_int_to_rlp_compat_bytes L (removed_validators e)),
        AppendBytes (seal e)]
     @ seal_append L (aggregated_seal e)
     @ seal_append L (parent_aggregated_seal e)"

text \<open>
  The two lists are collected into \<^verbatim>\<open>Result\<close> values first, each after its own \<^verbatim>\<open>rlp.at(_)?\<close>;
  their errors surface only when the struct is built.
\<close>

definition extra_decode ::
    "('pk, 'sig, 'z) crates_scheme \<Rightarrow> bytes \<Rightarrow> (istanbul_extra, decoder_error) result" where
  "extra_decode L rlp =
     and_then (rlp_at L rlp 0) (\<lambda>l0.
     let_result (collect (rlp_field_from_bytes L address_from_bytes) (rlp_iter L l0)) (\<lambda>avs.
     and_then (rlp_at L rlp 1) (\<lambda>l1.
     let_result (collect (rlp_field_from_bytes L public_key_from_bytes) (rlp_iter L l1)) (\<lambda>pks.
     and_then avs (\<lambda>avs.
     and_then pks (\<lambda>pks.
     and_then (rlp_to_big_int L rlp 2) (\<lambda>removed.
     and_then (val_at L (rlp_as_vec L) rlp 3) (\<lambda>sl.
     and_then (val_at L (seal_decode L) rlp 4) (\<lambda>agg.
     and_then (val_at L (seal_decode L) rlp 5) (\<lambda>parent.
       Ok \<lparr>added_validators = avs, added_validators_public_keys = pks,
           removed_validators = removed, seal = sl,
           aggregated_seal = agg, parent_aggregated_seal = parent\<rparr>))))))))))"

definition istanbul_extra_from_rlp ::
    "('pk, 'sig, 'z) crates_scheme \<Rightarrow> bytes \<Rightarrow> (istanbul_extra, kind) result" where
  "istanbul_extra_from_rlp L bs =
     (if length bs < ISTANBUL_EXTRA_VANITY_LENGTH then Err RlpDecodeError
      else and_then (slice_from bs ISTANBUL_EXTRA_VANITY_LENGTH) (\<lambda>payload.
             map_err (\<lambda>_. RlpDecodeError) (extra_decode L payload)))"

definition istanbul_extra_to_rlp ::
    "('pk, 'sig, 'z) crates_scheme \<Rightarrow> istanbul_extra \<Rightarrow> bytes \<Rightarrow> bytes" where
  "istanbul_extra_to_rlp L e vanity = vanity @ rlp_out L (extra_append L e)"

section \<open>Wire layout and round trips\<close>

text \<open>The RLP item each stream of calls writes.\<close>

definition seal_item ::
    "('pk, 'sig, 'z) crates_scheme \<Rightarrow> istanbul_aggregated_seal \<Rightarrow> rlp_item" where
  "seal_item L s = RList
     [RStr (big_int_to_rlp_compat_bytes L (seal_bitmap s)), RStr (seal_signature s),
      RStr (big_int_to_rlp_compat_bytes L (seal_round s))]"

definition extra_item ::
    "('pk, 'sig, 'z) crates_scheme \<Rightarrow> istanbul_extra \<Rightarrow> rlp_item" where
  "extra_item L e = RList
     [RList (map RStr (added_validators e)), RList (map RStr (added_validators_public_keys e)),
      RStr (big_int_to_rlp_compat_bytes L (removed_validators e)), RStr (seal e),
      seal_item L (aggregated_seal e), seal_item L (parent_aggregated_seal e)]"

definition wf_seal :: "istanbul_aggregated_seal \<Rightarrow> bool" where
  "wf_seal s \<longleftrightarrow> 0 \<le> seal_bitmap s \<and> 0 \<le> seal_round s"

definition wf_extra :: "istanbul_extra \<Rightarrow> bool" where
  "wf_extra e \<longleftrightarrow>
     list_all (\<lambda>a. length a = ADDRESS_LENGTH) (added_validators e) \<and>
     list_all (\<lambda>k. length k = PUBLIC_KEY_LENGTH) (added_validators_public_keys e) \<and>
     0 \<le> removed_validators e \<and> wf_seal (aggregated_seal e) \<and>
     wf_seal (parent_aggregated_seal e)"

lemma seal_append_item: "seal_append L s = item_ops (seal_item L s)"
  by (simp add: seal_append_def seal_item_def)

lemma concat_map_singleton: "concat (map (\<lambda>x. [f x]) xs) = map f xs"
  by (induction xs) simp_all

lemma extra_append_item: "extra_append L e = item_ops (extra_item L e)"
  by (simp add: extra_append_def extra_item_def seal_append_item comp_def concat_map_singleton)

lemma wf_seal_new [simp]: "wf_seal istanbul_aggregated_seal_new"
  by (simp add: wf_seal_def istanbul_aggregated_seal_new_def)

context library_crates
begin

lemma seal_decode_item:
  "wf_seal s \<Longrightarrow> rlp_fits (seal_item L s) \<Longrightarrow> seal_decode L (rlp_enc L (seal_item L s)) = Ok s"
  unfolding seal_item_def wf_seal_def
  by (simp add: seal_decode_def rlp_to_big_int_at val_at_vec)

lemma collect_arrays:
  assumes "rlp_fits (RList (map RStr xs))" and "list_all (\<lambda>a. length a = n) xs"
  shows "collect (rlp_field_from_bytes L (array_from_bytes n))
           (rlp_iter L (rlp_enc L (RList (map RStr xs)))) = Ok xs"
proof -
  have "collect (rlp_field_from_bytes L (array_from_bytes n))
      (map (\<lambda>b. rlp_enc L (RStr b)) xs) = Ok (map (\<lambda>b. b) xs)"
    using assms rlp_fits_member [OF assms(1)]
    by (intro collect_map_Ok) (auto simp: rlp_field_from_bytes_str list_all_iff)
  then show ?thesis
    using assms(1) by (simp add: iter_list comp_def)
qed

lemma extra_decode_item:
  assumes wf: "wf_extra e" and fits: "rlp_fits (extra_item L e)"
  shows "extra_decode L (rlp_enc L (extra_item L e)) = Ok e"
proof -
  note item = fits [unfolded extra_item_def]
  have f: "rlp_fits (RList (map RStr (added_validators e)))"
    "rlp_fits (RList (map RStr (added_validators_public_keys e)))"
    "rlp_fits (seal_item L (aggregated_seal e))"
    "rlp_fits (seal_item L (parent_aggregated_seal e))"
    "rlp_fits (RStr (seal e))"
    using item by (auto intro: rlp_fits_member)
  show ?thesis
    using wf item f unfolding extra_item_def wf_extra_def
    by (simp add: extra_decode_def at_list collect_arrays from_bytes_array rlp_to_big_int_at
        as_vec_str val_at_list seal_decode_item)
qed

lemma istanbul_extra_from_to:
  assumes "wf_extra e" and "rlp_fits (extra_item L e)" and "length vanity = 32"
  shows "istanbul_extra_from_rlp L (istanbul_extra_to_rlp L e vanity) = Ok e"
  using assms extra_decode_item [OF assms(1,2)]
  by (simp add: istanbul_extra_from_rlp_def istanbul_extra_to_rlp_def slice_from_def
      extra_append_item rlp_enc_def)

end

text \<open>C33: the extra-data codec round trips: what \<^verbatim>\<open>IstanbulExtra::to_rlp\<close> writes after 32
  bytes of vanity, \<^verbatim>\<open>IstanbulExtra::from_rlp\<close> reads back unchanged, added validators, keys,
  removal bitmap, proposer seal and both aggregated seals. \<close>

theorem istanbul_extra_roundtrip:
  assumes "library_crates L" and "wf_extra e" and "rlp_fits (extra_item L e)"
    and "length vanity = ISTANBUL_EXTRA_VANITY_LENGTH"
  shows "istanbul_extra_from_rlp L (istanbul_extra_to_rlp L e vanity) = Ok e"
  using library_crates.istanbul_extra_from_to [OF assms(1-3)] assms(4) by simp

definition sample_extra :: istanbul_extra where
  "sample_extra = \<lparr>added_validators = [replicate 20 1], added_validators_public_keys = [replicate 96 2],
     removed_validators = 1, seal = replicate 65 3,
     aggregated_seal = \<lparr>seal_bitmap = 3, seal_signature = ref_signature, seal_round = 0\<rparr>,
     parent_aggregated_seal = istanbul_aggregated_seal_new\<rparr>"

lemma sample_extra_wf: "wf_extra sample_extra"
  by (simp add: sample_extra_def wf_extra_def wf_seal_def istanbul_aggregated_seal_new_def)

lemma sample_extra_fits: "rlp_fits (extra_item ref_crates sample_extra)"
  by (simp add: sample_extra_def extra_item_def seal_item_def rlp_fits_def usize_bits_def
      big_int_to_rlp_compat_bytes_def istanbul_aggregated_seal_new_def ref_signature_def
      be_bytes.simps)

theorem istanbul_extra_roundtrip_witness:
  "istanbul_extra_from_rlp ref_crates
     (istanbul_extra_to_rlp ref_crates sample_extra (replicate 32 0)) = Ok sample_extra"
  by (rule istanbul_extra_roundtrip)
    (unfold_locales, simp_all add: sample_extra_wf sample_extra_fits)

end
