(* ===== verification/Headers.thy ===== *)
theory Headers
  imports Istanbul_Types
begin

text \<open>
  \<^verbatim>\<open>src/types/header.rs\<close> (the block header, its RLP codec and its hash) together with
  \<open>istanbul_filtered_header\<close> of \<^verbatim>\<open>src/istanbul.rs\<close>, which the hash needs: the hash is taken
  over the header whose aggregated seal has been blanked, so that the seal can sign it.
\<close>

section \<open>Constants and arrays\<close>

definition HASH_LENGTH :: nat where "HASH_LENGTH = 32"
definition BLOOM_BYTE_LENGTH :: nat where "BLOOM_BYTE_LENGTH = 256"

lemmas header_length_consts [simp] = HASH_LENGTH_def BLOOM_BYTE_LENGTH_def

type_synonym hash = bytes
type_synonym bloom = bytes

definition bloom_from_bytes :: "bytes \<Rightarrow> (bloom, kind) result" where
  "bloom_from_bytes data =
     and_then (slice_to data BLOOM_BYTE_LENGTH) (\<lambda>s. slice_as_array_ref s BLOOM_BYTE_LENGTH)"

definition bloom_default :: bloom where
  "bloom_default = replicate BLOOM_BYTE_LENGTH 0"

lemma bloom_from_bytes_array: "bloom_from_bytes = array_from_bytes 256"
  by (rule ext) (simp add: bloom_from_bytes_def array_from_bytes_def)

section \<open>Header\<close>

record header =
  parent_hash :: hash
  coinbase :: address
  root :: hash
  tx_hash :: hash
  receipt_hash :: hash
  bloom :: bloom
  number :: int
  gas_used :: u64
  time :: u64
  extra :: bytes

definition header_new :: header where
  "header_new =
     \<lparr>parent_hash = replicate HASH_LENGTH 0, coinbase = replicate ADDRESS_LENGTH 0,
      root = replicate HASH_LENGTH 0, tx_hash = replicate HASH_LENGTH 0,
      receipt_hash = replicate HASH_LENGTH 0, bloom = bloom_default,
      number = 0, gas_used = 0, time = 0, extra = []\<rparr>"

definition header_append :: "('pk, 'sig, 'z) crates_scheme \<Rightarrow> header \<Rightarrow> rlp_op list" where
  "header_append L h =
     [BeginList 10,
      AppendBytes (parent_hash h),
      AppendBytes (coinbase h),
      AppendBytes (root h),
      AppendBytes (tx_hash h),
      AppendBytes (receipt_hash h),
      AppendBytes (bloom h),
      AppendBytes (big_int_to_rlp_compat_bytes L (number h)),
      AppendU64 (gas_used h),
      AppendU64 (time h),
      AppendBytes (extra h)]"

definition header_decode ::
    "('pk, 'sig, 'z) crates_scheme \<Rightarrow> bytes \<Rightarrow> (header, decoder_error) result" where
  "header_decode L rlp =
     and_then (rlp_list_field_from_bytes L vanity_from_bytes rlp 0) (\<lambda>parent_hash.
     and_then (rlp_list_field_from_bytes L address_from_bytes rlp 1) (\<lambda>coinbase.
     and_then (rlp_list_field_from_bytes L vanity_from_bytes rlp 2) (\<lambda>root.
     and_then (rlp_list_field_from_bytes L vanity_from_bytes rlp 3) (\<lambda>tx_hash.
     and_then (rlp_list_field_from_bytes L vanity_from_bytes rlp 4) (\<lambda>receipt_hash.
     and_then (rlp_list_field_from_bytes L bloom_from_bytes rlp 5) (\<lambda>bloom.
     and_then (rlp_to_big_int L rlp 6) (\<lambda>number.
     and_then (val_at L (rlp_as_u64 L) rlp 7) (\<lambda>gas_used.
     and_then (val_at L (rlp_as_u64 L) rlp 8) (\<lambda>time.
     and_then (val_at L (rlp_as_vec L) rlp 9) (\<lambda>extra.
       Ok \<lparr>parent_hash = parent_hash, coinbase = coinbase, root = root, tx_hash = tx_hash,
           receipt_hash = receipt_hash, bloom = bloom, number = number,
           gas_used = gas_used, time = time, extra = extra\<rparr>))))))))))"

definition header_to_rlp :: "('pk, 'sig, 'z) crates_scheme \<Rightarrow> header \<Rightarrow> bytes" where
  "header_to_rlp L h = rlp_out L (header_append L h)"

definition header_from_rlp ::
    "('pk, 'sig, 'z) crates_scheme \<Rightarrow> bytes \<Rightarrow> (header, kind) result" where
  "header_from_rlp L bs = map_err (\<lambda>_. RlpDecodeError) (header_decode L bs)"

section \<open>Hash\<close>

definition rlp_hash :: "('pk, 'sig, 'z) crates_scheme \<Rightarrow> header \<Rightarrow> (hash, kind) result" where
  "rlp_hash L h =
     and_then (slice_to (keccak256 L (rlp_out L (header_append L h))) HASH_LENGTH)
       (\<lambda>digest. slice_as_array_ref digest HASH_LENGTH)"

definition istanbul_filtered_header ::
    "('pk, 'sig, 'z) crates_scheme \<Rightarrow> header \<Rightarrow> bool \<Rightarrow> (header, kind) result" where
  "istanbul_filtered_header L h keep_seal =
     and_then (istanbul_extra_from_rlp L (extra h)) (\<lambda>ex.
     let ex = (if \<not> keep_seal then ex\<lparr>seal := []\<rparr> else ex);
         ex = ex\<lparr>aggregated_seal := istanbul_aggregated_seal_new\<rparr>
     in and_then (vanity_from_bytes (extra h)) (\<lambda>vanity.
          Ok (h\<lparr>extra := istanbul_extra_to_rlp L ex vanity\<rparr>)))"

definition header_hash :: "('pk, 'sig, 'z) crates_scheme \<Rightarrow> header \<Rightarrow> (hash, kind) result" where
  "header_hash L h =
     (if ISTANBUL_EXTRA_VANITY_LENGTH \<le> length (extra h)
      then let_result (istanbul_filtered_header L h True) (\<lambda>istanbul_header.
             case istanbul_header of
               Err _ \<Rightarrow> rlp_hash L h
             | _ \<Rightarrow> and_then istanbul_header (rlp_hash L))
      else rlp_hash L h)"

section \<open>Wire layout and round trip\<close>

definition header_item :: "('pk, 'sig, 'z) crates_scheme \<Rightarrow> header \<Rightarrow> rlp_item" where
  "header_item L h = RList
     [RStr (parent_hash h), RStr (coinbase h), RStr (root h), RStr (tx_hash h),
      RStr (receipt_hash h), RStr (bloom h), RStr (big_int_to_rlp_compat_bytes L (number h)),
      RNum (gas_used h), RNum (time h), RStr (extra h)]"

definition wf_header :: "header \<Rightarrow> bool" where
  "wf_header h \<longleftrightarrow>
     length (parent_hash h) = HASH_LENGTH \<and> length (coinbase h) = ADDRESS_LENGTH \<and>
     length (root h) = HASH_LENGTH \<and> length (tx_hash h) = HASH_LENGTH \<and>
     length (receipt_hash h) = HASH_LENGTH \<and> length (bloom h) = BLOOM_BYTE_LENGTH \<and>
     0 \<le> number h"

lemma header_append_item: "header_append L h = item_ops (header_item L h)"
  by (simp add: header_append_def header_item_def)

lemma wf_header_new: "wf_header header_new"
  by (simp add: wf_header_def header_new_def bloom_default_def)

lemmas header_arrays = from_bytes_array bloom_from_bytes_array

context library_crates
begin

lemma header_from_to:
  assumes "wf_header h" and "rlp_fits (header_item L h)"
  shows "header_from_rlp L (header_to_rlp L h) = Ok h"
proof -
  have "header_decode L (rlp_enc L (header_item L h)) = Ok h"
    using assms unfolding header_item_def wf_header_def
    by (simp add: header_decode_def header_arrays rlp_list_field_at rlp_to_big_int_at
        val_at_u64 val_at_vec)
  then show ?thesis
    by (simp add: header_from_rlp_def header_to_rlp_def header_append_item rlp_enc_def)
qed

text \<open>
  A field of an RLP list is cut to the array length when it is too long, and the
  decoder aborts when it is too short.
\<close>

lemma header_decode_parent_hash:
  assumes "wf_header h" and "rlp_fits (header_item L (h\<lparr>parent_hash := b\<rparr>))"
  shows "header_decode L (rlp_enc L (header_item L (h\<lparr>parent_hash := b\<rparr>))) =
           (if 32 \<le> length b then Ok (h\<lparr>parent_hash := take 32 b\<rparr>) else Panic)"
  using assms unfolding header_item_def wf_header_def
  by (simp add: header_decode_def header_arrays rlp_list_field_at rlp_to_big_int_at
      val_at_u64 val_at_vec array_from_bytes_eq)

lemma rlp_hash_eq: "rlp_hash L h = Ok (keccak256 L (header_to_rlp L h))"
  by (simp add: rlp_hash_def header_to_rlp_def slice_to_def slice_as_array_ref_def digest_length)

lemma filtered_header_to_rlp:
  assumes "wf_extra e" and "rlp_fits (extra_item L e)" and "length vanity = 32"
    and "extra h = istanbul_extra_to_rlp L e vanity"
  shows "istanbul_filtered_header L h True =
     Ok (h\<lparr>extra := istanbul_extra_to_rlp L
              (e\<lparr>aggregated_seal := istanbul_aggregated_seal_new\<rparr>) vanity\<rparr>)"
proof -
  have "vanity_from_bytes (extra h) = Ok vanity"
    using assms(3,4) by (simp add: header_arrays array_from_bytes_eq istanbul_extra_to_rlp_def)
  then show ?thesis
    using assms istanbul_extra_from_to [OF assms(1-3)]
    by (simp add: istanbul_filtered_header_def Let_def)
qed

lemma header_hash_istanbul:
  assumes "wf_extra e" and "rlp_fits (extra_item L e)" and "length vanity = 32"
  shows "header_hash L (h\<lparr>extra := istanbul_extra_to_rlp L e vanity\<rparr>) =
     Ok (keccak256 L (header_to_rlp L (h\<lparr>extra := istanbul_extra_to_rlp L
           (e\<lparr>aggregated_seal := istanbul_aggregated_seal_new\<rparr>) vanity\<rparr>)))"
  using assms filtered_header_to_rlp [OF assms, of "h\<lparr>extra := istanbul_extra_to_rlp L e vanity\<rparr>"]
  by (simp add: header_hash_def istanbul_extra_to_rlp_def rlp_hash_eq)

lemma header_hash_ne_Err: "header_hash L h \<noteq> Err e"
  by (cases "istanbul_filtered_header L h True") (simp_all add: header_hash_def rlp_hash_eq)

end

lemma header_hash_length: "header_hash L h = Ok x \<Longrightarrow> length x = 32"
  by (auto simp: header_hash_def rlp_hash_def slice_as_array_ref_def let_result_def result_iff
      split: if_splits result.splits)

section \<open>Properties\<close>

sublocale library_crates \<subseteq> header: wire_codec "header_to_rlp L" "header_from_rlp L"
  "\<lambda>h. wf_header h \<and> rlp_fits (header_item L h)"
  by unfold_locales (simp add: header_from_to)

context library_crates
begin

lemmas header_to_rlp_inject = header.to_rlp_inject

end

text \<open>C30: the header codec round trips: every header with arrays of the declared lengths and
  a non-negative block number is read back unchanged from its RLP encoding. \<close>

theorem header_roundtrip:
  assumes "library_crates L" and "wf_header h" and "rlp_fits (header_item L h)"
  shows "header_from_rlp L (header_to_rlp L h) = Ok h"
  using assms by (rule library_crates.header_from_to)

definition sample_header :: header where
  "sample_header = header_new\<lparr>number := 17280, gas_used := 21000, time := 1600000000,
     extra := istanbul_extra_to_rlp ref_crates sample_extra (replicate 32 0)\<rparr>"

lemma sample_header_wf: "wf_header sample_header"
  using wf_header_new by (simp add: sample_header_def wf_header_def)

lemma sample_extra_length: "length (extra sample_header) < 1000"
proof -
  let ?t = "extra_item ref_crates sample_extra"
  have "rlp_size ?t < 900"
    by (simp add: sample_extra_def extra_item_def seal_item_def
        big_int_to_rlp_compat_bytes_def istanbul_aggregated_seal_new_def ref_signature_def
        be_bytes.simps)
  moreover have "length (ref_enc ?t) \<le> rlp_size ?t"
    using \<open>rlp_size ?t < 900\<close> by (intro length_ref_enc) simp
  ultimately show ?thesis
    by (simp add: sample_header_def istanbul_extra_to_rlp_def extra_append_item)
qed

lemma sample_header_fits: "rlp_fits (header_item ref_crates sample_header)"
  using sample_extra_length
  by (simp add: header_item_def rlp_fits_def usize_bits_def sample_header_def header_new_def
      bloom_default_def big_int_to_rlp_compat_bytes_def be_bytes.simps)

theorem header_roundtrip_witness:
  "header_from_rlp ref_crates (header_to_rlp ref_crates sample_header) = Ok sample_header"
  by (rule header_roundtrip) (unfold_locales, simp_all add: sample_header_wf sample_header_fits)

text \<open>A header is identified by its bytes: two headers with the same encoding are the same
  header, so the digest of the encoding commits to every field. \<close>

theorem header_bytes_identify_header:
  assumes "library_crates L"
    and "wf_header h" and "rlp_fits (header_item L h)"
    and "wf_header k" and "rlp_fits (header_item L k)"
  shows "header_to_rlp L h = header_to_rlp L k \<longleftrightarrow> h = k"
  using library_crates.header_to_rlp_inject [OF assms(1), of h k] assms(2-5) by blast

theorem header_bytes_identify_header_witness:
  "header_to_rlp ref_crates sample_header \<noteq> header_to_rlp ref_crates (sample_header\<lparr>gas_used := 21001\<rparr>)"
proof -
  have wf: "wf_header (sample_header\<lparr>gas_used := 21001\<rparr>)"
    using sample_header_wf by (simp add: wf_header_def)
  have fits: "rlp_fits (header_item ref_crates (sample_header\<lparr>gas_used := 21001\<rparr>))"
    using sample_header_fits by (simp add: header_item_def rlp_fits_def)
  have "library_crates ref_crates" by unfold_locales
  from header_bytes_identify_header [OF this sample_header_wf sample_header_fits wf fits]
  moreover have "gas_used sample_header \<noteq> gas_used (sample_header\<lparr>gas_used := 21001\<rparr>)"
    by (simp add: sample_header_def)
  ultimately show ?thesis by metis
qed

text \<open>C29: the header hash does not depend on the aggregated seal: it is the Keccak digest of
  the header with an empty aggregated seal, whichever seal the extra data carries. This
  is what lets the validators sign the hash and then store their signature in the
  header they signed. \<close>

theorem header_hash_ignores_aggregated_seal:
  assumes "library_crates L" and "wf_extra e" and "wf_seal s" and "length vanity = 32"
    and "rlp_fits (extra_item L (e\<lparr>aggregated_seal := s\<rparr>))"
  shows "header_hash L (h\<lparr>extra := istanbul_extra_to_rlp L (e\<lparr>aggregated_seal := s\<rparr>) vanity\<rparr>) =
     Ok (keccak256 L (header_to_rlp L (h\<lparr>extra := istanbul_extra_to_rlp L
           (e\<lparr>aggregated_seal := istanbul_aggregated_seal_new\<rparr>) vanity\<rparr>)))"
proof -
  have "wf_extra (e\<lparr>aggregated_seal := s\<rparr>)"
    using assms(2,3) by (simp add: wf_extra_def)
  from library_crates.header_hash_istanbul [OF assms(1) this assms(5,4)]
  show ?thesis by simp
qed

theorem header_hash_ignores_aggregated_seal_witness:
  "header_hash ref_crates
     (header_new\<lparr>extra := istanbul_extra_to_rlp ref_crates
        (sample_extra\<lparr>aggregated_seal := aggregated_seal sample_extra\<rparr>) (replicate 32 0)\<rparr>) =
   Ok (ref_digest (header_to_rlp ref_crates (header_new\<lparr>extra := istanbul_extra_to_rlp ref_crates
        (sample_extra\<lparr>aggregated_seal := istanbul_aggregated_seal_new\<rparr>) (replicate 32 0)\<rparr>)))"
proof -
  have s: "wf_seal (aggregated_seal sample_extra)"
    using sample_extra_wf by (simp add: wf_extra_def)
  have "library_crates ref_crates" by unfold_locales
  from header_hash_ignores_aggregated_seal [OF this sample_extra_wf s, of "replicate 32 0" header_new]
  show ?thesis using sample_extra_fits by simp
qed

text \<open>The length checks of the array fields are not checks: decoding a header whose parent
  hash has \<open>length b\<close> bytes aborts for fewer than 32 and silently keeps the first 32
  of more, instead of returning the \<^verbatim>\<open>invalid length data\<close> error of the decoder. \<close>

theorem header_field_length_not_checked:
  assumes "library_crates L" and "wf_header h"
    and "rlp_fits (header_item L (h\<lparr>parent_hash := b\<rparr>))"
  shows "header_from_rlp L (header_to_rlp L (h\<lparr>parent_hash := b\<rparr>)) =
           (if 32 \<le> length b then Ok (h\<lparr>parent_hash := take 32 b\<rparr>) else Panic)"
  using library_crates.header_decode_parent_hash [OF assms]
  by (simp add: header_from_rlp_def header_to_rlp_def header_append_item rlp_enc_def)

theorem header_field_length_not_checked_witness:
  "header_from_rlp ref_crates (header_to_rlp ref_crates (sample_header\<lparr>parent_hash := replicate 33 5\<rparr>))
     = Ok (sample_header\<lparr>parent_hash := replicate 32 5\<rparr>)"
proof -
  have fits: "rlp_fits (header_item ref_crates (sample_header\<lparr>parent_hash := replicate 33 5\<rparr>))"
    using sample_extra_length
    by (simp add: header_item_def rlp_fits_def usize_bits_def sample_header_def header_new_def
        bloom_default_def big_int_to_rlp_compat_bytes_def be_bytes.simps)
  have "library_crates ref_crates" by unfold_locales
  from header_field_length_not_checked [OF this sample_header_wf fits] show ?thesis by simp
qed

end
