(* ===== verification/Epochs.thy ===== *)
theory Epochs
  imports Complex_Main Errors
begin

text \<open>
  The arithmetic of \<^verbatim>\<open>src/istanbul.rs\<close>: epochs of blocks and the quorum size.
  Block and epoch numbers are \<^verbatim>\<open>u64\<close>; every operation that can overflow, underflow or
  divide by zero is checked. \<open>istanbul_filtered_header\<close> of the same file is in \<open>Headers\<close>.
\<close>

section \<open>Operations\<close>

definition get_number_within_epoch :: "u64 \<Rightarrow> u64 \<Rightarrow> (u64, kind) result" where
  "get_number_within_epoch number epoch_size =
     and_then (u64_rem number epoch_size) (\<lambda>number.
       if number = 0 then Ok epoch_size else Ok number)"

definition is_last_block_of_epoch :: "u64 \<Rightarrow> u64 \<Rightarrow> (bool, kind) result" where
  "is_last_block_of_epoch number epoch_size =
     and_then (get_number_within_epoch number epoch_size) (\<lambda>n. Ok (n = epoch_size))"

definition get_epoch_number :: "u64 \<Rightarrow> u64 \<Rightarrow> (u64, kind) result" where
  "get_epoch_number number epoch_size =
     and_then (u64_div number epoch_size) (\<lambda>epoch_number.
     and_then (is_last_block_of_epoch number epoch_size) (\<lambda>last.
       if last then Ok epoch_number else u64_add epoch_number 1))"

definition get_epoch_first_block_number :: "u64 \<Rightarrow> u64 \<Rightarrow> (u64 option, kind) result" where
  "get_epoch_first_block_number epoch_number epoch_size =
     (if epoch_number = 0 then Ok None
      else and_then (u64_sub epoch_number 1) (\<lambda>e.
           and_then (u64_mul e epoch_size) (\<lambda>b.
           and_then (u64_add b 1) (\<lambda>n. Ok (Some n)))))"

definition get_epoch_last_block_number :: "u64 \<Rightarrow> u64 \<Rightarrow> (u64, kind) result" where
  "get_epoch_last_block_number epoch_number epoch_size =
     (if epoch_number = 0 then Ok 0 else u64_mul epoch_number epoch_size)"

definition min_quorum_size :: "nat \<Rightarrow> (nat, kind) result" where
  "min_quorum_size total_validators =
     and_then (usize_mul 2 total_validators) (\<lambda>d.
     and_then (usize_sub d 1) (\<lambda>d.
     and_then (usize_add d 3) (\<lambda>d. Ok (d div 3))))"

section \<open>Epochs\<close>

lemma unat_mod_u64: "unat (a mod b :: u64) = unat a mod unat b"
  by (simp add: unat_mod)

lemma u64_eq_0_iff: "(a :: u64) = 0 \<longleftrightarrow> unat a = 0"
  by (simp add: unat_eq_zero)

lemma is_last_block_of_epoch_eq:
  assumes "epoch_size \<noteq> 0"
  shows "is_last_block_of_epoch number epoch_size = Ok (unat epoch_size dvd unat number)"
proof -
  have pos: "0 < unat epoch_size"
    using assms by (simp add: unat_gt_0)
  have "number mod epoch_size = 0 \<longleftrightarrow> unat epoch_size dvd unat number"
    by (simp add: u64_eq_0_iff unat_mod_u64 mod_eq_0_iff_dvd)
  moreover have "number mod epoch_size \<noteq> epoch_size"
  proof
    assume "number mod epoch_size = epoch_size"
    then have "unat number mod unat epoch_size = unat epoch_size"
      by (metis unat_mod_u64)
    with pos show False
      by (metis mod_less_divisor less_irrefl)
  qed
  ultimately show ?thesis
    using assms
    by (simp add: is_last_block_of_epoch_def get_number_within_epoch_def u64_rem_def)
qed

lemma is_last_block_of_epoch_zero: "is_last_block_of_epoch number 0 = Panic"
  by (simp add: is_last_block_of_epoch_def get_number_within_epoch_def u64_rem_def)

lemma ceil_div_eq:
  assumes "0 < (s::nat)"
  shows "(n + s - Suc 0) div s = (if s dvd n then n div s else n div s + 1)"
proof -
  have lt: "n mod s < s" using assms by simp
  show ?thesis
  proof (cases "s dvd n")
    case True
    then obtain k where k: "n = s * k" by blast
    have "(s * k + s - Suc 0) div s = k"
      using assms by (intro div_nat_eqI) simp_all
    then show ?thesis using k True assms by simp
  next
    case False
    then have r: "0 < n mod s" by (simp add: dvd_eq_mod_eq_0)
    have p: "s * (n div s) + n mod s = n" by simp
    have "(n + s - Suc 0) div s = n div s + 1"
    proof (rule div_nat_eqI)
      show "s * (n div s + 1) \<le> n + s - Suc 0"
        unfolding distrib_left using p r by linarith
      show "n + s - Suc 0 < s * Suc (n div s + 1)"
        unfolding mult_Suc_right distrib_left using p lt by linarith
    qed
    with False show ?thesis by simp
  qed
qed

text \<open>
  The increment in \<open>get_epoch_number\<close> cannot overflow: the quotient only reaches
  \<open>u64::MAX\<close> for epochs of one block, where every block is the last of its epoch.
\<close>

lemma get_epoch_number_total:
  assumes "epoch_size \<noteq> 0"
  shows "\<exists>e. get_epoch_number number epoch_size = Ok e \<and>
             unat e = (unat number + unat epoch_size - 1) div unat epoch_size"
proof -
  let ?n = "unat number" and ?s = "unat epoch_size"
  have pos: "0 < ?s" using assms by (simp add: unat_gt_0)
  have q: "unat (number div epoch_size) = ?n div ?s"
    by (simp add: unat_div)
  show ?thesis
  proof (cases "?s dvd ?n")
    case True
    then show ?thesis
      using assms pos q
      by (simp add: get_epoch_number_def u64_div_def is_last_block_of_epoch_eq ceil_div_eq)
  next
    case False
    then have "?s \<noteq> 1" by auto
    with pos have "2 \<le> ?s" by linarith
    then have "?n div ?s \<le> ?n div 2" by (rule div_le_mono2 [rotated]) simp
    moreover have "?n div 2 < 2 ^ 63" using unat_u64_lt [of number] by simp
    ultimately have small: "?n div ?s + 1 < 2 ^ 64" by simp
    then have "unat (number div epoch_size + 1) = ?n div ?s + 1"
      using q unat_add_u64 [of "number div epoch_size" 1] by simp
    with False small show ?thesis
      using assms pos q
      by (simp add: get_epoch_number_def u64_div_def is_last_block_of_epoch_eq ceil_div_eq
          u64_add_def)
  qed
qed

lemma ceil_div_bounds:
  assumes "0 < (n::nat)" and "0 < s" and e: "e = (n + s - 1) div s"
  shows "0 < e" and "(e - 1) * s < n" and "n \<le> e * s"
proof -
  have d: "e * s \<le> n + s - 1" "n + s - 1 < (e + 1) * s"
    using assms by (simp_all add: div_times_less_eq_dividend dividend_less_times_div algebra_simps)
  from d(2) show le: "n \<le> e * s" using assms by simp
  from le assms(1) show pos: "0 < e" by (cases e) simp_all
  have "(e - 1) * s + s = e * s" using pos by (cases e) simp_all
  with d(1) assms(1,2) show "(e - 1) * s < n" by linarith
qed

text \<open>C40: every block but genesis lies between the first and the last block of the epoch
  that \<^verbatim>\<open>get_epoch_number\<close> assigns to it, for every epoch size and every block number, up
  to the largest \<^verbatim>\<open>u64\<close>: neither the epoch number nor the first block number panics, and
  whenever the last block number is representable it bounds the block from above. \<close>

theorem epoch_contains_block:
  assumes "number \<noteq> 0" and "epoch_size \<noteq> 0"
  shows "\<exists>e f. get_epoch_number number epoch_size = Ok e \<and>
           get_epoch_first_block_number e epoch_size = Ok (Some f) \<and>
           f \<le> number \<and> unat number < unat f + unat epoch_size \<and>
           (get_epoch_last_block_number e epoch_size = Panic \<or>
            (\<exists>l. get_epoch_last_block_number e epoch_size = Ok l \<and> number \<le> l \<and>
                 unat l = unat f + unat epoch_size - 1))"
proof -
  let ?n = "unat number" and ?s = "unat epoch_size"
  have pos: "0 < ?n" "0 < ?s" using assms by (simp_all add: unat_gt_0)
  obtain e where e: "get_epoch_number number epoch_size = Ok e"
    and ue: "unat e = (?n + ?s - 1) div ?s"
    using get_epoch_number_total [OF assms(2)] by blast
  note b = ceil_div_bounds [OF pos ue]
  have e0: "e \<noteq> 0" "1 \<le> e"
    using b(1) by (simp_all add: u64_eq_0_iff word_le_nat_alt)
  have ue1: "unat (e - 1) = unat e - 1"
    using unat_sub_u64 [OF e0(2)] by simp
  have fits: "(unat e - 1) * ?s + 1 < 2 ^ 64"
    using b(2) unat_u64_lt [of number] by linarith
  let ?f = "(e - 1) * epoch_size + 1"
  have um: "unat ((e - 1) * epoch_size) = (unat e - 1) * ?s"
    using fits ue1 unat_mul_u64 [of "e - 1" epoch_size] by simp
  then have uf: "unat ?f = (unat e - 1) * ?s + 1"
    using fits unat_add_u64 [of "(e - 1) * epoch_size" 1] by simp
  have first: "get_epoch_first_block_number e epoch_size = Ok (Some ?f)"
    using e0 fits ue1 um
    by (simp add: get_epoch_first_block_number_def u64_sub_def u64_mul_def u64_add_def)
  have es: "unat e * ?s = (unat e - 1) * ?s + ?s"
    using b(1) by (cases "unat e") simp_all
  have last: "get_epoch_last_block_number e epoch_size = Panic \<or>
      (\<exists>l. get_epoch_last_block_number e epoch_size = Ok l \<and> number \<le> l \<and>
           unat l = unat ?f + ?s - 1)"
  proof (cases "unat e * ?s < 2 ^ 64")
    case True
    then have "unat (e * epoch_size) = unat e * ?s" by (rule unat_mul_u64)
    with True e0 b(3) es uf show ?thesis
      by (simp add: get_epoch_last_block_number_def u64_mul_def word_le_nat_alt)
  next
    case False
    with e0 show ?thesis by (simp add: get_epoch_last_block_number_def u64_mul_def)
  qed
  have "?f \<le> number" using b(2) uf by (simp add: word_le_nat_alt)
  moreover have "?n < unat ?f + ?s" using b(3) uf es by linarith
  ultimately show ?thesis using e first last by blast
qed

theorem epoch_contains_block_witness:
  "\<exists>e f. get_epoch_number 17281 17280 = Ok e \<and>
     get_epoch_first_block_number e 17280 = Ok (Some f) \<and> f \<le> 17281"
  using epoch_contains_block [of 17281 17280] by auto

text \<open>The block that \<^verbatim>\<open>get_epoch_last_block_number\<close> returns for an epoch is the
  one and only block of that epoch that \<^verbatim>\<open>is_last_block_of_epoch\<close> accepts, and
  \<^verbatim>\<open>get_epoch_number\<close> maps it back to the epoch (a round trip). \<close>

theorem epoch_last_block_roundtrip:
  assumes "epoch_size \<noteq> 0" and "get_epoch_last_block_number e epoch_size = Ok l"
  shows "get_epoch_number n epoch_size = Ok e \<and> is_last_block_of_epoch n epoch_size = Ok True
         \<longleftrightarrow> n = l"
proof -
  let ?s = "unat epoch_size"
  have pos: "0 < ?s" using assms(1) by (simp add: unat_gt_0)
  have ul: "unat l = unat e * ?s"
    using assms(2)
    by (auto simp: get_epoch_last_block_number_def u64_mul_def unat_mul_u64 split: if_splits)
  obtain e' where e': "get_epoch_number n epoch_size = Ok e'"
    and ue': "unat e' = (unat n + ?s - 1) div ?s"
    using get_epoch_number_total [OF assms(1)] by blast
  have "unat e' = unat e \<and> ?s dvd unat n \<longleftrightarrow> unat n = unat l"
    using ue' ul pos by (auto simp: ceil_div_eq)
  then show ?thesis
    using e' assms(1) by (simp add: is_last_block_of_epoch_eq word_unat_eq_iff)
qed

theorem epoch_last_block_roundtrip_witness:
  "get_epoch_number 34560 17280 = Ok 2 \<and> is_last_block_of_epoch 34560 17280 = Ok True"
proof -
  have l: "get_epoch_last_block_number 2 17280 = Ok 34560"
    by (simp add: get_epoch_last_block_number_def u64_mul_def)
  show ?thesis using epoch_last_block_roundtrip [OF _ l, of 34560] by simp
qed

section \<open>Quorum\<close>

lemma min_quorum_size_eq:
  "min_quorum_size n =
     (if n = 0 \<or> 2 ^ usize_bits \<le> 2 * n + 2 then Panic else Ok ((2 * n + 2) div 3))"
proof (cases "n = 0 \<or> 2 ^ usize_bits \<le> 2 * n")
  case True
  then show ?thesis
    by (auto simp: min_quorum_size_def usize_mul_def usize_sub_def)
next
  case False
  then have "2 * n - 1 + 3 = 2 * n + 2" by arith
  with False show ?thesis
    by (simp add: min_quorum_size_def usize_mul_def usize_sub_def usize_add_def)
qed

lemma min_quorum_size_Ok_iff:
  "min_quorum_size n = Ok q \<longleftrightarrow>
     0 < n \<and> 2 * n + 2 < 2 ^ usize_bits \<and> q = (2 * n + 2) div 3"
  by (auto simp: min_quorum_size_eq)

lemma min_quorum_size_bounds:
  "min_quorum_size n = Ok q \<Longrightarrow> 2 * n \<le> 3 * q \<and> 3 * q \<le> 2 * n + 2 \<and> 0 < q \<and> q \<le> n"
  by (auto simp: min_quorum_size_Ok_iff)

text \<open>The integer formula of \<^verbatim>\<open>min_quorum_size\<close> is the floating-point one its comment
  gives, the ceiling of two thirds of the validators, for every validator count whose
  double fits \<^verbatim>\<open>usize\<close>; for an empty validator set the subtraction underflows and the
  call panics. \<close>

theorem min_quorum_size_is_ceiling:
  assumes "2 * n + 2 < 2 ^ usize_bits"
  shows "min_quorum_size n = (if n = 0 then Panic else Ok (nat \<lceil>2 * real n / 3\<rceil>))"
proof -
  have "\<lceil>2 * real n / 3\<rceil> = int ((2 * n + 2) div 3)"
  proof (rule ceiling_unique)
    have "(2 * n + 2) div 3 * 3 < 2 * n + 3" by simp
    then have "real ((2 * n + 2) div 3 * 3) < real (2 * n + 3)"
      by (rule of_nat_less_iff [THEN iffD2])
    then show "of_int (int ((2 * n + 2) div 3)) - 1 < 2 * real n / 3" by simp
    have "2 * n \<le> (2 * n + 2) div 3 * 3" by presburger
    then have "real (2 * n) \<le> real ((2 * n + 2) div 3 * 3)" by (rule of_nat_mono)
    then show "2 * real n / 3 \<le> of_int (int ((2 * n + 2) div 3))" by simp
  qed
  with assms show ?thesis by (simp add: min_quorum_size_eq)
qed

theorem min_quorum_size_is_ceiling_witness:
  "min_quorum_size 0 = Panic \<and> min_quorum_size 7 = Ok (nat \<lceil>2 * real 7 / 3\<rceil>)"
  using min_quorum_size_is_ceiling [of 0] min_quorum_size_is_ceiling [of 7]
  by (simp add: usize_bits_def)

text \<open>
  Quorum intersection: any two sets of signers that reach \<open>min_quorum_size\<close> in the same
  validator set share more validators than the \<open>(n - 1) div 3\<close> that IBFT tolerates as faulty.
\<close>

lemma quorums_intersect:
  assumes q: "min_quorum_size n = Ok q"
    and A: "A \<subseteq> {..<n}" "q \<le> card A" and B: "B \<subseteq> {..<n}" "q \<le> card B"
  shows "(n - 1) div 3 < card (A \<inter> B)"
proof -
  have fin: "finite A" "finite B" using A(1) B(1) by (auto intro: finite_subset)
  have "card (A \<union> B) \<le> n"
    using A(1) B(1) by (metis Un_least card_lessThan card_mono finite_lessThan)
  moreover have "card A + card B = card (A \<union> B) + card (A \<inter> B)"
    using fin by (rule card_Un_Int)
  ultimately have "2 * q \<le> n + card (A \<inter> B)" using A(2) B(2) by linarith
  with min_quorum_size_bounds [OF q] show ?thesis by (simp add: min_quorum_size_Ok_iff; linarith)
qed

end
