(* ===== verification/Bls.thy ===== *)
theory Bls
  imports Headers Epochs
begin

text \<open>
  \<^verbatim>\<open>src/bls.rs\<close>: verification of an aggregated seal against a validator set, and the
  struct \<^verbatim>\<open>Validator\<close> of \<^verbatim>\<open>src/types/state.rs\<close> it reads. The abstract specification
  \<open>quorum_sealed\<close> says when a set of validators has sealed a hash; verification
  succeeds exactly when it holds.
\<close>

record validator =
  address :: address
  public_key :: serialized_public_key

section \<open>Operations\<close>

definition prepare_commited_seal ::
    "('pk, 'sig, 'z) crates_scheme \<Rightarrow> hash \<Rightarrow> int \<Rightarrow> bytes" where
  "prepare_commited_seal L hash rnd =
     (let round_bytes = big_int_to_rlp_compat_bytes L rnd;
          commit_bytes = [istanbul_msg_u8 Commit]
      in hash @ round_bytes @ commit_bytes)"

definition deserialize_signature ::
    "('pk, 'sig, 'z) crates_scheme \<Rightarrow> bytes \<Rightarrow> ('sig, kind) result" where
  "deserialize_signature L signature = ok_or (sig_deserialize L signature) BlsInvalidSignature"

definition deserialize_pub_key ::
    "('pk, 'sig, 'z) crates_scheme \<Rightarrow> bytes \<Rightarrow> ('pk, kind) result" where
  "deserialize_pub_key L key = ok_or (pk_deserialize L key) BlsInvalidPublicKey"

definition verify_aggregated_seal ::
    "('pk, 'sig, 'z) crates_scheme \<Rightarrow> hash \<Rightarrow> validator list \<Rightarrow> istanbul_aggregated_seal \<Rightarrow>
     (unit, kind) result" where
  "verify_aggregated_seal L block_hash validators sl =
     (let proposal_seal = prepare_commited_seal L block_hash (seal_round sl) in
     and_then (min_quorum_size (length validators)) (\<lambda>expected_quorum_size.
     and_then
       (collect (\<lambda>(i, validator). deserialize_pub_key L (public_key validator))
         (filter (\<lambda>(i, validator). bi_bit L (seal_bitmap sl) i)
           (enumerate 0 validators))) (\<lambda>public_keys.
     if length public_keys < expected_quorum_size
     then Err (MissingSeals (length public_keys) expected_quorum_size)
     else
     and_then (deserialize_signature L (seal_signature sl)) (\<lambda>sig.
     let apk = pk_aggregate L public_keys in
     if pk_verify L apk proposal_seal [] sig then Ok () else Err BlsVerifyError))))"

section \<open>Specification\<close>

text \<open>The validators whose bit is set in the seal's bitmap.\<close>

definition signers ::
    "('pk, 'sig, 'z) crates_scheme \<Rightarrow> int \<Rightarrow> validator list \<Rightarrow> validator list" where
  "signers L bitmap validators =
     map snd (filter (\<lambda>(i, _). bi_bit L bitmap i) (enumerate 0 validators))"

text \<open>
  At least two thirds of the validators are marked as signers, all their keys and the
  signature are valid encodings, and the signature verifies under the aggregated key for the
  commit message of the hash.
\<close>

definition quorum_sealed ::
    "('pk, 'sig, 'z) crates_scheme \<Rightarrow> validator list \<Rightarrow> hash \<Rightarrow> istanbul_aggregated_seal \<Rightarrow> bool" where
  "quorum_sealed L validators hash s \<longleftrightarrow>
     validators \<noteq> [] \<and>
     2 * length validators \<le> 3 * length (signers L (seal_bitmap s) validators) \<and>
     (\<exists>pks sig. map (\<lambda>v. pk_deserialize L (public_key v)) (signers L (seal_bitmap s) validators)
                  = map Some pks \<and>
                sig_deserialize L (seal_signature s) = Some sig \<and>
                pk_verify L (pk_aggregate L pks)
                  (prepare_commited_seal L hash (seal_round s)) [] sig)"

lemma collect_keys_Ok_iff:
  "collect (\<lambda>(i, v). deserialize_pub_key L (public_key v)) xs = Ok pks \<longleftrightarrow>
     map (\<lambda>v. pk_deserialize L (public_key v)) (map snd xs) = map Some pks"
  by (induction xs arbitrary: pks)
    (auto simp: and_then_eq_Ok deserialize_pub_key_def ok_or_eq_Ok)

lemma collect_keys_ne_Panic:
  "collect (\<lambda>(i, v). deserialize_pub_key L (public_key v)) xs \<noteq> Panic"
  by (induction xs) (auto simp: and_then_eq_Panic deserialize_pub_key_def)

lemma length_signers_le: "length (signers L b vs) \<le> length vs"
  by (simp add: signers_def) (metis length_enumerate length_filter_le)

lemma set_signers_subset: "set (signers L b vs) \<subseteq> set vs"
  unfolding signers_def by (rule enumerate_filter_map_snd_subset)

lemma quorum_reached_iff:
  "min_quorum_size n = Ok q \<Longrightarrow> q \<le> k \<longleftrightarrow> 2 * n \<le> 3 * k"
  by (auto simp: min_quorum_size_Ok_iff)

lemma verify_aggregated_seal_Ok_iff:
  "verify_aggregated_seal L h vs s = Ok () \<longleftrightarrow>
     quorum_sealed L vs h s \<and> 2 * length vs + 2 < 2 ^ usize_bits"
proof (cases "min_quorum_size (length vs)")
  case (Ok q)
  let ?xs = "filter (\<lambda>(i, validator). bi_bit L (seal_bitmap s) i) (enumerate 0 vs)"
  have n: "vs \<noteq> []" "2 * length vs + 2 < 2 ^ usize_bits"
    using Ok by (auto simp: min_quorum_size_Ok_iff)
  have xs: "map snd ?xs = signers L (seal_bitmap s) vs" by (simp add: signers_def)
  have keys: "collect (\<lambda>(i, v). deserialize_pub_key L (public_key v)) ?xs = Ok pks \<longleftrightarrow>
      map (\<lambda>v. pk_deserialize L (public_key v)) (signers L (seal_bitmap s) vs) = map Some pks" for pks
    by (simp only: collect_keys_Ok_iff xs)
  have len: "length pks = length (signers L (seal_bitmap s) vs)"
    if "map (\<lambda>v. pk_deserialize L (public_key v)) (signers L (seal_bitmap s) vs) = map Some pks" for pks
    using that by (metis length_map)
  note unfold = verify_aggregated_seal_def Let_def Ok and_then_eq_Ok keys quorum_sealed_def
    deserialize_signature_def ok_or_eq_Ok quorum_reached_iff [OF Ok] not_less
  show ?thesis
  proof
    assume "verify_aggregated_seal L h vs s = Ok ()"
    then show "quorum_sealed L vs h s \<and> 2 * length vs + 2 < 2 ^ usize_bits"
      using n len by (auto simp: unfold split: if_splits)
  next
    assume R: "quorum_sealed L vs h s \<and> 2 * length vs + 2 < 2 ^ usize_bits"
    then obtain pks sig where
      pks: "map (\<lambda>v. pk_deserialize L (public_key v)) (signers L (seal_bitmap s) vs) = map Some pks"
      and sig: "sig_deserialize L (seal_signature s) = Some sig"
        "pk_verify L (pk_aggregate L pks) (prepare_commited_seal L h (seal_round s)) [] sig"
      by (auto simp: quorum_sealed_def)
    have "collect (\<lambda>(i, v). deserialize_pub_key L (public_key v)) ?xs = Ok pks"
      using pks keys by blast
    moreover have "\<not> length pks < q"
      using R len [OF pks] by (simp add: not_less quorum_reached_iff [OF Ok] quorum_sealed_def)
    ultimately show "verify_aggregated_seal L h vs s = Ok ()"
      using sig by (simp add: verify_aggregated_seal_def Let_def Ok deserialize_signature_def)
  qed
next
  case (Err e)
  then show ?thesis by (simp add: min_quorum_size_eq split: if_splits)
next
  case Panic
  then show ?thesis
    by (auto simp: verify_aggregated_seal_def Let_def min_quorum_size_eq quorum_sealed_def
        split: if_splits)
qed

lemma verify_aggregated_seal_empty: "verify_aggregated_seal L h [] s = Panic"
  by (simp add: verify_aggregated_seal_def Let_def min_quorum_size_eq)

lemma verify_aggregated_seal_Panic_iff:
  "verify_aggregated_seal L h vs s = Panic \<longleftrightarrow> vs = [] \<or> 2 ^ usize_bits \<le> 2 * length vs + 2"
  by (auto simp: verify_aggregated_seal_def Let_def and_then_eq_Panic min_quorum_size_eq
      collect_keys_ne_Panic deserialize_signature_def split: if_splits)

section \<open>Properties\<close>

text \<open>C13: seal verification implements the specification: \<^verbatim>\<open>verify_aggregated_seal\<close> returns
  \<^verbatim>\<open>Ok(())\<close> exactly when at least two thirds of the validator set are marked as signers, all
  their keys and the signature decode, and the aggregated key verifies the signature over
  the hash, the round and the commit code; it aborts exactly on the empty validator set
  (and on sets whose doubled size leaves \<^verbatim>\<open>usize\<close>), and otherwise returns an error. \<close>

theorem verify_aggregated_seal_correct:
  "(verify_aggregated_seal L h vs s = Ok () \<longleftrightarrow>
      quorum_sealed L vs h s \<and> 2 * length vs + 2 < 2 ^ usize_bits) \<and>
   (verify_aggregated_seal L h vs s = Panic \<longleftrightarrow>
      vs = [] \<or> 2 ^ usize_bits \<le> 2 * length vs + 2)"
  by (simp only: verify_aggregated_seal_Ok_iff verify_aggregated_seal_Panic_iff simp_thms)

lemma length_signers:
  "length (signers L b vs) = card {i. i < length vs \<and> bi_bit L b i}"
proof -
  have "length (signers L b vs) =
      card {i. i < length (enumerate 0 vs) \<and> (case enumerate 0 vs ! i of (i, _) \<Rightarrow> bi_bit L b i)}"
    unfolding signers_def by (simp only: length_map length_filter_conv_card)
  also have "{i. i < length (enumerate 0 vs) \<and> (case enumerate 0 vs ! i of (i, _) \<Rightarrow> bi_bit L b i)} =
      {i. i < length vs \<and> bi_bit L b i}"
    by (auto simp: nth_enumerate_eq)
  finally show ?thesis .
qed

lemma quorum_sealed_card:
  "verify_aggregated_seal L h vs s = Ok () \<Longrightarrow>
     \<exists>q. min_quorum_size (length vs) = Ok q \<and>
         q \<le> card {i. i < length vs \<and> bi_bit L (seal_bitmap s) i}"
  by (auto simp: verify_aggregated_seal_Ok_iff quorum_sealed_def length_signers min_quorum_size_eq)

lemma quorum_signers_intersect:
  assumes "verify_aggregated_seal L h1 vs s1 = Ok ()"
    and "verify_aggregated_seal L h2 vs s2 = Ok ()"
  shows "(length vs - 1) div 3 <
           card {i. i < length vs \<and> bi_bit L (seal_bitmap s1) i \<and> bi_bit L (seal_bitmap s2) i}"
proof -
  let ?A = "{i. i < length vs \<and> bi_bit L (seal_bitmap s1) i}"
  let ?B = "{i. i < length vs \<and> bi_bit L (seal_bitmap s2) i}"
  obtain q where q: "min_quorum_size (length vs) = Ok q" and A: "q \<le> card ?A"
    using quorum_sealed_card [OF assms(1)] by blast
  from q have B: "q \<le> card ?B"
    using quorum_sealed_card [OF assms(2)] by simp
  have "(length vs - 1) div 3 < card (?A \<inter> ?B)"
    using q A B by (intro quorums_intersect) auto
  also have "?A \<inter> ?B =
      {i. i < length vs \<and> bi_bit L (seal_bitmap s1) i \<and> bi_bit L (seal_bitmap s2) i}"
    by blast
  finally show ?thesis .
qed

text \<open>Accountability: if two seals both verify against the same validator set, for whatever
  hashes and rounds, then more validators than IBFT tolerates as faulty, \<open>(n - 1) div 3\<close> of
  \<open>n\<close>, are marked as signers in both. Two conflicting headers that this client accepts
  therefore have an honest signer in common. \<close>

theorem accepted_seals_share_signers:
  assumes "verify_aggregated_seal L h1 vs s1 = Ok ()"
    and "verify_aggregated_seal L h2 vs s2 = Ok ()"
  shows "(length vs - 1) div 3 <
           card {i. i < length vs \<and> bi_bit L (seal_bitmap s1) i \<and> bi_bit L (seal_bitmap s2) i}"
  using assms by (rule quorum_signers_intersect)

definition sample_validators :: "validator list" where
  "sample_validators =
     map (\<lambda>k. \<lparr>address = replicate 20 k, public_key = replicate 96 k\<rparr>) [1, 2, 3, 4]"

lemma sample_seal_ok:
  "b = 7 \<or> b = 14 \<Longrightarrow> verify_aggregated_seal ref_crates h sample_validators
     \<lparr>seal_bitmap = b, seal_signature = ref_signature, seal_round = 0\<rparr> = Ok ()"
  by (elim disjE)
    (simp_all add: verify_aggregated_seal_def sample_validators_def Let_def min_quorum_size_eq
      usize_bits_def deserialize_pub_key_def deserialize_signature_def ref_signature_def
      bit_iff_odd)

theorem accepted_seals_share_signers_witness:
  "(length sample_validators - 1) div 3 <
     card {i. i < length sample_validators \<and> bit (7::int) i \<and> bit (14::int) i}"
  using accepted_seals_share_signers [OF sample_seal_ok [of 7] sample_seal_ok [of 14]]
  by simp

end
