(* ===== verification/Snapshots.thy ===== *)
theory Snapshots
  imports Bls
begin

text \<open>
  \<^verbatim>\<open>src/types/state.rs\<close>: the consensus snapshot the light client keeps and its RLP codec, the
  codec of a validator, and the configuration behind the trait \<^verbatim>\<open>StateConfig\<close>
  (\<^verbatim>\<open>src/traits.rs\<close>). A \<^verbatim>\<open>&dyn StateConfig\<close> is the record of the values of its five getters.
\<close>

section \<open>Configuration\<close>

record state_config =
  epoch_size :: u64
  allowed_clock_skew :: u64
  verify_epoch_headers :: bool
  verify_non_epoch_headers :: bool
  verify_header_timestamp :: bool

record config =
  cfg_epoch_size :: u64
  cfg_allowed_clock_skew :: u64
  cfg_verify_epoch_headers :: bool
  cfg_verify_non_epoch_headers :: bool
  cfg_verify_header_timestamp :: bool

text \<open>\<^verbatim>\<open>impl StateConfig for Config\<close>.\<close>

definition config_state_config :: "config \<Rightarrow> state_config" where
  "config_state_config c =
     \<lparr>epoch_size = cfg_epoch_size c,
      allowed_clock_skew = cfg_allowed_clock_skew c,
      verify_epoch_headers = cfg_verify_epoch_headers c,
      verify_non_epoch_headers = cfg_verify_non_epoch_headers c,
      verify_header_timestamp = cfg_verify_header_timestamp c\<rparr>"

section \<open>Validators\<close>

definition validator_append :: "validator \<Rightarrow> rlp_op list" where
  "validator_append v = [BeginList 2, AppendBytes (address v), AppendBytes (public_key v)]"

definition validator_decode ::
    "('pk, 'sig, 'z) crates_scheme \<Rightarrow> bytes \<Rightarrow> (validator, decoder_error) result" where
  "validator_decode L rlp =
     and_then (and_then (rlp_at L rlp 0) (rlp_field_from_bytes L address_from_bytes)) (\<lambda>a.
     and_then (and_then (rlp_at L rlp 1) (rlp_field_from_bytes L public_key_from_bytes)) (\<lambda>k.
       Ok \<lparr>address = a, public_key = k\<rparr>))"

section \<open>Snapshots\<close>

record snapshot =
  snap_number :: u64
  snap_timestamp :: u64
  snap_validators :: "validator list"
  snap_hash :: hash
  snap_aggregated_seal :: istanbul_aggregated_seal

definition snapshot_new :: snapshot where
  "snapshot_new =
     \<lparr>snap_number = 0, snap_timestamp = 0, snap_validators = [],
      snap_hash = replicate HASH_LENGTH 0,
      snap_aggregated_seal = istanbul_aggregated_seal_new\<rparr>"

definition snapshot_append ::
    "('pk, 'sig, 'z) crates_scheme \<Rightarrow> snapshot \<Rightarrow> rlp_op list" where
  "snapshot_append L s =
     [BeginList 5, AppendU64 (snap_number s), AppendU64 (snap_timestamp s)]
     @ [BeginList (length (snap_validators s))]
     @ concat (map validator_append (snap_validators s))
     @ [AppendBytes (snap_hash s)]
     @ seal_append L (snap_aggregated_seal s)"

definition snapshot_decode ::
    "('pk, 'sig, 'z) crates_scheme \<Rightarrow> bytes \<Rightarrow> (snapshot, decoder_error) result" where
  "snapshot_decode L rlp =
     and_then (rlp_at L rlp 2) (\<lambda>l2.
     let_result (collect (validator_decode L) (rlp_iter L l2)) (\<lambda>validators.
     and_then validators (\<lambda>validators.
     and_then (val_at L (rlp_as_u64 L) rlp 0) (\<lambda>number.
     and_then (val_at L (rlp_as_u64 L) rlp 1) (\<lambda>timestamp.
     and_then (rlp_list_field_from_bytes L vanity_from_bytes rlp 3) (\<lambda>hash.
     and_then (val_at L (seal_decode L) rlp 4) (\<lambda>agg.
       Ok \<lparr>snap_number = number, snap_timestamp = timestamp, snap_validators = validators,
           snap_hash = hash, snap_aggregated_seal = agg\<rparr>)))))))"

definition snapshot_to_rlp :: "('pk, 'sig, 'z) crates_scheme \<Rightarrow> snapshot \<Rightarrow> bytes" where
  "snapshot_to_rlp L s = rlp_out L (snapshot_append L s)"

definition snapshot_from_rlp ::
    "('pk, 'sig, 'z) crates_scheme \<Rightarrow> bytes \<Rightarrow> (snapshot, kind) result" where
  "snapshot_from_rlp L bs = map_err (\<lambda>_. RlpDecodeError) (snapshot_decode L bs)"

definition snapshot_verify ::
    "('pk, 'sig, 'z) crates_scheme \<Rightarrow> snapshot \<Rightarrow> (unit, kind) result" where
  "snapshot_verify L s =
     verify_aggregated_seal L (snap_hash s) (snap_validators s) (snap_aggregated_seal s)"

section \<open>Wire layout and round trip\<close>

definition validator_item :: "validator \<Rightarrow> rlp_item" where
  "validator_item v = RList [RStr (address v), RStr (public_key v)]"

definition snapshot_item :: "('pk, 'sig, 'z) crates_scheme \<Rightarrow> snapshot \<Rightarrow> rlp_item" where
  "snapshot_item L s = RList
     [RNum (snap_number s), RNum (snap_timestamp s),
      RList (map validator_item (snap_validators s)),
      RStr (snap_hash s), seal_item L (snap_aggregated_seal s)]"

definition wf_validator :: "validator \<Rightarrow> bool" where
  "wf_validator v \<longleftrightarrow> length (address v) = ADDRESS_LENGTH \<and> length (public_key v) = PUBLIC_KEY_LENGTH"

definition wf_snapshot :: "snapshot \<Rightarrow> bool" where
  "wf_snapshot s \<longleftrightarrow> list_all wf_validator (snap_validators s) \<and>
     length (snap_hash s) = HASH_LENGTH \<and> wf_seal (snap_aggregated_seal s)"

lemma validator_append_item: "validator_append v = item_ops (validator_item v)"
  by (simp add: validator_append_def validator_item_def)

lemma validator_append_fun: "validator_append = item_ops \<circ> validator_item"
  by (rule ext) (simp add: validator_append_item)

lemma snapshot_append_item: "snapshot_append L s = item_ops (snapshot_item L s)"
  by (simp add: snapshot_append_def snapshot_item_def seal_append_item validator_append_fun)

lemma wf_snapshot_new: "wf_snapshot snapshot_new"
  by (simp add: wf_snapshot_def snapshot_new_def)

context library_crates
begin

lemma validator_decode_item:
  assumes "wf_validator v" and "rlp_fits (validator_item v)"
  shows "validator_decode L (rlp_enc L (validator_item v)) = Ok v"
proof -
  have "rlp_fits (RStr (address v))" "rlp_fits (RStr (public_key v))"
    using assms(2) unfolding validator_item_def by (auto intro: rlp_fits_member)
  then show ?thesis
    using assms unfolding validator_item_def wf_validator_def
    by (simp add: validator_decode_def at_list rlp_field_from_bytes_str from_bytes_array)
qed

lemma snapshot_from_to:
  assumes wf: "wf_snapshot s" and fits: "rlp_fits (snapshot_item L s)"
  shows "snapshot_from_rlp L (snapshot_to_rlp L s) = Ok s"
proof -
  note item = fits [unfolded snapshot_item_def]
  have f: "rlp_fits (RList (map validator_item (snap_validators s)))"
    "rlp_fits (seal_item L (snap_aggregated_seal s))"
    using item by (auto intro: rlp_fits_member)
  have "collect (validator_decode L) (map (\<lambda>v. rlp_enc L (validator_item v)) (snap_validators s)) =
      Ok (map (\<lambda>v. v) (snap_validators s))"
    using wf rlp_fits_member [OF f(1)]
    by (intro collect_map_Ok validator_decode_item) (auto simp: wf_snapshot_def list_all_iff)
  then have "snapshot_decode L (rlp_enc L (snapshot_item L s)) = Ok s"
    using wf item f unfolding snapshot_item_def wf_snapshot_def
    by (simp add: snapshot_decode_def at_list iter_list comp_def as_u64_num rlp_list_field_at
        header_arrays val_at_list seal_decode_item)
  then show ?thesis
    by (simp add: snapshot_from_rlp_def snapshot_to_rlp_def snapshot_append_item rlp_enc_def)
qed

end

sublocale library_crates \<subseteq> snapshot: wire_codec "snapshot_to_rlp L" "snapshot_from_rlp L"
  "\<lambda>s. wf_snapshot s \<and> rlp_fits (snapshot_item L s)"
  by unfold_locales (simp add: snapshot_from_to)

text \<open>The snapshot codec round trips: the consensus state the contract stores with
  \<^verbatim>\<open>Snapshot::to_rlp\<close> is restored by \<^verbatim>\<open>Snapshot::from_rlp\<close>, with the whole validator set in
  its order, which the bitmaps of later seals depend on. \<close>

theorem snapshot_roundtrip:
  assumes "library_crates L" and "wf_snapshot s" and "rlp_fits (snapshot_item L s)"
  shows "snapshot_from_rlp L (snapshot_to_rlp L s) = Ok s"
  using assms by (rule library_crates.snapshot_from_to)

definition sample_snapshot :: snapshot where
  "sample_snapshot =
     \<lparr>snap_number = 17279, snap_timestamp = 1599999995, snap_validators = sample_validators,
      snap_hash = replicate 32 9,
      snap_aggregated_seal = \<lparr>seal_bitmap = 7, seal_signature = ref_signature, seal_round = 0\<rparr>\<rparr>"

lemma sample_snapshot_wf: "wf_snapshot sample_snapshot"
  by (simp add: sample_snapshot_def wf_snapshot_def sample_validators_def wf_validator_def
      wf_seal_def)

lemma sample_snapshot_fits: "rlp_fits (snapshot_item ref_crates sample_snapshot)"
  by (simp add: snapshot_item_def sample_snapshot_def sample_validators_def validator_item_def
      seal_item_def big_int_to_rlp_compat_bytes_def be_bytes.simps ref_signature_def
      rlp_fits_def usize_bits_def)

theorem snapshot_roundtrip_witness:
  "snapshot_from_rlp ref_crates (snapshot_to_rlp ref_crates sample_snapshot) = Ok sample_snapshot"
  by (rule snapshot_roundtrip)
    (unfold_locales, simp_all add: sample_snapshot_wf sample_snapshot_fits)

end
