(* ===== verification/Light_State.thy ===== *)
theory Light_State
  imports Snapshots
begin

text \<open>
  \<^verbatim>\<open>src/state.rs\<close>: the IBFT consensus state and its operations. A method with \<^verbatim>\<open>&mut self\<close>
  returns its result together with the state it leaves behind, on errors too: an early
  return does not undo what the method has already written.
\<close>

record state =
  st_snapshot :: snapshot
  st_config :: state_config

abbreviation st_validators :: "state \<Rightarrow> validator list" where
  "st_validators st \<equiv> snap_validators (st_snapshot st)"

section \<open>Errors\<close>

definition stale_height_error :: kind where
  "stale_height_error = HeaderVerificationError
     ''header height should be greater than the last one stored in state''"

definition stale_timestamp_error :: kind where
  "stale_timestamp_error = HeaderVerificationError
     ''header timestamp should be greater than the last one stored in state''"

definition future_timestamp_error :: kind where
  "future_timestamp_error = HeaderVerificationError ''header timestamp is set too far in the future''"

definition combining_error :: kind where
  "combining_error = InvalidValidatorSetDiff ''error in combining addresses and public keys''"

definition removing_error :: kind where
  "removing_error = InvalidValidatorSetDiff ''error in removing the header's removed_validators''"

definition adding_error :: kind where
  "adding_error = InvalidValidatorSetDiff ''error in adding the header's added_validators''"

section \<open>Operations\<close>

definition state_new :: "snapshot \<Rightarrow> state_config \<Rightarrow> state" where
  "state_new snap cfg = \<lparr>st_snapshot = snap, st_config = cfg\<rparr>"

definition set_validators :: "state \<Rightarrow> validator list \<Rightarrow> state" where
  "set_validators st vs =
     st\<lparr>st_snapshot := (st_snapshot st)\<lparr>snap_validators := vs\<rparr>\<rparr>"

definition add_validators :: "state \<Rightarrow> validator list \<Rightarrow> bool \<times> state" where
  "add_validators st validators =
     (let new_address_map =
            fold (\<lambda>validator m. m(address validator \<mapsto> True)) validators Map.empty
      in if list_ex (\<lambda>v. new_address_map (address v) \<noteq> None) (st_validators st)
         then (False, st)
         else (True, set_validators st (st_validators st @ validators)))"

definition remove_validators ::
    "('pk, 'sig, 'z) crates_scheme \<Rightarrow> state \<Rightarrow> int \<Rightarrow> bool \<times> state" where
  "remove_validators L st removed =
     (if bi_bits L removed = 0 then (True, st)
      else if length (st_validators st) < bi_bits L removed then (False, st)
      else
        let filtered_validators =
              map (\<lambda>(i, v). v)
                (filter (\<lambda>(i, v). bi_bit L removed i = False)
                  (enumerate 0 (st_validators st)))
        in (True, set_validators st filtered_validators))"

definition verify_header_seal ::
    "('pk, 'sig, 'z) crates_scheme \<Rightarrow> state \<Rightarrow> header \<Rightarrow> (unit, kind) result" where
  "verify_header_seal L st h =
     and_then (header_hash L h) (\<lambda>hash.
     and_then (istanbul_extra_from_rlp L (extra h)) (\<lambda>ex.
       verify_aggregated_seal L hash (st_validators st) (aggregated_seal ex)))"

definition verify_header ::
    "('pk, 'sig, 'z) crates_scheme \<Rightarrow> state \<Rightarrow> header \<Rightarrow> u64 \<Rightarrow> (unit, kind) result" where
  "verify_header L st h current_timestamp =
     and_then (unwrap (bi_to_u64 L (number h))) (\<lambda>n.
     if \<not> n > snap_number (st_snapshot st)
     then Err stale_height_error
     else
     and_then
       (if verify_header_timestamp (st_config st)
        then if \<not> time h > snap_timestamp (st_snapshot st)
             then Err stale_timestamp_error
             else and_then (u64_add current_timestamp (allowed_clock_skew (st_config st))) (\<lambda>limit.
                    if time h > limit
                    then Err future_timestamp_error
                    else Ok ())
        else Ok ())
       (\<lambda>_. verify_header_seal L st h))"

definition update_state_snapshot :: "state \<Rightarrow> snapshot \<Rightarrow> (unit, kind) result \<times> state" where
  "update_state_snapshot st snap = (Ok (), st\<lparr>st_snapshot := snap\<rparr>)"

definition store_non_epoch_header ::
    "('pk, 'sig, 'z) crates_scheme \<Rightarrow> state \<Rightarrow> header \<Rightarrow> u64 \<Rightarrow> (unit, kind) result \<times> state" where
  "store_non_epoch_header L st h current_timestamp =
     try_state
       (if verify_non_epoch_headers (st_config st) \<and> \<not> bi_is_zero L (number h)
        then verify_header L st h current_timestamp else Ok ()) st (\<lambda>_.
     try_state (istanbul_extra_from_rlp L (extra h)) st (\<lambda>ex.
     try_state (unwrap (bi_to_u64 L (number h))) st (\<lambda>n.
     try_state (header_hash L h) st (\<lambda>hash.
       update_state_snapshot st
         \<lparr>snap_number = n,
          snap_timestamp = time h,
          snap_validators = st_validators st,
          snap_hash = hash,
          snap_aggregated_seal = aggregated_seal ex\<rparr>))))"

definition store_epoch_header ::
    "('pk, 'sig, 'z) crates_scheme \<Rightarrow> state \<Rightarrow> header \<Rightarrow> u64 \<Rightarrow> (unit, kind) result \<times> state" where
  "store_epoch_header L st h current_timestamp =
     try_state
       (if verify_epoch_headers (st_config st) \<and> \<not> bi_is_zero L (number h)
        then verify_header L st h current_timestamp else Ok ()) st (\<lambda>_.
     try_state (header_hash L h) st (\<lambda>hash.
     try_state (istanbul_extra_from_rlp L (extra h)) st (\<lambda>ex.
     if length (added_validators ex) \<noteq> length (added_validators_public_keys ex)
     then (Err combining_error, st)
     else
     let validators =
           map (\<lambda>i. \<lparr>address = added_validators ex ! i,
                     public_key = added_validators_public_keys ex ! i\<rparr>)
             [0..<length (added_validators ex)];
         (result_remove, st) = remove_validators L st (removed_validators ex)
     in if \<not> result_remove
        then (Err removing_error, st)
        else
        let (result_add, st) = add_validators st validators
        in if \<not> result_add
           then (Err adding_error, st)
           else
           try_state (unwrap (bi_to_u64 L (number h))) st (\<lambda>n.
             update_state_snapshot st
               \<lparr>snap_number = n,
                snap_timestamp = time h,
                snap_validators = st_validators st,
                snap_hash = hash,
                snap_aggregated_seal = aggregated_seal ex\<rparr>))))"

definition insert_header ::
    "('pk, 'sig, 'z) crates_scheme \<Rightarrow> state \<Rightarrow> header \<Rightarrow> u64 \<Rightarrow> (unit, kind) result \<times> state" where
  "insert_header L st h current_timestamp =
     try_state (unwrap (bi_to_u64 L (number h))) st (\<lambda>block_num.
     try_state (is_last_block_of_epoch block_num (epoch_size (st_config st))) st (\<lambda>last.
     if last then store_epoch_header L st h current_timestamp
     else store_non_epoch_header L st h current_timestamp))"

section \<open>The validator set diff\<close>

text \<open>
  What a header's diff does to the validator set: the members whose bit is not set in the
  removal bitmap stay, in their order, and the added ones are appended.
\<close>

definition survivors ::
    "('pk, 'sig, 'z) crates_scheme \<Rightarrow> int \<Rightarrow> validator list \<Rightarrow> validator list" where
  "survivors L removed vs =
     map snd (filter (\<lambda>(i, _). \<not> bi_bit L removed i) (enumerate 0 vs))"

definition new_validators :: "istanbul_extra \<Rightarrow> validator list" where
  "new_validators ex = map2 (\<lambda>a k. \<lparr>address = a, public_key = k\<rparr>)
     (added_validators ex) (added_validators_public_keys ex)"

definition next_validators ::
    "('pk, 'sig, 'z) crates_scheme \<Rightarrow> validator list \<Rightarrow> istanbul_extra \<Rightarrow> validator list option" where
  "next_validators L vs ex =
     (if length (added_validators ex) = length (added_validators_public_keys ex) \<and>
         bi_bits L (removed_validators ex) \<le> length vs \<and>
         address ` set (survivors L (removed_validators ex) vs) \<inter> address ` set (new_validators ex) = {}
      then Some (survivors L (removed_validators ex) vs @ new_validators ex) else None)"

lemma set_survivors_subset: "set (survivors L r vs) \<subseteq> set vs"
  unfolding survivors_def by (rule enumerate_filter_map_snd_subset)

lemma distinct_survivors: "distinct (map f vs) \<Longrightarrow> distinct (map f (survivors L r vs))"
  unfolding survivors_def by (rule distinct_map_filter_enumerate)

lemma new_validators_index:
  "length (added_validators ex) = length (added_validators_public_keys ex) \<Longrightarrow>
     map (\<lambda>i. \<lparr>address = added_validators ex ! i, public_key = added_validators_public_keys ex ! i\<rparr>)
       [0..<length (added_validators_public_keys ex)] = new_validators ex"
  by (rule nth_equalityI) (simp_all add: new_validators_def)

lemma address_new_validators:
  "length (added_validators ex) = length (added_validators_public_keys ex) \<Longrightarrow>
     map address (new_validators ex) = added_validators ex"
  by (rule nth_equalityI) (simp_all add: new_validators_def)

lemma st_validators_set [simp]: "st_validators (set_validators st vs) = vs"
  by (simp add: set_validators_def)

lemma st_config_set [simp]: "st_config (set_validators st vs) = st_config st"
  by (simp add: set_validators_def)

lemma set_validators_same [simp]: "set_validators st (st_validators st) = st"
  by (simp add: set_validators_def)

lemma set_validators_twice [simp]: "set_validators (set_validators st vs) ws = set_validators st ws"
  by (simp add: set_validators_def)

lemma set_validators_snapshot [simp]:
  "(set_validators st vs)\<lparr>st_snapshot := s\<rparr> = st\<lparr>st_snapshot := s\<rparr>"
  by (simp add: set_validators_def)

lemma address_map_lookup:
  "fold (\<lambda>v m. m(address v \<mapsto> True)) vs m a =
     (if a \<in> address ` set vs then Some True else m a)"
  by (induction vs arbitrary: m) auto

lemma add_validators_eq:
  "add_validators st vs =
     (if address ` set (st_validators st) \<inter> address ` set vs = {}
      then (True, set_validators st (st_validators st @ vs)) else (False, st))"
  by (auto simp: add_validators_def Let_def address_map_lookup list_ex_iff)

context library_crates
begin

lemma survivors_zero: "survivors L 0 vs = vs"
proof -
  have "filter (\<lambda>(i, _). \<not> bi_bit L 0 i) (enumerate 0 vs) = enumerate 0 vs"
    by (simp add: bit_eq)
  then show ?thesis by (simp add: survivors_def)
qed

lemma remove_validators_eq:
  "remove_validators L st removed =
     (if bi_bits L removed \<le> length (st_validators st)
      then (True, set_validators st (survivors L removed (st_validators st))) else (False, st))"
proof (cases "bi_bits L removed = 0")
  case True
  then have "removed = 0" by (simp add: bits_zero)
  with True show ?thesis by (simp add: remove_validators_def survivors_zero)
next
  case False
  have snd: "(\<lambda>(i::nat, v::validator). v) = snd" by auto
  from False show ?thesis
    by (simp add: remove_validators_def survivors_def snd)
qed

end

text \<open>
  Outcome of \<open>insert_header\<close>, stated with the diff: the header is checked, decoded and hashed,
  and the snapshot is replaced as a whole.
\<close>

definition snapshot_of :: "u64 \<Rightarrow> header \<Rightarrow> hash \<Rightarrow> istanbul_extra \<Rightarrow> validator list \<Rightarrow> snapshot" where
  "snapshot_of n h hsh ex vs =
     \<lparr>snap_number = n, snap_timestamp = time h, snap_validators = vs, snap_hash = hsh,
      snap_aggregated_seal = aggregated_seal ex\<rparr>"

definition checks_header :: "('pk, 'sig, 'z) crates_scheme \<Rightarrow> state_config \<Rightarrow> header \<Rightarrow> bool \<Rightarrow> bool" where
  "checks_header L cfg h is_epoch \<longleftrightarrow>
     (if is_epoch then verify_epoch_headers cfg else verify_non_epoch_headers cfg) \<and>
     \<not> bi_is_zero L (number h)"

context library_crates
begin

lemma store_non_epoch_header_eq:
  "store_non_epoch_header L st h now =
     try_state (if checks_header L (st_config st) h False then verify_header L st h now else Ok ()) st (\<lambda>_.
     try_state (istanbul_extra_from_rlp L (extra h)) st (\<lambda>ex.
     try_state (unwrap (bi_to_u64 L (number h))) st (\<lambda>n.
     try_state (header_hash L h) st (\<lambda>hsh.
       (Ok (), st\<lparr>st_snapshot := snapshot_of n h hsh ex (st_validators st)\<rparr>)))))"
  by (simp add: store_non_epoch_header_def checks_header_def update_state_snapshot_def snapshot_of_def)

lemma store_epoch_header_eq:
  "store_epoch_header L st h now =
     try_state (if checks_header L (st_config st) h True then verify_header L st h now else Ok ()) st (\<lambda>_.
     try_state (header_hash L h) st (\<lambda>hsh.
     try_state (istanbul_extra_from_rlp L (extra h)) st (\<lambda>ex.
       if length (added_validators ex) \<noteq> length (added_validators_public_keys ex)
       then (Err combining_error, st)
       else if length (st_validators st) < bi_bits L (removed_validators ex)
       then (Err removing_error, st)
       else case next_validators L (st_validators st) ex of
         None \<Rightarrow> (Err adding_error,
                  set_validators st (survivors L (removed_validators ex) (st_validators st)))
       | Some vs \<Rightarrow> try_state (unwrap (bi_to_u64 L (number h))) (set_validators st vs) (\<lambda>n.
           (Ok (), st\<lparr>st_snapshot := snapshot_of n h hsh ex vs\<rparr>)))))"
proof -
  note ops = remove_validators_eq add_validators_eq next_validators_def new_validators_index
  show ?thesis
    unfolding store_epoch_header_def checks_header_def if_True
    apply (rule arg_cong [where f = "try_state _ _"], rule ext)+
    subgoal for _ hsh ex
      by (cases "length (added_validators ex) = length (added_validators_public_keys ex)";
          cases "length (st_validators st) < bi_bits L (removed_validators ex)")
        (simp_all add: ops Let_def update_state_snapshot_def snapshot_of_def not_less)
    done
qed

end

end
