(* ===== verification/Light_Safety.thy ===== *)
theory Light_Safety
  imports Light_State
begin

text \<open>
  What the operations of \<open>Light_State\<close> guarantee: when a header is accepted and what the
  state is afterwards, what an error leaves behind, and the invariants of the state.
\<close>

section \<open>Accepted headers\<close>

lemma next_validators_Some:
  "next_validators L vs ex = Some ws \<Longrightarrow>
     length (added_validators ex) = length (added_validators_public_keys ex) \<and>
     bi_bits L (removed_validators ex) \<le> length vs \<and>
     ws = survivors L (removed_validators ex) vs @ new_validators ex \<and>
     address ` set (survivors L (removed_validators ex) vs) \<inter> address ` set (new_validators ex) = {}"
  by (simp add: next_validators_def split: if_splits)

text \<open>Abstract transition: from a snapshot, a header that passes the checks makes the next one.\<close>

definition header_transition ::
    "('pk, 'sig, 'z) crates_scheme \<Rightarrow> state \<Rightarrow> header \<Rightarrow> u64 \<Rightarrow> state \<Rightarrow> bool" where
  "header_transition L st h now st' \<longleftrightarrow>
     (\<exists>n last hsh ex vs.
        bi_to_u64 L (number h) = Some n \<and>
        is_last_block_of_epoch n (epoch_size (st_config st)) = Ok last \<and>
        (checks_header L (st_config st) h last \<longrightarrow> verify_header L st h now = Ok ()) \<and>
        header_hash L h = Ok hsh \<and>
        istanbul_extra_from_rlp L (extra h) = Ok ex \<and>
        (if last then next_validators L (st_validators st) ex = Some vs
         else vs = st_validators st) \<and>
        st' = st\<lparr>st_snapshot := snapshot_of n h hsh ex vs\<rparr>)"

lemma if_unit_Ok: "(if b then m else Ok ()) = Ok u \<longleftrightarrow> (b \<longrightarrow> m = Ok ())"
  by simp

context library_crates
begin

lemma store_non_epoch_header_Ok:
  "store_non_epoch_header L st h now = (Ok (), st') \<longleftrightarrow>
     (\<exists>n hsh ex. (checks_header L (st_config st) h False \<longrightarrow> verify_header L st h now = Ok ()) \<and>
        istanbul_extra_from_rlp L (extra h) = Ok ex \<and> bi_to_u64 L (number h) = Some n \<and>
        header_hash L h = Ok hsh \<and>
        st' = st\<lparr>st_snapshot := snapshot_of n h hsh ex (st_validators st)\<rparr>)"
  unfolding store_non_epoch_header_eq by (auto simp: try_state_eq_Ok if_unit_Ok unwrap_eq_Ok)

lemma store_epoch_header_Ok:
  "store_epoch_header L st h now = (Ok (), st') \<longleftrightarrow>
     (\<exists>n hsh ex vs. (checks_header L (st_config st) h True \<longrightarrow> verify_header L st h now = Ok ()) \<and>
        header_hash L h = Ok hsh \<and> istanbul_extra_from_rlp L (extra h) = Ok ex \<and>
        next_validators L (st_validators st) ex = Some vs \<and> bi_to_u64 L (number h) = Some n \<and>
        st' = st\<lparr>st_snapshot := snapshot_of n h hsh ex vs\<rparr>)"
proof
  assume "store_epoch_header L st h now = (Ok (), st')"
  then show "\<exists>n hsh ex vs. (checks_header L (st_config st) h True \<longrightarrow> verify_header L st h now = Ok ()) \<and>
      header_hash L h = Ok hsh \<and> istanbul_extra_from_rlp L (extra h) = Ok ex \<and>
      next_validators L (st_validators st) ex = Some vs \<and> bi_to_u64 L (number h) = Some n \<and>
      st' = st\<lparr>st_snapshot := snapshot_of n h hsh ex vs\<rparr>"
    unfolding store_epoch_header_eq
    by (auto simp: try_state_eq_Ok if_unit_Ok unwrap_eq_Ok split: if_splits option.splits)
next
  assume "\<exists>n hsh ex vs. (checks_header L (st_config st) h True \<longrightarrow> verify_header L st h now = Ok ()) \<and>
      header_hash L h = Ok hsh \<and> istanbul_extra_from_rlp L (extra h) = Ok ex \<and>
      next_validators L (st_validators st) ex = Some vs \<and> bi_to_u64 L (number h) = Some n \<and>
      st' = st\<lparr>st_snapshot := snapshot_of n h hsh ex vs\<rparr>"
  then obtain n hsh ex vs where
    "checks_header L (st_config st) h True \<longrightarrow> verify_header L st h now = Ok ()"
    "header_hash L h = Ok hsh" "istanbul_extra_from_rlp L (extra h) = Ok ex"
    and vs: "next_validators L (st_validators st) ex = Some vs"
    and "bi_to_u64 L (number h) = Some n" "st' = st\<lparr>st_snapshot := snapshot_of n h hsh ex vs\<rparr>"
    by blast
  with next_validators_Some [OF vs] show "store_epoch_header L st h now = (Ok (), st')"
    by (simp add: store_epoch_header_eq)
qed

lemma insert_header_Ok:
  "insert_header L st h now = (Ok (), st') \<longleftrightarrow> header_transition L st h now st'"
proof -
  have "insert_header L st h now = (Ok (), st') \<longleftrightarrow>
      (\<exists>n last. bi_to_u64 L (number h) = Some n \<and>
         is_last_block_of_epoch n (epoch_size (st_config st)) = Ok last \<and>
         (if last then store_epoch_header L st h now = (Ok (), st')
          else store_non_epoch_header L st h now = (Ok (), st')))"
    by (auto simp: insert_header_def try_state_eq_Ok unwrap_eq_Ok)
  also have "\<dots> \<longleftrightarrow> header_transition L st h now st'"
    unfolding store_epoch_header_Ok store_non_epoch_header_Ok header_transition_def
    by (intro iff_exI) auto
  finally show ?thesis .
qed

lemma insert_header_config:
  "insert_header L st h now = (Ok (), st') \<Longrightarrow> st_config st' = st_config st"
  by (auto simp: insert_header_Ok header_transition_def)

end

lemma header_transition_snapshot:
  "header_transition L st h now st' \<Longrightarrow> bi_to_u64 L (number h) = Some (snap_number (st_snapshot st')) \<and>
     snap_timestamp (st_snapshot st') = time h \<and>
     header_hash L h = Ok (snap_hash (st_snapshot st'))"
  by (auto simp: header_transition_def snapshot_of_def)

lemma verify_header_Ok_iff:
  "verify_header L st h now = Ok () \<longleftrightarrow>
     (\<exists>n. bi_to_u64 L (number h) = Some n \<and> snap_number (st_snapshot st) < n) \<and>
     (verify_header_timestamp (st_config st) \<longrightarrow>
        snap_timestamp (st_snapshot st) < time h \<and>
        unat (time h) \<le> unat now + unat (allowed_clock_skew (st_config st)) \<and>
        unat now + unat (allowed_clock_skew (st_config st)) < 2 ^ 64) \<and>
     (\<exists>hsh ex. header_hash L h = Ok hsh \<and> istanbul_extra_from_rlp L (extra h) = Ok ex \<and>
        verify_aggregated_seal L hsh (st_validators st) (aggregated_seal ex) = Ok ())"
proof -
  have skew: "a + b < t \<longleftrightarrow> unat a + unat b < unat t"
    if "unat a + unat b < 2 ^ 64" for a b t :: u64
    using unat_add_u64 [OF that] by (simp add: word_less_nat_alt)
  show ?thesis
    unfolding verify_header_def verify_header_seal_def
    by (auto simp: and_then_eq_Ok unwrap_eq_Ok u64_add_eq_Ok skew split: if_splits)
qed

section \<open>Properties of an accepted header\<close>

lemma header_sealed:
  assumes "library_crates L" and acc: "insert_header L st h now = (Ok (), st')"
    and flags: "verify_epoch_headers (st_config st)" "verify_non_epoch_headers (st_config st)"
    and "number h \<noteq> 0"
  shows "quorum_sealed L (st_validators st) (snap_hash (st_snapshot st'))
           (snap_aggregated_seal (st_snapshot st')) \<and>
         header_hash L h = Ok (snap_hash (st_snapshot st')) \<and>
         snap_number (st_snapshot st) < snap_number (st_snapshot st') \<and>
         number h = uint (snap_number (st_snapshot st')) \<and>
         snap_timestamp (st_snapshot st') = time h \<and>
         (verify_header_timestamp (st_config st) \<longrightarrow>
            snap_timestamp (st_snapshot st) < time h \<and>
            unat (time h) \<le> unat now + unat (allowed_clock_skew (st_config st)))"
proof -
  obtain n last hsh ex vs where t: "bi_to_u64 L (number h) = Some n"
    "checks_header L (st_config st) h last \<longrightarrow> verify_header L st h now = Ok ()"
    "header_hash L h = Ok hsh" "istanbul_extra_from_rlp L (extra h) = Ok ex"
    "st' = st\<lparr>st_snapshot := snapshot_of n h hsh ex vs\<rparr>"
    using library_crates.insert_header_Ok [OF assms(1)] acc
    unfolding header_transition_def by blast
  have big: "num_bigint L" using assms(1) by (simp add: library_crates_def)
  have n: "number h = uint n"
    using t(1) num_bigint.to_u64_eq [OF big, of "number h"]
    by (auto split: if_splits simp: uint_word_of_int_eq take_bit_int_eq_self)
  have "checks_header L (st_config st) h last"
    using flags assms(5) by (simp add: checks_header_def num_bigint.is_zero_eq [OF big])
  with t(2) have "verify_header L st h now = Ok ()" by blast
  then show ?thesis
    using t n by (auto simp: verify_header_Ok_iff verify_aggregated_seal_Ok_iff snapshot_of_def)
qed

text \<open>C1: nothing unsealed is accepted: with verification enabled, every header except one numbered
  zero that \<^verbatim>\<open>insert_header\<close> accepts carries a seal by two thirds of the validator set known
  before it, over its own hash; its number is larger than the stored one, its timestamp is
  larger than the stored one and not beyond the clock skew when timestamps are checked, and
  number, time, hash and seal of the new snapshot are the header's. \<close>

theorem accepted_header_is_sealed:
  assumes "library_crates L" and acc: "insert_header L st h now = (Ok (), st')"
    and flags: "verify_epoch_headers (st_config st)" "verify_non_epoch_headers (st_config st)"
    and "number h \<noteq> 0"
  shows "quorum_sealed L (st_validators st) (snap_hash (st_snapshot st'))
           (snap_aggregated_seal (st_snapshot st')) \<and>
         header_hash L h = Ok (snap_hash (st_snapshot st')) \<and>
         snap_number (st_snapshot st) < snap_number (st_snapshot st') \<and>
         number h = uint (snap_number (st_snapshot st')) \<and>
         snap_timestamp (st_snapshot st') = time h \<and>
         (verify_header_timestamp (st_config st) \<longrightarrow>
            snap_timestamp (st_snapshot st) < time h \<and>
            unat (time h) \<le> unat now + unat (allowed_clock_skew (st_config st)))"
  using assms by (rule header_sealed)

lemma sample_library: "library_crates ref_crates"
  by unfold_locales

definition sample_config :: state_config where
  "sample_config = \<lparr>epoch_size = 17280, allowed_clock_skew = 5, verify_epoch_headers = True,
     verify_non_epoch_headers = True, verify_header_timestamp = True\<rparr>"

definition sample_state :: state where
  "sample_state = state_new sample_snapshot sample_config"

text \<open>An epoch header that removes the first of four validators and adds a fifth one.\<close>

definition epoch_extra :: istanbul_extra where
  "epoch_extra = sample_extra\<lparr>added_validators := [replicate 20 5],
     added_validators_public_keys := [replicate 96 5], removed_validators := 1,
     aggregated_seal := \<lparr>seal_bitmap = 14, seal_signature = ref_signature, seal_round = 0\<rparr>\<rparr>"

definition header_with :: "int \<Rightarrow> istanbul_extra \<Rightarrow> header" where
  "header_with n ex = header_new\<lparr>number := n, time := 1600000000,
     extra := istanbul_extra_to_rlp ref_crates ex (replicate 32 0)\<rparr>"

lemma sample_extra_fields:
  "wf_extra (sample_extra\<lparr>added_validators := avs, added_validators_public_keys := pks,
     removed_validators := r, aggregated_seal := s\<rparr>) \<longleftrightarrow>
     list_all (\<lambda>a. length a = 20) avs \<and> list_all (\<lambda>k. length k = 96) pks \<and> 0 \<le> r \<and> wf_seal s"
  by (simp add: sample_extra_def wf_extra_def wf_seal_def istanbul_aggregated_seal_new_def)

lemma epoch_extra_wf: "wf_extra epoch_extra"
  unfolding epoch_extra_def sample_extra_fields by (simp add: wf_seal_def)

lemma epoch_extra_small: "rlp_size (extra_item ref_crates epoch_extra) < 900"
  by (simp add: epoch_extra_def sample_extra_def extra_item_def seal_item_def
      big_int_to_rlp_compat_bytes_def istanbul_aggregated_seal_new_def ref_signature_def be_bytes.simps)

lemma epoch_extra_fits: "rlp_fits (extra_item ref_crates epoch_extra)"
  using epoch_extra_small by (simp add: rlp_fits_def usize_bits_def)

lemma header_with_length:
  assumes "rlp_size (extra_item ref_crates ex) < 900"
  shows "length (extra (header_with n ex)) < 1000"
proof -
  have "length (ref_enc (extra_item ref_crates ex)) \<le> rlp_size (extra_item ref_crates ex)"
    using assms by (intro length_ref_enc) simp
  with assms show ?thesis
    by (simp add: header_with_def istanbul_extra_to_rlp_def extra_append_item)
qed

lemma header_with_fits:
  assumes "rlp_size (extra_item ref_crates ex) < 900"
  shows "rlp_fits (header_item ref_crates (header_with 17280 ex))"
  using header_with_length [OF assms, of 17280]
  by (simp add: header_item_def rlp_fits_def usize_bits_def header_with_def header_new_def
      bloom_default_def big_int_to_rlp_compat_bytes_def be_bytes.simps)

lemma header_with_decodes:
  assumes "wf_extra ex" and "rlp_fits (extra_item ref_crates ex)"
  shows "istanbul_extra_from_rlp ref_crates (extra (header_with n ex)) = Ok ex"
    and "\<exists>hsh. header_hash ref_crates (header_with n ex) = Ok hsh"
  using ref.istanbul_extra_from_to [OF assms, of "replicate 32 0"]
    ref.header_hash_istanbul [OF assms, of "replicate 32 0"]
  by (simp_all add: header_with_def)

lemma epoch_extra_seal:
  "verify_aggregated_seal ref_crates hsh sample_validators (aggregated_seal epoch_extra) = Ok ()"
  using sample_seal_ok [of 14 hsh] by (simp add: epoch_extra_def)

lemma sample_survivors:
  "survivors ref_crates 1 sample_validators = tl sample_validators"
  by (simp add: survivors_def sample_validators_def bit_1_iff)

lemma epoch_extra_next:
  "\<exists>vs. next_validators ref_crates sample_validators epoch_extra = Some vs"
  by (simp add: next_validators_def epoch_extra_def sample_extra_def sample_survivors
      new_validators_def nat_bits.simps)
    (simp add: sample_validators_def)

text \<open>Any header of that block with that extra data, whatever its other fields, is accepted.\<close>

lemma epoch_header_inserted:
  assumes "extra h = extra (header_with 17280 epoch_extra)" and "number h = 17280" and "time h = 1600000000"
  shows "\<exists>hsh vs. header_hash ref_crates h = Ok hsh \<and>
    next_validators ref_crates sample_validators epoch_extra = Some vs \<and>
    insert_header ref_crates sample_state h 1600000000 =
      (Ok (), sample_state\<lparr>st_snapshot := snapshot_of 17280 h hsh epoch_extra vs\<rparr>)"
proof -
  have "h\<lparr>extra := istanbul_extra_to_rlp ref_crates epoch_extra (replicate 32 0)\<rparr> = h"
    using assms(1) by (simp add: header_with_def)
  then obtain hsh where hsh: "header_hash ref_crates h = Ok hsh"
    using ref.header_hash_istanbul [OF epoch_extra_wf epoch_extra_fits, of "replicate 32 0" h] by simp
  have ex: "istanbul_extra_from_rlp ref_crates (extra h) = Ok epoch_extra"
    using header_with_decodes(1) [OF epoch_extra_wf epoch_extra_fits, of 17280] assms(1) by simp
  obtain vs where vs: "next_validators ref_crates sample_validators epoch_extra = Some vs"
    using epoch_extra_next by blast
  have "verify_header ref_crates sample_state h 1600000000 = Ok ()"
    unfolding verify_header_Ok_iff
    using hsh ex assms(2,3) epoch_extra_seal
    by (simp add: sample_state_def state_new_def sample_snapshot_def sample_config_def)
  then have "header_transition ref_crates sample_state h 1600000000
      (sample_state\<lparr>st_snapshot := snapshot_of 17280 h hsh epoch_extra vs\<rparr>)"
    unfolding header_transition_def
    using hsh ex assms(2) vs
    by (intro exI [of _ 17280] exI [of _ True] exI [of _ hsh] exI [of _ epoch_extra] exI [of _ vs])
      (simp add: is_last_block_of_epoch_eq sample_state_def state_new_def sample_snapshot_def
        sample_config_def)
  with hsh vs show ?thesis unfolding ref.insert_header_Ok [symmetric] by blast
qed

lemma epoch_header_fields:
  "number (header_with 17280 epoch_extra) = 17280" "time (header_with 17280 epoch_extra) = 1600000000"
  by (simp_all add: header_with_def)

lemma epoch_header_accepted:
  "\<exists>st'. insert_header ref_crates sample_state (header_with 17280 epoch_extra) 1600000000 = (Ok (), st')"
  using epoch_header_inserted [OF refl epoch_header_fields] by blast

theorem accepted_header_is_sealed_witness:
  "\<exists>st'. insert_header ref_crates sample_state (header_with 17280 epoch_extra) 1600000000 = (Ok (), st') \<and>
     quorum_sealed ref_crates sample_validators (snap_hash (st_snapshot st'))
       (snap_aggregated_seal (st_snapshot st'))"
proof -
  obtain st' where acc:
    "insert_header ref_crates sample_state (header_with 17280 epoch_extra) 1600000000 = (Ok (), st')"
    using epoch_header_accepted by blast
  from accepted_header_is_sealed [OF sample_library acc] show ?thesis
    using acc by (simp add: sample_state_def state_new_def sample_config_def sample_snapshot_def
        header_with_def)
qed

text \<open>C12: how the validator set moves: an accepted last block of an epoch removes exactly the
  members marked in its removal bitmap, keeps the order of the others and appends the
  added ones, none of whose addresses is still in the set; any other accepted block
  leaves the set alone. Addresses stay pairwise distinct if the header does not add one
  twice. \<close>

theorem validator_set_transition:
  assumes "library_crates L" and acc: "insert_header L st h now = (Ok (), st')"
  shows "\<exists>ex last. istanbul_extra_from_rlp L (extra h) = Ok ex \<and>
     is_last_block_of_epoch (snap_number (st_snapshot st')) (epoch_size (st_config st)) = Ok last \<and>
     (\<not> last \<longrightarrow> st_validators st' = st_validators st) \<and>
     (last \<longrightarrow> st_validators st' =
        survivors L (removed_validators ex) (st_validators st) @ new_validators ex \<and>
        map address (new_validators ex) = added_validators ex \<and>
        set (added_validators ex) \<inter>
          address ` set (survivors L (removed_validators ex) (st_validators st)) = {} \<and>
        (distinct (map address (st_validators st)) \<and> distinct (added_validators ex) \<longrightarrow>
           distinct (map address (st_validators st'))))"
proof -
  obtain n last hsh ex vs where t:
    "is_last_block_of_epoch n (epoch_size (st_config st)) = Ok last"
    "istanbul_extra_from_rlp L (extra h) = Ok ex"
    "if last then next_validators L (st_validators st) ex = Some vs else vs = st_validators st"
    "st' = st\<lparr>st_snapshot := snapshot_of n h hsh ex vs\<rparr>"
    using library_crates.insert_header_Ok [OF assms(1)] acc
    unfolding header_transition_def by blast
  show ?thesis
  proof (intro exI conjI impI)
    show "is_last_block_of_epoch (snap_number (st_snapshot st')) (epoch_size (st_config st)) = Ok last"
      "istanbul_extra_from_rlp L (extra h) = Ok ex"
      using t by (simp_all add: snapshot_of_def)
    show "st_validators st' = st_validators st" if "\<not> last"
      using t that by (simp add: snapshot_of_def)
    assume last
    with t(3) have vs: "next_validators L (st_validators st) ex = Some vs" by simp
    note nv = next_validators_Some [OF vs]
    show st': "st_validators st' =
        survivors L (removed_validators ex) (st_validators st) @ new_validators ex"
      using t(4) nv by (simp add: snapshot_of_def)
    show new: "map address (new_validators ex) = added_validators ex"
      using nv by (simp add: address_new_validators)
    show disj: "set (added_validators ex) \<inter>
        address ` set (survivors L (removed_validators ex) (st_validators st)) = {}"
      using nv unfolding new [symmetric] by auto
    assume "distinct (map address (st_validators st)) \<and> distinct (added_validators ex)"
    then show "distinct (map address (st_validators st'))"
      using disj unfolding st' by (auto simp: new distinct_survivors)
  qed
qed

theorem validator_set_transition_witness:
  "\<exists>st'. insert_header ref_crates sample_state (header_with 17280 epoch_extra) 1600000000 = (Ok (), st') \<and>
     (\<exists>ex last. istanbul_extra_from_rlp ref_crates (extra (header_with 17280 epoch_extra)) = Ok ex \<and>
        (last \<longrightarrow> st_validators st' =
           survivors ref_crates (removed_validators ex) sample_validators @ new_validators ex))"
proof -
  obtain st' where acc:
    "insert_header ref_crates sample_state (header_with 17280 epoch_extra) 1600000000 = (Ok (), st')"
    using epoch_header_accepted by blast
  from validator_set_transition [OF sample_library acc] acc show ?thesis
    by (auto simp: sample_state_def state_new_def sample_snapshot_def)
qed

text \<open>C14: the genesis exemption is not limited to genesis: a header numbered zero that decodes and
  whose diff is applicable is accepted in every state, at every time and with every
  configuration of non-zero epoch size, without its seal being looked at: it rolls the
  stored height back to zero and rewrites the validator set. \<close>

theorem header_numbered_zero_is_never_verified:
  assumes "library_crates L" and "number h = 0" and "epoch_size (st_config st) \<noteq> 0"
    and "header_hash L h = Ok hsh" and "istanbul_extra_from_rlp L (extra h) = Ok ex"
    and "next_validators L (st_validators st) ex = Some vs"
  shows "insert_header L st h now = (Ok (), st\<lparr>st_snapshot := snapshot_of 0 h hsh ex vs\<rparr>)"
proof -
  have big: "num_bigint L" using assms(1) by (simp add: library_crates_def)
  have "bi_to_u64 L (number h) = Some 0"
    using assms(2) by (simp add: num_bigint.to_u64_eq [OF big])
  moreover have "is_last_block_of_epoch 0 (epoch_size (st_config st)) = Ok True"
    using assms(3) by (simp add: is_last_block_of_epoch_eq)
  moreover have "\<not> checks_header L (st_config st) h True"
    using assms(2) by (simp add: checks_header_def num_bigint.is_zero_eq [OF big])
  ultimately have "header_transition L st h now (st\<lparr>st_snapshot := snapshot_of 0 h hsh ex vs\<rparr>)"
    unfolding header_transition_def using assms(4-6) by fastforce
  then show ?thesis using library_crates.insert_header_Ok [OF assms(1)] by blast
qed

text \<open>A header that carries no seal at all and replaces the whole validator set.\<close>

definition forged_extra :: istanbul_extra where
  "forged_extra = sample_extra\<lparr>added_validators := [replicate 20 66],
     added_validators_public_keys := [replicate 96 66], removed_validators := 15,
     aggregated_seal := istanbul_aggregated_seal_new\<rparr>"

lemma forged_extra_wf: "wf_extra forged_extra"
  unfolding forged_extra_def sample_extra_fields by simp

lemma forged_extra_fits: "rlp_fits (extra_item ref_crates forged_extra)"
  by (simp add: forged_extra_def sample_extra_def extra_item_def seal_item_def rlp_fits_def
      usize_bits_def big_int_to_rlp_compat_bytes_def istanbul_aggregated_seal_new_def
      be_bytes.simps)

lemma forged_extra_next:
  "next_validators ref_crates sample_validators forged_extra =
     Some [\<lparr>address = replicate 20 66, public_key = replicate 96 66\<rparr>]"
proof -
  have "survivors ref_crates 15 sample_validators = []"
    by (simp add: survivors_def sample_validators_def bit_iff_odd)
  then show ?thesis
    by (simp add: next_validators_def forged_extra_def sample_extra_def new_validators_def
        nat_bits.simps)
      (simp add: sample_validators_def)
qed

theorem header_numbered_zero_is_never_verified_witness:
  "\<exists>st'. insert_header ref_crates sample_state (header_with 0 forged_extra) 0 = (Ok (), st') \<and>
     snap_number (st_snapshot sample_state) = 17279 \<and> snap_number (st_snapshot st') = 0 \<and>
     st_validators st' = [\<lparr>address = replicate 20 66, public_key = replicate 96 66\<rparr>] \<and>
     (\<forall>hsh. verify_aggregated_seal ref_crates hsh (st_validators sample_state)
              (aggregated_seal forged_extra) = Err (MissingSeals 0 3))"
proof -
  obtain hsh where hsh: "header_hash ref_crates (header_with 0 forged_extra) = Ok hsh"
    using header_with_decodes(2) [OF forged_extra_wf forged_extra_fits] by blast
  have next_vs: "next_validators ref_crates (st_validators sample_state) forged_extra =
      Some [\<lparr>address = replicate 20 66, public_key = replicate 96 66\<rparr>]"
    using forged_extra_next by (simp add: sample_state_def state_new_def sample_snapshot_def)
  have "verify_aggregated_seal ref_crates hsh (st_validators sample_state)
      (aggregated_seal forged_extra) = Err (MissingSeals 0 3)" for hsh
    by (simp add: verify_aggregated_seal_def sample_state_def state_new_def sample_snapshot_def
        sample_validators_def forged_extra_def istanbul_aggregated_seal_new_def Let_def
        min_quorum_size_eq usize_bits_def)
  moreover have "insert_header ref_crates sample_state (header_with 0 forged_extra) 0 =
      (Ok (), sample_state\<lparr>st_snapshot := snapshot_of 0 (header_with 0 forged_extra) hsh forged_extra
         [\<lparr>address = replicate 20 66, public_key = replicate 96 66\<rparr>]\<rparr>)"
    by (rule header_numbered_zero_is_never_verified [OF sample_library _ _ hsh
          header_with_decodes(1) [OF forged_extra_wf forged_extra_fits] next_vs])
      (simp_all add: header_with_def sample_state_def state_new_def sample_config_def)
  ultimately show ?thesis
    by (simp add: snapshot_of_def) (simp add: sample_state_def state_new_def sample_snapshot_def)
qed

section \<open>Rejected headers\<close>

text \<open>Nothing but the application of a diff reports an invalid diff.\<close>

lemma arithmetic_no_error:
  "slice_to b n \<noteq> Err e" "slice_from b n \<noteq> Err e" "u64_add i j \<noteq> Err e" "min_quorum_size n \<noteq> Err f"
  "unwrap x \<noteq> Err g"
  by (cases x; simp add: slice_to_def slice_from_def u64_add_def min_quorum_size_def usize_mul_def
      usize_sub_def usize_add_def)+

lemma keys_no_diff_error:
  "collect (\<lambda>(i, v). deserialize_pub_key L (public_key v)) vs \<noteq> Err (InvalidValidatorSetDiff t)"
  by (induction vs) (auto simp: and_then_eq_Err deserialize_pub_key_def ok_or_eq_Err)

lemma hash_no_diff_error: "header_hash L h \<noteq> Err (InvalidValidatorSetDiff t)"
  by (auto simp: header_hash_def rlp_hash_def and_then_eq_Err slice_as_array_ref_def arithmetic_no_error
      let_result_def split: result.splits)

lemma extra_no_diff_error: "istanbul_extra_from_rlp L b \<noteq> Err (InvalidValidatorSetDiff t)"
  by (auto simp: istanbul_extra_from_rlp_def and_then_eq_Err map_err_eq_Err arithmetic_no_error)

lemma seal_no_diff_error: "verify_aggregated_seal L hsh vs s \<noteq> Err (InvalidValidatorSetDiff t)"
  by (auto simp: verify_aggregated_seal_def Let_def and_then_eq_Err ok_or_eq_Err arithmetic_no_error
      keys_no_diff_error deserialize_signature_def)

lemma verify_no_diff_error: "verify_header L st h now \<noteq> Err (InvalidValidatorSetDiff t)"
  by (auto simp: verify_header_def verify_header_seal_def and_then_eq_Err arithmetic_no_error
      hash_no_diff_error extra_no_diff_error seal_no_diff_error stale_height_error_def
      stale_timestamp_error_def future_timestamp_error_def)

lemmas no_diff_error = hash_no_diff_error extra_no_diff_error verify_no_diff_error

text \<open>The diff of an epoch header that passes all checks but whose additions clash.\<close>

definition clashing_diff ::
    "('pk, 'sig, 'z) crates_scheme \<Rightarrow> state \<Rightarrow> header \<Rightarrow> u64 \<Rightarrow> istanbul_extra \<Rightarrow> bool" where
  "clashing_diff L st h now ex \<longleftrightarrow>
     (\<exists>n hsh. bi_to_u64 L (number h) = Some n \<and>
        is_last_block_of_epoch n (epoch_size (st_config st)) = Ok True \<and>
        (checks_header L (st_config st) h True \<longrightarrow> verify_header L st h now = Ok ()) \<and>
        header_hash L h = Ok hsh \<and> istanbul_extra_from_rlp L (extra h) = Ok ex \<and>
        length (added_validators ex) = length (added_validators_public_keys ex) \<and>
        bi_bits L (removed_validators ex) \<le> length (st_validators st) \<and>
        next_validators L (st_validators st) ex = None)"

context library_crates
begin

lemma insert_header_Err_same:
  assumes "insert_header L st h now = (Err e, st')" and "e \<noteq> adding_error"
  shows "st' = st"
proof -
  have "st' = st" if "store_non_epoch_header L st h now = (Err e, st')"
    using that by (auto simp: store_non_epoch_header_eq try_state_eq_Err)
  moreover have "st' = st" if "store_epoch_header L st h now = (Err e, st')"
    using that assms(2) unfolding store_epoch_header_eq
    by (auto simp: try_state_eq_Err split: if_splits option.splits)
  ultimately show ?thesis
    using assms(1) by (auto simp: insert_header_def try_state_eq_Err split: if_splits)
qed

lemma insert_header_adding_error:
  "insert_header L st h now = (Err adding_error, st') \<longleftrightarrow>
     (\<exists>ex. clashing_diff L st h now ex \<and>
        st' = set_validators st (survivors L (removed_validators ex) (st_validators st)))"
proof -
  have "store_non_epoch_header L st h now \<noteq> (Err adding_error, st')"
    by (auto simp: store_non_epoch_header_eq try_state_eq_Err adding_error_def no_diff_error arithmetic_no_error
        split: if_splits)
  moreover have "store_epoch_header L st h now = (Err adding_error, st') \<longleftrightarrow>
      (\<exists>hsh ex. (checks_header L (st_config st) h True \<longrightarrow> verify_header L st h now = Ok ()) \<and>
        header_hash L h = Ok hsh \<and> istanbul_extra_from_rlp L (extra h) = Ok ex \<and>
        length (added_validators ex) = length (added_validators_public_keys ex) \<and>
        bi_bits L (removed_validators ex) \<le> length (st_validators st) \<and>
        next_validators L (st_validators st) ex = None \<and>
        st' = set_validators st (survivors L (removed_validators ex) (st_validators st)))"
    unfolding store_epoch_header_eq
    by (auto simp: try_state_eq_Err adding_error_def combining_error_def removing_error_def no_diff_error
        arithmetic_no_error not_less split: if_splits option.splits)
  moreover have "is_last_block_of_epoch n es \<noteq> Err e" for n es and e :: kind
    by (cases "es = 0") (simp_all add: is_last_block_of_epoch_eq is_last_block_of_epoch_zero)
  ultimately show ?thesis
    by (auto simp: insert_header_def clashing_diff_def try_state_eq_Err arithmetic_no_error unwrap_eq_Ok split: if_splits)
qed

lemma insert_header_Err_cases:
  assumes "insert_header L st h now = (Err e, st')"
  shows "st' = st \<or> e = adding_error \<and>
     (\<exists>ex. clashing_diff L st h now ex \<and>
        st' = set_validators st (survivors L (removed_validators ex) (st_validators st)))"
  using insert_header_Err_same [OF assms] assms insert_header_adding_error [of st h now st'] by auto

end

text \<open>C15: what a rejected header leaves behind, exactly: when \<^verbatim>\<open>insert_header\<close> returns any error but
  \<^verbatim>\<open>error in adding the header's added_validators\<close>, the state is untouched. That one it returns
  if and only if an epoch header decodes, passes every check (its seal among them, where it
  is verified), brings a key for each address and an applicable removal bitmap, but adds a validator that is still a
  member after the removals: then the header is rejected, and the members it removes are
  nevertheless gone; number, timestamp, hash, seal and configuration stay. \<close>

theorem rejected_header_effect:
  assumes "library_crates L"
  shows "(insert_header L st h now = (Err e, st') \<longrightarrow> e \<noteq> adding_error \<longrightarrow> st' = st) \<and>
     (insert_header L st h now = (Err adding_error, st') \<longleftrightarrow>
        (\<exists>ex. clashing_diff L st h now ex \<and>
           st' = set_validators st (survivors L (removed_validators ex) (st_validators st))))"
  using library_crates.insert_header_Err_same [OF assms]
    library_crates.insert_header_adding_error [OF assms] by blast

text \<open>The same epoch header as above, except that it adds a validator that is already a member.\<close>

definition clashing_extra :: istanbul_extra where
  "clashing_extra = sample_extra\<lparr>added_validators := [replicate 20 2],
     added_validators_public_keys := [replicate 96 2], removed_validators := 1,
     aggregated_seal := \<lparr>seal_bitmap = 14, seal_signature = ref_signature, seal_round = 0\<rparr>\<rparr>"

lemma clashing_extra_wf: "wf_extra clashing_extra"
  unfolding clashing_extra_def sample_extra_fields by (simp add: wf_seal_def)

lemma clashing_extra_fits: "rlp_fits (extra_item ref_crates clashing_extra)"
  by (simp add: clashing_extra_def sample_extra_def extra_item_def seal_item_def rlp_fits_def
      usize_bits_def big_int_to_rlp_compat_bytes_def istanbul_aggregated_seal_new_def
      ref_signature_def be_bytes.simps)

lemma clashing_extra_next: "next_validators ref_crates sample_validators clashing_extra = None"
  by (simp add: next_validators_def clashing_extra_def sample_extra_def sample_survivors
      new_validators_def nat_bits.simps)
    (simp add: sample_validators_def)

text \<open>Its seal verifies, and the member it removes is lost.\<close>

lemma sample_clashing_diff:
  "clashing_diff ref_crates sample_state (header_with 17280 clashing_extra) 1600000000 clashing_extra"
proof -
  let ?h = "header_with 17280 clashing_extra"
  obtain hsh where hsh: "header_hash ref_crates ?h = Ok hsh"
    using header_with_decodes(2) [OF clashing_extra_wf clashing_extra_fits] by blast
  note ex = header_with_decodes(1) [OF clashing_extra_wf clashing_extra_fits, of 17280]
  have vs: "st_validators sample_state = sample_validators"
    by (simp add: sample_state_def state_new_def sample_snapshot_def)
  have n: "bi_to_u64 ref_crates (number ?h) = Some 17280" by (simp add: header_with_def)
  have seal: "verify_aggregated_seal ref_crates hsh sample_validators (aggregated_seal clashing_extra) = Ok ()"
    using sample_seal_ok [of 14 hsh] by (simp add: clashing_extra_def)
  have ver: "verify_header ref_crates sample_state ?h 1600000000 = Ok ()"
    unfolding verify_header_Ok_iff
    using hsh ex n seal vs
    by (simp add: sample_state_def state_new_def sample_snapshot_def sample_config_def)
      (simp add: header_with_def)
  have last: "is_last_block_of_epoch 17280 (epoch_size (st_config sample_state)) = Ok True"
    by (simp add: is_last_block_of_epoch_eq sample_state_def state_new_def sample_config_def)
  show ?thesis
    using hsh ex n ver last clashing_extra_next vs unfolding clashing_diff_def
    by (simp add: clashing_extra_def sample_extra_def nat_bits.simps) (simp add: sample_validators_def)
qed

theorem rejected_header_effect_witness:
  "\<exists>st'. insert_header ref_crates sample_state (header_with 17280 clashing_extra) 1600000000 =
     (Err adding_error, st') \<and> st_validators st' = tl sample_validators"
  using rejected_header_effect [OF sample_library, of sample_state "header_with 17280 clashing_extra" 1600000000]
    sample_clashing_diff
  by (auto simp: clashing_extra_def sample_survivors sample_state_def state_new_def sample_snapshot_def)

end
