(* ===== verification/Light_Runs.thy ===== *)
theory Light_Runs
  imports Light_Safety
begin

text \<open>
  Runs of the light client: the step relation of \<open>insert_header\<close> calls with its invariants,
  and sequences of accepted headers, along which trust is handed from one validator set to
  the next.
\<close>

section \<open>Well-formed snapshots are an invariant\<close>

lemma rlp_field_from_bytes_length:
  "rlp_field_from_bytes L (array_from_bytes n) r = Ok b \<Longrightarrow> length b = n"
  by (auto simp: rlp_field_from_bytes_def decode_value_def result_iff dest: array_from_bytes_length)

lemma collect_field_lengths:
  "collect (rlp_field_from_bytes L (array_from_bytes n)) rs = Ok bs \<Longrightarrow>
     list_all (\<lambda>b. length b = n) bs"
  by (induction rs arbitrary: bs)
    (auto simp: and_then_eq_Ok dest: rlp_field_from_bytes_length)

lemma let_result_eq_Ok [result_iff]:
  "let_result m f = Ok b \<longleftrightarrow> m \<noteq> Panic \<and> f m = Ok b"
  by (cases m) simp_all

context library_crates
begin

lemma rlp_to_big_int_nonneg: "rlp_to_big_int L r i = Ok n \<Longrightarrow> 0 \<le> n"
  by (auto simp: rlp_to_big_int_def decode_value_def and_then_eq_Ok from_bytes_be_eq)

lemma seal_decode_wf: "seal_decode L r = Ok s \<Longrightarrow> wf_seal s"
  by (auto simp: seal_decode_def and_then_eq_Ok wf_seal_def dest: rlp_to_big_int_nonneg)

lemma extra_decode_wf: "extra_decode L r = Ok e \<Longrightarrow> wf_extra e"
  unfolding extra_decode_def from_bytes_array
  by (auto simp: and_then_eq_Ok let_result_eq_Ok wf_extra_def val_at_def
      dest: collect_field_lengths rlp_to_big_int_nonneg seal_decode_wf)

lemma istanbul_extra_from_rlp_wf: "istanbul_extra_from_rlp L b = Ok e \<Longrightarrow> wf_extra e"
  by (auto simp: istanbul_extra_from_rlp_def result_iff dest: extra_decode_wf split: if_splits)

lemma validator_decode_wf: "validator_decode L r = Ok v \<Longrightarrow> wf_validator v"
  unfolding validator_decode_def from_bytes_array
  by (auto simp: and_then_eq_Ok wf_validator_def dest: rlp_field_from_bytes_length)

lemma collect_validators_wf:
  "collect (validator_decode L) rs = Ok vs \<Longrightarrow> list_all wf_validator vs"
  by (induction rs arbitrary: vs) (auto simp: and_then_eq_Ok dest: validator_decode_wf)

lemma snapshot_from_rlp_wf: "snapshot_from_rlp L b = Ok s \<Longrightarrow> wf_snapshot s"
  unfolding snapshot_from_rlp_def snapshot_decode_def rlp_list_field_from_bytes_def from_bytes_array
    header_arrays
  by (auto simp: map_err_eq_Ok and_then_eq_Ok let_result_eq_Ok wf_snapshot_def val_at_def decode_value_def
      dest: array_from_bytes_length seal_decode_wf collect_validators_wf)

lemma header_from_rlp_wf: "header_from_rlp L b = Ok h \<Longrightarrow> wf_header h"
  unfolding header_from_rlp_def header_decode_def rlp_list_field_from_bytes_def from_bytes_array
    header_arrays
  by (auto simp: map_err_eq_Ok and_then_eq_Ok wf_header_def val_at_def decode_value_def
      dest: array_from_bytes_length rlp_to_big_int_nonneg)

lemma new_validators_wf: "wf_extra ex \<Longrightarrow> list_all wf_validator (new_validators ex)"
  by (auto simp: wf_extra_def new_validators_def wf_validator_def list_all_iff
      dest: set_zip_leftD set_zip_rightD)

lemma survivors_wf: "list_all wf_validator vs \<Longrightarrow> list_all wf_validator (survivors L r vs)"
  using set_survivors_subset [of L r vs] by (auto simp: list_all_iff)

lemma insert_header_wf_Ok:
  assumes "wf_snapshot (st_snapshot st)" and "insert_header L st h now = (Ok (), st')"
  shows "wf_snapshot (st_snapshot st')"
proof -
  obtain n last hsh ex vs where t: "header_hash L h = Ok hsh"
    "istanbul_extra_from_rlp L (extra h) = Ok ex"
    "if last then next_validators L (st_validators st) ex = Some vs else vs = st_validators st"
    "st' = st\<lparr>st_snapshot := snapshot_of n h hsh ex vs\<rparr>"
    using assms(2) unfolding insert_header_Ok header_transition_def by blast
  have ex: "wf_extra ex" using t(2) by (rule istanbul_extra_from_rlp_wf)
  have "list_all wf_validator vs"
    using t(3) assms(1) new_validators_wf [OF ex] survivors_wf
    by (auto simp: wf_snapshot_def dest: next_validators_Some split: if_splits)
  then show ?thesis
    using t ex header_hash_length [OF t(1)] by (simp add: wf_snapshot_def snapshot_of_def wf_extra_def)
qed

lemma insert_header_wf_Err:
  assumes "wf_snapshot (st_snapshot st)" and "insert_header L st h now = (Err e, st')"
  shows "wf_snapshot (st_snapshot st')"
  using insert_header_Err_cases [OF assms(2)] assms(1) survivors_wf
  by (auto simp: wf_snapshot_def set_validators_def)

end

text \<open>
  One call of \<open>insert_header\<close> that returns, with its effect on the state. An application that logs
  a rejected header and goes on, as \<^verbatim>\<open>examples/lightest-sync/main.rs\<close> does, takes both
  kinds of step; the contract drops the state of a rejected header.
\<close>

inductive light_step :: "('pk, 'sig, 'z) crates_scheme \<Rightarrow> state \<Rightarrow> state \<Rightarrow> bool" for L where
  accept: "insert_header L st h now = (Ok (), st') \<Longrightarrow> light_step L st st'"
| reject: "insert_header L st h now = (Err e, st') \<Longrightarrow> light_step L st st'"

inductive_cases light_stepE: "light_step L st st'"

lemma light_step_config:
  "library_crates L \<Longrightarrow> light_step L st st' \<Longrightarrow> st_config st' = st_config st"
  by (auto elim!: light_stepE dest: library_crates.insert_header_config
      library_crates.insert_header_Err_cases)

lemma light_step_wf:
  "library_crates L \<Longrightarrow> light_step L st st' \<Longrightarrow> wf_snapshot (st_snapshot st) \<Longrightarrow>
     wf_snapshot (st_snapshot st')"
  by (auto elim!: light_stepE intro: library_crates.insert_header_wf_Ok
      library_crates.insert_header_wf_Err)

text \<open>C17: every state that calls of \<^verbatim>\<open>insert_header\<close> can reach, accepted or rejected, from a
  well-formed one is well-formed (arrays of the declared lengths, non-negative bitmaps and
  rounds) and keeps its configuration, so its snapshot survives being stored: writing it
  with \<^verbatim>\<open>Snapshot::to_rlp\<close> and reading it with \<^verbatim>\<open>Snapshot::from_rlp\<close> gives it back. \<close>

theorem reachable_snapshot_survives_storage:
  assumes "library_crates L" and "(light_step L)\<^sup>*\<^sup>* st st'" and "wf_snapshot (st_snapshot st)"
    and "rlp_fits (snapshot_item L (st_snapshot st'))"
  shows "wf_snapshot (st_snapshot st') \<and> st_config st' = st_config st \<and>
     snapshot_from_rlp L (snapshot_to_rlp L (st_snapshot st')) = Ok (st_snapshot st')"
proof -
  have "wf_snapshot (st_snapshot st') \<and> st_config st' = st_config st"
    using assms(2,3)
    by (induction rule: rtranclp_induct)
      (auto dest: light_step_config [OF assms(1)] light_step_wf [OF assms(1)])
  then show ?thesis
    using library_crates.snapshot_from_to [OF assms(1) _ assms(4)] by blast
qed

lemma clashing_header_rejected:
  "\<exists>st'. insert_header ref_crates sample_state (header_with 17280 clashing_extra) 1600000000 =
     (Err adding_error, st') \<and> st_validators st' = tl sample_validators"
  unfolding library_crates.insert_header_adding_error [OF sample_library]
  using sample_clashing_diff
  by (auto simp: clashing_extra_def sample_survivors sample_state_def state_new_def sample_snapshot_def)

theorem reachable_snapshot_survives_storage_witness:
  "(light_step ref_crates)\<^sup>*\<^sup>* sample_state (set_validators sample_state (tl sample_validators)) \<and>
   snapshot_from_rlp ref_crates (snapshot_to_rlp ref_crates
       (st_snapshot (set_validators sample_state (tl sample_validators)))) =
     Ok (st_snapshot (set_validators sample_state (tl sample_validators)))"
proof -
  let ?st = "set_validators sample_state (tl sample_validators)"
  obtain st' where r: "insert_header ref_crates sample_state (header_with 17280 clashing_extra) 1600000000
      = (Err adding_error, st')" and vs: "st_validators st' = tl sample_validators"
    using clashing_header_rejected by blast
  have "st' = ?st"
    using library_crates.insert_header_Err_cases [OF sample_library r] vs
    by (auto simp: set_validators_def)
  with r have step: "(light_step ref_crates)\<^sup>*\<^sup>* sample_state ?st"
    by (auto intro: light_step.reject)
  have "rlp_fits (snapshot_item ref_crates (st_snapshot ?st))"
    by (simp add: snapshot_item_def sample_state_def state_new_def set_validators_def
        sample_snapshot_def sample_validators_def validator_item_def seal_item_def
        big_int_to_rlp_compat_bytes_def be_bytes.simps ref_signature_def rlp_fits_def usize_bits_def)
  then show ?thesis
    using reachable_snapshot_survives_storage [OF sample_library step] sample_snapshot_wf step
    by (simp add: sample_state_def state_new_def)
qed

section \<open>Runs of accepted headers\<close>

inductive accepted_run ::
    "('pk, 'sig, 'z) crates_scheme \<Rightarrow> state \<Rightarrow> (header \<times> u64) list \<Rightarrow> state \<Rightarrow> bool" for L where
  finish: "accepted_run L st [] st"
| advance: "insert_header L st h now = (Ok (), st1) \<Longrightarrow> accepted_run L st1 hs st' \<Longrightarrow>
     accepted_run L st ((h, now) # hs) st'"

inductive_cases accepted_run_ConsE: "accepted_run L st (x # xs) st'"

text \<open>Each snapshot is sealed by a quorum of the validator set of the one before it.\<close>

fun sealed_chain :: "('pk, 'sig, 'z) crates_scheme \<Rightarrow> snapshot list \<Rightarrow> bool" where
  "sealed_chain L (a # b # ss) \<longleftrightarrow>
     quorum_sealed L (snap_validators a) (snap_hash b) (snap_aggregated_seal b) \<and>
     snap_number a < snap_number b \<and> sealed_chain L (b # ss)"
| "sealed_chain L _ \<longleftrightarrow> True"

lemma accepted_run_sealed:
  assumes "library_crates L" and "accepted_run L st hs st'"
    and "verify_epoch_headers (st_config st)" and "verify_non_epoch_headers (st_config st)"
    and "\<forall>(h, now) \<in> set hs. number h \<noteq> 0"
  shows "\<exists>ss. list_all2 (\<lambda>(h, now) s. header_hash L h = Ok (snap_hash s) \<and>
                 number h = uint (snap_number s)) hs ss \<and>
     sealed_chain L (st_snapshot st # ss) \<and> last (st_snapshot st # ss) = st_snapshot st'"
  using assms(2-5)
proof (induction rule: accepted_run.induct)
  case (finish st)
  then show ?case by (intro exI [of _ "[]"]) simp
next
  case (advance st h now st1 hs st')
  have "st_config st1 = st_config st"
    using library_crates.insert_header_config [OF assms(1) advance.hyps(1)] .
  then obtain ss where ss: "list_all2 (\<lambda>(h, now) s. header_hash L h = Ok (snap_hash s) \<and>
        number h = uint (snap_number s)) hs ss"
      "sealed_chain L (st_snapshot st1 # ss)" "last (st_snapshot st1 # ss) = st_snapshot st'"
    using advance.IH advance.prems by auto
  have "number h \<noteq> 0" using advance.prems(3) by simp
  note sealed = header_sealed [OF assms(1) advance.hyps(1) advance.prems(1,2) this]
  show ?case
    using ss sealed by (intro exI [of _ "st_snapshot st1 # ss"]) simp
qed

text \<open>C2: chain of trust: with both verification flags on, a run of accepted headers, none numbered
  zero, leads from the initial snapshot to the final one through snapshots with the
  headers' hashes and numbers, each sealed by two thirds of the validator set of its
  predecessor, with strictly increasing block numbers. \<close>

theorem chain_of_trust:
  assumes "library_crates L" and "accepted_run L st hs st'"
    and "verify_epoch_headers (st_config st)" and "verify_non_epoch_headers (st_config st)"
    and "\<forall>(h, now) \<in> set hs. number h \<noteq> 0"
  shows "\<exists>ss. list_all2 (\<lambda>(h, now) s. header_hash L h = Ok (snap_hash s) \<and>
                 number h = uint (snap_number s)) hs ss \<and>
     sealed_chain L (st_snapshot st # ss) \<and> last (st_snapshot st # ss) = st_snapshot st'"
  using assms by (rule accepted_run_sealed)

theorem chain_of_trust_witness:
  "\<exists>st' s. accepted_run ref_crates sample_state [(header_with 17280 epoch_extra, 1600000000 :: u64)] st' \<and>
     sealed_chain ref_crates [sample_snapshot, s] \<and> s = st_snapshot st'"
proof -
  obtain st' where acc:
    "insert_header ref_crates sample_state (header_with 17280 epoch_extra) 1600000000 = (Ok (), st')"
    using epoch_header_accepted by blast
  have run: "accepted_run ref_crates sample_state [(header_with 17280 epoch_extra, 1600000000 :: u64)] st'"
    by (rule accepted_run.advance [OF acc accepted_run.finish])
  have "\<exists>ss. list_all2 (\<lambda>(h, now) s. header_hash ref_crates h = Ok (snap_hash s) \<and>
           number h = uint (snap_number s)) [(header_with 17280 epoch_extra, 1600000000 :: u64)] ss \<and>
        sealed_chain ref_crates (st_snapshot sample_state # ss) \<and>
        last (st_snapshot sample_state # ss) = st_snapshot st'"
    by (rule chain_of_trust [OF sample_library run])
      (simp_all add: sample_state_def state_new_def sample_config_def header_with_def)
  then obtain s where "sealed_chain ref_crates [sample_snapshot, s]" "s = st_snapshot st'"
    by (auto simp: list_all2_Cons1 sample_state_def state_new_def)
  with run show ?thesis by blast
qed

end
