(* ===== verification/Light_Progress.thy ===== *)
theory Light_Progress
  imports Light_Runs
begin

text \<open>
  What the light client does not refuse. An honest chain is the specification of the headers a
  correct network produces, written without the code's operations: each header is sealed by
  a quorum of the validators its predecessor leaves, and the diffs of epoch headers apply.
  The client follows every honest chain whose headers do not come from its future.
\<close>

definition honest_successor ::
    "('pk, 'sig, 'z) crates_scheme \<Rightarrow> u64 \<Rightarrow> snapshot \<Rightarrow> header \<Rightarrow> snapshot \<Rightarrow> bool" where
  "honest_successor L es s h s' \<longleftrightarrow>
     (\<exists>ex. istanbul_extra_from_rlp L (extra h) = Ok ex \<and>
        header_hash L h = Ok (snap_hash s') \<and>
        number h = uint (snap_number s') \<and> snap_number s < snap_number s' \<and>
        snap_timestamp s' = time h \<and> snap_timestamp s < time h \<and>
        snap_aggregated_seal s' = aggregated_seal ex \<and>
        2 * length (snap_validators s) + 2 < 2 ^ usize_bits \<and>
        quorum_sealed L (snap_validators s) (snap_hash s') (snap_aggregated_seal s') \<and>
        (if unat es dvd unat (snap_number s')
         then next_validators L (snap_validators s) ex = Some (snap_validators s')
         else snap_validators s' = snap_validators s))"

inductive honest_chain ::
    "('pk, 'sig, 'z) crates_scheme \<Rightarrow> u64 \<Rightarrow> snapshot \<Rightarrow> header list \<Rightarrow> snapshot \<Rightarrow> bool"
  for L es where
  start: "honest_chain L es s [] s"
| grow: "honest_successor L es s h s1 \<Longrightarrow> honest_chain L es s1 hs s' \<Longrightarrow>
     honest_chain L es s (h # hs) s'"

inductive_cases honest_chain_NilE: "honest_chain L es s [] s'"
inductive_cases honest_chain_ConsE: "honest_chain L es s (h # hs) s'"

text \<open>A header is not from the future of a clock.\<close>

definition in_time :: "state_config \<Rightarrow> header \<Rightarrow> u64 \<Rightarrow> bool" where
  "in_time cfg h now \<longleftrightarrow> unat (time h) \<le> unat now + unat (allowed_clock_skew cfg) \<and>
     unat now + unat (allowed_clock_skew cfg) < 2 ^ 64"

lemma honest_header_verified:
  assumes "library_crates L" and "honest_successor L es (st_snapshot st) h s'"
    and "in_time (st_config st) h now"
  shows "verify_header L st h now = Ok ()"
proof -
  have big: "num_bigint L" using assms(1) by (simp add: library_crates_def)
  have "uint n < 2 ^ 64" for n :: u64 using uint_bounded [of n] by simp
  then show ?thesis
    using assms(2,3)
    by (auto simp: honest_successor_def in_time_def verify_header_Ok_iff
        verify_aggregated_seal_Ok_iff num_bigint.to_u64_eq [OF big])
qed

lemma honest_header_accepted:
  assumes "library_crates L" and "honest_successor L (epoch_size (st_config st)) (st_snapshot st) h s'"
    and "epoch_size (st_config st) \<noteq> 0" and "in_time (st_config st) h now"
  shows "insert_header L st h now = (Ok (), st\<lparr>st_snapshot := s'\<rparr>)"
proof -
  have big: "num_bigint L" using assms(1) by (simp add: library_crates_def)
  obtain ex where ex: "istanbul_extra_from_rlp L (extra h) = Ok ex"
    "header_hash L h = Ok (snap_hash s')" "number h = uint (snap_number s')"
    "snap_timestamp s' = time h" "snap_aggregated_seal s' = aggregated_seal ex"
    "if unat (epoch_size (st_config st)) dvd unat (snap_number s')
     then next_validators L (st_validators st) ex = Some (snap_validators s')
     else snap_validators s' = st_validators st"
    using assms(2) by (auto simp: honest_successor_def)
  have n: "bi_to_u64 L (number h) = Some (snap_number s')"
    using uint_bounded [of "snap_number s'"] by (simp add: ex(3) num_bigint.to_u64_eq [OF big])
  have s': "s' = snapshot_of (snap_number s') h (snap_hash s') ex (snap_validators s')"
    using ex by (simp add: snapshot_of_def)
  have "header_transition L st h now (st\<lparr>st_snapshot := s'\<rparr>)"
    unfolding header_transition_def
    using ex n s' honest_header_verified [OF assms(1,2,4)] is_last_block_of_epoch_eq [OF assms(3)]
    by (intro exI [of _ "snap_number s'"] exI [of _ "unat (epoch_size (st_config st)) dvd unat (snap_number s')"]
        exI [of _ "snap_hash s'"] exI [of _ ex] exI [of _ "snap_validators s'"]) auto
  then show ?thesis using library_crates.insert_header_Ok [OF assms(1)] by blast
qed

lemma honest_chain_run:
  assumes "library_crates L" and "honest_chain L (epoch_size cfg) s hs s'"
    and "epoch_size cfg \<noteq> 0" and "list_all2 (in_time cfg) hs clocks"
  shows "accepted_run L (state_new s cfg) (zip hs clocks) (state_new s' cfg)"
  using assms(2,4)
proof (induction arbitrary: clocks rule: honest_chain.induct)
  case (start s)
  then show ?case by (simp add: accepted_run.finish)
next
  case (grow s h s1 hs s')
  then obtain t ts where ts: "clocks = t # ts" "in_time cfg h t" "list_all2 (in_time cfg) hs ts"
    by (auto simp: list_all2_Cons1)
  have "insert_header L (state_new s cfg) h t = (Ok (), state_new s1 cfg)"
    using honest_header_accepted [OF assms(1), of "state_new s cfg" h s1 t] grow.hyps(1) assms(3) ts(2)
    by (simp add: state_new_def)
  then show ?case using grow.IH [OF ts(3)] ts(1) by (simp add: accepted_run.advance)
qed

text \<open>Progress: the client follows every honest chain. Whatever headers an honest network appends
  to the block of the stored snapshot, epoch blocks with applicable diffs among them, feeding
  them to \<^verbatim>\<open>insert_header\<close> in order, each at any time from its own timestamp (less the clock
  skew) on, is a run of accepted headers that ends exactly in the snapshot of the chain's
  last block, whatever the verification flags are. \<close>

theorem honest_chain_is_followed:
  assumes "library_crates L" and "honest_chain L (epoch_size cfg) s hs s'"
    and "epoch_size cfg \<noteq> 0" and "list_all2 (in_time cfg) hs clocks"
  shows "accepted_run L (state_new s cfg) (zip hs clocks) (state_new s' cfg)"
  using assms by (rule honest_chain_run)

text \<open>Headers with the sample extra data are honest successors of snapshots with the sample validators.\<close>

lemma sample_successor:
  assumes "extra h = istanbul_extra_to_rlp ref_crates epoch_extra (replicate 32 0)"
    and "number h = uint n" and "snap_validators s = sample_validators"
    and "snap_number s < n" and "snap_timestamp s < time h"
  shows "\<exists>s'. honest_successor ref_crates 17280 s h s' \<and> snap_number s' = n \<and> snap_timestamp s' = time h \<and>
    (\<not> 17280 dvd unat n \<longrightarrow> snap_validators s' = sample_validators)"
proof -
  have "h\<lparr>extra := istanbul_extra_to_rlp ref_crates epoch_extra (replicate 32 0)\<rparr> = h"
    using assms(1) by simp
  then obtain hsh where hsh: "header_hash ref_crates h = Ok hsh"
    using ref.header_hash_istanbul [OF epoch_extra_wf epoch_extra_fits, of "replicate 32 0" h] by simp
  have ex: "istanbul_extra_from_rlp ref_crates (extra h) = Ok epoch_extra"
    using ref.istanbul_extra_from_to [OF epoch_extra_wf epoch_extra_fits, of "replicate 32 0"] assms(1) by simp
  obtain vs where vs: "next_validators ref_crates sample_validators epoch_extra = Some vs"
    using epoch_extra_next by blast
  let ?s' = "snapshot_of n h hsh epoch_extra (if 17280 dvd unat n then vs else sample_validators)"
  have "quorum_sealed ref_crates sample_validators hsh (aggregated_seal epoch_extra)"
    "2 * length sample_validators + 2 < 2 ^ usize_bits"
    using epoch_extra_seal [of hsh] by (simp_all add: verify_aggregated_seal_Ok_iff)
  then have "honest_successor ref_crates 17280 s h ?s'"
    unfolding honest_successor_def
    using hsh ex vs assms(2-) by (intro exI [of _ epoch_extra]) (simp add: snapshot_of_def)
  then show ?thesis
    by (intro exI [of _ ?s']) (simp add: snapshot_of_def)
qed

lemma sample_honest:
  "\<exists>s'. honest_successor ref_crates 17280 sample_snapshot (header_with 17280 epoch_extra) s' \<and>
     snap_number s' = 17280"
  using sample_successor [of "header_with 17280 epoch_extra" 17280 sample_snapshot]
  by (auto simp: header_with_def sample_snapshot_def)

theorem honest_chain_is_followed_witness:
  "\<exists>s'. accepted_run ref_crates (state_new sample_snapshot sample_config)
     [(header_with 17280 epoch_extra, 1600000000 :: u64)] (state_new s' sample_config) \<and>
     snap_number s' = 17280"
proof -
  obtain s' where s': "honest_successor ref_crates 17280 sample_snapshot (header_with 17280 epoch_extra) s'"
    and n: "snap_number s' = 17280"
    using sample_honest by blast
  have chain: "honest_chain ref_crates (epoch_size sample_config) sample_snapshot
      [header_with 17280 epoch_extra] s'"
    using honest_chain.grow [OF s' honest_chain.start] by (simp add: sample_config_def)
  have "accepted_run ref_crates (state_new sample_snapshot sample_config)
      (zip [header_with 17280 epoch_extra] [1600000000]) (state_new s' sample_config)"
    by (rule honest_chain_is_followed [OF sample_library chain])
      (simp_all add: sample_config_def in_time_def header_with_def)
  with n show ?thesis by auto
qed

text \<open>Conversely, a client that checks everything accepts nothing else.\<close>

lemma accepted_header_honest:
  assumes "library_crates L" and "insert_header L st h now = (Ok (), st')"
    and "verify_epoch_headers (st_config st)" and "verify_non_epoch_headers (st_config st)"
    and "verify_header_timestamp (st_config st)" and "number h \<noteq> 0"
  shows "honest_successor L (epoch_size (st_config st)) (st_snapshot st) h (st_snapshot st') \<and>
     in_time (st_config st) h now \<and> st_config st' = st_config st"
proof -
  have big: "num_bigint L" using assms(1) by (simp add: library_crates_def)
  obtain n last hsh ex vs where t: "bi_to_u64 L (number h) = Some n"
    "is_last_block_of_epoch n (epoch_size (st_config st)) = Ok last"
    "checks_header L (st_config st) h last \<longrightarrow> verify_header L st h now = Ok ()"
    "header_hash L h = Ok hsh" "istanbul_extra_from_rlp L (extra h) = Ok ex"
    "if last then next_validators L (st_validators st) ex = Some vs else vs = st_validators st"
    "st' = st\<lparr>st_snapshot := snapshot_of n h hsh ex vs\<rparr>"
    using library_crates.insert_header_Ok [OF assms(1)] assms(2)
    unfolding header_transition_def by blast
  have "epoch_size (st_config st) \<noteq> 0"
    using t(2) by (auto simp: is_last_block_of_epoch_zero)
  then have last: "last \<longleftrightarrow> unat (epoch_size (st_config st)) dvd unat n"
    using t(2) by (simp add: is_last_block_of_epoch_eq)
  have n: "number h = uint n"
    using t(1) num_bigint.to_u64_eq [OF big, of "number h"]
    by (auto split: if_splits simp: uint_word_of_int_eq take_bit_int_eq_self)
  have "verify_header L st h now = Ok ()"
    using t(3) assms(3,4,6) by (simp add: checks_header_def num_bigint.is_zero_eq [OF big])
  then have "snap_number (st_snapshot st) < n" "snap_timestamp (st_snapshot st) < time h"
    "in_time (st_config st) h now" "quorum_sealed L (st_validators st) hsh (aggregated_seal ex)"
    "2 * length (st_validators st) + 2 < 2 ^ usize_bits"
    using assms(5) t by (auto simp: verify_header_Ok_iff verify_aggregated_seal_Ok_iff in_time_def)
  with t last n show ?thesis
    unfolding honest_successor_def snapshot_of_def by (auto split: if_splits)
qed

lemma accepted_run_honest:
  assumes "library_crates L" and "accepted_run L st run st'"
    and "verify_epoch_headers (st_config st)" and "verify_non_epoch_headers (st_config st)"
    and "verify_header_timestamp (st_config st)" and "\<forall>h \<in> fst ` set run. number h \<noteq> 0"
  shows "honest_chain L (epoch_size (st_config st)) (st_snapshot st) (map fst run) (st_snapshot st') \<and>
     list_all (\<lambda>(h, now). in_time (st_config st) h now) run \<and> st_config st' = st_config st"
  using assms(2-6)
proof (induction rule: accepted_run.induct)
  case (finish st)
  then show ?case by (simp add: honest_chain.start)
next
  case (advance st h now st1 hs st')
  have "number h \<noteq> 0" using advance.prems(4) by simp
  note step = accepted_header_honest [OF assms(1) advance.hyps(1) advance.prems(1-3) this]
  with advance.IH advance.prems show ?case by (auto intro: honest_chain.grow)
qed

lemma accepted_run_iff_honest:
  assumes "library_crates L" and "epoch_size cfg \<noteq> 0" and "verify_epoch_headers cfg"
    and "verify_non_epoch_headers cfg" and "verify_header_timestamp cfg"
    and "\<forall>(h, now) \<in> set run. number h \<noteq> 0"
  shows "accepted_run L (state_new s cfg) run st' \<longleftrightarrow>
     (\<exists>s'. honest_chain L (epoch_size cfg) s (map fst run) s' \<and> st' = state_new s' cfg) \<and>
     list_all (\<lambda>(h, now). in_time cfg h now) run"
proof
  assume run: "accepted_run L (state_new s cfg) run st'"
  have "\<forall>h \<in> fst ` set run. number h \<noteq> 0" using assms(6) by auto
  with accepted_run_honest [OF assms(1) run] assms(3-5)
  have "honest_chain L (epoch_size cfg) s (map fst run) (st_snapshot st')"
    "list_all (\<lambda>(h, now). in_time cfg h now) run" "st_config st' = cfg"
    by (simp_all add: state_new_def)
  then show "(\<exists>s'. honest_chain L (epoch_size cfg) s (map fst run) s' \<and> st' = state_new s' cfg) \<and>
      list_all (\<lambda>(h, now). in_time cfg h now) run"
    by (intro conjI exI [of _ "st_snapshot st'"]) (simp_all add: state_new_def)
next
  assume r: "(\<exists>s'. honest_chain L (epoch_size cfg) s (map fst run) s' \<and> st' = state_new s' cfg) \<and>
      list_all (\<lambda>(h, now). in_time cfg h now) run"
  then have "list_all2 (in_time cfg) (map fst run) (map snd run)"
    by (auto simp: list_all2_conv_all_nth list_all_length case_prod_beta)
  with r honest_chain_run [OF assms(1) _ assms(2)] show "accepted_run L (state_new s cfg) run st'"
    by (metis zip_map_fst_snd)
qed

text \<open>C4: the client follows exactly the honest chains: with epoch headers, other headers and
  timestamps verified, a sequence of headers not numbered zero, each with the time it is given
  at, is a run of accepted headers if and only if the headers form an honest chain from the
  stored snapshot and none is from the future; the run then ends in the snapshot of the
  chain's last block. The chain is stated without the code's operations, so this is the
  refinement of the protocol by the code in both directions. \<close>

theorem accepted_runs_are_honest_chains:
  assumes "library_crates L" and "epoch_size cfg \<noteq> 0" and "verify_epoch_headers cfg"
    and "verify_non_epoch_headers cfg" and "verify_header_timestamp cfg"
    and "\<forall>(h, now) \<in> set run. number h \<noteq> 0"
  shows "accepted_run L (state_new s cfg) run st' \<longleftrightarrow>
     (\<exists>s'. honest_chain L (epoch_size cfg) s (map fst run) s' \<and> st' = state_new s' cfg) \<and>
     list_all (\<lambda>(h, now). in_time cfg h now) run"
  using assms by (rule accepted_run_iff_honest)

theorem accepted_runs_are_honest_chains_witness:
  "\<exists>s'. honest_chain ref_crates 17280 sample_snapshot [header_with 17280 epoch_extra] s' \<and>
     accepted_run ref_crates (state_new sample_snapshot sample_config)
       [(header_with 17280 epoch_extra, 1600000000 :: u64)] (state_new s' sample_config)"
proof -
  obtain s' where "honest_successor ref_crates 17280 sample_snapshot (header_with 17280 epoch_extra) s'"
    using sample_honest by blast
  then have chain: "honest_chain ref_crates (epoch_size sample_config) sample_snapshot
      [header_with 17280 epoch_extra] s'"
    using honest_chain.grow honest_chain.start by (fastforce simp: sample_config_def)
  have "accepted_run ref_crates (state_new sample_snapshot sample_config)
      [(header_with 17280 epoch_extra, 1600000000)] (state_new s' sample_config)"
    by (subst accepted_runs_are_honest_chains [OF sample_library])
      (use chain in \<open>auto simp: sample_config_def in_time_def header_with_def\<close>)
  with chain show ?thesis by (auto simp: sample_config_def)
qed

end
