(* ===== verification/Light_Skipping.thy ===== *)
theory Light_Skipping
  imports Light_Progress
begin

text \<open>
  Why the last headers of the epochs are enough: a block that does not end an epoch leaves the validator
  set alone, so a client that has not seen it accepts the same later blocks. Hence a client that
  is given the epoch headers of an honest chain and its last header, and any of the others or none,
  ends exactly where a client ends that has followed every block.
\<close>

definition ends_epoch :: "u64 \<Rightarrow> header \<Rightarrow> bool" where
  "ends_epoch es h \<longleftrightarrow> uint es dvd number h"

lemma ends_epoch_number:
  "number h = uint n \<Longrightarrow> ends_epoch es h \<longleftrightarrow> unat es dvd unat n"
  by (simp only: ends_epoch_def uint_nat of_nat_dvd_iff)

lemma honest_successor_skips:
  assumes "honest_successor L es s h s1" and "\<not> ends_epoch es h" and "honest_successor L es s1 k s2"
  shows "honest_successor L es s k s2"
proof -
  have "snap_validators s1 = snap_validators s" "snap_number s < snap_number s1"
    "snap_timestamp s < snap_timestamp s1"
    using assms(1,2) ends_epoch_number [of h "snap_number s1" es] by (auto simp: honest_successor_def)
  with assms(3) show ?thesis
    unfolding honest_successor_def by (auto intro: less_trans)
qed

lemma honest_chain_skips:
  assumes "honest_successor L es s h s1" and "\<not> ends_epoch es h"
    and "honest_chain L es s1 hs s'" and "hs \<noteq> []"
  shows "honest_chain L es s hs s'"
  using assms(3,4)
proof (cases rule: honest_chain.cases)
  case (grow k s2 ks)
  then show ?thesis
    using honest_successor_skips [OF assms(1,2)] by (auto intro: honest_chain.grow)
qed simp

lemma honest_chain_filter:
  assumes "honest_chain L es s hs s'" and "\<forall>h \<in> set hs. ends_epoch es h \<longrightarrow> keep h"
    and "hs \<noteq> [] \<Longrightarrow> keep (last hs)"
  shows "honest_chain L es s (filter keep hs) s'"
  using assms
proof (induction rule: honest_chain.induct)
  case (grow s h s1 hs s')
  have IH: "honest_chain L es s1 (filter keep hs) s'"
    using grow.IH grow.prems by (cases "hs = []") auto
  show ?case
  proof (cases "keep h")
    case True
    with grow.hyps(1) IH show ?thesis by (simp add: honest_chain.grow)
  next
    case False
    then have "\<not> ends_epoch es h" "hs \<noteq> []" using grow.prems by auto
    moreover from this have "filter keep hs \<noteq> []"
      using grow.prems(2) last_in_set [of hs] by (auto simp: filter_empty_conv)
    ultimately show ?thesis
      using honest_chain_skips [OF grow.hyps(1) _ IH] False by simp
  qed
qed (simp add: honest_chain.start)

lemma honest_chain_skipped:
  assumes "honest_chain L es s hs s1" and "\<forall>h \<in> set hs. \<not> ends_epoch es h" and "honest_successor L es s1 k s2"
  shows "honest_successor L es s k s2"
  using assms
proof (induction rule: honest_chain.induct)
  case (grow s h s1 hs s')
  then show ?case using honest_successor_skips [OF grow.hyps(1)] by simp
qed simp

text \<open>The multiples of the epoch size among consecutive numbers.\<close>

lemma not_dvd_between:
  assumes "m * n < i" and "i < Suc m * n"
  shows "\<not> (n :: nat) dvd i"
proof
  assume "n dvd i"
  then obtain k where "i = k * n" by (metis dvdE mult.commute)
  with assms have "m < k" "k < Suc m" by (simp_all only: mult_less_cancel2)
  then show False by simp
qed

lemma filter_multiples:
  assumes "0 < (n::nat)"
  shows "filter (\<lambda>i. n dvd i) [1..<Suc (m * n)] = map (\<lambda>e. e * n) [1..<Suc m]"
proof (induction m)
  case (Suc m)
  have "filter (\<lambda>i. n dvd i) [Suc (m * n)..<Suc m * n] = []"
    by (auto simp: filter_empty_conv Suc_le_eq not_dvd_between simp del: mult_Suc)
  moreover have "[1..<Suc (Suc m * n)] = [1..<Suc (m * n)] @ [Suc (m * n)..<Suc (Suc m * n)]"
    using upt_add_eq_append [of 1 "Suc (m * n)" n] by (simp add: add.commute del: upt.simps)
  moreover have "[Suc (m * n)..<Suc (Suc m * n)] = [Suc (m * n)..<Suc m * n] @ [Suc m * n]"
    using assms by (intro upt_Suc_append) simp
  moreover have "[1..<Suc (Suc m)] = [1..<Suc m] @ [Suc m]" by simp
  ultimately show ?case using Suc by (simp del: mult_Suc upt.simps)
qed simp

lemma filter_zip_fst:
  "length xs = length ys \<Longrightarrow>
     filter (\<lambda>(x, _). keep x) (zip xs ys) = zip (filter keep xs) (map snd (filter (\<lambda>(x, _). keep x) (zip xs ys)))"
  by (induction xs ys rule: list_induct2) auto

lemma list_all2_filter:
  "list_all2 P xs ys \<Longrightarrow> list_all2 P (filter keep xs) (map snd (filter (\<lambda>(x, _). keep x) (zip xs ys)))"
  by (induction rule: list_all2_induct) auto

text \<open>C5: the epoch headers suffice: take any honest chain of headers, each processed at a time it is not
  from the future of. A client that is given only some of them, but among these every last
  block of an epoch and the last header of all, accepts them and ends in exactly the state of a
  client that has accepted the whole chain, whatever the verification flags. (This is what the
  sync program and relayers rest on; with nothing left out it is progress itself.) \<close>

theorem epoch_headers_suffice:
  assumes "library_crates L" and "honest_chain L (epoch_size cfg) s hs s'"
    and "epoch_size cfg \<noteq> 0" and "list_all2 (in_time cfg) hs clocks"
    and "\<forall>h \<in> set hs. ends_epoch (epoch_size cfg) h \<longrightarrow> keep h" and "hs \<noteq> [] \<Longrightarrow> keep (last hs)"
  shows "accepted_run L (state_new s cfg) (zip hs clocks) (state_new s' cfg) \<and>
    accepted_run L (state_new s cfg) (filter (\<lambda>(h, _). keep h) (zip hs clocks)) (state_new s' cfg)"
proof -
  have len: "length hs = length clocks" using assms(4) by (rule list_all2_lengthD)
  have "accepted_run L (state_new s cfg)
      (zip (filter keep hs) (map snd (filter (\<lambda>(h, _). keep h) (zip hs clocks)))) (state_new s' cfg)"
    using honest_chain_run [OF assms(1) honest_chain_filter [OF assms(2,5,6)] assms(3)
        list_all2_filter [OF assms(4)]] .
  with honest_chain_run [OF assms(1-4)] show ?thesis
    unfolding filter_zip_fst [OF len, of keep, symmetric] by blast
qed

text \<open>A block before the last one of the epoch, which need not be seen.\<close>

definition skipped_header :: header where
  "skipped_header = (header_with 17279 epoch_extra)\<lparr>time := 1599999999\<rparr>"

definition early_snapshot :: snapshot where
  "early_snapshot = sample_snapshot\<lparr>snap_number := 17278, snap_timestamp := 1599999990\<rparr>"

lemma sample_pair:
  "\<exists>s'. honest_chain ref_crates 17280 early_snapshot [skipped_header, header_with 17280 epoch_extra] s'"
proof -
  obtain s1 where s1: "honest_successor ref_crates 17280 early_snapshot skipped_header s1"
    "snap_number s1 = 17279" "snap_timestamp s1 = 1599999999" "snap_validators s1 = sample_validators"
    using sample_successor [of skipped_header 17279 early_snapshot]
    by (auto simp: skipped_header_def early_snapshot_def header_with_def sample_snapshot_def)
  then obtain s2 where "honest_successor ref_crates 17280 s1 (header_with 17280 epoch_extra) s2"
    using sample_successor [of "header_with 17280 epoch_extra" 17280 s1] by (auto simp: header_with_def)
  with s1(1) show ?thesis by (blast intro: honest_chain.intros)
qed

theorem epoch_headers_suffice_witness:
  "\<exists>s'. accepted_run ref_crates (state_new early_snapshot sample_config)
       [(skipped_header, 1600000000), (header_with 17280 epoch_extra, 1600000000)] (state_new s' sample_config) \<and>
     accepted_run ref_crates (state_new early_snapshot sample_config)
       [(header_with 17280 epoch_extra, 1600000000)] (state_new s' sample_config)"
proof -
  let ?hs = "[skipped_header, header_with 17280 epoch_extra]" and ?keep = "\<lambda>h. number h = 17280"
  obtain s' where chain: "honest_chain ref_crates (epoch_size sample_config) early_snapshot ?hs s'"
    using sample_pair by (auto simp: sample_config_def)
  have fields: "number skipped_header = 17279" "time skipped_header = 1599999999"
    "number (header_with 17280 epoch_extra) = 17280" "time (header_with 17280 epoch_extra) = 1600000000"
    by (simp_all add: skipped_header_def header_with_def)
  have "list_all2 (in_time sample_config) ?hs [1600000000, 1600000000]"
    by (simp add: in_time_def sample_config_def fields)
  from epoch_headers_suffice [OF sample_library chain _ this, of ?keep] show ?thesis
    by (auto simp: fields ends_epoch_def sample_config_def)
qed

end
