(* ===== verification/Effects.thy ===== *)
theory Effects
  imports Prelude
begin

text \<open>
  Calls that read or change something outside the program (a node, a clock, a source of
  randomness) or thread a mutable argument through many calls: functions of the world that
  return a result together with the world they leave behind.
\<close>

type_synonym ('a, 'e, 'w) io = "'w \<Rightarrow> ('a, 'e) result \<times> 'w"

definition io_return :: "'a \<Rightarrow> ('a, 'e, 'w) io" where
  "io_return a w = (Ok a, w)"

definition io_result :: "('a, 'e) result \<Rightarrow> ('a, 'e, 'w) io" where
  "io_result r w = (r, w)"

text \<open>The \<^verbatim>\<open>?\<close> operator, or \<^verbatim>\<open>await\<close> and then the operator.\<close>

definition io_then :: "('a, 'e, 'w) io \<Rightarrow> ('a \<Rightarrow> ('b, 'e, 'w) io) \<Rightarrow> ('b, 'e, 'w) io" where
  "io_then m f w = (case m w of (r, w') \<Rightarrow> try_state r w' (\<lambda>a. f a w'))"

text \<open>A \<^verbatim>\<open>Result\<close> kept as a value: only a panic ends the computation.\<close>

definition io_value :: "('a, 'e, 'w) io \<Rightarrow> (('a, 'e) result, 'f, 'w) io" where
  "io_value m w = (case m w of (Panic, w') \<Rightarrow> (Panic, w') | (r, w') \<Rightarrow> (Ok r, w'))"

lemma io_return_apply [simp]: "io_return a w = (Ok a, w)"
  by (simp add: io_return_def)

lemma io_result_apply [simp]: "io_result r w = (r, w)"
  by (simp add: io_result_def)

lemma io_then_Ok: "m w = (Ok a, w') \<Longrightarrow> io_then m f w = f a w'"
  by (simp add: io_then_def)

lemma io_then_eq_Ok [result_iff]:
  "io_then m f w = (Ok b, w') \<longleftrightarrow> (\<exists>a w1. m w = (Ok a, w1) \<and> f a w1 = (Ok b, w'))"
  by (cases "m w") (auto simp: io_then_def try_state_eq_Ok)

lemma io_value_Ok: "m w = (Ok a, w') \<Longrightarrow> io_value m w = (Ok (Ok a), w')"
  by (simp add: io_value_def)

text \<open>\<^verbatim>\<open>for x in xs { .. }\<close> over a local variable, and \<^verbatim>\<open>iter().map(..).collect()\<close>.\<close>

fun io_fold :: "('a \<Rightarrow> 'b \<Rightarrow> ('b, 'e, 'w) io) \<Rightarrow> 'a list \<Rightarrow> 'b \<Rightarrow> ('b, 'e, 'w) io" where
  "io_fold f [] b = io_return b"
| "io_fold f (x # xs) b = io_then (f x b) (io_fold f xs)"

fun io_collect :: "('a \<Rightarrow> ('b, 'e, 'w) io) \<Rightarrow> 'a list \<Rightarrow> ('b list, 'e, 'w) io" where
  "io_collect f [] = io_return []"
| "io_collect f (x # xs) = io_then (f x) (\<lambda>y. io_then (io_collect f xs) (\<lambda>ys. io_return (y # ys)))"

lemma io_then_return [simp]: "io_then (io_return a) f = f a"
  by (rule ext) (simp add: io_then_def)

lemma io_then_assoc: "io_then (io_then m f) g = io_then m (\<lambda>a. io_then (f a) g)"
  by (rule ext) (auto simp: io_then_def try_state_def split: result.splits prod.splits)

end
