(* ===== verification/Strings.thy ===== *)
theory Strings
  imports Prelude
begin

text \<open>
  Rust strings. A \<^verbatim>\<open>String\<close> or \<^verbatim>\<open>&str\<close> is the list of its UTF-8 bytes, kept as HOL
  characters (which are bytes), so that \<^verbatim>\<open>len()\<close> is the list's length, \<^verbatim>\<open>as_bytes()\<close> a
  change of type and \<^verbatim>\<open>std::str::from_utf8\<close> a check. Also the standard library's decimal
  and hexadecimal printing of integers.
\<close>

section \<open>Bytes of a string\<close>

definition as_bytes :: "string \<Rightarrow> bytes" where
  "as_bytes s = map (\<lambda>c. of_nat (of_char c)) s"

definition chars_of :: "bytes \<Rightarrow> string" where
  "chars_of bs = map (\<lambda>b. char_of (unat b)) bs"

lemma chars_of_as_bytes [simp]: "chars_of (as_bytes s) = s"
proof -
  have "char_of (unat (of_nat (of_char c) :: byte)) = c" for c
    by (simp add: unat_of_nat take_bit_eq_mod)
  then show ?thesis by (simp add: chars_of_def as_bytes_def map_idI)
qed

lemma as_bytes_chars_of [simp]: "as_bytes (chars_of bs) = bs"
proof -
  have "of_nat (of_char (char_of (unat b))) = b" for b :: byte
  proof -
    have "unat b < 256" using unsigned_less [of b] by simp
    then show ?thesis by simp
  qed
  then show ?thesis by (simp add: chars_of_def as_bytes_def map_idI)
qed

lemma as_bytes_inject [simp]: "as_bytes s = as_bytes t \<longleftrightarrow> s = t"
  by (metis chars_of_as_bytes)

lemma length_as_bytes [simp]: "length (as_bytes s) = length s"
  by (simp add: as_bytes_def)

section \<open>UTF-8\<close>

text \<open>\<^verbatim>\<open>std::str::from_utf8\<close>: the well-formed byte sequences of the Unicode standard.\<close>

definition cont :: "byte \<Rightarrow> bool" where
  "cont b \<longleftrightarrow> 0x80 \<le> b \<and> b \<le> 0xBF"

definition three_ok :: "byte \<Rightarrow> byte \<Rightarrow> bool" where
  "three_ok b c \<longleftrightarrow>
     (if b = 0xE0 then 0xA0 \<le> c \<and> c \<le> 0xBF
      else if b = 0xED then 0x80 \<le> c \<and> c \<le> 0x9F
      else 0xE1 \<le> b \<and> b \<le> 0xEF \<and> cont c)"

definition four_ok :: "byte \<Rightarrow> byte \<Rightarrow> bool" where
  "four_ok b c \<longleftrightarrow>
     (if b = 0xF0 then 0x90 \<le> c \<and> c \<le> 0xBF
      else if b = 0xF4 then 0x80 \<le> c \<and> c \<le> 0x8F
      else 0xF1 \<le> b \<and> b \<le> 0xF3 \<and> cont c)"

fun utf8_valid :: "bytes \<Rightarrow> bool" where
  "utf8_valid [] \<longleftrightarrow> True"
| "utf8_valid (a # as) \<longleftrightarrow>
     (if a < 0x80 then utf8_valid as
      else (case as of [] \<Rightarrow> False
      | b # bs \<Rightarrow>
          if 0xC2 \<le> a \<and> a \<le> 0xDF then cont b \<and> utf8_valid bs
          else (case bs of [] \<Rightarrow> False
          | c # cs \<Rightarrow>
              if three_ok a b then cont c \<and> utf8_valid cs
              else (case cs of [] \<Rightarrow> False
              | d # ds \<Rightarrow> four_ok a b \<and> cont c \<and> cont d \<and> utf8_valid ds))))"

definition from_utf8 :: "bytes \<Rightarrow> string option" where
  "from_utf8 bs = (if utf8_valid bs then Some (chars_of bs) else None)"

lemma utf8_valid_ascii: "list_all (\<lambda>b. b < 0x80) bs \<Longrightarrow> utf8_valid bs"
  by (induction bs) simp_all

lemma from_utf8_Some: "from_utf8 bs = Some s \<Longrightarrow> as_bytes s = bs"
  by (auto simp: from_utf8_def split: if_splits)

section \<open>Decimal numerals\<close>

text \<open>\<^verbatim>\<open>format!("{}", n)\<close> for an unsigned integer.\<close>

definition digit :: "nat \<Rightarrow> char" where
  "digit d = char_of (48 + d)"

fun dec_string :: "nat \<Rightarrow> string" where
  "dec_string n = (if n < 10 then [digit n] else dec_string (n div 10) @ [digit (n mod 10)])"

declare dec_string.simps [simp del]

definition is_digit :: "char \<Rightarrow> bool" where
  "is_digit c \<longleftrightarrow> 48 \<le> (of_char c :: nat) \<and> (of_char c :: nat) < 58"

definition dec_value :: "string \<Rightarrow> nat" where
  "dec_value s = foldl (\<lambda>a c. 10 * a + (of_char c - 48)) 0 s"

lemma of_char_digit: "d < 10 \<Longrightarrow> of_char (digit d) = 48 + d"
  by (simp add: digit_def)

lemma is_digit_digit: "d < 10 \<Longrightarrow> is_digit (digit d)"
  by (simp add: is_digit_def of_char_digit)

lemma dec_string_digits: "c \<in> set (dec_string n) \<Longrightarrow> is_digit c"
proof (induction n rule: dec_string.induct)
  case (1 n)
  then show ?case
    by (cases "n < 10") (auto simp: dec_string.simps [of n] is_digit_digit)
qed

lemma dec_value_string [simp]: "dec_value (dec_string n) = n"
proof (induction n rule: dec_string.induct)
  case (1 n)
  show ?case
  proof (cases "n < 10")
    case True
    then show ?thesis by (simp add: dec_string.simps [of n] dec_value_def of_char_digit)
  next
    case False
    have "dec_value (dec_string n) = 10 * dec_value (dec_string (n div 10)) + n mod 10"
      using False by (simp add: dec_string.simps [of n] dec_value_def of_char_digit)
    with 1 False show ?thesis by simp
  qed
qed

lemma dec_string_inject [simp]: "dec_string m = dec_string n \<longleftrightarrow> m = n"
  by (metis dec_value_string)

text \<open>A numeral ends where the first character that is not a digit stands.\<close>

lemma dec_string_append_split:
  assumes "\<not> is_digit c" and "\<not> is_digit d"
    and "dec_string m @ c # s = dec_string n @ d # t"
  shows "m = n \<and> c = d \<and> s = t"
proof -
  have tw: "takeWhile is_digit (dec_string k @ e # u) = dec_string k" if "\<not> is_digit e" for k e u
    using that dec_string_digits by (simp add: takeWhile_append)
  have "dec_string m = dec_string n"
    using tw [OF assms(1), of m s] tw [OF assms(2), of n t] assms(3) by simp
  then show ?thesis using assms(3) by simp
qed

lemma dec_string_no_split:
  assumes "\<not> is_digit c" shows "dec_string m \<noteq> dec_string n @ c # s"
proof
  assume "dec_string m = dec_string n @ c # s"
  then have "c \<in> set (dec_string m)" by simp
  then show False using dec_string_digits assms by blast
qed

end
