(* ===== verification/Numerals.thy ===== *)
theory Numerals
  imports Strings
begin

text \<open>
  Numbers as Rust's standard library prints and parses them, beyond \<open>dec_string\<close>: lower-case
  hexadecimal, signed decimal (as \<^verbatim>\<open>BigInt\<close> is displayed too), and \<^verbatim>\<open>u64::from_str\<close>.
\<close>

section \<open>Hexadecimal\<close>

definition hex_digit :: "nat \<Rightarrow> char" where
  "hex_digit d = (if d < 10 then char_of (48 + d) else char_of (87 + d))"

text \<open>\<^verbatim>\<open>format!("{:x}", n)\<close>.\<close>

fun hex_string :: "nat \<Rightarrow> string" where
  "hex_string n = (if n < 16 then [hex_digit n] else hex_string (n div 16) @ [hex_digit (n mod 16)])"

declare hex_string.simps [simp del]

definition hex_digit_value :: "char \<Rightarrow> nat" where
  "hex_digit_value c = (if of_char c < (58::nat) then of_char c - 48 else of_char c - 87)"

definition hex_value :: "string \<Rightarrow> nat" where
  "hex_value s = foldl (\<lambda>a c. 16 * a + hex_digit_value c) 0 s"

lemma hex_digit_value [simp]: "d < 16 \<Longrightarrow> hex_digit_value (hex_digit d) = d"
  by (simp add: hex_digit_value_def hex_digit_def)

lemma hex_value_string [simp]: "hex_value (hex_string n) = n"
proof (induction n rule: hex_string.induct)
  case (1 n)
  show ?case
  proof (cases "n < 16")
    case True
    then show ?thesis by (simp add: hex_string.simps [of n] hex_value_def)
  next
    case False
    have "hex_value (hex_string n) = 16 * hex_value (hex_string (n div 16)) + n mod 16"
      using False by (simp add: hex_string.simps [of n] hex_value_def)
    with 1 False show ?thesis by simp
  qed
qed

lemma hex_string_inject [simp]: "hex_string m = hex_string n \<longleftrightarrow> m = n"
  by (metis hex_value_string)

definition lower_hex_char :: "char \<Rightarrow> bool" where
  "lower_hex_char c \<longleftrightarrow> (of_char c :: nat) \<in> {48..57} \<union> {97..102}"

lemma hex_digit_range: "d < 16 \<Longrightarrow> lower_hex_char (hex_digit d)"
  by (simp add: lower_hex_char_def hex_digit_def)

lemma hex_string_digits: "list_all lower_hex_char (hex_string n)"
proof (induction n rule: hex_string.induct)
  case (1 n)
  then show ?case
    using hex_digit_range [of n] hex_digit_range [of "n mod 16"]
    by (cases "n < 16") (simp_all add: hex_string.simps [of n])
qed

section \<open>Signed decimal\<close>

definition int_string :: "int \<Rightarrow> string" where
  "int_string n = (if n < 0 then ''-'' @ dec_string (nat (- n)) else dec_string (nat n))"

section \<open>Parsing\<close>

text \<open>\<^verbatim>\<open>u64::from_str\<close>: an optional plus sign and at least one digit, no overflow.\<close>

definition parse_u64 :: "string \<Rightarrow> u64 option" where
  "parse_u64 s =
     (let ds = (case s of c # cs \<Rightarrow> if c = CHR ''+'' then cs else s | [] \<Rightarrow> [])
      in if ds \<noteq> [] \<and> list_all is_digit ds \<and> dec_value ds < 2 ^ 64
         then Some (of_nat (dec_value ds)) else None)"

text \<open>\<^verbatim>\<open>u64::from_str_radix(s, 16)\<close>: digits of either case.\<close>

definition is_hex_char :: "char \<Rightarrow> bool" where
  "is_hex_char c \<longleftrightarrow> (of_char c :: nat) \<in> {48..57} \<union> {65..70} \<union> {97..102}"

definition hex_char_value :: "char \<Rightarrow> nat" where
  "hex_char_value c = (if of_char c < (58::nat) then of_char c - 48
     else if of_char c < (97::nat) then of_char c - 55 else of_char c - 87)"

definition parse_hex_u64 :: "string \<Rightarrow> u64 option" where
  "parse_hex_u64 s =
     (let ds = (case s of c # cs \<Rightarrow> if c = CHR ''+'' then cs else s | [] \<Rightarrow> []);
          n = foldl (\<lambda>a c. 16 * a + hex_char_value c) 0 ds
      in if ds \<noteq> [] \<and> list_all is_hex_char ds \<and> n < 2 ^ 64 then Some (of_nat n) else None)"

lemma lower_hex_char_facts:
  assumes "lower_hex_char c"
  shows "hex_char_value c = hex_digit_value c" "is_hex_char c" "c \<noteq> CHR ''+''"
  using assms by (auto simp: lower_hex_char_def hex_char_value_def hex_digit_value_def is_hex_char_def)

lemma parse_hex_u64_hex_string [simp]: "parse_hex_u64 (hex_string (unat n)) = Some n"
proof -
  let ?s = "hex_string (unat n)"
  note digits = hex_string_digits [of "unat n"]
  have same: "foldl (\<lambda>a c. 16 * a + hex_char_value c) a s = foldl (\<lambda>a c. 16 * a + hex_digit_value c) a s"
    if "list_all lower_hex_char s" for s a
    using that by (induction s arbitrary: a) (simp_all add: lower_hex_char_facts)
  have "foldl (\<lambda>a c. 16 * a + hex_char_value c) 0 ?s = unat n"
    using same [OF digits] hex_value_string [of "unat n"] by (simp add: hex_value_def)
  moreover have "list_all is_hex_char ?s"
    using digits by (auto simp: list_all_iff lower_hex_char_facts)
  moreover obtain c cs where s: "?s = c # cs" by (metis hex_string.simps append_is_Nil_conv list.exhaust not_Cons_self2)
  moreover have "c \<noteq> CHR ''+''" using digits s by (simp add: lower_hex_char_facts)
  ultimately show ?thesis using unat_u64_lt [of n] by (simp add: parse_hex_u64_def)
qed

lemma dec_string_ne_Nil [simp]: "dec_string n \<noteq> []"
  by (subst dec_string.simps) simp

lemma parse_u64_dec_string [simp]: "parse_u64 (dec_string (unat n)) = Some n"
proof (cases "dec_string (unat n)")
  case (Cons c cs)
  then have "is_digit c" using dec_string_digits [of c "unat n"] by simp
  then have "c \<noteq> CHR ''+''" by (auto simp: is_digit_def)
  moreover have "list_all is_digit (dec_string (unat n))"
    using dec_string_digits by (auto simp: list_all_iff)
  ultimately show ?thesis
    using Cons unat_u64_lt [of n] dec_value_string [of "unat n"]
    by (simp add: parse_u64_def)
qed simp

end
