(* ===== verification/Hex_Serialization.thy ===== *)
theory Hex_Serialization
  imports Numerals Errors "HOL-Library.Sublist"
begin

text \<open>
  \<^verbatim>\<open>src/serialization/bytes.rs\<close>: the JSON form of byte arrays and numbers, hexadecimal strings
  that start with 0x. What \<^verbatim>\<open>serde\<close> reads or writes is the string itself (a list of strings
  for \<^verbatim>\<open>hexvec\<close>); the \<^verbatim>\<open>hex\<close> and \<^verbatim>\<open>num\<close> crates are the record \<open>hex_crates\<close>, and a type's
  \<^verbatim>\<open>FromHex\<close> and \<^verbatim>\<open>FromBytes\<close> are arguments, as the trait bounds make them.
\<close>

text \<open>The constructors of \<^verbatim>\<open>serde::de::Error\<close>, and a syntax error of the JSON text.\<close>

datatype serde_error =
    SerdeCustom string
  | InvalidType
  | InvalidValue
  | InvalidLength nat
  | MissingField string
  | DuplicateField string
  | SyntaxError

record hex_crates =
  hex_encode :: "bytes \<Rightarrow> string"
  hex_decode :: "string \<Rightarrow> bytes option"
  from_str_radix_16 :: "string \<Rightarrow> int option"
  lower_hex :: "int \<Rightarrow> string"

section \<open>hexstring\<close>

definition hexstring_deserialize :: "(string \<Rightarrow> 'a option) \<Rightarrow> string \<Rightarrow> ('a, serde_error) result" where
  "hexstring_deserialize from_hex s =
     (if length s \<le> 2 \<or> \<not> prefix ''0x'' s
      then ok_or (from_hex '''') (SerdeCustom ''hex'')
      else ok_or (from_hex (drop 2 s)) (SerdeCustom ''hex''))"

definition hexstring_serialize :: "hex_crates \<Rightarrow> bytes \<Rightarrow> string" where
  "hexstring_serialize H value =
     (let hex_string = hex_encode H value
      in if length hex_string = 0 then '''' else ''0x'' @ hex_string)"

section \<open>hexnum and hexbigint\<close>

definition prefix_error :: serde_error where
  "prefix_error = SerdeCustom ''hex string should start with '0x', got: ''"

definition hexnum_deserialize :: "(string \<Rightarrow> 'a option) \<Rightarrow> string \<Rightarrow> ('a, serde_error) result" where
  "hexnum_deserialize from_str_radix s =
     (if length s \<le> 2 \<or> \<not> prefix ''0x'' s then Err prefix_error
      else ok_or (from_str_radix (drop 2 s)) (SerdeCustom ''num''))"

definition hexnum_serialize :: "('a \<Rightarrow> string) \<Rightarrow> 'a \<Rightarrow> string" where
  "hexnum_serialize to_lower_hex value = ''0x'' @ to_lower_hex value"

definition hexbigint_deserialize :: "hex_crates \<Rightarrow> string \<Rightarrow> (int, serde_error) result" where
  "hexbigint_deserialize H s =
     (if length s \<le> 2 \<or> \<not> prefix ''0x'' s then Err prefix_error
      else ok_or (from_str_radix_16 H (drop 2 s)) (SerdeCustom ''num''))"

definition hexbigint_serialize :: "hex_crates \<Rightarrow> int \<Rightarrow> string" where
  "hexbigint_serialize H value = ''0x'' @ lower_hex H value"

section \<open>hexvec\<close>

fun hexvec_deserialize ::
    "hex_crates \<Rightarrow> (bytes \<Rightarrow> (bytes, kind) result) \<Rightarrow> string list \<Rightarrow> (bytes list, serde_error) result" where
  "hexvec_deserialize H from_bytes [] = Ok []"
| "hexvec_deserialize H from_bytes (item # items) =
     (if length item \<le> 2 \<or> \<not> prefix ''0x'' item then Err prefix_error
      else case hex_decode H (drop 2 item) of
        Some decoded \<Rightarrow>
          and_then (map_err (\<lambda>_. SerdeCustom ''failed to call from_bytes, got: '') (from_bytes decoded))
            (\<lambda>concrete.
          and_then (hexvec_deserialize H from_bytes items) (\<lambda>out. Ok (concrete # out)))
      | None \<Rightarrow> Err (SerdeCustom ''failed to decode hex data, got: ''))"

definition hexvec_serialize :: "hex_crates \<Rightarrow> bytes list \<Rightarrow> string list" where
  "hexvec_serialize H value = map (\<lambda>v. ''0x'' @ hex_encode H v) value"

section \<open>Laws of the crates\<close>

locale hex_library =
  fixes H :: hex_crates
  assumes hex_decode_encode: "hex_decode H (hex_encode H b) = Some b"
    and hex_encode_length: "length (hex_encode H b) = 2 * length b"
    and radix_lower_hex: "from_str_radix_16 H (lower_hex H n) = Some n"
    and lower_hex_nonempty: "lower_hex H n \<noteq> ''''"
    and hex_encode_digits: "list_all lower_hex_char (hex_encode H b)"
    and lower_hex_digits: "list_all (\<lambda>c. c = CHR ''-'' \<or> lower_hex_char c) (lower_hex H n)"
begin

lemma hexstring_roundtrip:
  "from_hex '''' = Some [] \<or> b \<noteq> [] \<Longrightarrow> from_hex (hex_encode H b) = Some b \<Longrightarrow>
     hexstring_deserialize from_hex (hexstring_serialize H b) = Ok b"
  using hex_encode_length [of b]
  by (cases b) (auto simp: hexstring_deserialize_def hexstring_serialize_def Let_def)

lemma hexbigint_from_to: "hexbigint_deserialize H (hexbigint_serialize H n) = Ok n"
  using lower_hex_nonempty [of n]
  by (simp add: hexbigint_deserialize_def hexbigint_serialize_def radix_lower_hex)

lemma hexvec_from_to:
  "0 < n \<Longrightarrow> list_all (\<lambda>v. length v = n) vs \<Longrightarrow>
     hexvec_deserialize H (array_from_bytes n) (hexvec_serialize H vs) = Ok vs"
proof (induction vs)
  case (Cons v vs)
  then have "hex_encode H v \<noteq> ''''" using hex_encode_length [of v] by auto
  with Cons show ?case by (simp add: hexvec_serialize_def hex_decode_encode)
qed (simp add: hexvec_serialize_def)

end

section \<open>A reference implementation\<close>

fun ref_hex_encode :: "bytes \<Rightarrow> string" where
  "ref_hex_encode [] = ''''"
| "ref_hex_encode (b # bs) = hex_digit (unat b div 16) # hex_digit (unat b mod 16) # ref_hex_encode bs"

fun ref_hex_decode :: "string \<Rightarrow> bytes option" where
  "ref_hex_decode [] = Some []"
| "ref_hex_decode [c] = None"
| "ref_hex_decode (c # d # s) = (case ref_hex_decode s of None \<Rightarrow> None
     | Some bs \<Rightarrow> Some (of_nat (16 * hex_digit_value c + hex_digit_value d) # bs))"

definition ref_hex :: hex_crates where
  "ref_hex = \<lparr>hex_encode = ref_hex_encode, hex_decode = ref_hex_decode,
     from_str_radix_16 = (\<lambda>s. case s of c # t \<Rightarrow>
         Some (if c = CHR ''-'' then - int (hex_value t) else int (hex_value s)) | [] \<Rightarrow> None),
     lower_hex = (\<lambda>n. if n < 0 then CHR ''-'' # hex_string (nat (- n)) else hex_string (nat n))\<rparr>"

lemma hex_digit_ne_dash: "d < 16 \<Longrightarrow> hex_digit d \<noteq> CHR ''-''"
proof
  assume d: "d < 16" and "hex_digit d = CHR ''-''"
  then have "(of_char (hex_digit d) :: nat) = 45" by simp
  with d show False by (simp add: hex_digit_def split: if_splits)
qed

lemma hex_string_Cons: "\<exists>c s. hex_string n = c # s \<and> c \<noteq> CHR ''-''"
proof (induction n rule: hex_string.induct)
  case (1 n)
  then show ?case
    by (cases "n < 16") (auto simp: hex_string.simps [of n] hex_digit_ne_dash)
qed

lemma ref_hex_roundtrip: "ref_hex_decode (ref_hex_encode b) = Some b"
proof (induction b)
  case (Cons x b)
  have "unat x < 256" using unsigned_less [of x] by simp
  then show ?case using Cons by simp
qed simp

lemma ref_hex_encode_digits: "list_all lower_hex_char (ref_hex_encode b)"
proof (induction b)
  case (Cons x b)
  have "unat x < 256" using unsigned_less [of x] by simp
  then show ?case using Cons hex_digit_range [of "unat x div 16"] hex_digit_range [of "unat x mod 16"] by simp
qed simp

interpretation hex: hex_library ref_hex
proof
  fix b n
  show "hex_decode ref_hex (hex_encode ref_hex b) = Some b"
    by (simp add: ref_hex_def ref_hex_roundtrip)
  show "length (hex_encode ref_hex b) = 2 * length b"
    by (induction b) (simp_all add: ref_hex_def)
  obtain c s where "hex_string (nat n) = c # s" "c \<noteq> CHR ''-''" using hex_string_Cons by blast
  then show "from_str_radix_16 ref_hex (lower_hex ref_hex n) = Some n"
    using hex_value_string [of "nat n"] hex_value_string [of "nat (- n)"]
    by (auto simp: ref_hex_def)
  show "lower_hex ref_hex n \<noteq> ''''"
    using hex_string_Cons [of "nat n"] by (auto simp: ref_hex_def)
  show "list_all lower_hex_char (hex_encode ref_hex b)"
    using ref_hex_encode_digits by (simp add: ref_hex_def)
  show "list_all (\<lambda>c. c = CHR ''-'' \<or> lower_hex_char c) (lower_hex ref_hex n)"
    using hex_string_digits [of "nat n"] hex_string_digits [of "nat (- n)"]
    by (auto simp: ref_hex_def list_all_iff)
qed

section \<open>Properties\<close>

text \<open>The JSON form of the header's arrays and numbers reads back: byte strings (a non-empty one,
  or an empty vector), big integers of either sign, and vectors of fixed-size arrays. \<close>

theorem hex_json_roundtrips:
  assumes "hex_library H" and "0 < n" and "list_all (\<lambda>v. length v = n) vs"
  shows "hexstring_deserialize (hex_decode H) (hexstring_serialize H b) = Ok b \<and>
    hexbigint_deserialize H (hexbigint_serialize H i) = Ok i \<and>
    hexvec_deserialize H (array_from_bytes n) (hexvec_serialize H vs) = Ok vs"
proof -
  have "hex_decode H '''' = Some []"
    using hex_library.hex_decode_encode [OF assms(1), of "[]"]
      hex_library.hex_encode_length [OF assms(1), of "[]"] by simp
  then show ?thesis
    using assms hex_library.hexstring_roundtrip [OF assms(1)] hex_library.hex_decode_encode [OF assms(1)]
      hex_library.hexbigint_from_to [OF assms(1)] hex_library.hexvec_from_to [OF assms(1)] by simp
qed

theorem hex_json_roundtrips_witness:
  "hexstring_deserialize (hex_decode ref_hex) (hexstring_serialize ref_hex [1, 255]) = Ok [1, 255] \<and>
   hexbigint_deserialize ref_hex (hexbigint_serialize ref_hex (- 17)) = Ok (- 17) \<and>
   hexvec_deserialize ref_hex (array_from_bytes 2) (hexvec_serialize ref_hex [[1, 2], [3, 4]]) =
     Ok [[1, 2], [3, 4]]"
  by (rule hex_json_roundtrips) (unfold_locales, simp_all)

text \<open>A byte string without the 0x prefix is not rejected: \<^verbatim>\<open>hexstring\<close> ignores its content and
  reads it as the empty value, which a byte vector accepts. \<close>

theorem hexstring_without_prefix_reads_empty:
  assumes "hex_library H" and "\<not> prefix ''0x'' s"
  shows "hexstring_deserialize (hex_decode H) s = Ok []"
proof -
  have "hex_decode H '''' = Some []"
    using hex_library.hex_decode_encode [OF assms(1), of "[]"]
      hex_library.hex_encode_length [OF assms(1), of "[]"] by simp
  with assms(2) show ?thesis by (simp add: hexstring_deserialize_def)
qed

theorem hexstring_without_prefix_reads_empty_witness:
  "hexstring_deserialize (hex_decode ref_hex) ''deadbeef'' = Ok []"
  by (rule hexstring_without_prefix_reads_empty) (unfold_locales, simp)

text \<open>An item of \<^verbatim>\<open>hexvec\<close> that is too short aborts the deserializer, and one that is too long is cut: its
  error for a failing \<^verbatim>\<open>from_bytes\<close> is never returned. \<close>

theorem hexvec_item_length_not_checked:
  assumes "hex_library H" and "v \<noteq> []"
  shows "hexvec_deserialize H (array_from_bytes n) (hexvec_serialize H [v]) =
    (if n \<le> length v then Ok [take n v] else Panic)"
proof -
  have "hex_encode H v \<noteq> ''''"
    using hex_library.hex_encode_length [OF assms(1), of v] assms(2) by auto
  then show ?thesis
    using hex_library.hex_decode_encode [OF assms(1)]
    by (simp add: hexvec_serialize_def array_from_bytes_eq)
qed

theorem hexvec_item_length_not_checked_witness:
  "hexvec_deserialize ref_hex (array_from_bytes 20) (hexvec_serialize ref_hex [[1, 2]]) = Panic"
  using hexvec_item_length_not_checked [OF hex.hex_library_axioms, of "[1, 2]" 20] by simp

end
