(* ===== verification/Serde.thy ===== *)
theory Serde
  imports Hex_Serialization "HOL-Library.Multiset"
begin

text \<open>
  The interface of \<^verbatim>\<open>serde\<close> and \<^verbatim>\<open>serde_json\<close> that the crate uses: the JSON values that are written and
  read, the crates' functions as parameters, and the code \<^verbatim>\<open>#[derive(Serialize, Deserialize)]\<close>
  generates, a parameter too. A struct is given to that code as the list of its fields, each with
  the name and the \<^verbatim>\<open>with\<close> module its attributes say; the locales at the end are what \<^verbatim>\<open>serde\<close>
  documents of it.
\<close>

section \<open>JSON values\<close>

text \<open>What a serializer is given. The program writes no negative or fractional numbers.\<close>

datatype json =
    JNull | JBool bool | JNumber u64 | JString string | JArray "json list"
  | JObject "(string \<times> json) list"

text \<open>
  What a deserializer finds. A string carries whether it was written without escape sequences:
  only then can a \<^verbatim>\<open>&str\<close> be borrowed from the input. \<open>PInvalid\<close> stands where the text stops
  being JSON, as the last element or entry of what encloses it; everything before it is
  handed to the visitors first.
\<close>

datatype parsed =
    PNull | PBool bool | PUnsigned u64 | POtherNumber | PString bool string
  | PArray "parsed list" | PObject "(string \<times> parsed) list" | PInvalid

text \<open>Characters that \<^verbatim>\<open>serde_json\<close> writes as they are.\<close>

definition plain_char :: "char \<Rightarrow> bool" where
  "plain_char c \<longleftrightarrow> c \<noteq> CHR 0x22 \<and> c \<noteq> CHR 0x5C \<and> 32 \<le> (of_char c :: nat)"

text \<open>A written value as it is found by a reader, and its depth.\<close>

fun parsed_of :: "json \<Rightarrow> parsed" where
  "parsed_of JNull = PNull"
| "parsed_of (JBool b) = PBool b"
| "parsed_of (JNumber n) = PUnsigned n"
| "parsed_of (JString s) = PString (list_all plain_char s) s"
| "parsed_of (JArray js) = PArray (map parsed_of js)"
| "parsed_of (JObject es) = PObject (map (\<lambda>(k, j). (k, parsed_of j)) es)"

fun json_depth :: "json \<Rightarrow> nat" where
  "json_depth (JArray js) = Suc (foldr (\<lambda>j. max (json_depth j)) js 0)"
| "json_depth (JObject es) = Suc (foldr (\<lambda>(k, j). max (json_depth j)) es 0)"
| "json_depth _ = 0"

text \<open>The strings of the program are UTF-8.\<close>

fun json_utf8 :: "json \<Rightarrow> bool" where
  "json_utf8 (JString s) = utf8_valid (as_bytes s)"
| "json_utf8 (JArray js) = list_all json_utf8 js"
| "json_utf8 (JObject es) = list_all (\<lambda>(k, j). utf8_valid (as_bytes k) \<and> json_utf8 j) es"
| "json_utf8 _ = True"

text \<open>Whether the text of a value is JSON to its end, which skipping a value checks.\<close>

fun is_json :: "parsed \<Rightarrow> bool" where
  "is_json PInvalid = False"
| "is_json (PArray ps) = list_all is_json ps"
| "is_json (PObject es) = list_all (\<lambda>(k, p). is_json p) es"
| "is_json _ = True"

section \<open>The serde_json crate\<close>

text \<open>
  \<^verbatim>\<open>serde_json::to_string\<close> on a value, and the reading of a text: the value at its start, and whether
  only white space follows it.
\<close>

type_synonym 'a deserialize = "parsed \<Rightarrow> ('a, serde_error) result"

record serde_json =
  to_string :: "json \<Rightarrow> string"
  read_json :: "bytes \<Rightarrow> parsed \<times> bool"
  \<comment> \<open>\<^verbatim>\<open><&str>::deserialize\<close> and \<^verbatim>\<open><Vec<String>>::deserialize\<close>\<close>
  de_str :: "string deserialize"
  de_strings :: "string list deserialize"

text \<open>\<^verbatim>\<open>serde_json::from_slice\<close> and \<^verbatim>\<open>serde_json::from_str\<close>.\<close>

definition from_slice ::
    "'z serde_json_scheme \<Rightarrow> 'a deserialize \<Rightarrow> bytes \<Rightarrow> ('a, serde_error) result" where
  "from_slice J deserialize buf =
     (case read_json J buf of (p, at_end) \<Rightarrow>
        and_then (deserialize p) (\<lambda>value. if at_end then Ok value else Err SyntaxError))"

definition from_str ::
    "'z serde_json_scheme \<Rightarrow> 'a deserialize \<Rightarrow> string \<Rightarrow> ('a, serde_error) result" where
  "from_str J deserialize s = from_slice J deserialize (as_bytes s)"

text \<open>
  The crate reads what it has written, up to its limit of 127 nested arrays and objects; a string
  without escapes can be borrowed, and a vector of strings is read from any strings.
\<close>

locale json_text =
  fixes J :: "'z serde_json_scheme"
  assumes read_to_string: "json_utf8 j \<Longrightarrow> json_depth j \<le> 127 \<Longrightarrow> read_json J (as_bytes (to_string J j)) = (parsed_of j, True)"
    and de_str_borrowed: "de_str J (PString True s) = Ok s"
    and de_strings_array: "de_strings J (PArray (map (\<lambda>(b, s). PString b s) ss)) = Ok (map snd ss)"
begin

lemma from_str_to_string:
  "json_utf8 j \<Longrightarrow> json_depth j \<le> 127 \<Longrightarrow> from_str J deserialize (to_string J j) = deserialize (parsed_of j)"
  by (cases "deserialize (parsed_of j)") (simp_all add: from_str_def from_slice_def read_to_string)

end

section \<open>Derived structs\<close>

text \<open>
  A field of a struct of type \<open>'b\<close>: its name, how it is written, how a value is read and stored in the
  struct under construction, and (for the statements below) how it is copied.
\<close>

record 'b field =
  field_name :: string
  field_ser :: "'b \<Rightarrow> json"
  field_de :: "parsed \<Rightarrow> 'b \<Rightarrow> ('b, serde_error) result"
  field_copy :: "'b \<Rightarrow> 'b \<Rightarrow> 'b"

definition mk_field ::
    "string \<Rightarrow> ('v \<Rightarrow> json) \<Rightarrow> 'v deserialize \<Rightarrow> ('b \<Rightarrow> 'v) \<Rightarrow> ('v \<Rightarrow> 'b \<Rightarrow> 'b) \<Rightarrow> 'b field" where
  "mk_field name ser de get put =
     \<lparr>field_name = name, field_ser = (\<lambda>b. ser (get b)),
      field_de = (\<lambda>p b. and_then (de p) (\<lambda>v. Ok (put v b))),
      field_copy = (\<lambda>b. put (get b))\<rparr>"

lemma mk_field_simps [simp]:
  "field_name (mk_field name ser de get put) = name"
  "field_ser (mk_field name ser de get put) b = ser (get b)"
  "field_de (mk_field name ser de get put) p c = and_then (de p) (\<lambda>v. Ok (put v c))"
  "field_copy (mk_field name ser de get put) b c = put (get b) c"
  by (simp_all add: mk_field_def)

text \<open>The derived code of a struct: it is written from its fields, and read into a struct that is all overwritten.\<close>

record 'b derive =
  ser_struct :: "'b field list \<Rightarrow> 'b \<Rightarrow> json"
  de_struct :: "'b field list \<Rightarrow> 'b \<Rightarrow> 'b deserialize"

text \<open>Field values read in a given order, up to the first error or panic.\<close>

fun read_fields :: "('b field \<times> parsed) list \<Rightarrow> 'b \<Rightarrow> ('b, serde_error) result" where
  "read_fields [] b = Ok b"
| "read_fields ((f, p) # fps) b = and_then (field_de f p b) (read_fields fps)"

text \<open>
  A struct is written as an object of its fields in order. An object that has each field once is read
  in the order of its entries, those under other names being skipped; and whatever is accepted
  has had each field read once.
\<close>

locale derived =
  fixes D :: "'b derive"
  assumes ser_struct_eq:
      "ser_struct D fs b = JObject (map (\<lambda>f. (field_name f, field_ser f b)) fs)"
    and de_struct_object: "distinct (map field_name fs) \<Longrightarrow> list_all (\<lambda>(k, p). is_json p) es \<Longrightarrow>
      filter (\<lambda>(k, p). k \<in> field_name ` set fs) es = map (\<lambda>(f, p). (field_name f, p)) fps \<Longrightarrow>
      mset (map fst fps) = mset fs \<Longrightarrow> de_struct D fs init (PObject es) = read_fields fps init"
    and de_struct_accepts: "distinct (map field_name fs) \<Longrightarrow> de_struct D fs init p = Ok b \<Longrightarrow>
      \<exists>fps. mset (map fst fps) = mset fs \<and> read_fields fps init = Ok b"
begin

lemma de_struct_invariant:
  assumes "distinct (map field_name fs)" and "P init"
    and "\<And>f p c c'. f \<in> set fs \<Longrightarrow> P c \<Longrightarrow> field_de f p c = Ok c' \<Longrightarrow> P c'"
    and "de_struct D fs init p = Ok b"
  shows "P b"
proof -
  obtain fps where fps: "mset (map fst fps) = mset fs" "read_fields fps init = Ok b"
    using de_struct_accepts [OF assms(1,4)] by blast
  have "fst ` set qs \<subseteq> set fs \<Longrightarrow> P c \<Longrightarrow> read_fields qs c = Ok b \<Longrightarrow> P b" for qs c
  proof (induction qs arbitrary: c)
    case (Cons q qs)
    then obtain c' where "field_de (fst q) (snd q) c = Ok c'" "read_fields qs c' = Ok b"
      by (cases q) (auto simp: and_then_eq_Ok)
    with Cons show ?case using assms(3) [of "fst q" c "snd q" c'] by simp
  qed simp
  moreover have "fst ` set fps = set fs"
    using mset_eq_setD [OF fps(1)] by simp
  ultimately show ?thesis using assms(2) fps(2) by blast
qed

end

section \<open>Reading back\<close>

lemma is_json_parsed_of [simp]: "is_json (parsed_of j)"
  by (induction j) (auto simp: list_all_iff)

lemma mset_eq_mset_mapE:
  assumes "mset xs = mset (map f ys)"
  obtains zs where "mset zs = mset ys" "xs = map f zs"
proof -
  have "\<exists>zs. mset zs = mset ys \<and> xs = map f zs"
    using assms
  proof (induction xs arbitrary: ys)
    case (Cons x xs)
    then have "x \<in> f ` set ys" by (metis list.set_intros(1) mset_eq_setD set_map)
    then obtain y where y: "y \<in> set ys" "x = f y" by blast
    obtain ys' where ys': "mset ys = mset (y # ys')"
      using y(1) by (metis insert_DiffM mset.simps(2) mset_remove1 set_mset_mset)
    with Cons.prems y(2) have "mset xs = mset (map f ys')" by simp
    then obtain zs where zs: "mset zs = mset ys'" "xs = map f zs" using Cons.IH by blast
    show ?case by (rule exI [of _ "y # zs"]) (simp only: y(2) zs ys' mset.simps list.map simp_thms)
  qed simp
  then show ?thesis using that by blast
qed

text \<open>
  \<open>object_of fs b es\<close>: the entries hold each field of \<open>b\<close> once, in any order, and otherwise only
  entries under other names.
\<close>

definition object_of :: "'b field list \<Rightarrow> 'b \<Rightarrow> (string \<times> parsed) list \<Rightarrow> bool" where
  "object_of fs b es \<longleftrightarrow> list_all (\<lambda>(k, p). is_json p) es \<and>
     mset (filter (\<lambda>(k, p). k \<in> field_name ` set fs) es) =
       mset (map (\<lambda>f. (field_name f, parsed_of (field_ser f b))) fs)"

locale json_struct =
  fixes fs :: "'b field list" and init :: 'b and well_typed :: "'b \<Rightarrow> bool"
  assumes names_distinct: "distinct (map field_name fs)"
    and field_de_ser: "f \<in> set fs \<Longrightarrow> well_typed b \<Longrightarrow>
      field_de f (parsed_of (field_ser f b)) c = Ok (field_copy f b c)"
    and copy_commute: "f \<in> set fs \<Longrightarrow> g \<in> set fs \<Longrightarrow>
      field_copy f b (field_copy g b c) = field_copy g b (field_copy f b c)"
    and copy_all: "fold (\<lambda>f. field_copy f b) fs init = b"
begin

lemma read_fields_written:
  "set gs \<subseteq> set fs \<Longrightarrow> well_typed b \<Longrightarrow>
     read_fields (map (\<lambda>f. (f, parsed_of (field_ser f b))) gs) c = Ok (fold (\<lambda>f. field_copy f b) gs c)"
  by (induction gs arbitrary: c) (auto simp: field_de_ser)

lemma struct_read_in_any_order:
  assumes "derived D" and "well_typed b" and "object_of fs b es"
  shows "de_struct D fs init (PObject es) = Ok b"
proof -
  have "mset (filter (\<lambda>(k, p). k \<in> field_name ` set fs) es) =
      mset (map (\<lambda>f. (field_name f, parsed_of (field_ser f b))) fs)"
    using assms(3) by (simp add: object_of_def)
  then obtain gs where gs: "mset gs = mset fs" "filter (\<lambda>(k, p). k \<in> field_name ` set fs) es =
      map (\<lambda>f. (field_name f, parsed_of (field_ser f b))) gs"
    using mset_eq_mset_mapE by blast
  have same: "set gs = set fs" using gs(1) by (rule mset_eq_setD)
  have "de_struct D fs init (PObject es) =
      read_fields (map (\<lambda>f. (f, parsed_of (field_ser f b))) gs) init"
    using assms(3) gs names_distinct
    by (intro derived.de_struct_object [OF assms(1)]) (auto simp: object_of_def comp_def)
  also have "\<dots> = Ok (fold (\<lambda>f. field_copy f b) gs init)"
    using assms(2) same by (intro read_fields_written) simp_all
  also have "fold (\<lambda>f. field_copy f b) gs init = fold (\<lambda>f. field_copy f b) fs init"
    by (rule fun_cong [OF fold_multiset_equiv]) (auto simp: fun_eq_iff copy_commute same gs(1))
  finally show ?thesis by (simp add: copy_all)
qed

lemma object_of_serialized:
  "object_of fs b (map (\<lambda>f. (field_name f, parsed_of (field_ser f b))) fs)"
proof -
  have *: "filter (\<lambda>(k, p). k \<in> field_name ` set fs) (map (\<lambda>f. (field_name f, parsed_of (field_ser f b))) fs) =
      map (\<lambda>f. (field_name f, parsed_of (field_ser f b))) fs"
    by (auto simp: filter_id_conv)
  show ?thesis unfolding object_of_def * by (auto simp: list_all_iff)
qed

lemma struct_from_to:
  "derived D \<Longrightarrow> well_typed b \<Longrightarrow> de_struct D fs init (parsed_of (ser_struct D fs b)) = Ok b"
  using struct_read_in_any_order [OF _ _ object_of_serialized [of b]]
  by (simp add: derived.ser_struct_eq comp_def)

end

end
