(* ===== verification/Ref_Json.thy ===== *)
theory Ref_Json
  imports Serde
begin

text \<open>
  A reference implementation of \<^verbatim>\<open>serde_json\<close>: a printer of JSON text without white space, and a
  reader that skips white space, unescapes strings and marks the place where a text stops being
  JSON. Escapes beyond ASCII are not read, and fractions and exponents are skipped without a check
  of their form. Then the visitors of a derived struct, over the list of its fields: they show
  that the laws of \<open>derived\<close> can hold.
\<close>

section \<open>Printing\<close>

definition print_char :: "char \<Rightarrow> string" where
  "print_char c =
     (if plain_char c then [c]
      else if c = CHR 0x22 \<or> c = CHR 0x5C then [CHR 0x5C, c]
      else [CHR 0x5C, CHR ''u'', CHR ''0'', CHR ''0'', hex_digit (of_char c div 16), hex_digit (of_char c mod 16)])"

definition print_string :: "string \<Rightarrow> string" where
  "print_string s = CHR 0x22 # concat (map print_char s) @ [CHR 0x22]"

fun join :: "string list \<Rightarrow> string" where
  "join [] = []"
| "join [x] = x"
| "join (x # xs) = x @ CHR '','' # join xs"

fun print_json :: "json \<Rightarrow> string" where
  "print_json JNull = ''null''"
| "print_json (JBool b) = (if b then ''true'' else ''false'')"
| "print_json (JNumber n) = dec_string (unat n)"
| "print_json (JString s) = print_string s"
| "print_json (JArray js) = CHR ''['' # join (map print_json js) @ '']''"
| "print_json (JObject es) =
     CHR ''{'' # join (map (\<lambda>(k, j). print_string k @ CHR '':'' # print_json j) es) @ ''}''"

section \<open>Reading\<close>

definition skip_ws :: "string \<Rightarrow> string" where
  "skip_ws = dropWhile (\<lambda>c. c \<in> {CHR '' '', CHR 0x09, CHR 0x0A, CHR 0x0D})"

text \<open>The character an escape sequence stands for, and the text after it.\<close>

definition simple_escapes :: "(char \<times> char) list" where
  "simple_escapes =
     [(CHR 0x22, CHR 0x22), (CHR 0x5C, CHR 0x5C), (CHR ''/'', CHR ''/''), (CHR ''b'', CHR 0x08),
      (CHR ''f'', CHR 0x0C), (CHR ''n'', CHR 0x0A), (CHR ''r'', CHR 0x0D), (CHR ''t'', CHR 0x09)]"

definition unicode_escape :: "string \<Rightarrow> char option" where
  "unicode_escape ds =
     (let n = foldl (\<lambda>a c. 16 * a + hex_char_value c) 0 ds
      in if length ds = 4 \<and> list_all is_hex_char ds \<and> n < 128 then Some (char_of n) else None)"

text \<open>The rest of a string after its opening quote: whether it has no escapes, its characters, the text after it.\<close>

fun read_string :: "string \<Rightarrow> (bool \<times> string \<times> string) option" where
  "read_string [] = None"
| "read_string (c # s) =
     (if c = CHR 0x22 then Some (True, [], s)
      else if c = CHR 0x5C then
        (case s of
           [] \<Rightarrow> None
         | d # s' \<Rightarrow>
             if d = CHR ''u'' then
               (case unicode_escape (take 4 s') of
                  None \<Rightarrow> None
                | Some u \<Rightarrow> map_option (\<lambda>(_, t, r). (False, u # t, r)) (read_string (drop 4 s')))
             else
               (case map_of simple_escapes d of
                  None \<Rightarrow> None
                | Some u \<Rightarrow> map_option (\<lambda>(_, t, r). (False, u # t, r)) (read_string s')))
      else if plain_char c then map_option (\<lambda>(b, t, r). (b, c # t, r)) (read_string s)
      else None)"

definition read_number :: "string \<Rightarrow> parsed \<times> string" where
  "read_number s =
     (let ds = takeWhile is_digit s; r = dropWhile is_digit s
      in if ds = [] \<or> (1 < length ds \<and> hd ds = CHR ''0'') then (PInvalid, [])
      else if r \<noteq> [] \<and> hd r \<in> set ''.eE''
        then (POtherNumber, dropWhile (\<lambda>c. is_digit c \<or> c \<in> set ''.eE+-'') r)
      else if dec_value ds < 2 ^ 64 then (PUnsigned (of_nat (dec_value ds)), r)
      else (POtherNumber, r))"

fun value_at :: "nat \<Rightarrow> string \<Rightarrow> parsed \<times> string"
  and elements_at :: "nat \<Rightarrow> string \<Rightarrow> parsed list \<times> string"
  and members_at :: "nat \<Rightarrow> string \<Rightarrow> (string \<times> parsed) list \<times> string" where
  "value_at 0 s = (PInvalid, [])"
| "value_at (Suc n) s =
     (case skip_ws s of
        [] \<Rightarrow> (PInvalid, [])
      | c # t \<Rightarrow>
          if c = CHR 0x22 then
            (case read_string t of None \<Rightarrow> (PInvalid, []) | Some (b, v, r) \<Rightarrow> (PString b v, r))
          else if c = CHR ''['' then
            (if skip_ws t \<noteq> [] \<and> hd (skip_ws t) = CHR '']'' then (PArray [], tl (skip_ws t))
             else apfst PArray (elements_at n t))
          else if c = CHR ''{'' then
            (if skip_ws t \<noteq> [] \<and> hd (skip_ws t) = CHR ''}'' then (PObject [], tl (skip_ws t))
             else apfst PObject (members_at n t))
          else if c = CHR ''-'' then
            (case read_number t of (p, r) \<Rightarrow> (if p = PInvalid then p else POtherNumber, r))
          else if prefix ''null'' (c # t) then (PNull, drop 3 t)
          else if prefix ''true'' (c # t) then (PBool True, drop 3 t)
          else if prefix ''false'' (c # t) then (PBool False, drop 4 t)
          else read_number (c # t))"
| "elements_at 0 s = ([PInvalid], [])"
| "elements_at (Suc n) s =
     (case value_at n s of (p, r) \<Rightarrow>
        case skip_ws r of
          [] \<Rightarrow> ([p, PInvalid], [])
        | c # r' \<Rightarrow>
            if c = CHR '','' then apfst (Cons p) (elements_at n r')
            else if c = CHR '']'' then ([p], r')
            else ([p, PInvalid], []))"
| "members_at 0 s = ([('''', PInvalid)], [])"
| "members_at (Suc n) s =
     (case value_at n s of (PString _ k, r) \<Rightarrow>
        (case skip_ws r of
           [] \<Rightarrow> ([('''', PInvalid)], [])
         | c # r' \<Rightarrow>
             if c \<noteq> CHR '':'' then ([('''', PInvalid)], [])
             else
               (case value_at n r' of (p, r1) \<Rightarrow>
                  case skip_ws r1 of
                    [] \<Rightarrow> ([(k, p), ('''', PInvalid)], [])
                  | c # r2 \<Rightarrow>
                      if c = CHR '','' then apfst (Cons (k, p)) (members_at n r2)
                      else if c = CHR ''}'' then ([(k, p)], r2)
                      else ([(k, p), ('''', PInvalid)], [])))
      | _ \<Rightarrow> ([('''', PInvalid)], []))"

section \<open>Strings\<close>

fun ref_string :: "bool \<Rightarrow> string deserialize" where
  "ref_string borrow (PString plain s) = (if borrow \<longrightarrow> plain then Ok s else Err InvalidType)"
| "ref_string borrow PInvalid = Err SyntaxError"
| "ref_string borrow _ = Err InvalidType"

fun ref_strings :: "string list deserialize" where
  "ref_strings (PArray ps) = collect (ref_string False) ps"
| "ref_strings PInvalid = Err SyntaxError"
| "ref_strings _ = Err InvalidType"

definition ref_json :: serde_json where
  "ref_json = \<lparr>to_string = print_json,
     read_json = (\<lambda>b. case value_at (Suc (length b)) (chars_of b) of (p, r) \<Rightarrow> (p, skip_ws r = [])),
     de_str = ref_string True, de_strings = ref_strings\<rparr>"

section \<open>The reader inverts the printer\<close>

lemma skip_ws_simps [simp]:
  "skip_ws [] = []"
  "c \<notin> {CHR '' '', CHR 0x09, CHR 0x0A, CHR 0x0D} \<Longrightarrow> skip_ws (c # s) = c # s"
  by (simp_all add: skip_ws_def)

lemma unicode_escape_control:
  assumes "of_char c < (32::nat)"
  shows "unicode_escape [CHR ''0'', CHR ''0'', hex_digit (of_char c div 16), hex_digit (of_char c mod 16)] = Some c"
proof -
  have "lower_hex_char (hex_digit d)" "hex_char_value (hex_digit d) = d" if "d < 16" for d
    using hex_digit_range [OF that] lower_hex_char_facts(1) [of "hex_digit d"] that by simp_all
  moreover have "of_char c div 16 < (16::nat)" "of_char c mod 16 < (16::nat)" using assms by simp_all
  moreover have "is_hex_char (CHR ''0'')" "hex_char_value (CHR ''0'') = 0"
    by (simp_all add: is_hex_char_def hex_char_value_def)
  ultimately show ?thesis using assms by (simp add: unicode_escape_def lower_hex_char_facts)
qed

lemma read_print_char:
  "read_string (print_char c @ s) = map_option (\<lambda>(b, t, r). (plain_char c \<and> b, c # t, r)) (read_string s)"
proof (cases "plain_char c \<or> c = CHR 0x22 \<or> c = CHR 0x5C")
  case True
  then show ?thesis
    by (auto simp: print_char_def simple_escapes_def plain_char_def)
next
  case False
  then have "of_char c < (32::nat)" by (auto simp: plain_char_def)
  with False show ?thesis by (simp add: print_char_def unicode_escape_control)
qed

lemma read_print_string:
  "read_string (concat (map print_char s) @ CHR 0x22 # r) = Some (list_all plain_char s, s, r)"
  by (induction s) (simp_all add: read_print_char)

lemma dec_string_leading: "hd (dec_string n) = CHR ''0'' \<Longrightarrow> dec_string n = ''0''"
proof (induction n rule: dec_string.induct)
  case (1 n)
  show ?case
  proof (cases "n < 10")
    case True
    with 1 show ?thesis by (simp add: dec_string.simps [of n])
  next
    case False
    then have "dec_string (n div 10) = ''0''" using 1 by (simp add: dec_string.simps [of n])
    then have "n div 10 = 0" using dec_value_string [of "n div 10"] by (simp add: dec_value_def)
    with False show ?thesis by simp
  qed
qed

text \<open>What may follow a printed value.\<close>

definition ends :: "string \<Rightarrow> bool" where
  "ends r \<longleftrightarrow> r = [] \<or> hd r \<in> {CHR '','', CHR '']'', CHR ''}''}"

lemma read_print_number: "ends r \<Longrightarrow> read_number (dec_string (unat n) @ r) = (PUnsigned n, r)"
proof -
  assume r: "ends r"
  let ?s = "dec_string (unat n)"
  have digits: "list_all is_digit ?s" using dec_string_digits by (auto simp: list_all_iff)
  have "r = [] \<or> \<not> is_digit (hd r)" "r = [] \<or> hd r \<notin> set ''.eE''"
    using r by (auto simp: ends_def is_digit_def)
  then have "takeWhile is_digit (?s @ r) = ?s" "dropWhile is_digit (?s @ r) = r"
    using digits by (cases r; simp add: list_all_iff)+
  moreover have "\<not> (1 < length ?s \<and> hd ?s = CHR ''0'')" using dec_string_leading [of "unat n"] by auto
  ultimately show ?thesis
    using \<open>r = [] \<or> hd r \<notin> set ''.eE''\<close> unat_u64_lt [of n]
    by (auto simp: read_number_def Let_def)
qed

text \<open>First characters.\<close>

definition starts_value :: "char \<Rightarrow> bool" where
  "starts_value c \<longleftrightarrow> c \<in> set ''ntf[{'' \<or> c = CHR 0x22 \<or> is_digit c"

lemma starts_value_facts:
  assumes "starts_value c"
  shows "skip_ws (c # s) = c # s" "c \<noteq> CHR '']''" "c \<noteq> CHR ''}''"
proof -
  show "skip_ws (c # s) = c # s"
    using assms by (intro skip_ws_simps(2)) (auto simp: starts_value_def is_digit_def)
qed (use assms in \<open>auto simp: starts_value_def is_digit_def\<close>)

lemma print_json_start: "\<exists>c t. print_json j = c # t \<and> starts_value c"
proof (cases j)
  case (JNumber n)
  obtain c t where "dec_string (unat n) = c # t" by (cases "dec_string (unat n)") simp_all
  moreover from this have "is_digit c" using dec_string_digits [of c "unat n"] by simp
  ultimately show ?thesis by (simp add: JNumber starts_value_def)
qed (simp_all add: starts_value_def print_string_def)

section \<open>Values, elements and members\<close>

lemma value_at_string:
  "value_at (Suc n) (print_string s @ r) = (PString (list_all plain_char s) s, r)"
  by (simp add: print_string_def read_print_string)

lemma value_at_number: "ends r \<Longrightarrow> value_at (Suc n) (dec_string (unat m) @ r) = (PUnsigned m, r)"
proof -
  assume r: "ends r"
  obtain c t where s: "dec_string (unat m) = c # t" by (cases "dec_string (unat m)") simp_all
  then have c: "is_digit c" using dec_string_digits [of c "unat m"] by simp
  then have "c \<notin> {CHR 0x22, CHR ''['', CHR ''{'', CHR ''-'', CHR ''n'', CHR ''t'', CHR ''f''}"
    by (auto simp: is_digit_def)
  moreover have "skip_ws (c # t @ r) = c # t @ r"
    using c starts_value_facts(1) by (simp add: starts_value_def)
  ultimately show ?thesis using read_print_number [OF r, of m] by (auto simp: s)
qed

lemma join_Cons: "join (x # xs) = x @ (if xs = [] then [] else CHR '','' # join xs)"
  by (cases xs) simp_all

lemma elements_at_join:
  "js \<noteq> [] \<Longrightarrow> length (join (map print_json js)) < n \<Longrightarrow>
   (\<And>j n r. j \<in> set js \<Longrightarrow> length (print_json j) \<le> n \<Longrightarrow> ends r \<Longrightarrow>
      value_at n (print_json j @ r) = (parsed_of j, r)) \<Longrightarrow>
     elements_at n (join (map print_json js) @ CHR '']'' # r) = (map parsed_of js, r)"
proof (induction js arbitrary: n)
  case (Cons j js)
  then obtain m where n: "n = Suc m" by (cases n) simp_all
  have v: "value_at m (print_json j @ r') = (parsed_of j, r')" if "ends r'" for r'
    using Cons.prems(2) that by (intro Cons.prems(3)) (auto simp: n join_Cons)
  show ?case
  proof (cases "js = []")
    case True
    then show ?thesis using v [of "CHR '']'' # r"] by (simp add: n ends_def)
  next
    case False
    have "elements_at m (join (map print_json js) @ CHR '']'' # r) = (map parsed_of js, r)"
      using Cons.prems(2) False by (intro Cons.IH Cons.prems(3)) (auto simp: n join_Cons)
    then show ?thesis
      using v [of "CHR '','' # join (map print_json js) @ CHR '']'' # r"] False
      by (simp add: n join_Cons ends_def)
  qed
qed simp

abbreviation print_member :: "string \<times> json \<Rightarrow> string" where
  "print_member \<equiv> \<lambda>(k, j). print_string k @ CHR '':'' # print_json j"

lemma members_at_join:
  "es \<noteq> [] \<Longrightarrow> length (join (map print_member es)) < n \<Longrightarrow>
   (\<And>k j n r. (k, j) \<in> set es \<Longrightarrow> length (print_json j) \<le> n \<Longrightarrow> ends r \<Longrightarrow>
      value_at n (print_json j @ r) = (parsed_of j, r)) \<Longrightarrow>
     members_at n (join (map print_member es) @ CHR ''}'' # r) = (map (\<lambda>(k, j). (k, parsed_of j)) es, r)"
proof (induction es arbitrary: n)
  case (Cons e es)
  obtain k j where e: "e = (k, j)" by force
  from Cons.prems(2) obtain m where n: "n = Suc (Suc m)"
    by (cases n; cases "n - 1") (auto simp: e join_Cons print_string_def)
  have v: "value_at (Suc m) (print_json j @ r') = (parsed_of j, r')" if "ends r'" for r'
    using Cons.prems(2) that by (intro Cons.prems(3) [of k]) (auto simp: n e join_Cons)
  show ?case
  proof (cases "es = []")
    case True
    then show ?thesis
      using v [of "CHR ''}'' # r"] by (simp add: n e value_at_string ends_def del: value_at.simps)
  next
    case False
    have "members_at (Suc m) (join (map print_member es) @ CHR ''}'' # r) =
        (map (\<lambda>(k, j). (k, parsed_of j)) es, r)"
      using Cons.prems(2) False by (intro Cons.IH) (auto simp: n e join_Cons intro: Cons.prems(3))
    then show ?thesis
      using v [of "CHR '','' # join (map print_member es) @ CHR ''}'' # r"] False
      by (simp add: n e join_Cons value_at_string ends_def del: value_at.simps members_at.simps(1))
  qed
qed simp

text \<open>After the opening bracket comes a value, not white space or the closing bracket.\<close>

lemma join_start:
  "js \<noteq> [] \<Longrightarrow> \<exists>c t. join (map print_json js) = c # t \<and> starts_value c"
  "es \<noteq> [] \<Longrightarrow> \<exists>c t. join (map print_member es) = c # t \<and> starts_value c"
proof -
  assume "js \<noteq> []"
  then obtain j js' where js: "js = j # js'" by (cases js) simp_all
  show "\<exists>c t. join (map print_json js) = c # t \<and> starts_value c"
    using print_json_start [of j] by (auto simp: js join_Cons)
next
  assume "es \<noteq> []"
  then show "\<exists>c t. join (map print_member es) = c # t \<and> starts_value c"
    by (cases es) (auto simp: join_Cons print_string_def starts_value_def)
qed

lemma value_at_print:
  "length (print_json j) \<le> n \<Longrightarrow> ends r \<Longrightarrow> value_at n (print_json j @ r) = (parsed_of j, r)"
proof (induction j arbitrary: n r)
  case JNull
  then show ?case by (cases n) simp_all
next
  case (JBool b)
  then show ?case by (cases n; cases b) simp_all
next
  case (JNumber m)
  then show ?case by (cases n) (simp, simp add: value_at_number del: value_at.simps)
next
  case (JString s)
  then show ?case by (cases n) (simp add: print_string_def, simp add: value_at_string del: value_at.simps)
next
  case (JArray js)
  then obtain m where n: "n = Suc m" by (cases n) simp_all
  show ?case
  proof (cases "js = []")
    case False
    then obtain c t where start: "join (map print_json js) = c # t" "starts_value c"
      using join_start(1) by blast
    have "elements_at m (join (map print_json js) @ CHR '']'' # r) = (map parsed_of js, r)"
      using JArray n False by (intro elements_at_join) auto
    then show ?thesis
      using starts_value_facts(1) [OF start(2), of "t @ CHR '']'' # r"] starts_value_facts(2,3) [OF start(2)] start(1) by (simp add: n)
  qed (simp add: n)
next
  case (JObject es)
  then obtain m where n: "n = Suc m" by (cases n) simp_all
  show ?case
  proof (cases "es = []")
    case False
    then obtain c t where start: "join (map print_member es) = c # t" "starts_value c"
      using join_start(2) by blast
    have "members_at m (join (map print_member es) @ CHR ''}'' # r) = (map (\<lambda>(k, j). (k, parsed_of j)) es, r)"
      using JObject n False by (intro members_at_join) auto
    then show ?thesis
      using starts_value_facts(1) [OF start(2), of "t @ CHR ''}'' # r"] starts_value_facts(2,3) [OF start(2)] start(1) by (simp add: n)
  qed (simp add: n)
qed

lemma ref_read_print: "read_json ref_json (as_bytes (print_json j)) = (parsed_of j, True)"
  using value_at_print [where j = j and n = "Suc (length (print_json j))" and r = "[]"]
  by (simp add: ref_json_def ends_def del: value_at.simps)

interpretation ref_json: json_text ref_json
proof
  fix j s and ss :: "(bool \<times> string) list"
  show "read_json ref_json (as_bytes (to_string ref_json j)) = (parsed_of j, True)"
    using ref_read_print [of j] by (simp add: ref_json_def)
  show "de_str ref_json (PString True s) = Ok s" by (simp add: ref_json_def)
  show "de_strings ref_json (PArray (map (\<lambda>(b, s). PString b s) ss)) = Ok (map snd ss)"
    by (simp add: ref_json_def, induction ss) auto
qed

section \<open>Visitors\<close>

fun find_field :: "string \<Rightarrow> 'b field list \<Rightarrow> 'b field option" where
  "find_field k [] = None"
| "find_field k (f # fs) = (if field_name f = k then Some f else find_field k fs)"

text \<open>
  \<open>seen\<close> holds the names read so far. A repeated field is an error before its value is looked at, an
  unknown one is skipped, and at the end every field must have been read. An array is read
  by position.
\<close>

fun visit_map ::
    "'b field list \<Rightarrow> string list \<Rightarrow> (string \<times> parsed) list \<Rightarrow> 'b \<Rightarrow> ('b, serde_error) result" where
  "visit_map fs seen [] b =
     (case filter (\<lambda>f. field_name f \<notin> set seen) fs of
        [] \<Rightarrow> Ok b
      | f # _ \<Rightarrow> Err (MissingField (field_name f)))"
| "visit_map fs seen ((k, p) # es) b =
     (case find_field k fs of
        None \<Rightarrow> if is_json p then visit_map fs seen es b else Err SyntaxError
      | Some f \<Rightarrow>
          if k \<in> set seen then Err (DuplicateField k)
          else and_then (field_de f p b) (visit_map fs (k # seen) es))"

fun visit_seq :: "'b field list \<Rightarrow> nat \<Rightarrow> parsed list \<Rightarrow> 'b \<Rightarrow> ('b, serde_error) result" where
  "visit_seq [] i [] b = Ok b"
| "visit_seq [] i (p # ps) b = Err SyntaxError"
| "visit_seq (f # fs) i [] b = Err (InvalidLength i)"
| "visit_seq (f # fs) i (p # ps) b = and_then (field_de f p b) (visit_seq fs (Suc i) ps)"

fun struct_deserialize :: "'b field list \<Rightarrow> 'b \<Rightarrow> 'b deserialize" where
  "struct_deserialize fs b (PObject es) = visit_map fs [] es b"
| "struct_deserialize fs b (PArray ps) = visit_seq fs 0 ps b"
| "struct_deserialize fs b PInvalid = Err SyntaxError"
| "struct_deserialize fs b _ = Err InvalidType"

definition ref_derive :: "'b derive" where
  "ref_derive =
     \<lparr>ser_struct = (\<lambda>fs b. JObject (map (\<lambda>f. (field_name f, field_ser f b)) fs)),
      de_struct = struct_deserialize\<rparr>"

lemma find_field_Some: "find_field k fs = Some f \<Longrightarrow> f \<in> set fs \<and> field_name f = k"
  by (induction fs) (auto split: if_splits)

lemma find_field_name:
  "distinct (map field_name fs) \<Longrightarrow> f \<in> set fs \<Longrightarrow> find_field (field_name f) fs = Some f"
  by (induction fs) auto

lemma find_field_None: "find_field k fs = None \<longleftrightarrow> k \<notin> field_name ` set fs"
  by (induction fs) auto

lemma visit_map_reads:
  assumes "distinct (map field_name fs)" "list_all (\<lambda>(k, p). is_json p) es"
    and "filter (\<lambda>(k, p). k \<in> field_name ` set fs) es = map (\<lambda>(f, p). (field_name f, p)) fps"
    and "fst ` set fps \<subseteq> set fs" "distinct (map (field_name \<circ> fst) fps)"
    and "set seen \<inter> (field_name \<circ> fst) ` set fps = {}"
    and "field_name ` set fs \<subseteq> set seen \<union> (field_name \<circ> fst) ` set fps"
  shows "visit_map fs seen es c = read_fields fps c"
  using assms
proof (induction es arbitrary: seen fps c)
  case Nil
  then have "filter (\<lambda>f. field_name f \<notin> set seen) fs = []" by (auto simp: filter_empty_conv)
  with Nil show ?case by simp
next
  case (Cons e es)
  obtain k p where e: "e = (k, p)" by force
  show ?case
  proof (cases "k \<in> field_name ` set fs")
    case False
    with Cons show ?thesis by (auto simp: e find_field_None [THEN iffD2])
  next
    case True
    then obtain f fps' where fps: "fps = (f, p) # fps'" "k = field_name f"
      "filter (\<lambda>(k, p). k \<in> field_name ` set fs) es = map (\<lambda>(f, p). (field_name f, p)) fps'"
      using Cons.prems(3) by (auto simp: e Cons_eq_map_conv)
    have f: "find_field (field_name f) fs = Some f"
      using find_field_name [OF assms(1), of f] Cons.prems(4) fps by simp
    have "visit_map fs (field_name f # seen) es = read_fields fps'"
      using Cons.prems fps by (intro ext Cons.IH) (auto simp: e)
    moreover have "field_name f \<notin> set seen" using Cons.prems(6) fps by auto
    ultimately show ?thesis by (simp add: e f fps(1,2))
  qed
qed

lemma visit_map_accepts:
  "distinct (map field_name fs) \<Longrightarrow> visit_map fs seen es c = Ok b \<Longrightarrow>
     \<exists>fps. distinct (map fst fps) \<and> fst ` set fps = {f \<in> set fs. field_name f \<notin> set seen} \<and>
       read_fields fps c = Ok b"
proof (induction fs seen es c rule: visit_map.induct)
  case (1 fs seen b)
  then show ?case by (intro exI [of _ "[]"]) (auto split: list.splits simp: filter_empty_conv)
next
  case (2 fs seen k p es c)
  show ?case
  proof (cases "find_field k fs")
    case None
    with 2 show ?thesis by (simp split: if_splits)
  next
    case (Some f)
    note f = find_field_Some [OF Some]
    obtain c' where c': "k \<notin> set seen" "field_de f p c = Ok c'" "visit_map fs (k # seen) es c' = Ok b"
      using 2(4) Some by (auto simp: and_then_eq_Ok split: if_splits)
    obtain fps where fps: "distinct (map fst fps)" "read_fields fps c' = Ok b"
      "fst ` set fps = {f \<in> set fs. field_name f \<notin> set (k # seen)}"
      using 2(2) [OF Some c'(1) 2(3) c'(3)] by blast
    have same: "g = f" if "g \<in> set fs" "field_name g = k" for g
      using 2(3) that f by (auto simp: distinct_map dest: inj_onD)
    have "f \<notin> fst ` set fps" using fps(3) f by auto
    then show ?thesis
      using c' fps f same by (intro exI [of _ "(f, p) # fps"]) auto
  qed
qed

lemma visit_seq_accepts:
  "visit_seq fs i ps c = Ok b \<Longrightarrow> \<exists>fps. map fst fps = fs \<and> read_fields fps c = Ok b"
proof (induction fs i ps c rule: visit_seq.induct)
  case (4 f fs i p ps c)
  then obtain c' where c': "field_de f p c = Ok c'" "visit_seq fs (Suc i) ps c' = Ok b"
    by (auto simp: and_then_eq_Ok)
  obtain fps where "map fst fps = fs" "read_fields fps c' = Ok b" using 4(1) [OF c'(2)] by blast
  with c'(1) show ?case by (intro exI [of _ "(f, p) # fps"]) simp
qed simp_all

interpretation ref_derive: derived "ref_derive :: 'b derive"
proof
  fix fs :: "'b field list" and b init :: 'b and p es fps
  show "ser_struct ref_derive fs b = JObject (map (\<lambda>f. (field_name f, field_ser f b)) fs)"
    by (simp add: ref_derive_def)
  show "de_struct ref_derive fs init (PObject es) = read_fields fps init"
    if "distinct (map field_name fs)" "list_all (\<lambda>(k, p). is_json p) es"
      "filter (\<lambda>(k, p). k \<in> field_name ` set fs) es = map (\<lambda>(f, p). (field_name f, p)) fps"
      "mset (map fst fps) = mset fs"
  proof -
    have "mset (map (field_name \<circ> fst) fps) = mset (map field_name fs)"
      using that(4) by (metis mset_map map_map)
    then have "distinct (map (field_name \<circ> fst) fps)"
      using that(1) mset_eq_imp_distinct_iff by blast
    moreover have "fst ` set fps = set fs" using mset_eq_setD [OF that(4)] by simp
    then have "(field_name \<circ> fst) ` set fps = field_name ` set fs" by (metis image_comp)
    ultimately show ?thesis
      using that visit_map_reads [of fs es fps "[]" init] \<open>fst ` set fps = set fs\<close>
      by (simp add: ref_derive_def)
  qed
  show "\<exists>fps. mset (map fst fps) = mset fs \<and> read_fields fps init = Ok b"
    if d: "distinct (map field_name fs)" and "de_struct ref_derive fs init p = Ok b"
  proof (cases p)
    case (PObject es)
    with that obtain fps where "distinct (map fst fps)" "fst ` set fps = set fs" "read_fields fps init = Ok b"
      using visit_map_accepts [OF d, of "[]" es init b] by (auto simp: ref_derive_def)
    moreover from this have "mset (map fst fps) = mset fs"
      using d by (subst set_eq_iff_mset_eq_distinct [symmetric]) (simp_all add: distinct_map)
    ultimately show ?thesis by blast
  next
    case (PArray ps)
    with that show ?thesis using visit_seq_accepts [of fs 0 ps init b] by (auto simp: ref_derive_def)
  qed (use that in \<open>simp_all add: ref_derive_def\<close>)
qed

end
