(* ===== verification/Json_Codecs.thy ===== *)
theory Json_Codecs
  imports Ref_Json Headers
begin

text \<open>
  The JSON form of the types that derive \<^verbatim>\<open>Serialize\<close> and \<^verbatim>\<open>Deserialize\<close> and are written or read as JSON
  somewhere: \<^verbatim>\<open>IstanbulAggregatedSeal\<close> and \<^verbatim>\<open>IstanbulExtra\<close> (\<^verbatim>\<open>src/types/istanbul.rs\<close>) and \<^verbatim>\<open>Header\<close>
  (\<^verbatim>\<open>src/types/header.rs\<close>). Each is the list of its fields with the names and the \<^verbatim>\<open>with\<close> modules of
  its \<^verbatim>\<open>serde\<close> attributes (\<^verbatim>\<open>rename_all = "camelCase"\<close> written out); the code derived from it is a
  field of \<open>serde_crates\<close>.
\<close>

record serde_crates = serde_json +
  hex :: hex_crates
  derive_seal :: "istanbul_aggregated_seal derive"
  derive_extra :: "istanbul_extra derive"
  derive_header :: "header derive"

section \<open>Fields of the with modules\<close>

text \<open>\<^verbatim>\<open><[u8; N] as FromHex>::from_hex\<close> and \<^verbatim>\<open><Vec<u8> as FromHex>::from_hex\<close>.\<close>

definition array_from_hex :: "hex_crates \<Rightarrow> nat \<Rightarrow> string \<Rightarrow> bytes option" where
  "array_from_hex H n s =
     (case hex_decode H s of None \<Rightarrow> None | Some b \<Rightarrow> if length b = n then Some b else None)"

abbreviation vec_from_hex :: "hex_crates \<Rightarrow> string \<Rightarrow> bytes option" where
  "vec_from_hex H \<equiv> hex_decode H"

definition hexstring_field ::
    "'z serde_crates_scheme \<Rightarrow> (string \<Rightarrow> bytes option) \<Rightarrow> string \<Rightarrow>
      ('b \<Rightarrow> bytes) \<Rightarrow> (bytes \<Rightarrow> 'b \<Rightarrow> 'b) \<Rightarrow> 'b field" where
  "hexstring_field S from_hex name =
     mk_field name (\<lambda>v. JString (hexstring_serialize (hex S) v))
       (\<lambda>p. and_then (de_str S p) (hexstring_deserialize from_hex))"

definition hexbigint_field ::
    "'z serde_crates_scheme \<Rightarrow> string \<Rightarrow> ('b \<Rightarrow> int) \<Rightarrow> (int \<Rightarrow> 'b \<Rightarrow> 'b) \<Rightarrow> 'b field" where
  "hexbigint_field S name =
     mk_field name (\<lambda>v. JString (hexbigint_serialize (hex S) v))
       (\<lambda>p. and_then (de_str S p) (hexbigint_deserialize (hex S)))"

definition hexnum_field ::
    "'z serde_crates_scheme \<Rightarrow> string \<Rightarrow> ('b \<Rightarrow> u64) \<Rightarrow> (u64 \<Rightarrow> 'b \<Rightarrow> 'b) \<Rightarrow> 'b field" where
  "hexnum_field S name =
     mk_field name (\<lambda>v. JString (hexnum_serialize (\<lambda>n. hex_string (unat n)) v))
       (\<lambda>p. and_then (de_str S p) (hexnum_deserialize parse_hex_u64))"

definition hexvec_field ::
    "'z serde_crates_scheme \<Rightarrow> (bytes \<Rightarrow> (bytes, kind) result) \<Rightarrow> string \<Rightarrow>
      ('b \<Rightarrow> bytes list) \<Rightarrow> (bytes list \<Rightarrow> 'b \<Rightarrow> 'b) \<Rightarrow> 'b field" where
  "hexvec_field S from_bytes name =
     mk_field name (\<lambda>v. JArray (map JString (hexvec_serialize (hex S) v)))
       (\<lambda>p. and_then (de_strings S p) (hexvec_deserialize (hex S) from_bytes))"

section \<open>Seals and extra data\<close>

definition seal_fields :: "'z serde_crates_scheme \<Rightarrow> istanbul_aggregated_seal field list" where
  "seal_fields S =
     [hexbigint_field S ''bitmap'' seal_bitmap (\<lambda>v s. s\<lparr>seal_bitmap := v\<rparr>),
      hexstring_field S (vec_from_hex (hex S)) ''signature'' seal_signature (\<lambda>v s. s\<lparr>seal_signature := v\<rparr>),
      hexbigint_field S ''round'' seal_round (\<lambda>v s. s\<lparr>seal_round := v\<rparr>)]"

definition seal_to_json :: "'z serde_crates_scheme \<Rightarrow> istanbul_aggregated_seal \<Rightarrow> json" where
  "seal_to_json S = ser_struct (derive_seal S) (seal_fields S)"

definition seal_from_json :: "'z serde_crates_scheme \<Rightarrow> istanbul_aggregated_seal deserialize" where
  "seal_from_json S = de_struct (derive_seal S) (seal_fields S) istanbul_aggregated_seal_new"

definition extra_fields :: "'z serde_crates_scheme \<Rightarrow> istanbul_extra field list" where
  "extra_fields S =
     [hexvec_field S address_from_bytes ''addedValidators''
        added_validators (\<lambda>v e. e\<lparr>added_validators := v\<rparr>),
      hexvec_field S public_key_from_bytes ''addedValidatorsPublicKeys''
        added_validators_public_keys (\<lambda>v e. e\<lparr>added_validators_public_keys := v\<rparr>),
      hexbigint_field S ''removedValidators'' removed_validators (\<lambda>v e. e\<lparr>removed_validators := v\<rparr>),
      hexstring_field S (vec_from_hex (hex S)) ''seal'' seal (\<lambda>v e. e\<lparr>seal := v\<rparr>),
      mk_field ''aggregatedSeal'' (seal_to_json S) (seal_from_json S)
        aggregated_seal (\<lambda>v e. e\<lparr>aggregated_seal := v\<rparr>),
      mk_field ''parentAggregatedSeal'' (seal_to_json S) (seal_from_json S)
        parent_aggregated_seal (\<lambda>v e. e\<lparr>parent_aggregated_seal := v\<rparr>)]"

definition extra_blank :: istanbul_extra where
  "extra_blank =
     \<lparr>added_validators = [], added_validators_public_keys = [], removed_validators = 0, seal = [],
      aggregated_seal = istanbul_aggregated_seal_new, parent_aggregated_seal = istanbul_aggregated_seal_new\<rparr>"

definition extra_to_json :: "'z serde_crates_scheme \<Rightarrow> istanbul_extra \<Rightarrow> json" where
  "extra_to_json S = ser_struct (derive_extra S) (extra_fields S)"

definition extra_from_json :: "'z serde_crates_scheme \<Rightarrow> istanbul_extra deserialize" where
  "extra_from_json S = de_struct (derive_extra S) (extra_fields S) extra_blank"

section \<open>Headers\<close>

definition header_fields :: "'z serde_crates_scheme \<Rightarrow> header field list" where
  "header_fields S =
     (let hash_field = hexstring_field S (array_from_hex (hex S) HASH_LENGTH) in
      [hash_field ''parentHash'' parent_hash (\<lambda>v h. h\<lparr>parent_hash := v\<rparr>),
       hexstring_field S (array_from_hex (hex S) ADDRESS_LENGTH) ''miner'' coinbase (\<lambda>v h. h\<lparr>coinbase := v\<rparr>),
       hash_field ''stateRoot'' header.root (\<lambda>v h. h\<lparr>root := v\<rparr>),
       hash_field ''transactionsRoot'' tx_hash (\<lambda>v h. h\<lparr>tx_hash := v\<rparr>),
       hash_field ''receiptsRoot'' receipt_hash (\<lambda>v h. h\<lparr>receipt_hash := v\<rparr>),
       hexstring_field S (array_from_hex (hex S) BLOOM_BYTE_LENGTH) ''logsBloom'' bloom (\<lambda>v h. h\<lparr>bloom := v\<rparr>),
       hexbigint_field S ''number'' number (\<lambda>v h. h\<lparr>number := v\<rparr>),
       hexnum_field S ''gasUsed'' gas_used (\<lambda>v h. h\<lparr>gas_used := v\<rparr>),
       hexnum_field S ''timestamp'' time (\<lambda>v h. h\<lparr>time := v\<rparr>),
       hexstring_field S (vec_from_hex (hex S)) ''extraData'' extra (\<lambda>v h. h\<lparr>extra := v\<rparr>)])"

definition header_to_json :: "'z serde_crates_scheme \<Rightarrow> header \<Rightarrow> json" where
  "header_to_json S = ser_struct (derive_header S) (header_fields S)"

definition header_from_json :: "'z serde_crates_scheme \<Rightarrow> header deserialize" where
  "header_from_json S = de_struct (derive_header S) (header_fields S) header_new"

section \<open>Fields read back\<close>

lemma field_simps [simp]:
  "field_name (hexstring_field S from_hex name get put) = name"
  "field_copy (hexstring_field S from_hex name get put) b c = put (get b) c"
  "field_ser (hexstring_field S from_hex name get put) b = JString (hexstring_serialize (hex S) (get b))"
  "field_name (hexbigint_field S name get' put') = name"
  "field_copy (hexbigint_field S name get' put') b c = put' (get' b) c"
  "field_ser (hexbigint_field S name get' put') b = JString (hexbigint_serialize (hex S) (get' b))"
  "field_name (hexnum_field S name gn pn) = name"
  "field_copy (hexnum_field S name gn pn) b c = pn (gn b) c"
  "field_ser (hexnum_field S name gn pn) b = JString (hexnum_serialize (\<lambda>n. hex_string (unat n)) (gn b))"
  "field_name (hexvec_field S from_bytes name gv pv) = name"
  "field_copy (hexvec_field S from_bytes name gv pv) b c = pv (gv b) c"
  "field_ser (hexvec_field S from_bytes name gv pv) b = JArray (map JString (hexvec_serialize (hex S) (gv b)))"
  by (simp_all add: hexstring_field_def hexbigint_field_def hexnum_field_def hexvec_field_def)

lemma lower_hex_plain: "lower_hex_char c \<Longrightarrow> plain_char c"
  by (auto simp: lower_hex_char_def plain_char_def)

lemma plain_chars [simp]: "plain_char CHR ''0''" "plain_char CHR ''x''" "plain_char CHR ''-''"
  by (simp_all add: plain_char_def)

lemma hex_string_plain: "list_all plain_char (hex_string n)"
  by (rule list.pred_mono_strong [OF hex_string_digits]) (rule lower_hex_plain)

lemma hex_string_ne_Nil: "hex_string n \<noteq> []"
  by (subst hex_string.simps) simp

context hex_library
begin

lemma hex_plain: "list_all plain_char (hex_encode H b)" "list_all plain_char (lower_hex H n)"
  by (rule list.pred_mono_strong [OF hex_encode_digits] list.pred_mono_strong [OF lower_hex_digits],
      auto intro: lower_hex_plain)+

lemma hex_decode_Nil: "hex_decode H '''' = Some []"
  using hex_decode_encode [of "[]"] hex_encode_length [of "[]"] by simp

lemma array_from_hex_encode: "length b = n \<Longrightarrow> array_from_hex H n (hex_encode H b) = Some b"
  by (simp add: array_from_hex_def hex_decode_encode)

end

text \<open>The crates together, as the derived code of these types uses them.\<close>

locale json_library = json_text S + hex_library "hex S" + seal: derived "derive_seal S" +
  extra: derived "derive_extra S" + header: derived "derive_header S"
  for S :: "'z serde_crates_scheme"
begin

lemma hexnum_field_read [simp]:
  "field_de (hexnum_field S name get put) (PString True (hexnum_serialize (\<lambda>n. hex_string (unat n)) v)) c =
     Ok (put v c)"
  using hex_string_ne_Nil [of "unat v"]
  by (simp add: hexnum_field_def hexnum_serialize_def hexnum_deserialize_def de_str_borrowed)

lemma hexstring_field_read:
  "from_hex (hex_encode (hex S) v) = Some v \<Longrightarrow> from_hex '''' = Some [] \<or> v \<noteq> [] \<Longrightarrow>
     field_de (hexstring_field S from_hex name get put) (PString True (hexstring_serialize (hex S) v)) c =
       Ok (put v c)"
  using hexstring_roundtrip [of from_hex v] by (auto simp: hexstring_field_def de_str_borrowed)

lemma array_field_read [simp]:
  "length v = n \<Longrightarrow> n \<noteq> 0 \<Longrightarrow>
     field_de (hexstring_field S (array_from_hex (hex S) n) name get put)
       (PString True (hexstring_serialize (hex S) v)) c = Ok (put v c)"
  by (intro hexstring_field_read array_from_hex_encode) auto

lemma vec_field_read [simp]:
  "field_de (hexstring_field S (vec_from_hex (hex S)) name get put)
     (PString True (hexstring_serialize (hex S) v)) c = Ok (put v c)"
  by (intro hexstring_field_read) (simp_all add: hex_decode_encode hex_decode_Nil)

lemma hexbigint_field_read [simp]:
  "field_de (hexbigint_field S name get put) (PString True (hexbigint_serialize (hex S) v)) c = Ok (put v c)"
  using hexbigint_from_to [of v] by (simp add: hexbigint_field_def de_str_borrowed)

lemma hexvec_field_read [simp]:
  "0 < n \<Longrightarrow> list_all (\<lambda>v. length v = n) vs \<Longrightarrow>
     field_de (hexvec_field S (array_from_bytes n) name get put)
       (PArray (map (\<lambda>s. PString (list_all plain_char s) s) (hexvec_serialize (hex S) vs))) c = Ok (put vs c)"
  using hexvec_from_to [of n vs] de_strings_array [of "map (\<lambda>s. (list_all plain_char s, s)) (hexvec_serialize (hex S) vs)"]
  by (simp add: hexvec_field_def comp_def)

text \<open>What these fields write has no escapes.\<close>

lemma written_plain [simp]:
  "list_all plain_char (hexstring_serialize (hex S) v)" "list_all plain_char (hexbigint_serialize (hex S) i)"
  "list_all plain_char (hexnum_serialize (\<lambda>n. hex_string (unat n)) n)"
  using hex_plain hex_string_plain
  by (simp_all add: hexstring_serialize_def hexbigint_serialize_def hexnum_serialize_def Let_def)

end

sublocale json_library \<subseteq> seal_json: json_struct "seal_fields S" istanbul_aggregated_seal_new "\<lambda>_. True"
proof
  fix f g b c
  assume f: "f \<in> set (seal_fields S)"
  then show "field_de f (parsed_of (field_ser f b)) c = Ok (field_copy f b c)"
    by (auto simp: seal_fields_def)
  assume "g \<in> set (seal_fields S)"
  with f show "field_copy f b (field_copy g b c) = field_copy g b (field_copy f b c)"
    by (auto simp: seal_fields_def)
qed (auto simp: seal_fields_def)

context json_library
begin

lemma seal_from_to: "seal_from_json S (parsed_of (seal_to_json S s)) = Ok s"
  unfolding seal_from_json_def seal_to_json_def
  by (rule seal_json.struct_from_to [OF seal.derived_axioms TrueI])

end

sublocale json_library \<subseteq> extra_json: json_struct "extra_fields S" extra_blank wf_extra
proof
  fix f g b c
  assume f: "f \<in> set (extra_fields S)"
  show "wf_extra b \<Longrightarrow> field_de f (parsed_of (field_ser f b)) c = Ok (field_copy f b c)"
    using f by (auto simp: extra_fields_def from_bytes_array wf_extra_def seal_from_to comp_def)
  assume "g \<in> set (extra_fields S)"
  with f show "field_copy f b (field_copy g b c) = field_copy g b (field_copy f b c)"
    by (auto simp: extra_fields_def)
qed (auto simp: extra_fields_def)

sublocale json_library \<subseteq> header_json: json_struct "header_fields S" header_new wf_header
proof
  fix f g b c
  assume f: "f \<in> set (header_fields S)"
  show "wf_header b \<Longrightarrow> field_de f (parsed_of (field_ser f b)) c = Ok (field_copy f b c)"
    using f by (auto simp: header_fields_def Let_def wf_header_def)
  assume "g \<in> set (header_fields S)"
  with f show "field_copy f b (field_copy g b c) = field_copy g b (field_copy f b c)"
    by (auto simp: header_fields_def Let_def)
qed (auto simp: header_fields_def Let_def)

section \<open>Depth and characters of the written text\<close>

lemma ascii_utf8: "list_all (\<lambda>c. of_char c < (128::nat)) s \<Longrightarrow> utf8_valid (as_bytes s)"
  by (rule utf8_valid_ascii) (auto simp: as_bytes_def list_all_iff word_less_nat_alt)

lemma lower_hex_ascii: "c = CHR ''-'' \<or> lower_hex_char c \<Longrightarrow> of_char c < (128::nat)"
  by (auto simp: lower_hex_char_def)

lemma object_utf8:
  "json_utf8 (JObject (map (\<lambda>f. (field_name f, field_ser f b)) fs)) \<longleftrightarrow>
     (\<forall>f \<in> set fs. utf8_valid (as_bytes (field_name f)) \<and> json_utf8 (field_ser f b))"
  by (simp add: list_all_iff)

lemma depth_strings: "json_depth (JArray (map JString ss)) \<le> 1"
  by (induction ss) simp_all

lemma object_depth:
  "json_depth (JObject (map (\<lambda>f. (field_name f, field_ser f b)) fs)) \<le> Suc n \<longleftrightarrow>
     (\<forall>f \<in> set fs. json_depth (field_ser f b) \<le> n)"
  by (induction fs) auto

context json_library
begin

lemma hex_utf8 [simp]:
  "utf8_valid (as_bytes (hexstring_serialize (hex S) v))"
  "utf8_valid (as_bytes (hexbigint_serialize (hex S) i))"
  "utf8_valid (as_bytes (hexnum_serialize (\<lambda>n. hex_string (unat n)) n))"
  "list_all (utf8_valid \<circ> as_bytes) (hexvec_serialize (hex S) vs)"
proof -
  have enc: "list_all (\<lambda>c. of_char c < (128::nat)) (hex_encode (hex S) b)" for b
    by (rule list.pred_mono_strong [OF hex_encode_digits]) (simp add: lower_hex_ascii)
  have low: "list_all (\<lambda>c. of_char c < (128::nat)) (lower_hex (hex S) i)"
    by (rule list.pred_mono_strong [OF lower_hex_digits]) (rule lower_hex_ascii)
  have num: "list_all (\<lambda>c. of_char c < (128::nat)) (hex_string (unat n))"
    by (rule list.pred_mono_strong [OF hex_string_digits]) (simp add: lower_hex_ascii)
  show "utf8_valid (as_bytes (hexstring_serialize (hex S) v))"
    "utf8_valid (as_bytes (hexbigint_serialize (hex S) i))"
    "utf8_valid (as_bytes (hexnum_serialize (\<lambda>n. hex_string (unat n)) n))"
    using enc low num
    by (auto intro!: ascii_utf8 simp: hexstring_serialize_def hexbigint_serialize_def
        hexnum_serialize_def Let_def)
  show "list_all (utf8_valid \<circ> as_bytes) (hexvec_serialize (hex S) vs)"
    using enc by (induction vs) (auto intro!: ascii_utf8 simp: hexvec_serialize_def)
qed

lemma seal_utf8: "json_utf8 (seal_to_json S s)"
  unfolding seal_to_json_def seal.ser_struct_eq object_utf8
  by (auto simp: seal_fields_def intro!: ascii_utf8)

lemma header_utf8: "json_utf8 (header_to_json S h)"
  unfolding header_to_json_def header.ser_struct_eq object_utf8
  by (auto simp: header_fields_def Let_def intro!: ascii_utf8)

lemma extra_utf8: "json_utf8 (extra_to_json S e)"
  unfolding extra_to_json_def extra.ser_struct_eq object_utf8
  using hex_utf8(4)
  by (auto simp: extra_fields_def seal_utf8 list.pred_map comp_def intro!: ascii_utf8)

lemma seal_depth: "json_depth (seal_to_json S s) \<le> 1"
  unfolding seal_to_json_def seal.ser_struct_eq One_nat_def object_depth by (auto simp: seal_fields_def)

lemma header_depth: "json_depth (header_to_json S h) \<le> 1"
  unfolding header_to_json_def header.ser_struct_eq One_nat_def object_depth
  by (auto simp: header_fields_def Let_def)

lemma extra_depth: "json_depth (extra_to_json S e) \<le> Suc 1"
  unfolding extra_to_json_def extra.ser_struct_eq object_depth
  using depth_strings seal_depth
  by (auto simp: extra_fields_def json_depth.simps(3-) simp del: json_depth.simps(1))

text \<open>An object in any order, with any other entries, and the texts that are written.\<close>

lemma header_in_any_order:
  "wf_header h \<Longrightarrow> object_of (header_fields S) h es \<Longrightarrow> header_from_json S (PObject es) = Ok h"
  unfolding header_from_json_def
  by (rule header_json.struct_read_in_any_order [OF header.derived_axioms])

lemma texts_from_to:
  "wf_header h \<Longrightarrow> from_str S (header_from_json S) (to_string S (header_to_json S h)) = Ok h"
  "wf_extra e \<Longrightarrow> from_str S (extra_from_json S) (to_string S (extra_to_json S e)) = Ok e"
proof -
  have depths: "json_depth (header_to_json S h) \<le> 127" "json_depth (extra_to_json S e) \<le> 127"
    using header_depth [of h] extra_depth [of e] by simp_all
  note texts = from_str_to_string [OF header_utf8 depths(1)] from_str_to_string [OF extra_utf8 depths(2)]
  show "wf_header h \<Longrightarrow> from_str S (header_from_json S) (to_string S (header_to_json S h)) = Ok h"
    unfolding texts unfolding header_from_json_def header_to_json_def
    by (rule header_json.struct_from_to [OF header.derived_axioms])
  show "wf_extra e \<Longrightarrow> from_str S (extra_from_json S) (to_string S (extra_to_json S e)) = Ok e"
    unfolding texts unfolding extra_from_json_def extra_to_json_def
    by (rule extra_json.struct_from_to [OF extra.derived_axioms])
qed

end

section \<open>What is accepted\<close>

lemma hexstring_array_length:
  assumes "hexstring_deserialize (array_from_hex H n) s = Ok b"
  shows "length b = n"
proof -
  have "ok_or (array_from_hex H n t) e = Ok b \<Longrightarrow> length b = n" for t and e :: serde_error
    by (auto simp: ok_or_eq_Ok array_from_hex_def split: option.splits if_splits)
  with assms show ?thesis by (auto simp: hexstring_deserialize_def split: if_splits)
qed

context json_library
begin

text \<open>The arrays of a header that was read have their lengths; its number may be negative.\<close>

lemma header_from_json_arrays:
  assumes "header_from_json S p = Ok h"
  shows "wf_header (h\<lparr>number := 0\<rparr>)"
proof -
  let ?P = "\<lambda>h. wf_header (h\<lparr>number := 0\<rparr>)"
  have "?P c'" if "f \<in> set (header_fields S)" "?P c" "field_de f q c = Ok c'" for f q c c'
    using that
    by (auto simp: header_fields_def Let_def wf_header_def and_then_eq_Ok hexstring_field_def
        hexbigint_field_def hexnum_field_def dest!: hexstring_array_length)
  moreover have "?P header_new" using wf_header_new by (simp add: wf_header_def)
  ultimately show ?thesis
    using assms header.de_struct_invariant [OF header_json.names_distinct, of ?P header_new p h]
    unfolding header_from_json_def by blast
qed

end

section \<open>Reference crates\<close>

definition ref_serde :: serde_crates where
  "ref_serde = serde_json.extend ref_json
     \<lparr>hex = ref_hex, derive_seal = ref_derive, derive_extra = ref_derive, derive_header = ref_derive\<rparr>"

lemma ref_serde_simps [simp]:
  "to_string ref_serde = print_json" "read_json ref_serde = read_json ref_json"
  "de_str ref_serde = de_str ref_json" "de_strings ref_serde = de_strings ref_json"
  "hex ref_serde = ref_hex" "derive_seal ref_serde = ref_derive" "derive_extra ref_serde = ref_derive"
  "derive_header ref_serde = ref_derive"
  by (simp_all add: ref_serde_def serde_json.defs ref_json_def)

interpretation ref_serde: json_library ref_serde
proof -
  have "json_text ref_serde"
    using ref_json.read_to_string ref_json.de_str_borrowed ref_json.de_strings_array
    by unfold_locales (simp_all add: ref_json_def)
  moreover have "hex_library (hex ref_serde)" by (simp add: hex.hex_library_axioms)
  ultimately show "json_library ref_serde" by (simp add: json_library_def ref_derive.derived_axioms)
qed

section \<open>Properties\<close>

text \<open>C34: JSON round trips. A well-typed header or extra data that is written as JSON text
  (\<^verbatim>\<open>serde_json::to_string\<close>) is read back (\<^verbatim>\<open>serde_json::from_str\<close>) with every field as it was. A header
  is also read from an object that has its fields in another order and among other entries, as
  a node's answer does, and whatever is read as a header has arrays of the declared lengths. \<close>

theorem json_roundtrips:
  assumes "json_library S" and "wf_header h" and "wf_extra e"
  shows "from_str S (header_from_json S) (to_string S (header_to_json S h)) = Ok h \<and>
    from_str S (extra_from_json S) (to_string S (extra_to_json S e)) = Ok e \<and>
    (\<forall>es. object_of (header_fields S) h es \<longrightarrow> header_from_json S (PObject es) = Ok h) \<and>
    (\<forall>p h'. header_from_json S p = Ok h' \<longrightarrow> wf_header (h'\<lparr>number := 0\<rparr>))"
  using json_library.texts_from_to [OF assms(1)] json_library.header_in_any_order [OF assms(1,2)]
    json_library.header_from_json_arrays [OF assms(1)] assms(2,3) by blast

definition sample_json_header :: header where
  "sample_json_header = header_new\<lparr>number := 17280, gas_used := 255, time := 1600000000, extra := [1, 2]\<rparr>"

theorem json_roundtrips_witness:
  "from_str ref_serde (header_from_json ref_serde) (print_json (header_to_json ref_serde sample_json_header)) =
     Ok sample_json_header \<and>
   from_str ref_serde (extra_from_json ref_serde) (print_json (extra_to_json ref_serde extra_blank)) =
     Ok extra_blank \<and>
   header_from_json ref_serde (PObject ((''totalDifficulty'', PNull) #
     rev (map (\<lambda>f. (field_name f, parsed_of (field_ser f sample_json_header))) (header_fields ref_serde)))) =
     Ok sample_json_header"
proof -
  let ?es = "(''totalDifficulty'', PNull) #
     rev (map (\<lambda>f. (field_name f, parsed_of (field_ser f sample_json_header))) (header_fields ref_serde))"
  have wf: "wf_header sample_json_header"
    using wf_header_new by (simp add: wf_header_def sample_json_header_def)
  have extra: "wf_extra extra_blank"
    by (simp add: wf_extra_def wf_seal_def extra_blank_def istanbul_aggregated_seal_new_def)
  have "object_of (header_fields ref_serde) sample_json_header ?es"
    by (simp add: object_of_def header_fields_def Let_def)
  then show ?thesis
    using json_roundtrips [OF ref_serde.json_library_axioms wf extra] by simp
qed

end
