(* ===== verification/Relayer.thy ===== *)
theory Relayer
  imports Effects Json_Codecs
begin

text \<open>
  \<^verbatim>\<open>examples/lightest-sync/relayer.rs\<close>: the client of a node's JSON-RPC interface. Everything the
  program reads from outside (the node and the clock) goes through a world of type \<open>'w\<close>, which
  every such call may change; the calls of \<^verbatim>\<open>hyper\<close>, \<^verbatim>\<open>serde_json\<close> and \<^verbatim>\<open>clap\<close> are the fields
  of the record \<open>net\<close>.
\<close>

section \<open>The crates of the program\<close>

record http_request =
  http_method :: string
  http_uri :: string
  http_headers :: "(string \<times> string) list"
  http_body :: string

text \<open>
  The struct \<^verbatim>\<open>Container\<close>, at the type \<^verbatim>\<open>Header\<close> the program reads. It only derives \<^verbatim>\<open>Deserialize\<close>.
\<close>

record container =
  container_result :: header

text \<open>A command-line argument as the program declares it to \<^verbatim>\<open>clap\<close>, and the matches found.\<close>

record cli_arg =
  arg_name :: string
  arg_short :: string
  arg_long :: string
  arg_takes_value :: bool
  arg_default_value :: "string option"

record arg_matches =
  occurrences_of :: "string \<Rightarrow> nat"
  value_of :: "string \<Rightarrow> string option"

record ('w, 'resp, 'err) net =
  \<comment> \<open>\<^verbatim>\<open>Value::to_string\<close>; whether \<^verbatim>\<open>Request::builder()\<close> accepts the parts; \<^verbatim>\<open>Client::request\<close>,
    \<^verbatim>\<open>hyper::body::to_bytes\<close>; the crates a body is read with, and the conversion of their error\<close>
  json_to_string :: "json \<Rightarrow> string"
  request_builder_ok :: "http_request \<Rightarrow> bool"
  client_request :: "http_request \<Rightarrow> ('resp, 'err, 'w) io"
  body_to_bytes :: "'resp \<Rightarrow> (bytes, 'err, 'w) io"
  net_serde :: serde_crates
  derive_container :: "container derive"
  box_serde_error :: "serde_error \<Rightarrow> 'err"
  \<comment> \<open>\<^verbatim>\<open>SystemTime::now().duration_since(UNIX_EPOCH)\<close> in seconds, and \<^verbatim>\<open>App::get_matches\<close>\<close>
  system_time :: "'w \<Rightarrow> u64 option \<times> 'w"
  get_matches :: "cli_arg list \<Rightarrow> arg_matches"

section \<open>The relayer\<close>

definition container_fields :: "'z serde_crates_scheme \<Rightarrow> container field list" where
  "container_fields S =
     [mk_field ''result'' (header_to_json S) (header_from_json S)
        container_result (\<lambda>v c. c\<lparr>container_result := v\<rparr>)]"

definition container_from_json :: "('w, 'resp, 'err, 'z) net_scheme \<Rightarrow> container deserialize" where
  "container_from_json N =
     de_struct (derive_container N) (container_fields (net_serde N)) \<lparr>container_result = header_new\<rparr>"

record relayer =
  relayer_uri :: string

definition relayer_new :: "string \<Rightarrow> relayer" where
  "relayer_new uri = \<lparr>relayer_uri = uri\<rparr>"

definition fetch ::
    "('w, 'resp, 'err, 'z) net_scheme \<Rightarrow> relayer \<Rightarrow> json \<Rightarrow> (header, 'err, 'w) io" where
  "fetch N relayer body =
     (let req = \<lparr>http_method = ''POST'', http_uri = relayer_uri relayer,
                 http_headers = [(''Content-Type'', ''application/json'')],
                 http_body = json_to_string N body\<rparr>
      in if \<not> request_builder_ok N req then io_result Panic
      else
      io_then (client_request N req) (\<lambda>response.
      io_then (body_to_bytes N response) (\<lambda>buf.
      io_then (io_result (map_err (box_serde_error N)
          (from_slice (net_serde N) (container_from_json N) buf))) (\<lambda>container.
        io_return (container_result container)))))"

definition get_block_header_by_number ::
    "('w, 'resp, 'err, 'z) net_scheme \<Rightarrow> relayer \<Rightarrow> string \<Rightarrow> (header, 'err, 'w) io" where
  "get_block_header_by_number N relayer hex_num =
     (let req = JObject
        [(''jsonrpc'', JString ''2.0''),
         (''method'', JString ''eth_getBlockByNumber''),
         (''params'', JArray [JString hex_num, JBool True]),
         (''id'', JNumber 1)]
      in fetch N relayer req)"

text \<open>
  A body that answers with a header: a JSON object with one entry \<^verbatim>\<open>result\<close>, an object that has the
  header's fields once each, in any order and among any others.
\<close>

definition answers ::
    "('w, 'resp, 'err, 'z) net_scheme \<Rightarrow> bytes \<Rightarrow> header \<Rightarrow> bool" where
  "answers N buf h \<longleftrightarrow>
     (\<exists>es rs. read_json (net_serde N) buf = (PObject es, True) \<and>
        list_all (\<lambda>(k, p). is_json p) es \<and>
        filter (\<lambda>(k, p). k = ''result'') es = [(''result'', PObject rs)] \<and>
        object_of (header_fields (net_serde N)) h rs)"

text \<open>The request the relayer sends for a block name.\<close>

definition block_request ::
    "('w, 'resp, 'err, 'z) net_scheme \<Rightarrow> relayer \<Rightarrow> string \<Rightarrow> http_request" where
  "block_request N relayer hex_num =
     \<lparr>http_method = ''POST'', http_uri = relayer_uri relayer,
      http_headers = [(''Content-Type'', ''application/json'')],
      http_body = json_to_string N (JObject
        [(''jsonrpc'', JString ''2.0''), (''method'', JString ''eth_getBlockByNumber''),
         (''params'', JArray [JString hex_num, JBool True]), (''id'', JNumber 1)])\<rparr>"

text \<open>
  What a node promises, for the block names in \<open>S\<close>: at any moment it answers the request
  for one of them with the block's header.
\<close>

definition serves ::
    "('w, 'resp, 'err, 'z) net_scheme \<Rightarrow> relayer \<Rightarrow> string set \<Rightarrow> (string \<Rightarrow> header) \<Rightarrow> bool" where
  "serves N relayer S node \<longleftrightarrow>
     (\<forall>hex_num \<in> S. wf_header (node hex_num) \<and> request_builder_ok N (block_request N relayer hex_num) \<and>
        (\<forall>w. \<exists>resp w1 buf w2. client_request N (block_request N relayer hex_num) w = (Ok resp, w1) \<and>
           body_to_bytes N resp w1 = (Ok buf, w2) \<and> answers N buf (node hex_num)))"

text \<open>The crates of the program together.\<close>

definition json_network :: "('w, 'resp, 'err, 'z) net_scheme \<Rightarrow> bool" where
  "json_network N \<longleftrightarrow> json_library (net_serde N) \<and> derived (derive_container N)"

lemma answers_read:
  assumes "json_network N" and "answers N buf h" and "wf_header h"
  shows "from_slice (net_serde N) (container_from_json N) buf = Ok \<lparr>container_result = h\<rparr>"
proof -
  obtain es rs where es: "read_json (net_serde N) buf = (PObject es, True)"
    "list_all (\<lambda>(k, p). is_json p) es" "filter (\<lambda>(k, p). k = ''result'') es = [(''result'', PObject rs)]"
    and rs: "object_of (header_fields (net_serde N)) h rs"
    using assms(2) by (auto simp: answers_def)
  have "header_from_json (net_serde N) (PObject rs) = Ok h"
    using assms(1,3) rs by (intro json_library.header_in_any_order) (simp_all add: json_network_def)
  moreover have "derived (derive_container N)" using assms(1) by (simp add: json_network_def)
  ultimately have "container_from_json N (PObject es) = Ok \<lparr>container_result = h\<rparr>"
    using derived.de_struct_object [of "derive_container N" "container_fields (net_serde N)" es
        "[(hd (container_fields (net_serde N)), PObject rs)]" "\<lparr>container_result = header_new\<rparr>"] es(2,3)
    by (simp add: container_from_json_def container_fields_def)
  then show ?thesis by (simp add: from_slice_def es(1))
qed

text \<open>What the program then sees: each of these headers, whenever it asks.\<close>

definition fetches ::
    "('w, 'resp, 'err, 'z) net_scheme \<Rightarrow> relayer \<Rightarrow> string set \<Rightarrow> (string \<Rightarrow> header) \<Rightarrow> bool" where
  "fetches N relayer S node \<longleftrightarrow>
     (\<forall>hex_num \<in> S. \<forall>w. \<exists>w'. get_block_header_by_number N relayer hex_num w = (Ok (node hex_num), w'))"

lemma served_fetches:
  assumes "json_network N" and "serves N r S node"
  shows "fetches N r S node"
  unfolding fetches_def
proof (intro ballI allI)
  fix hex_num w
  assume "hex_num \<in> S"
  then obtain resp w1 buf w2 where io: "client_request N (block_request N r hex_num) w = (Ok resp, w1)"
    "body_to_bytes N resp w1 = (Ok buf, w2)" "answers N buf (node hex_num)"
    and ok: "wf_header (node hex_num)" "request_builder_ok N (block_request N r hex_num)"
    using assms(2) unfolding serves_def by blast
  note read = answers_read [OF assms(1) io(3) ok(1)]
  from io ok(2) show "\<exists>w'. get_block_header_by_number N r hex_num w = (Ok (node hex_num), w')"
    by (simp add: get_block_header_by_number_def fetch_def block_request_def io_then_def read)
qed

end
