(* ===== verification/Lightest_Sync.thy ===== *)
theory Lightest_Sync
  imports Light_Skipping Relayer
begin

text \<open>
  \<^verbatim>\<open>examples/lightest-sync/main.rs\<close>: the program that builds up the validator set from the
  genesis block, one header per epoch, and then checks the latest header. A header that
  cannot be fetched or is rejected is logged and skipped. The world of the calls is the one of
  \<open>Relayer\<close> together with the log written so far; \<open>lightest_sync\<close> returns the program's local
  state and latest header at its end, for the statements about them.
\<close>

section \<open>The program\<close>

text \<open>The declared arguments, as \<^verbatim>\<open>Arg::with_name(..).short(..)...\<close> (help texts left out).\<close>

definition sync_args :: "cli_arg list" where
  "sync_args =
     [\<lparr>arg_name = ''fast'', arg_short = ''f'', arg_long = ''fast'',
       arg_takes_value = False, arg_default_value = None\<rparr>,
      \<lparr>arg_name = ''epoch-size'', arg_short = ''e'', arg_long = ''epoch-size'',
       arg_takes_value = True,
       arg_default_value = Some ''17280''\<rparr>,
      \<lparr>arg_name = ''db'', arg_short = ''d'', arg_long = ''db'',
       arg_takes_value = True,
       arg_default_value = Some ''./local.db''\<rparr>,
      \<lparr>arg_name = ''addr'', arg_short = ''a'', arg_long = ''addr'',
       arg_takes_value = True,
       arg_default_value = Some ''http://127.0.0.1:8545''\<rparr>]"

text \<open>A line of the log; the error an \<^verbatim>\<open>error!\<close> prints after its text is kept as its kind.\<close>

datatype log_line = Info string | Error string "kind option"

type_synonym ('a, 'w) sync_io = "('a, kind, 'w \<times> log_line list) io"

definition write_log :: "log_line \<Rightarrow> (unit, 'w) sync_io" where
  "write_log l s = (case s of (w, ls) \<Rightarrow> (Ok (), (w, ls @ [l])))"

definition outside :: "('a, 'e, 'w) io \<Rightarrow> ('a, 'e, 'w \<times> log_line list) io" where
  "outside m s = (case s of (w, ls) \<Rightarrow> (case m w of (r, w') \<Rightarrow> (r, (w', ls))))"

text \<open>\<^verbatim>\<open>SystemTime::now().duration_since(UNIX_EPOCH).unwrap().as_secs()\<close>, and \<^verbatim>\<open>await.unwrap()\<close>.\<close>

definition now_secs :: "('w, 'resp, 'err, 'z) net_scheme \<Rightarrow> (u64, 'w) sync_io" where
  "now_secs N = outside (\<lambda>w. case system_time N w of (t, w') \<Rightarrow> (unwrap t, w'))"

definition unwrap_io :: "('a, 'err, 'w) io \<Rightarrow> ('a, 'w) sync_io" where
  "unwrap_io m = outside (\<lambda>w. case m w of (Ok a, w') \<Rightarrow> (Ok a, w') | (_, w') \<Rightarrow> (Panic, w'))"

definition block_name :: "u64 \<Rightarrow> string" where
  "block_name n = ''0x'' @ hex_string (unat n)"

definition sync_config :: "bool \<Rightarrow> u64 \<Rightarrow> config" where
  "sync_config validate_all_headers n =
     \<lparr>cfg_epoch_size = n, cfg_allowed_clock_skew = 5,
      cfg_verify_epoch_headers = validate_all_headers,
      cfg_verify_non_epoch_headers = validate_all_headers,
      cfg_verify_header_timestamp = True\<rparr>"

definition inserted_line :: "u64 \<Rightarrow> u64 \<Rightarrow> string \<Rightarrow> log_line" where
  "inserted_line epoch current_epoch_number epoch_block_number_hex =
     Info (''['' @ dec_string (unat epoch + 1) @ ''/'' @ dec_string (unat current_epoch_number) @
       ''] Inserted epoch header: '' @ epoch_block_number_hex)"

definition valid_line :: "header \<Rightarrow> log_line" where
  "valid_line h = Info (''Succesfully validated latest header against local state: '' @ int_string (number h))"

text \<open>What a round does with the answer of the node, and the round.\<close>

definition ingest ::
    "('pk, 'sig, 'z) crates_scheme \<Rightarrow> u64 \<Rightarrow> u64 \<Rightarrow> string \<Rightarrow> u64 \<Rightarrow> (header, 'err) result \<Rightarrow> state \<Rightarrow>
     (state, 'w) sync_io" where
  "ingest L current_epoch_number epoch epoch_block_number_hex current_timestamp header state =
     (case header of
        Ok header \<Rightarrow>
          (case insert_header L state header current_timestamp of
             (Ok _, state) \<Rightarrow>
               io_then (write_log (inserted_line epoch current_epoch_number epoch_block_number_hex)) (\<lambda>_.
               io_return state)
           | (Err e, state) \<Rightarrow>
               io_then (write_log (Error (''Failed to insert epoch header '' @ epoch_block_number_hex) (Some e)))
                 (\<lambda>_. io_return state)
           | (Panic, state) \<Rightarrow> io_result Panic)
      | _ \<Rightarrow>
          io_then (write_log (Error (''Failed to fetch block header num: '' @ epoch_block_number_hex) None))
            (\<lambda>_. io_return state))"

definition sync_epoch ::
    "('pk, 'sig, 'z) crates_scheme \<Rightarrow> ('w, 'resp, 'err, 'y) net_scheme \<Rightarrow> relayer \<Rightarrow> u64 \<Rightarrow> u64 \<Rightarrow>
     u64 \<Rightarrow> state \<Rightarrow> (state, 'w) sync_io" where
  "sync_epoch L N relayer es current_epoch_number epoch state =
     io_then (now_secs N) (\<lambda>current_timestamp.
     io_then (io_result (get_epoch_last_block_number epoch es)) (\<lambda>epoch_block_num.
     let epoch_block_number_hex = block_name epoch_block_num in
     io_then (outside (io_value (get_block_header_by_number N relayer epoch_block_number_hex))) (\<lambda>header.
       ingest L current_epoch_number epoch epoch_block_number_hex current_timestamp header state)))"

fun sync_epochs ::
    "('pk, 'sig, 'z) crates_scheme \<Rightarrow> ('w, 'resp, 'err, 'y) net_scheme \<Rightarrow> relayer \<Rightarrow> u64 \<Rightarrow> u64 \<Rightarrow>
     u64 list \<Rightarrow> state \<Rightarrow> (state, 'w) sync_io" where
  "sync_epochs L N relayer es current_epoch_number [] state = io_return state"
| "sync_epochs L N relayer es current_epoch_number (epoch # epochs) state =
     io_then (sync_epoch L N relayer es current_epoch_number epoch state)
       (sync_epochs L N relayer es current_epoch_number epochs)"

definition lightest_sync ::
    "('pk, 'sig, 'z) crates_scheme \<Rightarrow> ('w, 'resp, 'err, 'y) net_scheme \<Rightarrow> (state \<times> header, 'w) sync_io" where
  "lightest_sync L N =
     (let matches = get_matches N sync_args;
          validate_all_headers = (if occurrences_of matches ''fast'' = 1 then False else True);
          first_epoch = 0 in
     io_then (io_result (unwrap (Option.bind (value_of matches ''epoch-size'') parse_u64))) (\<lambda>epoch_size.
     io_then (io_result (unwrap (value_of matches ''addr''))) (\<lambda>addr.
     io_then (write_log (Info ''Setting up relayer'')) (\<lambda>_.
     let relayer = relayer_new addr in
     io_then (write_log (Info ''Setting up storage'')) (\<lambda>_.
     let state_config = sync_config validate_all_headers epoch_size;
         state = state_new snapshot_new (config_state_config state_config) in
     io_then (write_log (Info (''Fetching latest block header from: '' @ addr))) (\<lambda>_.
     io_then (unwrap_io (get_block_header_by_number N relayer ''latest'')) (\<lambda>current_block_header.
     io_then (io_result (unwrap (bi_to_u64 L (number current_block_header)))) (\<lambda>n.
     io_then (io_result (get_epoch_number n epoch_size)) (\<lambda>current_epoch_number.
     io_then (write_log (Info (''Syncing epoch headers from '' @ dec_string (unat first_epoch) @
         '' to epoch num: '' @ dec_string (unat current_epoch_number) @ '' (last header num: '' @
         int_string (number current_block_header) @ '', epoch size: '' @
         dec_string (unat epoch_size) @ '')''))) (\<lambda>_.
     io_then (sync_epochs L N relayer epoch_size current_epoch_number
         (u64_range first_epoch current_epoch_number) state) (\<lambda>state.
     io_then (now_secs N) (\<lambda>current_timestamp.
     io_then
       (case verify_header L state current_block_header current_timestamp of
          Ok _ \<Rightarrow> write_log (valid_line current_block_header)
        | Err e \<Rightarrow> write_log (Error ''Failed to validate latest header against local state'' (Some e))
        | Panic \<Rightarrow> io_result Panic) (\<lambda>_.
       io_return (state, current_block_header))))))))))))))"

section \<open>What the verdict means\<close>

lemma write_log_apply [simp]: "write_log l (w, ls) = (Ok (), (w, ls @ [l]))"
  by (simp add: write_log_def)

lemma write_log_eq_Ok [result_iff]: "write_log l s = (r, s') \<longleftrightarrow> r = Ok () \<and> s' = (fst s, snd s @ [l])"
  by (cases s) auto

lemma ingest_steps:
  "ingest L cnt epoch nm now hdr st s = (Ok st', s') \<Longrightarrow> (light_step L)\<^sup>*\<^sup>* st st'"
  by (cases hdr; cases "insert_header L st (case hdr of Ok h \<Rightarrow> h) now"; cases "fst (insert_header L st (case hdr of Ok h \<Rightarrow> h) now)")
    (auto simp: ingest_def io_then_eq_Ok intro: light_step.intros)

lemma sync_epoch_steps:
  "sync_epoch L N r es cnt epoch st s = (Ok st', s') \<Longrightarrow> (light_step L)\<^sup>*\<^sup>* st st'"
  unfolding sync_epoch_def Let_def io_then_eq_Ok by (elim exE conjE) (rule ingest_steps)

lemma sync_epochs_steps:
  "sync_epochs L N r es cnt epochs st s = (Ok st', s') \<Longrightarrow> (light_step L)\<^sup>*\<^sup>* st st'"
  by (induction epochs arbitrary: st s)
    (auto simp: io_then_eq_Ok dest!: sync_epoch_steps elim: rtranclp_trans)

lemma lightest_sync_Ok:
  assumes "lightest_sync L N s = (Ok (st', h), s')"
  shows "\<exists>validate es now. (light_step L)\<^sup>*\<^sup>*
       (state_new snapshot_new (config_state_config (sync_config validate es))) st' \<and>
     (last (snd s') = valid_line h \<longrightarrow> verify_header L st' h now = Ok ())"
proof -
  let ?final = "\<lambda>st now. case verify_header L st h now of
      Ok _ \<Rightarrow> write_log (valid_line h)
    | Err e \<Rightarrow> write_log (Error ''Failed to validate latest header against local state'' (Some e))
    | Panic \<Rightarrow> io_result Panic"
  obtain validate es cnt r epochs s1 s2 s3 now u where
    sync: "sync_epochs L N r es cnt epochs
      (state_new snapshot_new (config_state_config (sync_config validate es))) s1 = (Ok st', s2)"
    and fin: "?final st' now s3 = (Ok u, s')"
    using assms unfolding lightest_sync_def Let_def io_then_eq_Ok io_return_apply
    by - (elim exE conjE, simp only: prod.inject result.inject)
  have "verify_header L st' h now = Ok ()" if "last (snd s') = valid_line h"
    using fin that by (auto simp: write_log_eq_Ok valid_line_def split: result.splits)
  with sync_epochs_steps [OF sync] show ?thesis by blast
qed

text \<open>C35: what the synchronisation leaves behind and what its verdict means: the final state is reached
  from the empty one by \<^verbatim>\<open>insert_header\<close> steps only, keeps the chosen configuration and is
  well-formed; when the last line of the log reports the latest header as valid, that header is
  sealed, over its own hash, by a quorum of the validator set built up, and is newer than
  the last stored block. \<close>

theorem lightest_sync_verdict:
  assumes "library_crates L" and "lightest_sync L N s = (Ok (st', h), s')"
  shows "\<exists>validate es. (light_step L)\<^sup>*\<^sup>*
       (state_new snapshot_new (config_state_config (sync_config validate es))) st' \<and>
     st_config st' = config_state_config (sync_config validate es) \<and>
     wf_snapshot (st_snapshot st') \<and>
     (last (snd s') = valid_line h \<longrightarrow> (\<exists>hsh ex. header_hash L h = Ok hsh \<and>
        istanbul_extra_from_rlp L (extra h) = Ok ex \<and>
        quorum_sealed L (st_validators st') hsh (aggregated_seal ex) \<and>
        (\<exists>n. bi_to_u64 L (number h) = Some n \<and> snap_number (st_snapshot st') < n)))"
proof -
  obtain validate es now where steps: "(light_step L)\<^sup>*\<^sup>*
      (state_new snapshot_new (config_state_config (sync_config validate es))) st'"
    and verdict: "last (snd s') = valid_line h \<longrightarrow> verify_header L st' h now = Ok ()"
    using lightest_sync_Ok [OF assms(2)] by blast
  from steps have "st_config st' = config_state_config (sync_config validate es) \<and>
      wf_snapshot (st_snapshot st')"
    using wf_snapshot_new
    by (induction rule: rtranclp_induct)
      (auto simp: state_new_def dest: light_step_config [OF assms(1)] light_step_wf [OF assms(1)])
  with steps verdict show ?thesis
    by (auto simp: verify_header_Ok_iff verify_aggregated_seal_Ok_iff)
qed

section \<open>Progress\<close>

lemma epoch_last_block_eq:
  "get_epoch_last_block_number e n = Ok b \<Longrightarrow> b = e * n"
  by (auto simp: get_epoch_last_block_number_def u64_mul_def split: if_splits)

lemma sync_epoch_follows:
  assumes "get_epoch_last_block_number epoch es = Ok n"
    and "fetches N r S node" and "block_name n \<in> S"
    and "\<forall>w. \<exists>t w'. system_time N w = (Some t, w') \<and> good t"
    and "\<And>t. good t \<Longrightarrow> insert_header L st (node (block_name n)) t = (Ok (), st')"
  shows "\<exists>w'. sync_epoch L N r es cnt epoch st (w, lg) =
     (Ok st', (w', lg @ [inserted_line epoch cnt (block_name n)]))"
proof -
  obtain t w1 where t: "system_time N w = (Some t, w1)" "good t" using assms(4) by blast
  obtain w2 where "get_block_header_by_number N r (block_name n) w1 = (Ok (node (block_name n)), w2)"
    using assms(2,3) unfolding fetches_def by blast
  then have "sync_epoch L N r es cnt epoch st (w, lg) =
      (Ok st', (w2, lg @ [inserted_line epoch cnt (block_name n)]))"
    using t assms(1) assms(5) [OF t(2)]
    by (simp add: sync_epoch_def now_secs_def outside_def io_then_def io_value_def
        ingest_def Let_def)
  then show ?thesis by blast
qed

definition epoch_line :: "u64 \<Rightarrow> u64 \<Rightarrow> u64 \<Rightarrow> log_line" where
  "epoch_line es cnt epoch = inserted_line epoch cnt (block_name (epoch * es))"

lemma sync_epochs_follow:
  assumes lib: "library_crates L" and es: "epoch_size cfg \<noteq> 0" and "fetches N r S node"
    and clock: "\<forall>w. \<exists>t w'. system_time N w = (Some t, w') \<and> good t"
    and "honest_chain L (epoch_size cfg) s (map (\<lambda>e. node (block_name (e * epoch_size cfg))) epochs) s'"
    and "\<forall>e \<in> set epochs. get_epoch_last_block_number e (epoch_size cfg) = Ok (e * epoch_size cfg) \<and>
      block_name (e * epoch_size cfg) \<in> S \<and>
      (\<forall>t. good t \<longrightarrow> in_time cfg (node (block_name (e * epoch_size cfg))) t)"
  shows "\<exists>w'. sync_epochs L N r (epoch_size cfg) cnt epochs (state_new s cfg) (w, lg) =
     (Ok (state_new s' cfg), (w', lg @ map (epoch_line (epoch_size cfg) cnt) epochs))"
  using assms(5,6)
proof (induction epochs arbitrary: s w lg)
  case Nil
  then show ?case by (auto elim: honest_chain_NilE)
next
  case (Cons e epochs)
  let ?n = "e * epoch_size cfg"
  from Cons.prems(1) obtain s1 where s1: "honest_successor L (epoch_size cfg) s (node (block_name ?n)) s1"
    and rest: "honest_chain L (epoch_size cfg) s1
      (map (\<lambda>e. node (block_name (e * epoch_size cfg))) epochs) s'"
    by (auto elim: honest_chain_ConsE)
  have acc: "insert_header L (state_new s cfg) (node (block_name ?n)) t = (Ok (), state_new s1 cfg)"
    if "good t" for t
    using honest_header_accepted [OF lib, of "state_new s cfg" "node (block_name ?n)" s1 t]
      s1 es that Cons.prems(2) by (simp add: state_new_def)
  obtain w1 where "sync_epoch L N r (epoch_size cfg) cnt e (state_new s cfg) (w, lg) =
      (Ok (state_new s1 cfg), (w1, lg @ [inserted_line e cnt (block_name ?n)]))"
    using sync_epoch_follows [OF _ assms(3) _ clock acc, of e "epoch_size cfg" cnt w lg] Cons.prems(2)
    by auto
  then show ?case
    using Cons.IH [OF rest, of w1 "lg @ [inserted_line e cnt (block_name ?n)]"] Cons.prems(2)
    by (simp add: io_then_Ok epoch_line_def)
qed

text \<open>The genesis block of a chain, and what the empty client stores of it.\<close>

definition honest_genesis ::
    "('pk, 'sig, 'z) crates_scheme \<Rightarrow> header \<Rightarrow> snapshot \<Rightarrow> bool" where
  "honest_genesis L h s \<longleftrightarrow> number h = 0 \<and> snap_number s = 0 \<and> snap_timestamp s = time h \<and>
     header_hash L h = Ok (snap_hash s) \<and>
     (\<exists>ex. istanbul_extra_from_rlp L (extra h) = Ok ex \<and>
        snap_aggregated_seal s = aggregated_seal ex \<and>
        next_validators L [] ex = Some (snap_validators s))"

lemma honest_genesis_stored:
  assumes "library_crates L" and "honest_genesis L h s" and "epoch_size cfg \<noteq> 0"
  shows "insert_header L (state_new snapshot_new cfg) h t = (Ok (), state_new s cfg)"
proof -
  have big: "num_bigint L" using assms(1) by (simp add: library_crates_def)
  obtain ex where "istanbul_extra_from_rlp L (extra h) = Ok ex"
    "next_validators L [] ex = Some (snap_validators s)"
    "s = snapshot_of 0 h (snap_hash s) ex (snap_validators s)"
    using assms(2) by (auto simp: honest_genesis_def snapshot_of_def)
  then have "header_transition L (state_new snapshot_new cfg) h t (state_new s cfg)"
    using assms(2,3) unfolding header_transition_def honest_genesis_def
    by (intro exI [of _ 0] exI [of _ True] exI [of _ "snap_hash s"] exI [of _ ex]
        exI [of _ "snap_validators s"])
      (simp add: num_bigint.to_u64_eq [OF big] num_bigint.is_zero_eq [OF big] checks_header_def
        is_last_block_of_epoch_eq state_new_def snapshot_new_def)
  then show ?thesis using library_crates.insert_header_Ok [OF assms(1)] by blast
qed

text \<open>Every epoch the loop visits has its last block before the latest header, so within \<open>u64\<close>.\<close>

lemma epoch_blocks_in_range:
  assumes "get_epoch_number n es = Ok cnt" and "es \<noteq> 0" and "e \<in> set (u64_range 0 cnt)"
  shows "get_epoch_last_block_number e es = Ok (e * es)"
proof (cases "e = 0")
  case False
  have lt: "unat e < unat cnt"
    using assms(3) unat_u64_lt [of cnt]
    by (auto simp: u64_range_def unat_of_nat take_bit_eq_mod)
  have c: "unat cnt = (unat n + unat es - 1) div unat es"
    using get_epoch_number_total [OF assms(2), of n] assms(1) by simp
  have pos: "0 < unat es" using assms(2) by (simp add: unat_gt_0)
  have "0 < unat n" using c lt pos by (cases "unat n = 0") simp_all
  from ceil_div_bounds(2) [OF this pos c] have "(unat cnt - 1) * unat es < unat n" .
  moreover have "unat e * unat es \<le> (unat cnt - 1) * unat es" using lt by (intro mult_le_mono1) simp
  ultimately have "unat e * unat es < 2 ^ 64" using unat_u64_lt [of n] by linarith
  with False show ?thesis by (simp add: get_epoch_last_block_number_def u64_mul_def)
qed (simp add: get_epoch_last_block_number_def)

definition setup_lines :: "string \<Rightarrow> header \<Rightarrow> u64 \<Rightarrow> u64 \<Rightarrow> log_line list" where
  "setup_lines addr h cnt es =
     [Info ''Setting up relayer'', Info ''Setting up storage'',
      Info (''Fetching latest block header from: '' @ addr),
      Info (''Syncing epoch headers from '' @ dec_string (unat (0 :: u64)) @
         '' to epoch num: '' @ dec_string (unat cnt) @ '' (last header num: '' @
         int_string (number h) @ '', epoch size: '' @ dec_string (unat es) @ '')'')]"

lemma lightest_sync_follows:
  fixes L :: "('pk, 'sig, 'z) crates_scheme" and N :: "('w, 'resp, 'err, 'y) net_scheme"
  defines "cfg \<equiv> \<lambda>es. config_state_config
      (sync_config (occurrences_of (get_matches N sync_args) ''fast'' \<noteq> 1) es)"
    and "epoch_header \<equiv> \<lambda>node es e. node (block_name (e * es)) :: header"
  assumes lib: "library_crates L" and es: "es \<noteq> 0"
    and args: "value_of (get_matches N sync_args) ''epoch-size'' = Some s_es" "parse_u64 s_es = Some es"
      "value_of (get_matches N sync_args) ''addr'' = Some addr"
    and serves: "fetches N (relayer_new addr) S node" "''latest'' \<in> S"
      "\<forall>e \<in> set (u64_range 0 cnt). block_name (e * es) \<in> S"
    and clock: "\<forall>w. \<exists>t w'. system_time N w = (Some t, w') \<and> (\<forall>h \<in> node ` S. in_time (cfg es) h t)"
    and genesis: "honest_genesis L (epoch_header node es 0) s0"
    and chain: "honest_chain L es s0 (map (epoch_header node es) (u64_range 1 cnt)) s"
    and latest: "honest_successor L es s (node ''latest'') s'" "get_epoch_number (snap_number s') es = Ok cnt"
  shows "\<exists>w'. lightest_sync L N (w, lg) = (Ok (state_new s (cfg es), node ''latest''),
     (w', lg @ setup_lines addr (node ''latest'') cnt es @ map (epoch_line es cnt) (u64_range 0 cnt) @
        [valid_line (node ''latest'')]))"
proof -
  let ?h = "node ''latest''" and ?r = "relayer_new addr" and ?st0 = "state_new snapshot_new (cfg es)"
  define good where "good t \<longleftrightarrow> (\<forall>h \<in> node ` S. in_time (cfg es) h t)" for t
  have clock': "\<forall>w. \<exists>t w'. system_time N w = (Some t, w') \<and> good t"
    using clock by (simp add: good_def)
  have cfg: "epoch_size (cfg es) = es"
    by (simp add: cfg_def config_state_config_def sync_config_def)
  have big: "num_bigint L" using lib by (simp add: library_crates_def)
  have num: "number ?h = uint (snap_number s')" and pos: "0 < snap_number s'"
    using latest(1) by (auto simp: honest_successor_def intro: le_less_trans [OF word_zero_le])
  have n: "bi_to_u64 L (number ?h) = Some (snap_number s')"
    using uint_bounded [of "snap_number s'"] by (simp add: num num_bigint.to_u64_eq [OF big])
  have "0 < unat cnt"
    using ceil_div_bounds(1) [of "unat (snap_number s')" "unat es"] pos es
      get_epoch_number_total [OF es, of "snap_number s'"] latest(2)
    by (simp add: word_less_nat_alt unat_gt_0)
  then have range: "u64_range 0 cnt = 0 # u64_range 1 cnt"
    by (simp add: u64_range_def upt_conv_Cons)
  have last: "get_epoch_last_block_number e es = Ok (e * es)" if "e \<in> set (u64_range 0 cnt)" for e
    using epoch_blocks_in_range [OF latest(2) es that] .
  obtain w1 where w1: "get_block_header_by_number N ?r ''latest'' w = (Ok ?h, w1)"
    using serves(1,2) unfolding fetches_def by blast
  let ?lg1 = "lg @ setup_lines addr ?h cnt es"
  obtain w2 where w2: "sync_epoch L N ?r es cnt 0 ?st0 (w1, ?lg1) =
      (Ok (state_new s0 (cfg es)), (w2, ?lg1 @ [epoch_line es cnt 0]))"
    using sync_epoch_follows [where st = ?st0 and st' = "state_new s0 (cfg es)" and epoch = 0 and L = L
        and cnt = cnt and w = w1 and lg = ?lg1, OF last serves(1) _ clock']
      honest_genesis_stored [OF lib genesis, of "cfg es"] serves(3) es range cfg
    by (auto simp: epoch_line_def epoch_header_def)
  have chain': "honest_chain L (epoch_size (cfg es)) s0
      (map (\<lambda>e. node (block_name (e * epoch_size (cfg es)))) (u64_range 1 cnt)) s"
    using chain by (simp add: cfg epoch_header_def)
  obtain w3 where w3: "sync_epochs L N ?r es cnt (u64_range 1 cnt) (state_new s0 (cfg es))
      (w2, ?lg1 @ [epoch_line es cnt 0]) =
      (Ok (state_new s (cfg es)), (w3, (?lg1 @ [epoch_line es cnt 0]) @
         map (epoch_line es cnt) (u64_range 1 cnt)))"
    using sync_epochs_follow [OF lib _ serves(1) clock' chain',
        where cnt = cnt and w = w2 and lg = "?lg1 @ [epoch_line es cnt 0]"]
      last serves(3) es range cfg
    by (auto simp: good_def)
  obtain t w4 where t: "system_time N w3 = (Some t, w4)" "good t" using clock' by blast
  have ver: "verify_header L (state_new s (cfg es)) ?h t = Ok ()"
    using honest_header_verified [OF lib, of es "state_new s (cfg es)" ?h s' t] latest(1) t(2) serves(2)
    by (simp add: state_new_def good_def)
  have valid: "(if occurrences_of (get_matches N sync_args) ''fast'' = 1 then False else True) =
      (occurrences_of (get_matches N sync_args) ''fast'' \<noteq> 1)"
    by simp
  have "lightest_sync L N (w, lg) =
      io_then (sync_epochs L N ?r es cnt (u64_range 0 cnt) ?st0) (\<lambda>st.
      io_then (now_secs N) (\<lambda>t.
      io_then
        (case verify_header L st ?h t of
           Ok _ \<Rightarrow> write_log (valid_line ?h)
         | Err e \<Rightarrow> write_log (Error ''Failed to validate latest header against local state'' (Some e))
         | Panic \<Rightarrow> io_result Panic) (\<lambda>_. io_return (st, ?h)))) (w1, ?lg1)"
    unfolding lightest_sync_def Let_def valid
    by (simp add: io_then_def unwrap_io_def outside_def args w1 n latest(2) setup_lines_def
        cfg_def)
  also have "\<dots> = (Ok (state_new s (cfg es), ?h),
      (w4, (?lg1 @ [epoch_line es cnt 0] @ map (epoch_line es cnt) (u64_range 1 cnt)) @ [valid_line ?h]))"
    unfolding range sync_epochs.simps
    using w2 w3 t by (simp add: io_then_def outside_def now_secs_def ver)
  finally have "lightest_sync L N (w, lg) = (Ok (state_new s (cfg es), ?h),
      (w4, (?lg1 @ [epoch_line es cnt 0] @ map (epoch_line es cnt) (u64_range 1 cnt)) @ [valid_line ?h]))" .
  then show ?thesis unfolding range by auto
qed

text \<open>The blocks of a node by number: those up to the end of the last finished epoch, and the rest.\<close>

definition node_block :: "(string \<Rightarrow> header) \<Rightarrow> nat \<Rightarrow> header" where
  "node_block node i = node (block_name (of_nat i))"

definition finished_blocks :: "(string \<Rightarrow> header) \<Rightarrow> u64 \<Rightarrow> u64 \<Rightarrow> header list" where
  "finished_blocks node es cnt = map (node_block node) [1..<Suc ((unat cnt - 1) * unat es)]"

definition unfinished_blocks :: "(string \<Rightarrow> header) \<Rightarrow> u64 \<Rightarrow> u64 \<Rightarrow> u64 \<Rightarrow> header list" where
  "unfinished_blocks node es cnt n = map (node_block node) [Suc ((unat cnt - 1) * unat es)..<unat n]"

definition numbered :: "(string \<Rightarrow> header) \<Rightarrow> u64 \<Rightarrow> bool" where
  "numbered node n \<longleftrightarrow> (\<forall>i. 0 < i \<longrightarrow> i < unat n \<longrightarrow> number (node_block node i) = int i)"

lemma ends_epoch_block:
  assumes "numbered node n" and "0 < i" and "i < unat n"
  shows "ends_epoch es (node_block node i) \<longleftrightarrow> unat es dvd i"
proof -
  have "number (node_block node i) = int i" using assms by (simp add: numbered_def)
  then show ?thesis by (simp only: ends_epoch_def uint_nat of_nat_dvd_iff)
qed

lemma epoch_count:
  assumes "es \<noteq> 0" and "get_epoch_number n es = Ok cnt" and "0 < n"
  shows "(unat cnt - 1) * unat es < unat n" and "unat n \<le> unat cnt * unat es" and "0 < unat cnt"
proof -
  have c: "unat cnt = (unat n + unat es - 1) div unat es"
    using get_epoch_number_total [OF assms(1), of n] assms(2) by simp
  have pos: "0 < unat n" "0 < unat es" using assms(1,3) by (simp_all add: unat_gt_0)
  show "(unat cnt - 1) * unat es < unat n" "unat n \<le> unat cnt * unat es" "0 < unat cnt"
    using ceil_div_bounds [OF pos c] by simp_all
qed

lemma finished_epoch_headers:
  assumes "es \<noteq> 0" and "get_epoch_number n es = Ok cnt" and "0 < n" and "numbered node n"
  shows "filter (ends_epoch es) (finished_blocks node es cnt) =
      map (\<lambda>e. node (block_name (e * es))) (u64_range 1 cnt)"
    and "finished_blocks node es cnt \<noteq> [] \<Longrightarrow> ends_epoch es (last (finished_blocks node es cnt))"
    and "\<forall>h \<in> set (unfinished_blocks node es cnt n). \<not> ends_epoch es h"
proof -
  note cnt = epoch_count [OF assms(1-3)] and ends = ends_epoch_block [OF assms(4)]
  have pos: "0 < unat es" using assms(1) by (simp add: unat_gt_0)
  let ?m = "unat cnt - 1"
  have "filter (ends_epoch es) (finished_blocks node es cnt) =
      map (node_block node) (filter (\<lambda>i. unat es dvd i) [1..<Suc (?m * unat es)])"
    unfolding finished_blocks_def filter_map comp_def
    using ends cnt(1) by (intro arg_cong [where f = "map (node_block node)"] filter_cong) auto
  also have "\<dots> = map (\<lambda>e. node_block node (e * unat es)) [1..<Suc ?m]"
    unfolding filter_multiples [OF pos] by simp
  also have "\<dots> = map (\<lambda>e. node (block_name (e * es))) (u64_range 1 cnt)"
    using cnt(3) by (simp add: u64_range_def node_block_def del: upt.simps)
  finally show "filter (ends_epoch es) (finished_blocks node es cnt) =
      map (\<lambda>e. node (block_name (e * es))) (u64_range 1 cnt)" .
  show "ends_epoch es (last (finished_blocks node es cnt))" if "finished_blocks node es cnt \<noteq> []"
    using that ends [of "?m * unat es"] cnt(1)
    by (auto simp: finished_blocks_def last_map simp del: upt.simps split: if_splits)
  have "\<not> unat es dvd i" if "?m * unat es < i" "i < unat n" for i
    using not_dvd_between [OF that(1)] that(2) cnt(2,3) by simp
  then show "\<forall>h \<in> set (unfinished_blocks node es cnt n). \<not> ends_epoch es h"
    using ends by (auto simp: unfinished_blocks_def Suc_le_eq)
qed

text \<open>C36: the lightest sync is a full sync: let the node follow one honest chain of consecutive blocks and
  answer every request for its genesis block, the last block of a finished epoch or the latest
  block with the JSON of that header, its fields in any order and among any others, and let the clock never be behind these blocks by more than the allowed skew. Then the program,
  which fetches one block per epoch, returns, for every epoch size and with the fast flag or
  without, in exactly the state of a client that has accepted every single block up to
  the end of the last finished epoch; its log is the set-up, one line per inserted epoch header
  in order, and the line that reports the latest header as valid. \<close>

theorem sync_succeeds_on_honest_network:
  fixes L :: "('pk, 'sig, 'z) crates_scheme" and N :: "('w, 'resp, 'err, 'y) net_scheme"
  defines "cfg \<equiv> \<lambda>es. config_state_config
      (sync_config (occurrences_of (get_matches N sync_args) ''fast'' \<noteq> 1) es)"
  assumes "library_crates L" and "es \<noteq> 0"
    and "value_of (get_matches N sync_args) ''epoch-size'' = Some s_es" "parse_u64 s_es = Some es"
      "value_of (get_matches N sync_args) ''addr'' = Some addr"
    and "json_network N" "serves N (relayer_new addr) S node" "''latest'' \<in> S"
      "\<forall>e \<in> set (u64_range 0 cnt). block_name (e * es) \<in> S"
    and "\<forall>w. \<exists>t w'. system_time N w = (Some t, w') \<and> (\<forall>h \<in> node ` S. in_time (cfg es) h t)"
    and "honest_genesis L (node_block node 0) s0"
    and "honest_chain L es s0 (finished_blocks node es cnt) s"
    and "honest_chain L es s (unfinished_blocks node es cnt (snap_number s')) s1"
    and "honest_successor L es s1 (node ''latest'') s'" "get_epoch_number (snap_number s') es = Ok cnt"
    and "numbered node (snap_number s')"
  shows "(\<exists>w'. lightest_sync L N (w, lg) = (Ok (state_new s (cfg es), node ''latest''),
       (w', lg @ setup_lines addr (node ''latest'') cnt es @ map (epoch_line es cnt) (u64_range 0 cnt) @
          [valid_line (node ''latest'')]))) \<and>
     (\<forall>clocks. list_all2 (in_time (cfg es)) (finished_blocks node es cnt) clocks \<longrightarrow>
       accepted_run L (state_new s0 (cfg es)) (zip (finished_blocks node es cnt) clocks) (state_new s (cfg es)))"
proof -
  have size: "epoch_size (cfg es) = es"
    by (simp add: cfg_def config_state_config_def sync_config_def)
  have "0 < snap_number s'"
    using assms(15) by (auto simp: honest_successor_def intro: le_less_trans [OF word_zero_le])
  note blocks = finished_epoch_headers [OF assms(3,16) this assms(17)]
  have "honest_chain L es s0 (filter (ends_epoch es) (finished_blocks node es cnt)) s"
    using honest_chain_filter [OF assms(13)] blocks(2) by blast
  then have chain: "honest_chain L es s0 (map (\<lambda>e. node (block_name (e * es))) (u64_range 1 cnt)) s"
    unfolding blocks(1) .
  have latest: "honest_successor L es s (node ''latest'') s'"
    using honest_chain_skipped [OF assms(14) blocks(3) assms(15)] .
  have genesis: "honest_genesis L (node (block_name (0 * es))) s0"
    using assms(12) by (simp add: node_block_def)
  have run: "accepted_run L (state_new s0 (cfg es)) (zip (finished_blocks node es cnt) clocks) (state_new s (cfg es))"
    if "list_all2 (in_time (cfg es)) (finished_blocks node es cnt) clocks" for clocks
    using honest_chain_run [OF assms(2), of "cfg es" s0 "finished_blocks node es cnt" s clocks] assms(3,13) that
    by (simp add: size)
  show ?thesis
    using lightest_sync_follows [OF assms(2-6) served_fetches [OF assms(7,8)] assms(9,10) assms(11) [unfolded cfg_def] genesis chain latest assms(16), of w lg]
      run by (simp add: cfg_def)
qed

section \<open>Samples\<close>

text \<open>A genesis block that installs the sample validators, and a block sealed by them.\<close>

definition genesis_extra :: istanbul_extra where
  "genesis_extra = sample_extra\<lparr>added_validators := map address sample_validators,
     added_validators_public_keys := map public_key sample_validators, removed_validators := 0,
     aggregated_seal := istanbul_aggregated_seal_new\<rparr>"

lemma genesis_extra_wf: "wf_extra genesis_extra"
  unfolding genesis_extra_def sample_extra_fields
  by (simp add: wf_seal_def sample_validators_def istanbul_aggregated_seal_new_def)

lemma genesis_extra_fits: "rlp_fits (extra_item ref_crates genesis_extra)"
  by (simp add: genesis_extra_def sample_extra_def extra_item_def seal_item_def rlp_fits_def
      usize_bits_def big_int_to_rlp_compat_bytes_def istanbul_aggregated_seal_new_def
      ref_signature_def be_bytes.simps sample_validators_def)

lemma genesis_extra_next: "next_validators ref_crates [] genesis_extra = Some sample_validators"
  by (simp add: next_validators_def genesis_extra_def sample_extra_def survivors_def
      new_validators_def nat_bits.simps)
    (simp add: sample_validators_def)

definition latest_header :: header where
  "latest_header = (header_with 2 epoch_extra)\<lparr>time := 1600000003\<rparr>"

definition middle_header :: header where
  "middle_header = (header_with 1 epoch_extra)\<lparr>time := 1600000001\<rparr>"

lemma latest_header_decodes: "istanbul_extra_from_rlp ref_crates (extra latest_header) = Ok epoch_extra"
  using header_with_decodes(1) [OF epoch_extra_wf epoch_extra_fits, of 2]
  by (simp add: latest_header_def)

text \<open>A node that knows three blocks and answers in JSON, and a clock at a fixed time.\<close>

definition sample_node :: "string \<Rightarrow> header" where
  "sample_node s = (if s = ''0x0'' then header_with 0 genesis_extra else if s = ''0x1'' then middle_header
     else latest_header)"

text \<open>The block name of a request, and the answer to it.\<close>

fun request_param :: "parsed \<Rightarrow> string" where
  "request_param (PObject [v, m, (k, PArray [PString b s, full]), i]) = s"
| "request_param p = ''''"

definition sample_answer :: "string \<Rightarrow> json" where
  "sample_answer s = JObject [(''jsonrpc'', JString ''2.0''), (''id'', JNumber 1),
     (''result'', header_to_json ref_serde (sample_node s))]"

definition sample_net :: "(unit, string, unit) net" where
  "sample_net = \<lparr>json_to_string = print_json, request_builder_ok = (\<lambda>_. True),
     client_request = (\<lambda>req w. (Ok (print_json (sample_answer
        (request_param (fst (read_json ref_json (as_bytes (http_body req))))))), w)),
     body_to_bytes = (\<lambda>resp w. (Ok (as_bytes resp), w)),
     net_serde = ref_serde, derive_container = ref_derive, box_serde_error = (\<lambda>_. ()),
     system_time = (\<lambda>w. (Some 1600000000, w)),
     get_matches = (\<lambda>args. \<lparr>occurrences_of = (\<lambda>_. 0),
        value_of = (\<lambda>s. Option.bind (map_of (map (\<lambda>a. (arg_name a, arg_default_value a)) args) s) id)\<rparr>)\<rparr>"

lemma sample_request_param:
  "request_param (fst (read_json ref_json (as_bytes (http_body (block_request sample_net r s))))) = s"
  by (simp add: block_request_def sample_net_def ref_read_print del: print_json.simps)

lemma sample_answers: "answers sample_net (as_bytes (print_json (sample_answer s))) (sample_node s)"
proof -
  let ?f = "\<lambda>f. (field_name f, parsed_of (field_ser f (sample_node s)))"
  have "read_json ref_json (as_bytes (print_json (sample_answer s))) =
      (PObject [(''jsonrpc'', PString True ''2.0''), (''id'', PUnsigned 1),
        (''result'', PObject (map ?f (header_fields ref_serde)))], True)"
    by (subst ref_read_print)
      (simp_all add: sample_answer_def plain_char_def header_to_json_def ref_derive_def comp_def)
  moreover have "object_of (header_fields ref_serde) (sample_node s) (map ?f (header_fields ref_serde))"
    by (rule ref_serde.header_json.object_of_serialized)
  moreover from this have "list_all (\<lambda>(k, p). is_json p) (map ?f (header_fields ref_serde))"
    by (simp only: object_of_def)
  ultimately show ?thesis
    unfolding answers_def by (intro exI conjI) (assumption | simp add: sample_net_def)+
qed

lemma sample_node_wf: "wf_header (sample_node s)"
  using wf_header_new
  by (simp add: sample_node_def header_with_def middle_header_def latest_header_def wf_header_def)

lemma sample_serves: "serves sample_net r S sample_node"
  using sample_answers sample_node_wf sample_request_param
  by (auto simp: serves_def, auto simp: sample_net_def)

lemma sample_network: "json_network sample_net"
  by (simp add: json_network_def sample_net_def ref_serde.json_library_axioms ref_derive.derived_axioms)

lemmas sample_fetches = served_fetches [OF sample_network sample_serves]

lemma sample_genesis:
  "\<exists>s. honest_genesis ref_crates (header_with 0 genesis_extra) s \<and>
     snap_validators s = sample_validators \<and> snap_timestamp s = 1600000000"
proof -
  obtain hsh where "header_hash ref_crates (header_with 0 genesis_extra) = Ok hsh"
    using header_with_decodes(2) [OF genesis_extra_wf genesis_extra_fits] by blast
  then show ?thesis
    using header_with_decodes(1) [OF genesis_extra_wf genesis_extra_fits, of 0] genesis_extra_next
    by (intro exI [of _ "snapshot_of 0 (header_with 0 genesis_extra) hsh genesis_extra sample_validators"])
      (simp add: honest_genesis_def snapshot_of_def, simp add: header_with_def)
qed

lemma sample_latest:
  assumes "snap_validators s = sample_validators" "snap_timestamp s = 1600000000" "snap_number s = 0"
  shows "\<exists>s1 s'. honest_successor ref_crates 17280 s middle_header s1 \<and>
    honest_successor ref_crates 17280 s1 latest_header s' \<and>
    honest_successor ref_crates 17280 s latest_header s' \<and> snap_number s' = 2"
proof -
  obtain s1 where s1: "honest_successor ref_crates 17280 s middle_header s1" "snap_number s1 = 1"
    "snap_timestamp s1 = 1600000001" "snap_validators s1 = sample_validators"
    using sample_successor [of middle_header 1 s] assms by (auto simp: middle_header_def header_with_def)
  then obtain s' where s': "honest_successor ref_crates 17280 s1 latest_header s'" "snap_number s' = 2"
    using sample_successor [of latest_header 2 s1] by (auto simp: latest_header_def header_with_def)
  moreover have "\<not> ends_epoch 17280 middle_header"
    by (simp add: ends_epoch_def middle_header_def header_with_def)
  ultimately show ?thesis using s1(1) honest_successor_skips by blast
qed

lemma sample_net_simps:
  "value_of (get_matches sample_net sync_args) ''epoch-size'' = Some ''17280''"
  "value_of (get_matches sample_net sync_args) ''addr'' = Some ''http://127.0.0.1:8545''"
  "occurrences_of (get_matches sample_net sync_args) ''fast'' = 0"
  "system_time sample_net w = (Some 1600000000, w)"
  by (simp_all add: sample_net_def sync_args_def)

lemma sample_facts:
  "parse_u64 ''17280'' = Some 17280" "get_epoch_number 2 17280 = Ok 1"
  "u64_range 0 1 = [0]" "u64_range 1 1 = []" "block_name 0 = ''0x0''" "block_name 1 = ''0x1''"
  by (simp_all add: parse_u64_def dec_value_def is_digit_def get_epoch_number_def u64_div_def
      is_last_block_of_epoch_eq u64_add_def u64_range_def block_name_def hex_string.simps
      hex_digit_def char_of_def bit_0)

lemma sample_in_time:
  "h \<in> {header_with 0 genesis_extra, latest_header} \<Longrightarrow>
     in_time (config_state_config (sync_config b 17280)) h 1600000000"
  by (auto simp: in_time_def config_state_config_def sync_config_def latest_header_def header_with_def)

lemma sample_node_blocks:
  "sample_node ''0x0'' = header_with 0 genesis_extra" "sample_node ''0x1'' = middle_header"
  "sample_node ''latest'' = latest_header"
  by (simp_all add: sample_node_def)

lemma sample_chain:
  "\<exists>s s1 s'. honest_genesis ref_crates (header_with 0 genesis_extra) s \<and>
     snap_validators s = sample_validators \<and>
     honest_successor ref_crates 17280 s middle_header s1 \<and>
     honest_successor ref_crates 17280 s1 latest_header s' \<and>
     honest_successor ref_crates 17280 s latest_header s' \<and> snap_number s' = 2"
proof -
  obtain s where g: "honest_genesis ref_crates (header_with 0 genesis_extra) s"
    and s: "snap_validators s = sample_validators" "snap_timestamp s = 1600000000"
    using sample_genesis by blast
  have "snap_number s = 0" using g by (simp add: honest_genesis_def)
  from sample_latest [OF s this] g s show ?thesis by blast
qed

lemmas sample_sync = sample_facts sample_net_simps sample_in_time sample_node_blocks

theorem sync_succeeds_on_honest_network_witness:
  "\<exists>s w'. lightest_sync ref_crates sample_net ((), []) =
     (Ok (state_new s (config_state_config (sync_config True 17280)), latest_header),
      (w', setup_lines ''http://127.0.0.1:8545'' latest_header 1 17280 @
         [epoch_line 17280 1 0, valid_line latest_header])) \<and>
     snap_validators s = sample_validators"
proof -
  obtain s s1 s' where c: "honest_genesis ref_crates (header_with 0 genesis_extra) s"
    "snap_validators s = sample_validators" "honest_successor ref_crates 17280 s middle_header s1"
    "honest_successor ref_crates 17280 s1 latest_header s'" "snap_number s' = 2"
    using sample_chain by blast
  have one: "node_block sample_node 1 = middle_header" "number middle_header = 1"
    by (simp_all add: node_block_def sample_facts sample_node_blocks) (simp add: middle_header_def header_with_def)
  then have "numbered sample_node 2"
    by (auto simp: numbered_def dest: less_2_cases)
  moreover have "finished_blocks sample_node 17280 1 = []" "unfinished_blocks sample_node 17280 1 2 = [middle_header]"
    "node_block sample_node 0 = header_with 0 genesis_extra"
    using one(1) by (simp_all add: finished_blocks_def unfinished_blocks_def upt_rec)
      (simp add: node_block_def sample_facts sample_node_blocks)
  moreover have "honest_chain ref_crates 17280 s [] s" "honest_chain ref_crates 17280 s [middle_header] s1"
    using c(3) by (blast intro: honest_chain.intros)+
  moreover note c
  ultimately
  have "\<exists>w'. lightest_sync ref_crates sample_net ((), []) = (Ok (state_new s (config_state_config
       (sync_config (occurrences_of (get_matches sample_net sync_args) ''fast'' \<noteq> 1) 17280)),
         sample_node ''latest''),
      (w', [] @ setup_lines ''http://127.0.0.1:8545'' (sample_node ''latest'') 1 17280 @
         map (epoch_line 17280 1) (u64_range 0 1) @ [valid_line (sample_node ''latest'')]))"
    using sync_succeeds_on_honest_network [OF sample_library _ sample_net_simps(1) sample_facts(1)
          sample_net_simps(2) sample_network sample_serves, where S = "{''0x0'', ''latest''}" and cnt = 1 and lg = "[]"
          and ?s0.0 = s and s = s and s' = s' and ?s1.0 = s1,
          THEN conjunct1]
    by (auto simp: sample_sync)
  with c(2) show ?thesis by (auto simp: sample_sync)
qed

theorem lightest_sync_verdict_witness:
  "\<exists>st' s' hsh. lightest_sync ref_crates sample_net ((), []) = (Ok (st', latest_header), s') \<and>
     quorum_sealed ref_crates (st_validators st') hsh (aggregated_seal epoch_extra)"
proof -
  obtain s s' where c: "honest_genesis ref_crates (header_with 0 genesis_extra) s"
    "snap_validators s = sample_validators"
    "honest_successor ref_crates 17280 s latest_header s'" "snap_number s' = 2"
    using sample_chain by blast
  have "\<exists>w'. lightest_sync ref_crates sample_net ((), []) = (Ok (state_new s (config_state_config
       (sync_config (occurrences_of (get_matches sample_net sync_args) ''fast'' \<noteq> 1) 17280)),
         sample_node ''latest''),
      (w', [] @ setup_lines ''http://127.0.0.1:8545'' (sample_node ''latest'') 1 17280 @
         map (epoch_line 17280 1) (u64_range 0 1) @ [valid_line (sample_node ''latest'')]))"
    by (rule lightest_sync_follows [OF sample_library _ sample_net_simps(1) sample_facts(1)
          sample_net_simps(2) sample_fetches, where S = "{''0x0'', ''latest''}" and s' = s'])
      (use c in \<open>auto simp: sample_sync intro: honest_chain.start\<close>)
  then obtain st' w' lg where run: "lightest_sync ref_crates sample_net ((), []) =
      (Ok (st', latest_header), (w', lg @ [valid_line latest_header]))"
    by (auto simp: sample_node_blocks simp flip: append_assoc)
  from lightest_sync_verdict [OF sample_library run] run latest_header_decodes show ?thesis
    by auto
qed

text \<open>Without the genesis block the synchronisation aborts: the first header with verification
  that is checked against the empty validator set passes the number and time checks and
  then makes \<^verbatim>\<open>min_quorum_size(0)\<close> underflow; it is not reported as an error.\<close>

theorem empty_validator_set_panics:
  assumes "library_crates L" and "st_validators st = []"
    and "verify_epoch_headers (st_config st)" and "verify_non_epoch_headers (st_config st)"
    and "epoch_size (st_config st) \<noteq> 0" and "number h \<noteq> 0"
    and "bi_to_u64 L (number h) = Some n" and "snap_number (st_snapshot st) < n"
    and "verify_header_timestamp (st_config st) \<longrightarrow> snap_timestamp (st_snapshot st) < time h \<and>
      unat (time h) \<le> unat now + unat (allowed_clock_skew (st_config st)) \<and>
      unat now + unat (allowed_clock_skew (st_config st)) < 2 ^ 64"
    and "header_hash L h = Ok hsh" and "istanbul_extra_from_rlp L (extra h) = Ok ex"
  shows "insert_header L st h now = (Panic, st)"
proof -
  have "verify_aggregated_seal L hsh [] (aggregated_seal ex) = Panic"
    by (simp add: verify_aggregated_seal_def Let_def min_quorum_size_eq)
  moreover have "\<not> now + allowed_clock_skew (st_config st) < time h"
    if "verify_header_timestamp (st_config st)"
    using assms(9) that unat_add_u64 [of now "allowed_clock_skew (st_config st)"]
    by (simp add: word_less_nat_alt)
  ultimately have "verify_header L st h now = Panic"
    using assms(2,7-11)
    by (auto simp: verify_header_def verify_header_seal_def u64_add_def)
  moreover have "\<not> bi_is_zero L (number h)"
    using assms(1,6) by (simp add: library_crates_def num_bigint.is_zero_eq)
  ultimately show ?thesis
    using assms(3-5,7)
    by (simp add: insert_header_def is_last_block_of_epoch_eq store_epoch_header_def
        store_non_epoch_header_def)
qed

theorem empty_validator_set_panics_witness:
  "insert_header ref_crates (state_new snapshot_new sample_config) (header_with 17280 epoch_extra)
     1600000000 = (Panic, state_new snapshot_new sample_config)"
proof -
  obtain hsh where hsh: "header_hash ref_crates (header_with 17280 epoch_extra) = Ok hsh"
    using header_with_decodes(2) [OF epoch_extra_wf epoch_extra_fits] by blast
  note ex = header_with_decodes(1) [OF epoch_extra_wf epoch_extra_fits, of 17280]
  show ?thesis
    by (rule empty_validator_set_panics [OF sample_library _ _ _ _ _ _ _ _ hsh ex, of _ 17280])
      (simp_all add: state_new_def snapshot_new_def sample_config_def header_with_def)
qed

end
