(* ===== verification/Codec_Tests.thy ===== *)
theory Codec_Tests
  imports Hex_Serialization Headers Epochs
begin

text \<open>
  The unit tests of the codecs with their test vectors: \<^verbatim>\<open>src/types/istanbul.rs\<close> (extra data of a
  block of the main network among them), \<^verbatim>\<open>src/types/header.rs\<close>, \<^verbatim>\<open>src/serialization/rlp.rs\<close>,
  and the tests of the arithmetic in \<^verbatim>\<open>src/istanbul.rs\<close>. A test is a computation that panics when
  an assertion fails. The locale \<open>vector_library\<close> adds to the laws of the crates the formats
  they write, RLP, minimal big-endian numbers and lower-case hexadecimal digits, and the tests
  pass for every library with these laws. A long hexadecimal constant
  is written as the concatenation of its RLP items. The tests that go through JSON and the
  test of the header hash are in \<open>Json_Tests\<close>.
\<close>

section \<open>Arithmetic\<close>

definition assert_eq :: "'a \<Rightarrow> 'a \<Rightarrow> (unit, 'e) result" where
  "assert_eq a b = assert_that (a = b)"

text \<open>A loop over test cases, and \<^verbatim>\<open>vec![f(x), ..]\<close> of calls that may panic.\<close>

definition for_each :: "'a list \<Rightarrow> ('a \<Rightarrow> (unit, 'e) result) \<Rightarrow> (unit, 'e) result" where
  "for_each xs f = and_then (collect f xs) (\<lambda>_. Ok ())"

definition validates_quorum_size_math :: "(unit, kind) result" where
  "validates_quorum_size_math =
     for_each [(1, 1), (2, 2), (3, 2), (4, 3), (5, 4), (6, 4), (7, 5)]
       (\<lambda>(validator_set_size, expected_min_quorum_size).
          and_then (min_quorum_size validator_set_size) (\<lambda>q. assert_eq q expected_min_quorum_size))"

definition validates_epoch_math :: "(unit, kind) result" where
  "validates_epoch_math =
     and_then (collect (\<lambda>n. get_epoch_number n 3) [0, 3, 4]) (\<lambda>ns.
     and_then (assert_eq ns [0, 1, 2]) (\<lambda>_.
     and_then (collect (\<lambda>e. get_epoch_first_block_number e 3) [0, 9]) (\<lambda>bs.
     and_then (assert_eq bs [None, Some 25]) (\<lambda>_.
     and_then (collect (\<lambda>e. get_epoch_last_block_number e 3) [0, 9]) (\<lambda>bs.
       assert_eq bs [0, 27])))))"

section \<open>Big integers\<close>

definition bytes_to_rlp_list :: "('pk, 'sig, 'z) crates_scheme \<Rightarrow> bytes \<Rightarrow> bytes" where
  "bytes_to_rlp_list L bytes = rlp_out L [BeginList 1, AppendBytes bytes]"

definition parses_big_int :: "('pk, 'sig, 'z) crates_scheme \<Rightarrow> (unit, kind) result" where
  "parses_big_int L =
     (let expected_bytes = [236, 160, 242, 246, 191, 251, 255, 120];
          rlp_list = bytes_to_rlp_list L expected_bytes
      in and_then (unwrap_result (rlp_to_big_int L rlp_list 0)) (\<lambda>n.
         and_then (assert_eq 17050895330821537656 n) (\<lambda>_.
         and_then (assert_eq (big_int_to_rlp_compat_bytes L 0) []) (\<lambda>_.
           assert_eq (big_int_to_rlp_compat_bytes L 17050895330821537656) expected_bytes))))"

section \<open>Extra data\<close>

definition ISTANBUL_EXTRA_TINY :: string where
  "ISTANBUL_EXTRA_TINY = ''f6ea'' @ ''9444add0ec310f115a0e603b2d7db9f067778eaf8a'' @
     ''94294fc7e8f22b3bcdcf955dd7ff3ba2ed833f8212'' @ ''c00c80c3808080c3808080''"

definition dumped_addresses :: "string list" where
  "dumped_addresses =
    [''e8cea87569eb67b24196a0d3e2dfdd52f64d037d'',
     ''e3b49907192aaabe84512629ce7c01be816bbb9d'',
     ''0439ad8b999acc4cda10b2aacae058732c4f2f86'',
     ''edba91c8cc9fd2d88c5fa18aa1ffd6fac6959281'',
     ''7f4afdae66b590a90f2250e2d78bd27b4294a5dd'',
     ''dcf109c09081042e1bfef3f21fa93ba61d3a3d5a'',
     ''4e986af5c4796432bfa2a3fb7ade1b0e9cda988b'',
     ''f6b0e762344a8d10f77dd4f8f918e7d1c83be2f3'',
     ''6fabedc952b6bc7a11548f412e61f3af7ebe0e83'',
     ''f2435e0b468e4c45eb4875127470da5c6842909d'',
     ''24cee8c02fe517e19eaa783e0b7eadea66e5e6c2'',
     ''a063831defdc73d5a8a3f8993fdf4f108d5b044b'',
     ''b5011538fceec8cbda40af59be09c552aead7138'',
     ''09b353c4e4c4d836b4a4ca4686370b78bc7a2152'',
     ''764a4ee67687994ababfe97f3a81411209011158'',
     ''9acda9211cfc11ed40fe05e20bb1429118199c91'',
     ''e3feea837446183a233317f1c5d804b98fd50c6b'',
     ''5f897eed6797c0e7dfce3d97c48bf7ed032ee321'',
     ''fe91ff8733bd21e3277190c0a00c300a9431d787'',
     ''10ea19a286daf51dfdafbd3656a1262be4980a58'',
     ''6632c91b891e26229c86c59340917591be732028'',
     ''3edbd914a59a79417d0274fad7d80e39f8b219f7'',
     ''440a4917c9c833aa3984322f5c9e852cf3009365'',
     ''ff3bd8067551f79ac3ebbb1fa00d114e4b53b642'',
     ''7c079b1af73dfad29b89e4787aa4ce82475fe66f'']"

definition dumped_public_keys :: "string list" where
  "dumped_public_keys =
    [''8d483d8a391fce6ed73e9d4d2169d0bd569f3cedd6923350cd7195bab999517cb002564ef28d8c0205ca4ce3d42f7701fba58217bbd83288c7897904af6c2bedbfbbf220bc2a0239dfe505b07628b16f61e091a313cc7c34c7ee624b849e3f80'',
     ''a91c5c4939664eec9a8182ef7da28610450385ab8c74cc8f25c68c87ff1141bc9c7bd1259d674e21cb7ffb48b4034e017b529c80ec314eebcf1d360690c5777dcff42995327d5b1a9858cacc35076661704e0b50bd1502d7f8ebf18bdc4ca501'',
     ''3386f70c4fd8b3d9773af643ec70a6ae6d90365941170c44d6145b9725b89adf1489dadf0ca3d133019a82eb434cf200c2504bb8ce0282294c586644d29be422957a508fc6692ef711a1438b7d266598466ca6f8e5ac0e037df84885c6f92b00'',
     ''334b3d31ac71cdf8ad37ec78c314878f7d9b976b7b0e9cae348aba3c13a8d78fb1ce4be8c4a93e48a68467d14b503000b6f9dac56dc638e513e76b76e7e9787c31ccd2be57edba5c1ee9687703af14ea651ff497e1bd3541b0b99506d62eba80'',
     ''2c4fa91541e13318ba5bb9c5bf2204e320d333dcfd61bd6207476e2610ed2fc0133e919bfa6150563b66a015d6347a01947fe549bdc9bc0adf8c36fe42d47c1f25d67a74196eba4fc1a02b65cb9c0bd05860e33b059d86a119955327b4495500'',
     ''43c11c8346d8393ac9f0d5035f5c85ef69155e25ba9d78dba46b5fb4edfb7e05db29f2ffb8d0db07f03d4b704f3c4c010cf0f889cdd868ef6691f1acec197b7dcf8e8ac545913768ae7e1a97aefd4d450094b0bedcc8db78a649c90c1e9c6281'',
     ''af795e211ad3ed4e46e11b94dadba56f201dc3a36eb41f6ad6fbeae119088293a54bab374aecd2305037c330e59230018065c0869480b6ab0b490e8a6f766d0b5930220c0df4c7c898e50d87bba477ce850b03e7a00b936a487e27c3f674a981'',
     ''7ef1b4aa6216a489a587e96df4ad109ce1279240176664a0845b837f83d09206ce20adab624fa618ab0916091bc23a00eb6a400c521734ee4e67dc895912f7f6f13cc9c6f1298dae95b7aa9f752481097d4b27b9fd09a5eb70958aaae3eade00'',
     ''4eac7f432065192a70dd7cd724d9ce3a466ca987087bf75c361bf132d7611352093d3430029d6021695a3dd717cfa3007d1110c281c40da6b9ba287b2865cf8082b59e67242b0aa3d4576586047b926b9dd3bd383b9a1651d7776759956c1d00'',
     ''5effa652455d663ad1f7d02b76cea6333551f7ed4c4c0bab0d0078bc34ae24e81426c81b157b57cb6078b7804d925d0012d3fd8c8e0be5f2521db02cd0c6523ec7b2d43e91f69eb3433c0bf249cda1258d859e8463ca2b6c1b19bfc4ea018901'',
     ''6e92d50b8b2cbb1d03a6d92b8b0a53685f38225771854c596a21baaca797b2a36bf0c783bad5cad1093c4441470aed00a4077fb8fe382e201a038afb0a32448a982263ad75405f127baf5935e35ec6e1cec624e4ae619fd92945664ac407f680'',
     ''f6914b8a9c6227e00eb732298034585b1519e51bdd3cea087d59ccd78c9fe6ea37c626a970a18924c2e4d3dfa2f37900994be34deca5a4fab594990251b4ae85da8845ede08b3190ace9f7653fcffec4b599bd1ba76dee9a7e3bdcdd79990d80'',
     ''50f45c41b3e8398b7f04734b8461e1fc137dd211c8a3bd657dbde0f773563a582cf74b037c7a4879787a1695242cde00bd366d131bc43d71efb41dd959c74b0b51469bd409d1bff7f3abb400dc8309d880f1551e18a1000af7a7f3a52af42580'',
     ''068f6a5e22ec195f52015004199aa8fdda8735bc6b7eb2d030f4807b01293131ee36f0cf78d45e6bbfbacc05d931700006c7c8d7fad54137d10d9d09abd33f92114e6f5d12eccc69bd2adbac1cc78061c97fa9d5b30fa5636402039766a6e980'',
     ''9261e0674d685b4e29e12fd55aac90128577523c82979572cbe1453bf2c638ecba7d3cfb67708d9427a365e5e2c384000edaa42a23b59cb723f77330fd5b6d2ef3a93d518b32e0eeb195a2fbb99ef431001445df09c8e88b0dc783a94bb48f01'',
     ''8ea9ae193ad42ddbcc7222858bbc3ec5f342e9a00fde212b244c6ceedb07827cfb4b50e8f3365e80d35fa64a412e24001bc4628ae2e34df40f29348b32762be6a2da3e65a9199e9ae5285d048e7caaa0cfdf3aaaac0cec0499688d0c2b7eab80'',
     ''a37b611c1ac3453817699183e3e703cd79452080919ed2e7ecaf9a14ee6602cedb44346bd7920d7fde6bd50762bc6700014aa1db8445d898708a090baa113e39e63b0541583bb4d4ab3811631e0ac903a817269e42ab042de79f7605e9b7c700'',
     ''85e7fad58fbdb49110b38142d90753f107560b6a52eb2674d223fdd7c97f9da36e9de4d16deb3eac169807082bc89c004a52ed567d9065f4e5b6dba9e279fc0f46d976da4e562d5873da8fdc8a8fb52d647a1394e46e998938c7e2a2b22a1080'',
     ''139d447bc50301235f68e91e31f799e9194aa98f1c61295d5fe207e47e6b4c903e4c66e7efd3993039d633633d6fc200cf17a5b49a3b90db55e10679edb6876c6bb3aa138c5bdd073c411287847ae858d2e7b0cf53b80d056568be0fa5074000'',
     ''2e8f2c8609cc8ef00c4f70d7e5aafe6908e8827606f559ab0268ec9b6725b88c7e6cfcc8cdc7061ef5cb4e8526a3090032b29d15ff64845f7451c299ea2d92fbc3d72961a16c9beea0c6ded4a0d2162550fe63752a64b884703d209b7d7d1e81'',
     ''ce50e9605cac46755090ba8f29e155834eefbe7d5fc0821ba00d7e6b1ff80df74bd04f989a319aaff8217d1f07d5a600a42f94bbd737aa4562f1e6a0f31c68029cb2924d3ca4e78cfe0dab82f785ba6f09be625514f04957d457dc4f789d3001'',
     ''fbca8830e0e95a7b6d23121c279a125085f8c2bc39e40912689cbb2462c7cc1c6b8cfb7cd2fda28f5cbe8aa5d2ee8b01a20659e6a55d7143db9b889ffd6bc96f4cdcde900597c957f56fd0e0c943fe13a9e3ac376cac6d8f48db7a8082292501'',
     ''edb8634cb66357c8ec2534c82dc4f3dfc04cd0c2a10468015ad7303d61868dcdf5f6f2aa96822cf4f9abce05e98e49000ac9cedd9d89f7d41e263d375969fdb5ff9babc3cc761778c088f17b2064e0ceed08c61934e550d3e673267c85f83281'',
     ''2d9da563d6b418ecaa931a669603e6736d7012ddd2c44ab429ce88123942e9f91f5c7c2c87d07d2d5af905fff2e8c2006e7bee1e0522ad6d7eb8e36e897120592f2ce30a77ab2d58ff131374cd11d8b6f5b1f7fa1aa4379e9e9607f1a9228380'',
     ''fc55fe153f5f7ab3914bc2c36f71055224fc42ac8bba492a6b901d0cd7e16e95f07726d5b137fd9778b2390278b057003b7c115b6d88085c11f612a8a47d5255d18f078db4033c1eb0de07366d1548587a1f6361ccb2e14f524403815c335580'']"

definition ISTANBUL_EXTRA_DUMPED :: string where
  "ISTANBUL_EXTRA_DUMPED =
     ''d983010000846765746889676f312e31332e3130856c696e7578000000000000'' @
     ''f90c6e'' @ ''f9020d'' @ concat (map ((@) ''94'') dumped_addresses) @
     ''f90992'' @ concat (map ((@) ''b860'') dumped_public_keys) @
     ''890138100001801e0005'' @
     ''b841'' @
     ''9c0095d64903827be6b1ca1072109074d30aae4e6a209bf2c3c4c83bc38c1a29551a08d975a5aad0a64be5b85dd5a4fb9bc50a6220668e23382cd362d9672ba900'' @
     ''f83c'' @ ''8901eca063eebfbbfdf9'' @ ''b0'' @
     ''428e302ff6aab449d68fbdde248a4494b0db5f166a0a64244defcaea0e8342f8d1361bfe60df5e9180087fb703f57b81'' @ ''80'' @
     ''f83c'' @ ''8901efeffffffffffffb'' @ ''b0'' @
     ''3669d77a600391712293fac898ff03637cf87789ff7b4ba7479554f8acbfd864f9d454246b4788024d95c5063e039c80'' @ ''80''"

definition prepend_vanity :: "hex_crates \<Rightarrow> string \<Rightarrow> (bytes, kind) result" where
  "prepend_vanity H data =
     and_then (unwrap (hex_decode H data)) (\<lambda>data. Ok (replicate ISTANBUL_EXTRA_VANITY_LENGTH 0 @ data))"

definition to_serialized_pub_key_vec :: "hex_crates \<Rightarrow> string list \<Rightarrow> (bytes list, kind) result" where
  "to_serialized_pub_key_vec H keys =
     collect (\<lambda>key. and_then (unwrap (hex_decode H key)) (\<lambda>b. unwrap_result (public_key_from_bytes b))) keys"

definition to_address_vec :: "hex_crates \<Rightarrow> string list \<Rightarrow> (bytes list, kind) result" where
  "to_address_vec H addresses =
     collect (\<lambda>a. and_then (unwrap (hex_decode H a)) (\<lambda>b. unwrap_result (address_from_bytes b))) addresses"

text \<open>The byte strings both tests read.\<close>

definition extra_vectors :: "hex_crates \<Rightarrow> (bytes list, kind) result" where
  "extra_vectors H =
     and_then (prepend_vanity H ISTANBUL_EXTRA_TINY) (\<lambda>tiny.
     and_then (unwrap (hex_decode H ISTANBUL_EXTRA_DUMPED)) (\<lambda>dumped. Ok [tiny, dumped]))"

definition encodes_istanbul_extra_to_rlp ::
    "('pk, 'sig, 'z) crates_scheme \<Rightarrow> hex_crates \<Rightarrow> (unit, kind) result" where
  "encodes_istanbul_extra_to_rlp L H =
     and_then (extra_vectors H) (\<lambda>vectors. for_each vectors (\<lambda>extra_bytes.
       and_then (unwrap_result (istanbul_extra_from_rlp L extra_bytes)) (\<lambda>decoded_ist.
       and_then (unwrap_result (vanity_from_bytes extra_bytes)) (\<lambda>vanity.
         assert_eq (istanbul_extra_to_rlp L decoded_ist vanity) extra_bytes))))"

definition tiny_extra :: "hex_crates \<Rightarrow> (istanbul_extra, kind) result" where
  "tiny_extra H =
     and_then (to_address_vec H
       [''44add0ec310f115a0e603b2d7db9f067778eaf8a'',
        ''294fc7e8f22b3bcdcf955dd7ff3ba2ed833f8212'']) (\<lambda>addresses.
     Ok \<lparr>added_validators = addresses, added_validators_public_keys = [], removed_validators = 12,
         seal = [], aggregated_seal = istanbul_aggregated_seal_new,
         parent_aggregated_seal = istanbul_aggregated_seal_new\<rparr>)"

definition dumped_extra :: "hex_crates \<Rightarrow> (istanbul_extra, kind) result" where
  "dumped_extra H =
     and_then (to_address_vec H dumped_addresses) (\<lambda>addresses.
     and_then (to_serialized_pub_key_vec H dumped_public_keys) (\<lambda>public_keys.
     and_then (unwrap (hex_decode H
       ''9c0095d64903827be6b1ca1072109074d30aae4e6a209bf2c3c4c83bc38c1a29551a08d975a5aad0a64be5b85dd5a4fb9bc50a6220668e23382cd362d9672ba900''))
       (\<lambda>seal.
     and_then (unwrap (hex_decode H
       ''428e302ff6aab449d68fbdde248a4494b0db5f166a0a64244defcaea0e8342f8d1361bfe60df5e9180087fb703f57b81''))
       (\<lambda>sig.
     and_then (unwrap (hex_decode H
       ''3669d77a600391712293fac898ff03637cf87789ff7b4ba7479554f8acbfd864f9d454246b4788024d95c5063e039c80''))
       (\<lambda>parent_sig.
     Ok \<lparr>added_validators = addresses, added_validators_public_keys = public_keys,
         removed_validators = 22486472945905303557, seal = seal,
         aggregated_seal =
           \<lparr>seal_bitmap = 35497482140004384249, seal_signature = sig, seal_round = 0\<rparr>,
         parent_aggregated_seal =
           \<lparr>seal_bitmap = 35736063043184885755, seal_signature = parent_sig, seal_round = 0\<rparr>\<rparr>)))))"

definition decodes_istanbul_extra_from_rlp ::
    "('pk, 'sig, 'z) crates_scheme \<Rightarrow> hex_crates \<Rightarrow> (unit, kind) result" where
  "decodes_istanbul_extra_from_rlp L H =
     and_then (tiny_extra H) (\<lambda>tiny. and_then (dumped_extra H) (\<lambda>dumped.
     and_then (extra_vectors H) (\<lambda>vectors.
       for_each (zip vectors [tiny, dumped]) (\<lambda>(bytes, expected_ist).
         and_then (unwrap_result (istanbul_extra_from_rlp L bytes)) (\<lambda>parsed.
           assert_eq parsed expected_ist)))))"

definition rejects_insufficient_vanity :: "('pk, 'sig, 'z) crates_scheme \<Rightarrow> (unit, kind) result" where
  "rejects_insufficient_vanity L =
     (let bytes = replicate (ISTANBUL_EXTRA_VANITY_LENGTH - 1) 0
      in let_result (istanbul_extra_from_rlp L bytes) (\<lambda>r.
         assert_that (case r of Err _ \<Rightarrow> True | _ \<Rightarrow> False)))"

section \<open>Headers\<close>

definition HEADER_WITH_EMPTY_EXTRA :: string where
  "HEADER_WITH_EMPTY_EXTRA =
     ''f901a6'' @ ''a0'' @ ''7285abd5b24742f184ad676e31f6054663b3529bc35ea2fcad8a3e0f642a46f7'' @
     ''94'' @ ''8888f1f195afa192cfee860698584c030f4c9db1'' @
     ''a0'' @ ''ecc60e00b3fe5ce9f6e1a10e5469764daf51f1fe93c22ec3f9a7583a80357217'' @
     ''a0'' @ ''d35d334d87c0cc0a202e3756bf81fae08b1575f286c7ee7a3f8df4f0f3afc55d'' @
     ''a0'' @ ''56e81f171bcc55a6ff8345e692c0f86e5b48e01b996cadc001622fb5e363b421'' @
     ''b90100'' @ replicate 512 (CHR ''0'') @ ''01'' @ ''825208'' @ ''845c47775c'' @ ''80''"

definition to_hash :: "hex_crates \<Rightarrow> (bytes \<Rightarrow> (bytes, kind) result) \<Rightarrow> string \<Rightarrow> (bytes, kind) result" where
  "to_hash H from_bytes data =
     and_then (unwrap (hex_decode H data)) (\<lambda>b. unwrap_result (from_bytes b))"

definition encodes_header_to_rlp ::
    "('pk, 'sig, 'z) crates_scheme \<Rightarrow> hex_crates \<Rightarrow> (unit, kind) result" where
  "encodes_header_to_rlp L H =
     and_then (unwrap (hex_decode H HEADER_WITH_EMPTY_EXTRA)) (\<lambda>bytes.
     and_then (unwrap_result (header_from_rlp L bytes)) (\<lambda>header.
       assert_eq (header_to_rlp L header) bytes))"

definition decodes_header_from_rlp ::
    "('pk, 'sig, 'z) crates_scheme \<Rightarrow> hex_crates \<Rightarrow> (unit, kind) result" where
  "decodes_header_from_rlp L H =
     and_then (to_hash H vanity_from_bytes
       ''7285abd5b24742f184ad676e31f6054663b3529bc35ea2fcad8a3e0f642a46f7'') (\<lambda>parent_hash.
     and_then (to_hash H address_from_bytes ''8888f1f195afa192cfee860698584c030f4c9db1'') (\<lambda>coinbase.
     and_then (to_hash H vanity_from_bytes
       ''ecc60e00b3fe5ce9f6e1a10e5469764daf51f1fe93c22ec3f9a7583a80357217'') (\<lambda>root.
     and_then (to_hash H vanity_from_bytes
       ''d35d334d87c0cc0a202e3756bf81fae08b1575f286c7ee7a3f8df4f0f3afc55d'') (\<lambda>tx_hash.
     and_then (to_hash H vanity_from_bytes
       ''56e81f171bcc55a6ff8345e692c0f86e5b48e01b996cadc001622fb5e363b421'') (\<lambda>receipt_hash.
     let expected = [\<lparr>parent_hash = parent_hash, coinbase = coinbase, root = root, tx_hash = tx_hash,
           receipt_hash = receipt_hash, bloom = bloom_default, number = 1, gas_used = 0x5208,
           time = 0x5c47775c, extra = []\<rparr>] in
     and_then (unwrap (hex_decode H HEADER_WITH_EMPTY_EXTRA)) (\<lambda>bytes.
       for_each (zip [bytes] expected) (\<lambda>(bytes, expected_ist).
         and_then (unwrap_result (header_from_rlp L bytes)) (\<lambda>parsed. assert_eq parsed expected_ist))))))))"

section \<open>Decoding the vectors\<close>

text \<open>The bytes of a hexadecimal string of even length, two digits a byte.\<close>

definition unhex :: "string \<Rightarrow> bytes" where
  "unhex s = (case ref_hex_decode s of Some b \<Rightarrow> b | None \<Rightarrow> [])"

lemma ref_hex_decode_even: "even (length s) \<Longrightarrow> ref_hex_decode s = Some (unhex s)"
  by (induction s rule: ref_hex_decode.induct) (auto simp: unhex_def split: option.splits)

lemma unhex_Nil [simp]: "unhex [] = []"
  by (simp add: unhex_def)

lemma unhex_pair [simp]:
  "even (length s) \<Longrightarrow> unhex (c # d # s) = of_nat (16 * hex_digit_value c + hex_digit_value d) # unhex s"
  using ref_hex_decode_even [of s] by (simp add: unhex_def [of "c # d # s"])

lemma unhex_append:
  "even (length s) \<Longrightarrow> even (length t) \<Longrightarrow> unhex (s @ t) = unhex s @ unhex t"
  by (induction s rule: ref_hex_decode.induct) simp_all

lemma length_unhex [simp]: "even (length s) \<Longrightarrow> length (unhex s) = length s div 2"
  by (induction s rule: ref_hex_decode.induct) simp_all

lemma lower_hex_chars [simp]:
  "lower_hex_char (CHR ''0'')" "lower_hex_char (CHR ''1'')" "lower_hex_char (CHR ''2'')"
  "lower_hex_char (CHR ''3'')" "lower_hex_char (CHR ''4'')" "lower_hex_char (CHR ''5'')"
  "lower_hex_char (CHR ''6'')" "lower_hex_char (CHR ''7'')" "lower_hex_char (CHR ''8'')"
  "lower_hex_char (CHR ''9'')" "lower_hex_char (CHR ''a'')" "lower_hex_char (CHR ''b'')"
  "lower_hex_char (CHR ''c'')" "lower_hex_char (CHR ''d'')" "lower_hex_char (CHR ''e'')"
  "lower_hex_char (CHR ''f'')"
  by (simp_all add: lower_hex_char_def)

lemma hex_digit_of_value:
  "lower_hex_char c \<Longrightarrow> hex_digit (hex_digit_value c) = c \<and> hex_digit_value c < 16"
  by (auto simp: lower_hex_char_def hex_digit_def hex_digit_value_def)

lemma ref_hex_encode_unhex:
  "list_all lower_hex_char s \<Longrightarrow> even (length s) \<Longrightarrow> ref_hex_encode (unhex s) = s"
proof (induction s rule: ref_hex_decode.induct)
  case (3 c d s)
  then have digits: "hex_digit (hex_digit_value c) = c" "hex_digit_value c < 16"
    "hex_digit (hex_digit_value d) = d" "hex_digit_value d < 16"
    by (simp_all add: hex_digit_of_value)
  then have "unat (of_nat (16 * hex_digit_value c + hex_digit_value d) :: byte) =
      16 * hex_digit_value c + hex_digit_value d"
    by (intro unat_of_nat_byte) simp
  with 3 digits show ?case by simp
qed simp_all

lemma ref_hex_decode_field [simp]: "hex_decode ref_hex = ref_hex_decode"
  by (simp add: ref_hex_def)

lemma ref_headers [simp]:
  "ref_header 128 20 = [148]" "ref_header 128 32 = [160]" "ref_header 128 48 = [176]"
  "ref_header 128 65 = [184, 65]" "ref_header 128 96 = [184, 96]" "ref_header 128 256 = [185, 1, 0]"
  "ref_header 128 9 = [137]" "ref_header 192 60 = [248, 60]" "ref_header 192 525 = [249, 2, 13]"
  "ref_header 192 2450 = [249, 9, 146]" "ref_header 192 3182 = [249, 12, 110]"
  "ref_header 192 422 = [249, 1, 166]"
  by (simp_all add: ref_header_def be_bytes.simps)

lemma ref_enc_str_lengths:
  "length b = 20 \<Longrightarrow> ref_enc_str b = 148 # b"
  "length b = 32 \<Longrightarrow> ref_enc_str b = 160 # b"
  "length b = 48 \<Longrightarrow> ref_enc_str b = 176 # b"
  "length b = 65 \<Longrightarrow> ref_enc_str b = 184 # 65 # b"
  "length b = 96 \<Longrightarrow> ref_enc_str b = 184 # 96 # b"
  "length b = 256 \<Longrightarrow> ref_enc_str b = 185 # 1 # 0 # b"
  by (simp_all add: ref_enc_str_def)

lemma address_list_enc:
  assumes "list_all (\<lambda>a. length a = 40) xs"
  shows "unhex (concat (map ((@) ''94'') xs)) = concat (map (\<lambda>a. ref_enc_str (unhex a)) xs)"
    and "length (concat (map ((@) ''94'') xs)) = 42 * length xs"
    and "length (concat (map (\<lambda>a. ref_enc_str (unhex a)) xs)) = 21 * length xs"
  using assms by (induction xs) (simp_all add: unhex_append ref_enc_str_lengths hex_digit_value_def)

lemma key_list_enc:
  assumes "list_all (\<lambda>k. length k = 192) xs"
  shows "unhex (concat (map ((@) ''b860'') xs)) = concat (map (\<lambda>k. ref_enc_str (unhex k)) xs)"
    and "length (concat (map ((@) ''b860'') xs)) = 196 * length xs"
    and "length (concat (map (\<lambda>k. ref_enc_str (unhex k)) xs)) = 98 * length xs"
  using assms by (induction xs) (simp_all add: unhex_append ref_enc_str_lengths hex_digit_value_def)

lemma dumped_lengths:
  "list_all (\<lambda>a. length a = 40) dumped_addresses" "length dumped_addresses = 25"
  "list_all (\<lambda>k. length k = 192) dumped_public_keys" "length dumped_public_keys = 25"
  by (simp_all add: dumped_addresses_def dumped_public_keys_def)

lemma dumped_digits:
  "list_all (list_all lower_hex_char) dumped_addresses"
  "list_all (list_all lower_hex_char) dumped_public_keys"
  by (simp_all add: dumped_addresses_def dumped_public_keys_def)

section \<open>The values of the vectors\<close>

definition tiny_value :: istanbul_extra where
  "tiny_value =
     \<lparr>added_validators = map unhex
        [''44add0ec310f115a0e603b2d7db9f067778eaf8a'', ''294fc7e8f22b3bcdcf955dd7ff3ba2ed833f8212''],
      added_validators_public_keys = [], removed_validators = 12, seal = [],
      aggregated_seal = istanbul_aggregated_seal_new,
      parent_aggregated_seal = istanbul_aggregated_seal_new\<rparr>"

definition dumped_value :: istanbul_extra where
  "dumped_value =
     \<lparr>added_validators = map unhex dumped_addresses,
      added_validators_public_keys = map unhex dumped_public_keys,
      removed_validators = 22486472945905303557,
      seal = unhex
        ''9c0095d64903827be6b1ca1072109074d30aae4e6a209bf2c3c4c83bc38c1a29551a08d975a5aad0a64be5b85dd5a4fb9bc50a6220668e23382cd362d9672ba900'',
      aggregated_seal =
        \<lparr>seal_bitmap = 35497482140004384249, seal_signature = unhex
           ''428e302ff6aab449d68fbdde248a4494b0db5f166a0a64244defcaea0e8342f8d1361bfe60df5e9180087fb703f57b81'',
         seal_round = 0\<rparr>,
      parent_aggregated_seal =
        \<lparr>seal_bitmap = 35736063043184885755, seal_signature = unhex
           ''3669d77a600391712293fac898ff03637cf87789ff7b4ba7479554f8acbfd864f9d454246b4788024d95c5063e039c80'',
         seal_round = 0\<rparr>\<rparr>"

lemma dumped_extra_value:
  "added_validators dumped_value = map unhex dumped_addresses"
  "added_validators_public_keys dumped_value = map unhex dumped_public_keys"
  "removed_validators dumped_value = 22486472945905303557"
  "seal dumped_value = unhex
     ''9c0095d64903827be6b1ca1072109074d30aae4e6a209bf2c3c4c83bc38c1a29551a08d975a5aad0a64be5b85dd5a4fb9bc50a6220668e23382cd362d9672ba900''"
  "seal_bitmap (aggregated_seal dumped_value) = 35497482140004384249"
  "seal_round (aggregated_seal dumped_value) = 0"
  "seal_signature (aggregated_seal dumped_value) = unhex
     ''428e302ff6aab449d68fbdde248a4494b0db5f166a0a64244defcaea0e8342f8d1361bfe60df5e9180087fb703f57b81''"
  "seal_bitmap (parent_aggregated_seal dumped_value) = 35736063043184885755"
  "seal_round (parent_aggregated_seal dumped_value) = 0"
  "seal_signature (parent_aggregated_seal dumped_value) = unhex
     ''3669d77a600391712293fac898ff03637cf87789ff7b4ba7479554f8acbfd864f9d454246b4788024d95c5063e039c80''"
  by (simp_all add: dumped_value_def del: unhex_pair)

lemma bitmap_enc:
  "ref_enc_str (be_bytes 22486472945905303557) = [137, 1, 56, 16, 0, 1, 128, 30, 0, 5]"
  "ref_enc_str (be_bytes 35497482140004384249) = [137, 1, 236, 160, 99, 238, 191, 187, 253, 249]"
  "ref_enc_str (be_bytes 35736063043184885755) = [137, 1, 239, 239, 255, 255, 255, 255, 255, 251]"
  by (simp_all add: be_bytes.simps ref_enc_str_def ref_header_def)

lemma tiny_bytes: "unhex ISTANBUL_EXTRA_TINY = ref_enc (extra_item ref_crates tiny_value)"
  by (simp add: ISTANBUL_EXTRA_TINY_def tiny_value_def extra_item_def seal_item_def
      istanbul_aggregated_seal_new_def big_int_to_rlp_compat_bytes_def hex_digit_value_def
      ref_enc_str_def ref_header_def be_bytes.simps)

lemma dumped_items:
  "concat (map ref_enc [RList (map RStr (added_validators dumped_value)),
     RList (map RStr (added_validators_public_keys dumped_value)),
     RStr (big_int_to_rlp_compat_bytes ref_crates (removed_validators dumped_value)),
     RStr (seal dumped_value)]) =
   [249, 2, 13] @ unhex (concat (map ((@) ''94'') dumped_addresses)) @
   [249, 9, 146] @ unhex (concat (map ((@) ''b860'') dumped_public_keys)) @
   [137, 1, 56, 16, 0, 1, 128, 30, 0, 5, 184, 65] @ seal dumped_value"
proof -
  have "length (seal dumped_value) = 65"
    unfolding dumped_extra_value by (simp del: unhex_pair)
  then show ?thesis
    using address_list_enc [OF dumped_lengths(1)] key_list_enc [OF dumped_lengths(3)]
    by (simp add: dumped_extra_value(1-3) comp_def dumped_lengths ref_enc_str_lengths
        big_int_to_rlp_compat_bytes_def bitmap_enc)
qed

lemma seal_items:
  assumes "length s = 48" and "ref_enc_str (be_bytes (nat b)) = bs" and "length bs = 10" and "0 < b"
  shows "ref_enc (seal_item ref_crates \<lparr>seal_bitmap = b, seal_signature = s, seal_round = 0\<rparr>) =
    [248, 60] @ bs @ [176] @ s @ [128]"
  using assms by (simp add: seal_item_def big_int_to_rlp_compat_bytes_def ref_enc_str_lengths
      ref_enc_str_def [of "[]"] ref_header_def [of _ 0])

lemma dumped_seals:
  "ref_enc (seal_item ref_crates (aggregated_seal dumped_value)) =
     [248, 60, 137, 1, 236, 160, 99, 238, 191, 187, 253, 249, 176] @
     seal_signature (aggregated_seal dumped_value) @ [128]"
  "ref_enc (seal_item ref_crates (parent_aggregated_seal dumped_value)) =
     [248, 60, 137, 1, 239, 239, 255, 255, 255, 255, 255, 251, 176] @
     seal_signature (parent_aggregated_seal dumped_value) @ [128]"
proof -
  have len: "length (seal_signature (aggregated_seal dumped_value)) = 48"
    "length (seal_signature (parent_aggregated_seal dumped_value)) = 48"
    unfolding dumped_extra_value by (simp_all del: unhex_pair)
  have "aggregated_seal dumped_value = \<lparr>seal_bitmap = 35497482140004384249,
      seal_signature = seal_signature (aggregated_seal dumped_value), seal_round = 0\<rparr>"
    "parent_aggregated_seal dumped_value = \<lparr>seal_bitmap = 35736063043184885755,
      seal_signature = seal_signature (parent_aggregated_seal dumped_value), seal_round = 0\<rparr>"
    using dumped_extra_value(5,6,8,9) by (auto intro: istanbul_aggregated_seal.equality)
  with seal_items [OF len(1), of 35497482140004384249] seal_items [OF len(2), of 35736063043184885755]
  show "ref_enc (seal_item ref_crates (aggregated_seal dumped_value)) =
     [248, 60, 137, 1, 236, 160, 99, 238, 191, 187, 253, 249, 176] @
     seal_signature (aggregated_seal dumped_value) @ [128]"
  "ref_enc (seal_item ref_crates (parent_aggregated_seal dumped_value)) =
     [248, 60, 137, 1, 239, 239, 255, 255, 255, 255, 255, 251, 176] @
     seal_signature (parent_aggregated_seal dumped_value) @ [128]"
    by (simp_all add: bitmap_enc)
qed

definition dumped_vanity :: string where
  "dumped_vanity = ''d983010000846765746889676f312e31332e3130856c696e7578000000000000''"

lemma ref_enc_list_append:
  "length (concat (map ref_enc xs) @ concat (map ref_enc ys)) = n \<Longrightarrow>
     ref_enc (RList (xs @ ys)) = ref_header 192 n @ concat (map ref_enc xs) @ concat (map ref_enc ys)"
  by simp

lemma unhex_heads:
  "unhex ''f90c6e'' = [249, 12, 110]" "unhex ''f9020d'' = [249, 2, 13]" "unhex ''f90992'' = [249, 9, 146]"
  "unhex ''890138100001801e0005'' = [137, 1, 56, 16, 0, 1, 128, 30, 0, 5]"
  "unhex ''b841'' = [184, 65]" "unhex ''f83c'' = [248, 60]" "unhex ''b0'' = [176]" "unhex ''80'' = [128]"
  "unhex ''8901eca063eebfbbfdf9'' = [137, 1, 236, 160, 99, 238, 191, 187, 253, 249]"
  "unhex ''8901efeffffffffffffb'' = [137, 1, 239, 239, 255, 255, 255, 255, 255, 251]"
  by (simp_all add: hex_digit_value_def)

lemma dumped_bytes:
  "unhex ISTANBUL_EXTRA_DUMPED = unhex dumped_vanity @ ref_enc (extra_item ref_crates dumped_value)"
proof -
  let ?items = "[RList (map RStr (added_validators dumped_value)),
     RList (map RStr (added_validators_public_keys dumped_value)),
     RStr (big_int_to_rlp_compat_bytes ref_crates (removed_validators dumped_value)),
     RStr (seal dumped_value)]"
    and ?seals = "[seal_item ref_crates (aggregated_seal dumped_value),
       seal_item ref_crates (parent_aggregated_seal dumped_value)]"
  let ?payload = "concat (map ref_enc ?items) @ concat (map ref_enc ?seals)"
  have len: "length (seal dumped_value) = 65" "length (seal_signature (aggregated_seal dumped_value)) = 48"
    "length (seal_signature (parent_aggregated_seal dumped_value)) = 48"
    unfolding dumped_extra_value by (simp_all del: unhex_pair)
  have item: "extra_item ref_crates dumped_value = RList (?items @ ?seals)" by (simp add: extra_item_def)
  have "length ?payload = 3182"
    unfolding dumped_items
    using address_list_enc [OF dumped_lengths(1)] key_list_enc [OF dumped_lengths(3)]
    by (simp add: dumped_seals len dumped_lengths del: append.simps)
  from ref_enc_list_append [OF this]
  have enc: "ref_enc (extra_item ref_crates dumped_value) = [249, 12, 110] @ ?payload"
    unfolding item by (simp only: ref_headers)
  have "unhex ISTANBUL_EXTRA_DUMPED = unhex dumped_vanity @ [249, 12, 110] @
      [249, 2, 13] @ unhex (concat (map ((@) ''94'') dumped_addresses)) @
      [249, 9, 146] @ unhex (concat (map ((@) ''b860'') dumped_public_keys)) @
      [137, 1, 56, 16, 0, 1, 128, 30, 0, 5] @ [184, 65] @ seal dumped_value @
      [248, 60] @ [137, 1, 236, 160, 99, 238, 191, 187, 253, 249] @ [176] @
      seal_signature (aggregated_seal dumped_value) @ [128] @
      [248, 60] @ [137, 1, 239, 239, 255, 255, 255, 255, 255, 251] @ [176] @
      seal_signature (parent_aggregated_seal dumped_value) @ [128]"
    unfolding ISTANBUL_EXTRA_DUMPED_def dumped_vanity_def dumped_extra_value(4,7,10)
    using address_list_enc(2) [OF dumped_lengths(1)] key_list_enc(2) [OF dumped_lengths(3)]
    by (simp add: unhex_append unhex_heads dumped_lengths del: append.simps unhex_pair)
  then show ?thesis unfolding enc dumped_items by (simp add: dumped_seals)
qed

lemma sum_list_const: "list_all (\<lambda>x. f x = c) xs \<Longrightarrow> sum_list (map f xs) = c * length xs"
  by (induction xs) simp_all

lemma dumped_wf: "wf_extra dumped_value" "rlp_fits (extra_item ref_crates dumped_value)"
proof -
  have addresses: "list_all (\<lambda>a. length (unhex a) = 20) dumped_addresses"
    "list_all (\<lambda>k. length (unhex k) = 96) dumped_public_keys"
    using dumped_lengths(1,3) by (auto simp: list_all_iff)
  then show "wf_extra dumped_value"
    by (auto simp: wf_extra_def wf_seal_def dumped_extra_value(1-3,5,6,8,9) list_all_iff)
  have len: "length (seal dumped_value) = 65" "length (seal_signature (aggregated_seal dumped_value)) = 48"
    "length (seal_signature (parent_aggregated_seal dumped_value)) = 48"
    unfolding dumped_extra_value by (simp_all del: unhex_pair)
  have "length (be_bytes n) \<le> 9" if "n < 256 ^ 9" for n using that by (rule length_be_bytes)
  note this [of 22486472945905303557] this [of 35497482140004384249] this [of 35736063043184885755]
  moreover have "sum_list (map (\<lambda>a. length (unhex a) + 9) dumped_addresses) = 29 * 25"
    "sum_list (map (\<lambda>k. length (unhex k) + 9) dumped_public_keys) = 105 * 25"
    using sum_list_const [of "\<lambda>a. length (unhex a) + 9" 29 dumped_addresses]
      sum_list_const [of "\<lambda>k. length (unhex k) + 9" 105 dumped_public_keys] addresses
    by (simp_all add: dumped_lengths list_all_iff)
  ultimately show "rlp_fits (extra_item ref_crates dumped_value)"
    using len
    by (simp add: rlp_fits_def usize_bits_def extra_item_def seal_item_def dumped_extra_value(1-3,5,6,8,9)
        big_int_to_rlp_compat_bytes_def comp_def)
qed

lemma tiny_wf: "wf_extra tiny_value" "rlp_fits (extra_item ref_crates tiny_value)"
proof -
  have "length (be_bytes 12) \<le> 1" by (rule length_be_bytes) simp
  then show "wf_extra tiny_value" "rlp_fits (extra_item ref_crates tiny_value)"
    by (simp_all add: tiny_value_def wf_extra_def wf_seal_def istanbul_aggregated_seal_new_def
        rlp_fits_def usize_bits_def extra_item_def seal_item_def big_int_to_rlp_compat_bytes_def)
qed

definition tiny_vector :: bytes where
  "tiny_vector = istanbul_extra_to_rlp ref_crates tiny_value (replicate 32 0)"

definition dumped_vector :: bytes where
  "dumped_vector = istanbul_extra_to_rlp ref_crates dumped_value (unhex dumped_vanity)"

lemma vector_digits:
  "even (length ISTANBUL_EXTRA_TINY)" "list_all lower_hex_char ISTANBUL_EXTRA_TINY"
  "even (length ISTANBUL_EXTRA_DUMPED)" "list_all lower_hex_char ISTANBUL_EXTRA_DUMPED"
proof -
  show "even (length ISTANBUL_EXTRA_TINY)" "list_all lower_hex_char ISTANBUL_EXTRA_TINY"
    by (simp_all add: ISTANBUL_EXTRA_TINY_def)
  show "even (length ISTANBUL_EXTRA_DUMPED)"
    using address_list_enc(2) [OF dumped_lengths(1)] key_list_enc(2) [OF dumped_lengths(3)]
    by (simp add: ISTANBUL_EXTRA_DUMPED_def dumped_lengths)
  have "list_all lower_hex_char (concat (map ((@) p) xs))"
    if "list_all lower_hex_char p" "list_all (list_all lower_hex_char) xs" for p xs
    using that by (induction xs) simp_all
  from this [OF _ dumped_digits(1), of "''94''"] this [OF _ dumped_digits(2), of "''b860''"]
  show "list_all lower_hex_char ISTANBUL_EXTRA_DUMPED"
    by (simp add: ISTANBUL_EXTRA_DUMPED_def)
qed

lemma vectors_vanity:
  "length (unhex dumped_vanity) = 32"
  "vanity_from_bytes tiny_vector = Ok (replicate 32 0)"
  "vanity_from_bytes dumped_vector = Ok (unhex dumped_vanity)"
proof -
  show len: "length (unhex dumped_vanity) = 32"
    by (simp add: dumped_vanity_def del: unhex_pair)
  then show "vanity_from_bytes tiny_vector = Ok (replicate 32 0)"
    "vanity_from_bytes dumped_vector = Ok (unhex dumped_vanity)"
    by (simp_all add: tiny_vector_def dumped_vector_def istanbul_extra_to_rlp_def
        from_bytes_array array_from_bytes_eq)
qed

definition header_value :: header where
  "header_value = \<lparr>parent_hash = unhex ''7285abd5b24742f184ad676e31f6054663b3529bc35ea2fcad8a3e0f642a46f7'',
     coinbase = unhex ''8888f1f195afa192cfee860698584c030f4c9db1'',
     root = unhex ''ecc60e00b3fe5ce9f6e1a10e5469764daf51f1fe93c22ec3f9a7583a80357217'',
     tx_hash = unhex ''d35d334d87c0cc0a202e3756bf81fae08b1575f286c7ee7a3f8df4f0f3afc55d'',
     receipt_hash = unhex ''56e81f171bcc55a6ff8345e692c0f86e5b48e01b996cadc001622fb5e363b421'',
     bloom = bloom_default, number = 1, gas_used = 0x5208, time = 0x5c47775c, extra = []\<rparr>"

lemma header_value_lengths:
  "length (parent_hash header_value) = 32" "length (coinbase header_value) = 20"
  "length (header.root header_value) = 32" "length (tx_hash header_value) = 32"
  "length (receipt_hash header_value) = 32" "length (bloom header_value) = 256"
  by (simp_all add: header_value_def bloom_default_def del: unhex_pair)

lemma header_value_rest:
  "number header_value = 1" "gas_used header_value = 0x5208" "time header_value = 0x5c47775c"
  "extra header_value = []"
  by (simp_all add: header_value_def del: unhex_pair)

lemma header_wf: "wf_header header_value" "rlp_fits (header_item ref_crates header_value)"
proof -
  have "length (be_bytes 1) \<le> 1" by (rule length_be_bytes) simp
  then show "wf_header header_value" "rlp_fits (header_item ref_crates header_value)"
    by (simp_all add: wf_header_def header_value_lengths header_value_rest rlp_fits_def usize_bits_def
        header_item_def big_int_to_rlp_compat_bytes_def)
qed

lemma unhex_zeros: "unhex (replicate (2 * n) (CHR ''0'')) = replicate n 0"
  by (induction n) (simp_all add: hex_digit_value_def)

lemma header_bytes:
  "unhex HEADER_WITH_EMPTY_EXTRA = header_to_rlp ref_crates header_value"
proof -
  have small: "ref_enc_str (be_bytes (Suc 0)) = [1]" "ref_enc_str (be_bytes 0x5208) = [130, 82, 8]"
    "ref_enc_str (be_bytes 0x5c47775c) = [132, 92, 71, 119, 92]" "ref_enc_str [] = [128]"
    by (simp_all add: be_bytes.simps ref_enc_str_def ref_header_def)
  have heads: "unhex ''f901a6'' = [249, 1, 166]" "unhex ''a0'' = [160]" "unhex ''94'' = [148]"
    "unhex ''b90100'' = [185, 1, 0]" "unhex ''01'' = [1]" "unhex ''825208'' = [130, 82, 8]"
    "unhex ''845c47775c'' = [132, 92, 71, 119, 92]" "unhex ''80'' = [128]"
    by (simp_all add: hex_digit_value_def)
  have "header_to_rlp ref_crates header_value = ref_enc (header_item ref_crates header_value)"
    by (simp add: header_to_rlp_def header_append_item)
  also have "\<dots> = [249, 1, 166] @ [160] @ parent_hash header_value @
      [148] @ coinbase header_value @ [160] @ header.root header_value @ [160] @ tx_hash header_value @
      [160] @ receipt_hash header_value @ [185, 1, 0] @ bloom header_value @ [1] @ [130, 82, 8] @
      [132, 92, 71, 119, 92] @ [128]"
    by (simp add: header_item_def big_int_to_rlp_compat_bytes_def
        ref_enc_str_lengths header_value_lengths header_value_rest small)
  also have "\<dots> = unhex HEADER_WITH_EMPTY_EXTRA"
    unfolding HEADER_WITH_EMPTY_EXTRA_def header_value_def
    using unhex_zeros [of 256]
    by (simp add: unhex_append heads bloom_default_def del: append.simps unhex_pair)
  finally show ?thesis by simp
qed

lemma arithmetic_tests_pass:
  "validates_quorum_size_math = Ok ()" "validates_epoch_math = Ok ()"
  by (simp_all add: validates_quorum_size_math_def validates_epoch_math_def for_each_def assert_eq_def
      assert_that_def min_quorum_size_eq usize_bits_def get_epoch_number_def get_epoch_first_block_number_def
      get_epoch_last_block_number_def is_last_block_of_epoch_eq u64_div_def u64_mul_def u64_add_def u64_sub_def)

section \<open>The tests pass\<close>

text \<open>
  The formats the crates write: the \<^verbatim>\<open>rlp\<close> crate writes an item in the published RLP format, \<^verbatim>\<open>num-bigint\<close> a
  positive number without leading zero bytes, \<^verbatim>\<open>hex\<close> two lower-case digits a byte.
\<close>

locale vector_library = library_crates L + hex_library H
  for L :: "('pk, 'sig, 'z) crates_scheme" and H :: hex_crates +
  assumes rlp_format: "rlp_fits t \<Longrightarrow> rlp_enc L t = ref_enc t"
    and minimal_bytes: "0 < n \<Longrightarrow> bi_to_bytes_be L n = be_bytes (nat n)"
    and hex_format: "hex_encode H b = ref_hex_encode b"
begin

lemma decode_digits: "list_all lower_hex_char s \<Longrightarrow> even (length s) \<Longrightarrow> hex_decode H s = Some (unhex s)"
  using hex_decode_encode [of "unhex s"] by (simp add: hex_format ref_hex_encode_unhex)

lemma compat_bytes:
  "0 \<le> n \<Longrightarrow> big_int_to_rlp_compat_bytes L n = big_int_to_rlp_compat_bytes ref_crates n"
  by (simp add: big_int_to_rlp_compat_bytes_def is_zero_eq minimal_bytes)

lemma same_items:
  "wf_extra e \<Longrightarrow> extra_item L e = extra_item ref_crates e"
  "wf_header h \<Longrightarrow> header_item L h = header_item ref_crates h"
  by (simp_all add: extra_item_def seal_item_def header_item_def wf_extra_def wf_seal_def wf_header_def compat_bytes)

lemma same_bytes:
  "wf_extra e \<Longrightarrow> rlp_fits (extra_item ref_crates e) \<Longrightarrow>
     istanbul_extra_to_rlp L e vanity = istanbul_extra_to_rlp ref_crates e vanity"
  "wf_header h \<Longrightarrow> rlp_fits (header_item ref_crates h) \<Longrightarrow> header_to_rlp L h = header_to_rlp ref_crates h"
  using rlp_format [of "extra_item ref_crates e"] rlp_format [of "header_item ref_crates h"]
  by (simp_all add: istanbul_extra_to_rlp_def header_to_rlp_def extra_append_item header_append_item
      same_items rlp_enc_def del: ref_enc.simps)

lemma extra_vectors_value: "extra_vectors H = Ok [tiny_vector, dumped_vector]"
  by (simp add: extra_vectors_def prepend_vanity_def decode_digits vector_digits tiny_bytes dumped_bytes
      tiny_vector_def dumped_vector_def istanbul_extra_to_rlp_def extra_append_item del: ref_enc.simps)

lemma extra_values: "tiny_extra H = Ok tiny_value" "dumped_extra H = Ok dumped_value"
proof -
  have addresses: "to_address_vec H xs = Ok (map unhex xs)"
    if "list_all (\<lambda>a. length a = 40) xs" "list_all (list_all lower_hex_char) xs" for xs
    using that by (induction xs) (simp_all add: to_address_vec_def decode_digits from_bytes_array)
  have keys: "to_serialized_pub_key_vec H xs = Ok (map unhex xs)"
    if "list_all (\<lambda>a. length a = 192) xs" "list_all (list_all lower_hex_char) xs" for xs
    using that by (induction xs) (simp_all add: to_serialized_pub_key_vec_def decode_digits from_bytes_array)
  show "tiny_extra H = Ok tiny_value"
    by (simp add: tiny_extra_def addresses tiny_value_def del: unhex_pair)
  show "dumped_extra H = Ok dumped_value"
    by (simp add: dumped_extra_def addresses keys dumped_lengths dumped_digits decode_digits dumped_value_def
        del: unhex_pair)
qed

lemma vectors_decode:
  "istanbul_extra_from_rlp L tiny_vector = Ok tiny_value"
  "istanbul_extra_from_rlp L dumped_vector = Ok dumped_value"
  "istanbul_extra_to_rlp L tiny_value (replicate 32 0) = tiny_vector"
  "istanbul_extra_to_rlp L dumped_value (unhex dumped_vanity) = dumped_vector"
proof -
  show to: "istanbul_extra_to_rlp L tiny_value (replicate 32 0) = tiny_vector"
    "istanbul_extra_to_rlp L dumped_value (unhex dumped_vanity) = dumped_vector"
    unfolding tiny_vector_def dumped_vector_def by (rule same_bytes tiny_wf dumped_wf)+
  show "istanbul_extra_from_rlp L tiny_vector = Ok tiny_value"
    unfolding to(1) [symmetric] by (rule istanbul_extra_from_to) (simp_all add: same_items tiny_wf)
  show "istanbul_extra_from_rlp L dumped_vector = Ok dumped_value"
    unfolding to(2) [symmetric]
    by (rule istanbul_extra_from_to) (simp_all add: same_items dumped_wf vectors_vanity)
qed

lemma extra_tests_pass:
  "encodes_istanbul_extra_to_rlp L H = Ok ()"
  "decodes_istanbul_extra_from_rlp L H = Ok ()"
  "rejects_insufficient_vanity L = Ok ()"
  by (simp_all add: encodes_istanbul_extra_to_rlp_def decodes_istanbul_extra_from_rlp_def
      rejects_insufficient_vanity_def for_each_def assert_eq_def assert_that_def extra_vectors_value
      extra_values vectors_decode vectors_vanity istanbul_extra_from_rlp_def [of _ "replicate _ _"])

lemma header_vector:
  "hex_decode H HEADER_WITH_EMPTY_EXTRA = Some (header_to_rlp ref_crates header_value)"
  "header_from_rlp L (header_to_rlp ref_crates header_value) = Ok header_value"
  "header_to_rlp L header_value = header_to_rlp ref_crates header_value"
proof -
  have "list_all lower_hex_char HEADER_WITH_EMPTY_EXTRA" "even (length HEADER_WITH_EMPTY_EXTRA)"
    by (simp_all add: HEADER_WITH_EMPTY_EXTRA_def list_all_iff [of _ "replicate _ _"])
  then show "hex_decode H HEADER_WITH_EMPTY_EXTRA = Some (header_to_rlp ref_crates header_value)"
    by (simp add: decode_digits header_bytes)
  show to: "header_to_rlp L header_value = header_to_rlp ref_crates header_value"
    by (rule same_bytes header_wf)+
  show "header_from_rlp L (header_to_rlp ref_crates header_value) = Ok header_value"
    unfolding to [symmetric] by (rule header_from_to) (simp_all add: same_items header_wf)
qed

lemma header_tests_pass:
  "encodes_header_to_rlp L H = Ok ()"
  "decodes_header_from_rlp L H = Ok ()"
proof -
  show "encodes_header_to_rlp L H = Ok ()"
    by (simp add: encodes_header_to_rlp_def header_vector assert_eq_def assert_that_def)
  have hash: "to_hash H (array_from_bytes n) s = Ok (unhex s)"
    if "length s = 2 * n" "list_all lower_hex_char s" for n s
    using that by (simp add: to_hash_def decode_digits)
  show "decodes_header_from_rlp L H = Ok ()"
    unfolding decodes_header_from_rlp_def from_bytes_array
    by (simp add: hash header_vector for_each_def assert_eq_def assert_that_def header_value_def [symmetric]
        del: unhex_pair)
qed

lemma big_int_test_passes: "parses_big_int L = Ok ()"
proof -
  let ?b = "[236, 160, 242, 246, 191, 251, 255, 120] :: bytes"
  have bytes: "be_bytes 17050895330821537656 = ?b" by (simp add: be_bytes.simps)
  then have written: "big_int_to_rlp_compat_bytes L 17050895330821537656 = ?b"
    "big_int_to_rlp_compat_bytes L 0 = []"
    by (simp_all add: big_int_to_rlp_compat_bytes_def is_zero_eq minimal_bytes)
  have "bytes_to_rlp_list L ?b = rlp_enc L (RList [RStr ?b])"
    by (simp add: bytes_to_rlp_list_def rlp_enc_def)
  moreover have "rlp_to_big_int L (rlp_enc L (RList [RStr ?b])) 0 = Ok 17050895330821537656"
    by (rule rlp_to_big_int_at) (simp_all add: rlp_fits_def usize_bits_def written)
  ultimately show ?thesis
    by (simp add: parses_big_int_def Let_def assert_eq_def assert_that_def written)
qed

end

interpretation ref_vectors: vector_library ref_crates ref_hex
  by unfold_locales (simp_all add: ref_hex_def)

end
