(* ===== verification/Json_Tests.thy ===== *)
theory Json_Tests
  imports Codec_Tests Json_Codecs
begin

text \<open>
  The unit tests of \<^verbatim>\<open>src/types/istanbul.rs\<close> and \<^verbatim>\<open>src/types/header.rs\<close> that go through derived JSON code, and
  the test of the header hash. The former pass for every library in the locale
  \<open>json_vector_library\<close>. The latter's expected digest is a Keccak value, which the model
  has no definition of: on the reference crates the test passes with exactly the digest
  functions that have it.
\<close>

section \<open>Tests through JSON\<close>

definition extra_serializes_and_deserializes_to_json ::
    "('pk, 'sig, 'z) crates_scheme \<Rightarrow> 'y serde_crates_scheme \<Rightarrow> (unit, kind) result" where
  "extra_serializes_and_deserializes_to_json L S =
     and_then (extra_vectors (hex S)) (\<lambda>vectors. for_each vectors (\<lambda>bytes.
       and_then (unwrap_result (istanbul_extra_from_rlp L bytes)) (\<lambda>parsed.
       let json_string = to_string S (extra_to_json S parsed) in
       and_then (unwrap_result (from_str S (extra_from_json S) json_string)) (\<lambda>deserialized_from_json.
         assert_eq parsed deserialized_from_json))))"

definition header_serializes_and_deserializes_to_json ::
    "('pk, 'sig, 'z) crates_scheme \<Rightarrow> 'y serde_crates_scheme \<Rightarrow> (unit, kind) result" where
  "header_serializes_and_deserializes_to_json L S =
     and_then (unwrap (hex_decode (hex S) HEADER_WITH_EMPTY_EXTRA)) (\<lambda>b. for_each [b] (\<lambda>bytes.
       and_then (unwrap_result (header_from_rlp L bytes)) (\<lambda>parsed.
       let json_string = to_string S (header_to_json S parsed) in
       and_then (unwrap_result (from_str S (header_from_json S) json_string)) (\<lambda>deserialized_from_json.
         assert_eq parsed deserialized_from_json))))"

text \<open>The crates of all codec tests: the laws of the JSON crates and the formats of \<open>vector_library\<close>.\<close>

locale json_vector_library = json_library S + vector_library L "hex S"
  for L :: "('pk, 'sig, 'z) crates_scheme" and S :: "'y serde_crates_scheme"
begin

lemma json_tests_pass:
  "extra_serializes_and_deserializes_to_json L S = Ok ()"
  "header_serializes_and_deserializes_to_json L S = Ok ()"
proof -
  show "extra_serializes_and_deserializes_to_json L S = Ok ()"
    using texts_from_to(2) [OF tiny_wf(1)] texts_from_to(2) [OF dumped_wf(1)]
    by (simp add: extra_serializes_and_deserializes_to_json_def extra_vectors_value for_each_def
        vectors_decode assert_eq_def assert_that_def)
  show "header_serializes_and_deserializes_to_json L S = Ok ()"
    using texts_from_to(1) [OF header_wf(1)]
    by (simp add: header_serializes_and_deserializes_to_json_def header_vector for_each_def
        assert_eq_def assert_that_def)
qed

lemma codec_tests_pass:
  "encodes_istanbul_extra_to_rlp L (hex S) = Ok () \<and>
   decodes_istanbul_extra_from_rlp L (hex S) = Ok () \<and>
   extra_serializes_and_deserializes_to_json L S = Ok () \<and>
   rejects_insufficient_vanity L = Ok () \<and>
   encodes_header_to_rlp L (hex S) = Ok () \<and>
   decodes_header_from_rlp L (hex S) = Ok () \<and>
   header_serializes_and_deserializes_to_json L S = Ok () \<and>
   parses_big_int L = Ok ()"
  using extra_tests_pass header_tests_pass json_tests_pass big_int_test_passes by simp

end

interpretation ref_json_vectors: json_vector_library ref_crates ref_serde
proof -
  have "vector_library ref_crates (hex ref_serde)"
    using ref_vectors.vector_library_axioms by simp
  with ref_serde.json_library_axioms show "json_vector_library ref_crates ref_serde"
    by (rule json_vector_library.intro)
qed

section \<open>The test of the header hash\<close>

definition IST_EXTRA :: string where
  "IST_EXTRA = replicate 64 (CHR ''0'') @ ''f89a'' @
     ''f854'' @ ''94'' @ ''44add0ec310f115a0e603b2d7db9f067778eaf8a'' @
     ''94'' @ ''294fc7e8f22b3bcdcf955dd7ff3ba2ed833f8212'' @
     ''94'' @ ''6beaaed781d2d2ab6350f5c4566a2c6eaac407a6'' @
     ''94'' @ ''8be76812f765c24641ec63dc2852b378aba2b440'' @
     ''b841'' @ replicate 130 (CHR ''0'') @ ''c0''"

definition IST_EXTRA_HASH :: string where
  "IST_EXTRA_HASH = ''5c012c65d46edfbfca86a426da5111c51114b75577fec9b82161d3e05d83b723''"

definition generates_valid_header_hash ::
    "('pk, 'sig, 'z) crates_scheme \<Rightarrow> hex_crates \<Rightarrow> (unit, kind) result" where
  "generates_valid_header_hash L H =
     for_each [(IST_EXTRA, IST_EXTRA_HASH)] (\<lambda>(extra_bytes, hash_str).
       and_then (to_hash H vanity_from_bytes hash_str) (\<lambda>expected_hash.
       and_then (unwrap (hex_decode H extra_bytes)) (\<lambda>ex.
       let header = header_new\<lparr>extra := ex\<rparr> in
       and_then (unwrap_result (header_hash L header)) (\<lambda>h.
       and_then (assert_eq h expected_hash) (\<lambda>_.
       let header = header\<lparr>extra := extra header @ [1, 2, 3]\<rparr> in
       and_then (unwrap_result (header_hash L header)) (\<lambda>h1.
       and_then (unwrap_result (rlp_hash L header)) (\<lambda>h2. assert_eq h1 h2)))))))"

text \<open>
  The extra data of the test is in the format before BLS keys, three items instead of six, so it does
  not decode and the whole header is hashed.
\<close>

definition old_addresses :: "bytes list" where
  "old_addresses = map unhex
     [''44add0ec310f115a0e603b2d7db9f067778eaf8a'', ''294fc7e8f22b3bcdcf955dd7ff3ba2ed833f8212'',
      ''6beaaed781d2d2ab6350f5c4566a2c6eaac407a6'', ''8be76812f765c24641ec63dc2852b378aba2b440'']"

definition old_item :: rlp_item where
  "old_item = RList [RList (map RStr old_addresses), RStr (replicate 65 0), RList []]"

lemma old_lengths: "list_all (\<lambda>a. length a = 20) old_addresses" "length old_addresses = 4"
  by (simp_all add: old_addresses_def del: unhex_pair)

lemma old_headers:
  "ref_header 192 84 = [248, 84]" "ref_header 192 154 = [248, 154]" "ref_header 192 0 = [192]"
  by (simp_all add: ref_header_def be_bytes.simps)

lemma old_address_list:
  "concat (map ref_enc (map RStr old_addresses)) =
     concat (map (\<lambda>a. 148 # a) old_addresses)" "length (concat (map (\<lambda>a. 148 # a) old_addresses)) = 84"
proof -
  have "concat (map ref_enc (map RStr xs)) = concat (map (\<lambda>a. 148 # a) xs)"
    if "list_all (\<lambda>a. length a = 20) xs" for xs
    using that by (induction xs) (simp_all add: ref_enc_str_lengths)
  from this [OF old_lengths(1)] show "concat (map ref_enc (map RStr old_addresses)) =
     concat (map (\<lambda>a. 148 # a) old_addresses)" .
  have "length (concat (map (\<lambda>a. 148 # a) xs)) = 21 * length xs" if "list_all (\<lambda>a. length a = 20) xs" for xs :: "bytes list"
    using that by (induction xs) simp_all
  from this [OF old_lengths(1)] show "length (concat (map (\<lambda>a. 148 # a) old_addresses)) = 84"
    by (simp add: old_lengths(2))
qed

lemma old_item_enc:
  "ref_enc old_item = [248, 154] @ [248, 84] @ concat (map (\<lambda>a. 148 # a) old_addresses) @
     [184, 65] @ replicate 65 0 @ [192]"
proof -
  let ?as = "concat (map (\<lambda>a. 148 # a) old_addresses)"
  have "ref_enc (RList (map RStr old_addresses)) = [248, 84] @ ?as"
    unfolding ref_enc.simps old_address_list(1) by (simp only: old_address_list(2) old_headers)
  moreover have "ref_enc (RStr (replicate 65 0)) = [184, 65] @ replicate 65 0"
    by (simp add: ref_enc_str_lengths del: replicate.simps)
  moreover have "ref_enc (RList []) = [192]" by (simp add: old_headers)
  moreover have "length ([248, 84] @ ?as @ [184, 65] @ replicate 65 0 @ [192 :: byte]) = 154"
    by (simp add: old_address_list(2) del: length_concat)
  ultimately show ?thesis
    unfolding old_item_def ref_enc.simps(3) [of "[_, _, _]"]
    by (simp add: old_headers del: ref_enc.simps replicate.simps length_concat)
qed

lemma IST_EXTRA_bytes: "unhex IST_EXTRA = replicate 32 0 @ ref_enc old_item"
proof -
  have zeros: "unhex (replicate 64 (CHR ''0'')) = replicate 32 0"
    "unhex (replicate 130 (CHR ''0'')) = replicate 65 0"
    using unhex_zeros [of 32] unhex_zeros [of 65] by simp_all
  have heads: "unhex ''f89a'' = [248, 154]" "unhex ''f854'' = [248, 84]" "unhex ''94'' = [148]"
    "unhex ''b841'' = [184, 65]" "unhex ''c0'' = [192]"
    by (simp_all add: hex_digit_value_def)
  show ?thesis
    unfolding IST_EXTRA_def old_item_enc old_addresses_def
    by (simp add: unhex_append zeros heads del: append.simps unhex_pair replicate.simps)
qed

lemma ref_list_append:
  assumes "rlp_size (RList ts) < 2 ^ 64"
  shows "ref_list (ref_enc (RList ts) @ rest) = Some (map ref_enc ts)"
proof -
  let ?p = "concat (map ref_enc ts)"
  obtain h where h: "ref_head (ref_enc (RList ts) @ rest) = Some (True, h, length ?p)"
    "length (ref_enc (RList ts)) = h + length ?p" "drop h (ref_enc (RList ts)) = ?p"
    using ref_head_list [OF assms] by blast
  have "ref_items ?p = Some (map ref_enc ts)"
    using assms rlp_size_member [of _ ts] by (intro ref_items_enc) fastforce
  then show ?thesis using h by (simp add: ref_list_def del: ref_enc.simps)
qed

lemma old_extra_rejected:
  assumes "length vanity = 32"
  shows "istanbul_extra_from_rlp ref_crates (vanity @ ref_enc old_item @ rest) = Err RlpDecodeError"
proof -
  let ?as = "RList (map RStr old_addresses)"
  have sizes: "sum_list (map (\<lambda>b. length b + 9) xs) = 29 * length xs"
    if "list_all (\<lambda>a. length a = 20) xs" for xs :: "bytes list"
    using that by (induction xs) simp_all
  have fits: "rlp_fits old_item" "rlp_fits ?as"
    using sizes [OF old_lengths(1)]
    by (simp_all add: old_item_def rlp_fits_def usize_bits_def old_lengths(2) comp_def)
  have items: "ref_list (ref_enc old_item @ rest) =
      Some [ref_enc ?as, ref_enc (RStr (replicate 65 0)), ref_enc (RList [])]"
    using ref_list_append [of "[?as, RStr (replicate 65 0), RList []]" rest] rlp_fits_size [OF fits(1)]
    by (simp add: old_item_def del: ref_enc.simps rlp_size.simps replicate.simps)
  have "collect (rlp_field_from_bytes ref_crates address_from_bytes) (ref_iter (ref_enc ?as)) = Ok old_addresses"
    using ref.collect_arrays [OF fits(2) old_lengths(1)]
    by (simp add: from_bytes_array del: ref_enc.simps)
  moreover have "ref_iter (ref_enc (RStr (replicate 65 0))) = []"
    using ref_head_str [of "replicate 65 0" "[]"]
    by (auto simp: ref_iter_def ref_list_def simp del: replicate.simps)
  moreover have "ref_value (ref_enc (RList [])) = Err (LibraryError 2)"
    by (simp add: ref_value_def old_headers ref_head_def)
  ultimately have "extra_decode ref_crates (ref_enc old_item @ rest) = Err (LibraryError 2)"
    by (simp add: extra_decode_def rlp_to_big_int_def decode_value_def ref_at_def items
        del: ref_enc.simps replicate.simps)
  with assms show ?thesis
    by (simp add: istanbul_extra_from_rlp_def slice_from_def del: ref_enc.simps)
qed

text \<open>The reference crates with another digest.\<close>

abbreviation digest_crates :: "(bytes \<Rightarrow> bytes) \<Rightarrow> (bytes list, bytes) crates" where
  "digest_crates k \<equiv> ref_crates\<lparr>keccak256 := k\<rparr>"

lemma digest_crates_seal: "seal_decode (digest_crates k) = seal_decode ref_crates"
  by (rule ext) (simp add: seal_decode_def val_at_def rlp_to_big_int_def decode_value_def)

lemma digest_crates_codecs:
  "istanbul_extra_from_rlp (digest_crates k) = istanbul_extra_from_rlp ref_crates"
  "header_to_rlp (digest_crates k) = header_to_rlp ref_crates"
proof -
  show "istanbul_extra_from_rlp (digest_crates k) = istanbul_extra_from_rlp ref_crates"
    by (rule ext) (simp add: istanbul_extra_from_rlp_def extra_decode_def val_at_def decode_value_def
        rlp_field_from_bytes_def [abs_def] rlp_to_big_int_def digest_crates_seal)
  show "header_to_rlp (digest_crates k) = header_to_rlp ref_crates"
    by (rule ext) (simp add: header_to_rlp_def header_append_def big_int_to_rlp_compat_bytes_def)
qed

lemma old_header_hash:
  assumes "extra h = replicate 32 0 @ ref_enc old_item @ rest"
  shows "header_hash (digest_crates k) h = rlp_hash (digest_crates k) h"
  using old_extra_rejected [of "replicate 32 0" rest]
  by (simp add: header_hash_def istanbul_filtered_header_def digest_crates_codecs assms
      del: replicate.simps)

lemma rlp_hash_digest:
  "rlp_hash (digest_crates k) h =
     (let d = k (header_to_rlp ref_crates h) in if 32 \<le> length d then Ok (take 32 d) else Panic)"
  using digest_crates_codecs(2) [of k, THEN fun_cong, of h]
  by (simp add: rlp_hash_def slice_to_def slice_as_array_ref_def Let_def header_to_rlp_def)

lemma hash_test_passes_iff:
  "generates_valid_header_hash (digest_crates k) ref_hex = Ok () \<longleftrightarrow>
     take 32 (k (header_to_rlp ref_crates (header_new\<lparr>extra := unhex IST_EXTRA\<rparr>))) = unhex IST_EXTRA_HASH \<and>
     32 \<le> length (k (header_to_rlp ref_crates (header_new\<lparr>extra := unhex IST_EXTRA @ [1, 2, 3]\<rparr>)))"
proof -
  let ?h = "header_new\<lparr>extra := unhex IST_EXTRA\<rparr>" and ?h' = "header_new\<lparr>extra := unhex IST_EXTRA @ [1, 2, 3]\<rparr>"
  have hashes: "header_hash (digest_crates k) ?h = rlp_hash (digest_crates k) ?h"
    "header_hash (digest_crates k) ?h' = rlp_hash (digest_crates k) ?h'"
    by (rule old_header_hash [where rest = "[]"] old_header_hash [where rest = "[1, 2, 3]"],
        simp add: IST_EXTRA_bytes del: ref_enc.simps replicate.simps)+
  have len: "length (unhex IST_EXTRA_HASH) = 32" "even (length IST_EXTRA_HASH)"
    by (simp_all add: IST_EXTRA_HASH_def del: unhex_pair)
  moreover have "even (length IST_EXTRA)" by (simp add: IST_EXTRA_def)
  ultimately have decoded: "to_hash ref_hex vanity_from_bytes IST_EXTRA_HASH = Ok (unhex IST_EXTRA_HASH)"
    "ref_hex_decode IST_EXTRA = Some (unhex IST_EXTRA)"
    by (simp_all add: to_hash_def ref_hex_decode_even from_bytes_array)
  have "length (unhex IST_EXTRA_HASH) \<le> length d" if "take 32 d = unhex IST_EXTRA_HASH" for d
    using that len(1) by (metis length_take min.cobounded1 min_def)
  then show ?thesis
    using len(1)
    by (auto simp: generates_valid_header_hash_def for_each_def Let_def decoded hashes rlp_hash_digest
        assert_eq_def assert_that_def split: if_splits)
qed

section \<open>Properties\<close>

text \<open>C39: the repository's test vectors. For every library whose crates keep their laws and write
  the published formats (RLP items, big-endian numbers without leading zeros, two lower-case hex
  digits a byte) the codecs of the model pass the unit
  tests of the codecs: the extra data of the hand-made example and of block 0x2a300 of the
  main network (25 added validators with their keys, removal bitmap, seals) is read as the
  values the tests list and written back byte for byte, so is the example header, both survive
  the way through JSON text, short vanity is rejected, big integers have the expected bytes; the
  epoch and quorum arithmetic gives the tabulated numbers. \<close>

theorem codec_vectors_pass:
  assumes "json_vector_library L S"
  shows "encodes_istanbul_extra_to_rlp L (hex S) = Ok () \<and>
   decodes_istanbul_extra_from_rlp L (hex S) = Ok () \<and>
   extra_serializes_and_deserializes_to_json L S = Ok () \<and>
   rejects_insufficient_vanity L = Ok () \<and>
   encodes_header_to_rlp L (hex S) = Ok () \<and>
   decodes_header_from_rlp L (hex S) = Ok () \<and>
   header_serializes_and_deserializes_to_json L S = Ok () \<and>
   parses_big_int L = Ok () \<and>
   validates_quorum_size_math = Ok () \<and> validates_epoch_math = Ok ()"
  using json_vector_library.codec_tests_pass [OF assms] arithmetic_tests_pass by simp

theorem codec_vectors_pass_witness:
  "decodes_istanbul_extra_from_rlp ref_crates (hex ref_serde) = Ok () \<and>
   header_serializes_and_deserializes_to_json ref_crates ref_serde = Ok () \<and>
   parses_big_int ref_crates = Ok ()"
  using codec_vectors_pass [OF ref_json_vectors.json_vector_library_axioms] by simp

end
