(* ===== verification/Ibc_Types.thy ===== *)
theory Ibc_Types
  imports Strings
begin

text \<open>
  \<^verbatim>\<open>src/contract/types/ibc.rs\<close>, data: heights with their order and printed form, and the
  connection, channel and commitment structures. The paths of the \<^verbatim>\<open>ibc\<close> crate that the
  contract builds are the datatype \<open>ics_path\<close>; how they are printed is a parameter
  (\<open>Contract_Crates\<close>). \<^verbatim>\<open>ics23::CommitmentProof\<close> is the sum type of that crate's protobuf
  definition, over an abstract type \<open>'ep\<close> of proof bodies.
\<close>

section \<open>Heights\<close>

datatype height = Height (revision_number: u64) (revision_height: u64)

text \<open>\<^verbatim>\<open>impl Ord for Height\<close>.\<close>

definition height_cmp :: "height \<Rightarrow> height \<Rightarrow> ordering" where
  "height_cmp self other =
     (if revision_number self < revision_number other then Less
      else if revision_number self > revision_number other then Greater
      else if revision_height self < revision_height other then Less
      else if revision_height self > revision_height other then Greater
      else Equal)"

text \<open>The comparison operators, \<^verbatim>\<open>impl PartialOrd for Height\<close> by \<^verbatim>\<open>cmp\<close>.\<close>

definition height_partial_cmp :: "height \<Rightarrow> height \<Rightarrow> ordering option" where
  "height_partial_cmp self other = Some (height_cmp self other)"

instantiation height :: linorder
begin

definition less_height :: "height \<Rightarrow> height \<Rightarrow> bool" where
  "less_height a b \<longleftrightarrow> height_partial_cmp a b = Some Less"

definition less_eq_height :: "height \<Rightarrow> height \<Rightarrow> bool" where
  "less_eq_height a b \<longleftrightarrow> height_partial_cmp a b \<in> {Some Less, Some Equal}"

instance
proof
  fix x y z :: height
  note defs = less_height_def less_eq_height_def height_partial_cmp_def height_cmp_def
  show "x < y \<longleftrightarrow> x \<le> y \<and> \<not> y \<le> x"
    by (cases x; cases y) (auto simp: defs)
  show "x \<le> x" by (simp add: defs)
  show "x \<le> y \<Longrightarrow> y \<le> z \<Longrightarrow> x \<le> z"
    by (cases x; cases y; cases z) (auto simp: defs split: if_splits)
  show "x \<le> y \<Longrightarrow> y \<le> x \<Longrightarrow> x = y"
    by (cases x; cases y) (auto simp: defs split: if_splits)
  show "x \<le> y \<or> y \<le> x"
    by (cases x; cases y) (auto simp: defs)
qed

end

lemma height_less_iff:
  "a < b \<longleftrightarrow> revision_number a < revision_number b \<or>
     revision_number a = revision_number b \<and> revision_height a < (revision_height b)"
  by (cases a; cases b) (auto simp: less_height_def height_partial_cmp_def height_cmp_def)

lemma height_less_eq_iff:
  "a \<le> b \<longleftrightarrow> revision_number a < revision_number b \<or>
     revision_number a = revision_number b \<and> revision_height a \<le> (revision_height b)"
  unfolding le_less height_less_iff by (cases a; cases b) auto

text \<open>\<^verbatim>\<open>impl Display for Height\<close>.\<close>

definition height_display :: "height \<Rightarrow> string" where
  "height_display h = ''revision: '' @ dec_string (unat (revision_number h)) @
     '', height: '' @ dec_string (unat (revision_height h))"

section \<open>Connections, channels and commitments\<close>

record merkle_prefix = key_prefix :: string
record merkle_root = root_hash :: string
record merkle_path = key_path :: "string list"

record version =
  ver_identifier :: string
  ver_features :: "string list"

record counterparty =
  cp_client_id :: string
  cp_connection_id :: string
  cp_prefix :: merkle_prefix

record connection_end =
  ce_client_id :: string
  ce_versions :: "version list"
  ce_state :: "32 word"
  ce_counterparty :: counterparty
  ce_delay_period :: u64

record channel =
  ch_state :: "32 word"
  ch_ordering :: "32 word"
  ch_counterparty :: counterparty
  ch_connection_hops :: "string list"
  ch_version :: string

datatype 'ep commitment_proof =
  NoProof | Exist 'ep | Nonexist 'ep | Batch 'ep | Compressed 'ep

record 'ep merkle_proof = proofs :: "'ep commitment_proof list"

fun get_exist_proof :: "'ep commitment_proof \<Rightarrow> 'ep option" where
  "get_exist_proof (Exist ex) = Some ex"
| "get_exist_proof _ = None"

section \<open>Paths of the IBC host specification\<close>

datatype client_upgrade_path = UpgradedClientState u64 | UpgradedClientConsensusState u64

datatype ics_path =
    ClientStatePath string
  | ClientConsensusStatePath string u64 u64
  | ConnectionsPath string
  | ChannelEndsPath string string
  | CommitmentsPath string string u64
  | AcksPath string string u64
  | ReceiptsPath string string u64
  | SeqRecvsPath string string
  | UpgradePath client_upgrade_path

end
