(* ===== verification/Contract_Types.thy ===== *)
theory Contract_Types
  imports Snapshots Ibc_Types "HOL-Library.Option_ord"
begin

text \<open>
  The contract's data: \<^verbatim>\<open>src/contract/types/wasm.rs\<close> (states and headers as the Go side
  passes them), \<^verbatim>\<open>src/contract/types/state.rs\<close> (the light client's configuration),
  \<^verbatim>\<open>src/contract/types/msg.rs\<close> (messages and results), and the types of \<^verbatim>\<open>cosmwasm_std\<close>
  the handlers exchange with the host. Byte arrays that Go serializes are base64 strings.
\<close>

section \<open>Client and consensus states\<close>

record cosmos_consensus_state = ccs_root :: merkle_root
record cosmos_client_state = ccl_latest_height :: height

record consensus_state =
  cs_code_id :: string
  cs_data :: string
  cs_timestamp :: u64
  cs_root :: merkle_root

record partial_consensus_state =
  pcs_code_id :: bytes
  pcs_data :: bytes

record client_state =
  cl_data :: string
  cl_code_id :: string
  frozen :: bool
  frozen_height :: "height option"
  latest_height :: "height option"

record wasm_header =
  wh_data :: string
  wh_height :: height

record misbehaviour =
  mb_code_id :: string
  mb_client_id :: string
  header_1 :: wasm_header
  header_2 :: wasm_header

datatype status = Active | Frozen | Exipred | Unknown

section \<open>The light client's configuration\<close>

type_synonym light_consensus_state = snapshot

record light_client_state =
  lc_epoch_size :: u64
  lc_allowed_clock_skew :: u64
  trusting_period :: u64
  upgrade_path :: "string list"
  lc_verify_epoch_headers :: bool
  lc_verify_non_epoch_headers :: bool
  lc_verify_header_timestamp :: bool
  allow_update_after_misbehavior :: bool
  allow_update_after_expiry :: bool

text \<open>\<^verbatim>\<open>impl StateConfig for LightClientState\<close>.\<close>

definition light_client_state_config :: "light_client_state \<Rightarrow> state_config" where
  "light_client_state_config c =
     \<lparr>epoch_size = lc_epoch_size c,
      allowed_clock_skew = lc_allowed_clock_skew c,
      verify_epoch_headers = lc_verify_epoch_headers c,
      verify_non_epoch_headers = lc_verify_non_epoch_headers c,
      verify_header_timestamp = lc_verify_header_timestamp c\<rparr>"

section \<open>Results\<close>

record client_state_call_response_result =
  is_valid :: bool
  err_msg :: string

definition call_success :: client_state_call_response_result where
  "call_success = \<lparr>is_valid = True, err_msg = ''''\<rparr>"

text \<open>
  The values the contract serializes with \<^verbatim>\<open>cosmwasm_std::to_vec\<close>: the result structs of
  \<^verbatim>\<open>msg.rs\<close> with their fields, the values proved by a membership proof, and what the
  store keeps.
\<close>

datatype document =
    InitializeStateResult client_state_call_response_result client_state
  | CheckHeaderAndUpdateStateResult client_state consensus_state client_state_call_response_result
  | VerifyUpgradeAndUpdateStateResult client_state_call_response_result client_state consensus_state
  | CheckMisbehaviourAndUpdateStateResult client_state_call_response_result client_state
  | VerifyClientConsensusStateResult client_state_call_response_result
  | VerifyClientStateResult client_state_call_response_result
  | VerifyConnectionStateResult client_state_call_response_result
  | VerifyChannelStateResult client_state_call_response_result
  | VerifyPacketCommitmentResult client_state_call_response_result
  | VerifyPacketAcknowledgementResult client_state_call_response_result
  | VerifyPacketReceiptAbsenceResult client_state_call_response_result
  | CheckSubstituteAndUpdateStateResult client_state_call_response_result client_state
  | ZeroCustomFieldsResult client_state
  | StatusResult status
  | ProcessedTimeResponse u64
  | ClientStateDoc client_state
  | ConsensusStateDoc consensus_state
  | CosmosClientStateDoc cosmos_client_state
  | CosmosConsensusStateDoc cosmos_consensus_state
  | ConnectionEndDoc connection_end
  | ChannelDoc channel
  | HeightDoc height
  | U64Doc u64
  | BytesDoc bytes

section \<open>Messages\<close>

datatype handle_msg =
    InitializeState consensus_state client_state
  | CheckHeaderAndUpdateState wasm_header consensus_state client_state
  | VerifyUpgradeAndUpdateState client_state client_state consensus_state string string consensus_state
  | CheckMisbehaviourAndUpdateState client_state misbehaviour consensus_state consensus_state
  | CheckSubstituteAndUpdateState client_state client_state consensus_state height
  | ZeroCustomFields client_state

datatype query_msg =
    VerifyClientState client_state height merkle_prefix string string cosmos_client_state consensus_state
  | VerifyClientConsensusState client_state height height merkle_prefix string string
      cosmos_consensus_state consensus_state
  | VerifyConnectionState client_state height merkle_prefix string string connection_end consensus_state
  | VerifyChannelState client_state height merkle_prefix string string string channel consensus_state
  | VerifyPacketCommitment client_state height merkle_prefix string string string u64 u64 u64 string
      consensus_state
  | VerifyPacketAcknowledgement client_state height merkle_prefix string string string u64 u64 u64 string
      consensus_state
  | VerifyPacketReceiptAbsence client_state height merkle_prefix string string string u64 u64 u64
      consensus_state
  | VerifyNextSequenceRecv client_state height merkle_prefix string string string u64 u64 u64
      consensus_state
  | QueryStatus client_state consensus_state
  | ProcessedTime height

section \<open>Types of the host\<close>

text \<open>
  \<^verbatim>\<open>cosmwasm_std::StdError\<close>, with the literal text of the messages the contract writes. Values
  interpolated into a message, which are only ever printed, are left out, as are the texts
  of the errors of other crates.
\<close>

datatype std_error =
    GenericErr string
  | ForeignErr
  | ParseErr string
  | SerializeErr
  | NotFound string

record env =
  block_height :: u64
  block_time :: u64

text \<open>\<^verbatim>\<open>HandleResponse\<close>; no handler sends messages, so their type is left abstract.\<close>

typedecl cosmos_msg

record handle_response =
  messages :: "cosmos_msg list"
  attributes :: "(string \<times> string) list"
  response_data :: "bytes option"

record init_response =
  init_messages :: "cosmos_msg list"
  init_attributes :: "(string \<times> string) list"

end
