(* ===== verification/Contract_Crates.thy ===== *)
theory Contract_Crates
  imports Contract_Types
begin

text \<open>
  What the contract calls outside the repository, as an extension of the record \<open>crates\<close>:
  the host's key-value store behind \<^verbatim>\<open>cosmwasm_std::Storage\<close>, \<^verbatim>\<open>base64\<close>, the JSON functions
  of \<^verbatim>\<open>cosmwasm_std\<close>, \<^verbatim>\<open>byteorder\<close>, the codecs derived for \<^verbatim>\<open>LightClientState\<close> (\<^verbatim>\<open>rlp_derive\<close>)
  and \<^verbatim>\<open>PartialConsensusState\<close> (\<^verbatim>\<open>prost\<close>), \<^verbatim>\<open>ics23\<close>, and the identifiers and paths of \<^verbatim>\<open>ibc\<close>.
  The locales state the documented behaviour the contract relies on; \<open>Ref_Contract\<close>
  interprets them.
\<close>

record ('pk, 'sig, 'ep, 'sp, 'st) contract_crates = "('pk, 'sig) crates" +
  \<comment> \<open>\<^verbatim>\<open>Storage::get\<close> and \<^verbatim>\<open>Storage::set\<close>\<close>
  storage_get :: "'st \<Rightarrow> bytes \<Rightarrow> bytes option"
  storage_set :: "'st \<Rightarrow> bytes \<Rightarrow> bytes \<Rightarrow> 'st"
  \<comment> \<open>\<^verbatim>\<open>base64::decode\<close>, \<^verbatim>\<open>base64::encode\<close> and \<^verbatim>\<open>BigEndian::write_u64\<close>\<close>
  base64_decode :: "string \<Rightarrow> bytes option"
  base64_encode :: "bytes \<Rightarrow> string"
  write_u64_be :: "u64 \<Rightarrow> bytes"
  \<comment> \<open>\<^verbatim>\<open>to_vec\<close>, and \<^verbatim>\<open>from_slice\<close> at the three types it is used at\<close>
  to_vec :: "document \<Rightarrow> (bytes, std_error) result"
  height_from_slice :: "bytes \<Rightarrow> (height, std_error) result"
  u64_from_slice :: "bytes \<Rightarrow> (u64, std_error) result"
  merkle_proof_from_slice :: "bytes \<Rightarrow> ('ep merkle_proof, std_error) result"
  \<comment> \<open>derived codecs\<close>
  light_client_state_encode :: "light_client_state \<Rightarrow> bytes"
  light_client_state_decode :: "bytes \<Rightarrow> (light_client_state, decoder_error) result"
  partial_consensus_state_decode :: "bytes \<Rightarrow> partial_consensus_state option"
  \<comment> \<open>\<^verbatim>\<open>ics23\<close>\<close>
  iavl_spec :: 'sp
  tendermint_spec :: 'sp
  calculate_existence_root :: "'ep \<Rightarrow> bytes option"
  ics23_verify_membership :: "'ep commitment_proof \<Rightarrow> 'sp \<Rightarrow> bytes \<Rightarrow> bytes \<Rightarrow> bytes \<Rightarrow> bool"
  ics23_verify_non_membership :: "'ep commitment_proof \<Rightarrow> 'sp \<Rightarrow> bytes \<Rightarrow> bytes \<Rightarrow> bool"
  \<comment> \<open>\<^verbatim>\<open>from_str\<close> of the identifiers, which yields the identifier's text, and \<^verbatim>\<open>Path::to_string\<close>\<close>
  client_id_from_str :: "string \<Rightarrow> string option"
  connection_id_from_str :: "string \<Rightarrow> string option"
  port_id_from_str :: "string \<Rightarrow> string option"
  channel_id_from_str :: "string \<Rightarrow> string option"
  path_to_string :: "ics_path \<Rightarrow> string"

section \<open>Documented behaviour the contract relies on\<close>

text \<open>A key-value store: \<^verbatim>\<open>get\<close> sees the last \<^verbatim>\<open>set\<close> of its key.\<close>

locale kv_store =
  fixes L :: "('pk, 'sig, 'ep, 'sp, 'st, 'z) contract_crates_scheme"
  assumes storage_get_set: "storage_get L (storage_set L st k v) k' =
      (if k' = k then Some v else storage_get L st k')"

locale base64_crate =
  fixes L :: "('pk, 'sig, 'ep, 'sp, 'st, 'z) contract_crates_scheme"
  assumes base64_decode_encode: "base64_decode L (base64_encode L b) = Some b"

text \<open>
  JSON: a value written is read back at its type (a result struct by the Go side, so its
  text determines it), and a byte vector is written as an array of numbers, which takes
  more bytes than it holds.
\<close>

locale json_crate =
  fixes L :: "('pk, 'sig, 'ep, 'sp, 'st, 'z) contract_crates_scheme"
  assumes height_from_to: "to_vec L (HeightDoc h) = Ok b \<Longrightarrow> height_from_slice L b = Ok h"
    and u64_from_to: "to_vec L (U64Doc n) = Ok b \<Longrightarrow> u64_from_slice L b = Ok n"
    and to_vec_bytes_longer: "to_vec L (BytesDoc bs) = Ok b \<Longrightarrow> length bs < length b"
    and update_result_inject: "to_vec L (CheckHeaderAndUpdateStateResult c s r) = Ok d \<Longrightarrow>
      to_vec L (CheckHeaderAndUpdateStateResult c' s' r') = Ok d \<Longrightarrow> c = c' \<and> s = s' \<and> r = r'"

text \<open>The RLP layout \<^verbatim>\<open>rlp_derive\<close> gives \<^verbatim>\<open>LightClientState\<close>: its fields in order.\<close>

definition light_client_state_item :: "light_client_state \<Rightarrow> rlp_item" where
  "light_client_state_item c = RList
     [RNum (lc_epoch_size c), RNum (lc_allowed_clock_skew c), RNum (trusting_period c),
      RList (map (\<lambda>s. RStr (as_bytes s)) (upgrade_path c)),
      bool_item (lc_verify_epoch_headers c), bool_item (lc_verify_non_epoch_headers c),
      bool_item (lc_verify_header_timestamp c),
      bool_item (allow_update_after_misbehavior c), bool_item (allow_update_after_expiry c)]"

locale derived_codec =
  fixes L :: "('pk, 'sig, 'ep, 'sp, 'st, 'z) contract_crates_scheme"
  assumes light_client_state_decode_encode: "rlp_fits (light_client_state_item c) \<Longrightarrow>
      light_client_state_decode L (light_client_state_encode L c) = Ok c"

locale byteorder_crate =
  fixes L :: "('pk, 'sig, 'ep, 'sp, 'st, 'z) contract_crates_scheme"
  assumes write_u64_value: "be_value (write_u64_be L n) = unat n"
    and write_u64_length: "length (write_u64_be L n) = 8"

locale contract_host = library_crates L + kv_store L + base64_crate L + json_crate L +
    derived_codec L + byteorder_crate L
  for L :: "('pk, 'sig, 'ep, 'sp, 'st, 'z) contract_crates_scheme"

end
