(* ===== verification/Ref_Contract.thy ===== *)
theory Ref_Contract
  imports Contract_Crates Ref_Crates
begin

text \<open>
  A concrete value of the record \<open>contract_crates\<close>, for the witnesses, and the interpretation
  of the locales of \<open>Contract_Crates\<close> on it. The store is a map, big-endian numbers and the RLP
  layout are the real formats; the text codecs, the proofs (a pair of a key and a value, whose
  root is the stand-in digest of both) and the identifiers are stand-ins.
\<close>

primrec be_fixed :: "nat \<Rightarrow> nat \<Rightarrow> bytes" where
  "be_fixed 0 n = []"
| "be_fixed (Suc k) n = be_fixed k (n div 256) @ [of_nat n]"

lemma length_be_fixed [simp]: "length (be_fixed k n) = k"
  by (induction k arbitrary: n) simp_all

lemma be_value_fixed: "be_value (be_fixed k n) = n mod 256 ^ k"
proof (induction k arbitrary: n)
  case 0
  then show ?case by (simp add: be_value_def)
next
  case (Suc k)
  have "be_value (be_fixed (Suc k) n) = be_value (be_fixed k (n div 256)) * 256 + n mod 256"
    by (simp add: be_value_snoc unat_of_nat take_bit_eq_mod)
  also have "\<dots> = n mod 256 ^ Suc k"
    by (simp add: Suc.IH mod_mult2_eq)
  finally show ?case .
qed

definition height_text :: "height \<Rightarrow> string" where
  "height_text h = dec_string (unat (revision_number h)) @ ''-'' @ dec_string (unat (revision_height h))"

definition ref_height_from_slice :: "bytes \<Rightarrow> (height, std_error) result" where
  "ref_height_from_slice b =
     (let s = chars_of b; n = takeWhile is_digit s
      in Ok (Height (of_nat (dec_value n)) (of_nat (dec_value (drop (Suc (length n)) s)))))"

text \<open>
  The update result is written as a sequence of self-delimiting fields: strings with their
  length in front, numbers with a terminator.
\<close>

definition num_text :: "nat \<Rightarrow> string" where
  "num_text n = dec_string n @ '';''"

definition str_text :: "string \<Rightarrow> string" where
  "str_text s = num_text (length s) @ s"

definition bool_text :: "bool \<Rightarrow> string" where
  "bool_text b = (if b then ''T'' else ''F'')"

definition height_option_text :: "height option \<Rightarrow> string" where
  "height_option_text x = (case x of None \<Rightarrow> ''N''
     | Some h \<Rightarrow> ''S'' @ num_text (unat (revision_number h)) @ num_text (unat (revision_height h)))"

definition client_state_text :: "client_state \<Rightarrow> string" where
  "client_state_text c = str_text (cl_data c) @ str_text (cl_code_id c) @ bool_text (frozen c) @
     height_option_text (frozen_height c) @ height_option_text (latest_height c)"

definition consensus_state_text :: "consensus_state \<Rightarrow> string" where
  "consensus_state_text c = str_text (cs_code_id c) @ str_text (cs_data c) @
     num_text (unat (cs_timestamp c)) @ str_text (root_hash (cs_root c))"

lemma num_text_append: "num_text m @ s = num_text n @ t \<longleftrightarrow> m = n \<and> s = t"
proof -
  have "\<not> is_digit CHR '';''" by (simp add: is_digit_def)
  from dec_string_append_split [OF this this, of m s n t] show ?thesis
    by (auto simp: num_text_def)
qed

lemma str_text_append: "str_text a @ s = str_text b @ t \<longleftrightarrow> a = b \<and> s = t"
  by (auto simp: str_text_def num_text_append)

lemma bool_text_append: "bool_text a @ s = bool_text b @ t \<longleftrightarrow> a = b \<and> s = t"
  by (auto simp: bool_text_def)

lemma height_option_text_append:
  "height_option_text a @ s = height_option_text b @ t \<longleftrightarrow> a = b \<and> s = t"
  by (cases a; cases b)
    (auto simp: height_option_text_def num_text_append word_unat_eq_iff height.expand)

lemmas text_appends = num_text_append str_text_append bool_text_append height_option_text_append

lemma client_state_text_append:
  "client_state_text a @ s = client_state_text b @ t \<longleftrightarrow> a = b \<and> s = t"
  by (cases a; cases b) (auto simp: client_state_text_def text_appends)

lemma consensus_state_text_append:
  "consensus_state_text a @ s = consensus_state_text b @ t \<longleftrightarrow> a = b \<and> s = t"
  by (cases a; cases b; cases "cs_root a"; cases "cs_root b")
    (auto simp: consensus_state_text_def text_appends word_unat_eq_iff)

fun ref_to_vec :: "document \<Rightarrow> (bytes, std_error) result" where
  "ref_to_vec (HeightDoc h) = Ok (as_bytes (height_text h))"
| "ref_to_vec (U64Doc n) = Ok (as_bytes (dec_string (unat n)))"
| "ref_to_vec (BytesDoc bs) =
     Ok (as_bytes (''['' @ concat (map (\<lambda>b. dec_string (unat b) @ '','') bs) @ '']''))"
| "ref_to_vec (CheckHeaderAndUpdateStateResult c s r) = Ok (as_bytes
     (client_state_text c @ consensus_state_text s @ bool_text (is_valid r) @ err_msg r))"
| "ref_to_vec _ = Ok (as_bytes ''null'')"

definition ref_light_client_state_decode :: "bytes \<Rightarrow> (light_client_state, decoder_error) result" where
  "ref_light_client_state_decode b =
     (let u = (\<lambda>i. and_then (ref_at b i) ref_as_u64);
          f = (\<lambda>i. and_then (and_then (ref_at b i) ref_value) (\<lambda>v. Ok (v = [1])))
      in
      and_then (u 0) (\<lambda>es. and_then (u 1) (\<lambda>sk. and_then (u 2) (\<lambda>tp.
      and_then (and_then (ref_at b 3) (\<lambda>l. collect (\<lambda>r. map_err id (and_then (ref_value r)
        (\<lambda>v. Ok (chars_of v)))) (ref_iter l))) (\<lambda>up.
      and_then (f 4) (\<lambda>ve. and_then (f 5) (\<lambda>vn. and_then (f 6) (\<lambda>vt.
      and_then (f 7) (\<lambda>am. and_then (f 8) (\<lambda>ax.
        Ok \<lparr>lc_epoch_size = es, lc_allowed_clock_skew = sk, trusting_period = tp, upgrade_path = up,
            lc_verify_epoch_headers = ve, lc_verify_non_epoch_headers = vn,
            lc_verify_header_timestamp = vt, allow_update_after_misbehavior = am,
            allow_update_after_expiry = ax\<rparr>))))))))))"

fun ref_proofs :: "bytes \<Rightarrow> (bytes \<times> bytes) commitment_proof list" where
  "ref_proofs [] = []"
| "ref_proofs (n # bs) = [Exist (take (unat n) bs, drop (unat n) bs)]"

fun ref_path :: "ics_path \<Rightarrow> string" where
  "ref_path (ClientStatePath c) = ''clients/'' @ c @ ''/clientState''"
| "ref_path (ClientConsensusStatePath c e h) = ''clients/'' @ c @ ''/consensusStates/'' @
     dec_string (unat e) @ ''-'' @ dec_string (unat h)"
| "ref_path (ConnectionsPath c) = ''connections/'' @ c"
| "ref_path (ChannelEndsPath p c) = ''channelEnds/ports/'' @ p @ ''/channels/'' @ c"
| "ref_path (CommitmentsPath p c s) = ''commitments/ports/'' @ p @ ''/channels/'' @ c @
     ''/sequences/'' @ dec_string (unat s)"
| "ref_path (AcksPath p c s) = ''acks/ports/'' @ p @ ''/channels/'' @ c @
     ''/sequences/'' @ dec_string (unat s)"
| "ref_path (ReceiptsPath p c s) = ''receipts/ports/'' @ p @ ''/channels/'' @ c @
     ''/sequences/'' @ dec_string (unat s)"
| "ref_path (SeqRecvsPath p c) = ''nextSequenceRecv/ports/'' @ p @ ''/channels/'' @ c"
| "ref_path (UpgradePath (UpgradedClientState h)) = ''upgradedIBCState/'' @ dec_string (unat h) @
     ''/upgradedClient''"
| "ref_path (UpgradePath (UpgradedClientConsensusState h)) = ''upgradedIBCState/'' @
     dec_string (unat h) @ ''/upgradedConsState''"

definition ref_identifier :: "string \<Rightarrow> string option" where
  "ref_identifier s = (if s = '''' then None else Some s)"

definition ref_contract ::
    "(bytes list, bytes, bytes \<times> bytes, nat, bytes \<rightharpoonup> bytes) contract_crates" where
  "ref_contract =
     \<lparr>bi_bits = bi_bits ref_crates, bi_bit = bi_bit ref_crates, bi_is_zero = bi_is_zero ref_crates,
      bi_to_u64 = bi_to_u64 ref_crates, bi_from_bytes_be = bi_from_bytes_be ref_crates,
      bi_to_bytes_be = bi_to_bytes_be ref_crates, rlp_out = rlp_out ref_crates,
      rlp_at = rlp_at ref_crates, rlp_iter = rlp_iter ref_crates, rlp_value = rlp_value ref_crates,
      rlp_as_vec = rlp_as_vec ref_crates, rlp_as_u64 = rlp_as_u64 ref_crates,
      keccak256 = keccak256 ref_crates, pk_deserialize = pk_deserialize ref_crates,
      sig_deserialize = sig_deserialize ref_crates, pk_aggregate = pk_aggregate ref_crates,
      pk_verify = pk_verify ref_crates,
      storage_get = (\<lambda>st. st),
      storage_set = (\<lambda>st k v. st(k \<mapsto> v)),
      base64_decode = (\<lambda>s. Some (as_bytes s)),
      base64_encode = chars_of,
      write_u64_be = (\<lambda>n. be_fixed 8 (unat n)),
      to_vec = ref_to_vec,
      height_from_slice = ref_height_from_slice,
      u64_from_slice = (\<lambda>b. Ok (of_nat (dec_value (chars_of b)))),
      merkle_proof_from_slice = (\<lambda>b. Ok \<lparr>proofs = ref_proofs b\<rparr>),
      light_client_state_encode = (\<lambda>c. ref_enc (light_client_state_item c)),
      light_client_state_decode = ref_light_client_state_decode,
      partial_consensus_state_decode = (\<lambda>b. Some \<lparr>pcs_code_id = [], pcs_data = b\<rparr>),
      iavl_spec = 0,
      tendermint_spec = 1,
      calculate_existence_root = (\<lambda>(k, v). Some (ref_digest (k @ v))),
      ics23_verify_membership = (\<lambda>p _ root key value.
        p = Exist (key, value) \<and> root = ref_digest (key @ value)),
      ics23_verify_non_membership = (\<lambda>p _ root key. p = Nonexist (key, root)),
      client_id_from_str = ref_identifier,
      connection_id_from_str = ref_identifier,
      port_id_from_str = ref_identifier,
      channel_id_from_str = ref_identifier,
      path_to_string = ref_path\<rparr>"

section \<open>The laws hold\<close>

lemma ref_contract_crates:
  "bi_bits ref_contract = bi_bits ref_crates" "bi_bit ref_contract = bi_bit ref_crates"
  "bi_is_zero ref_contract = bi_is_zero ref_crates" "bi_to_u64 ref_contract = bi_to_u64 ref_crates"
  "bi_from_bytes_be ref_contract = bi_from_bytes_be ref_crates"
  "bi_to_bytes_be ref_contract = bi_to_bytes_be ref_crates"
  "rlp_out ref_contract = rlp_out ref_crates" "rlp_at ref_contract = rlp_at ref_crates"
  "rlp_iter ref_contract = rlp_iter ref_crates" "rlp_value ref_contract = rlp_value ref_crates"
  "rlp_as_vec ref_contract = rlp_as_vec ref_crates" "rlp_as_u64 ref_contract = rlp_as_u64 ref_crates"
  "keccak256 ref_contract = keccak256 ref_crates"
  "pk_deserialize ref_contract = pk_deserialize ref_crates"
  "sig_deserialize ref_contract = sig_deserialize ref_crates"
  "pk_aggregate ref_contract = pk_aggregate ref_crates" "pk_verify ref_contract = pk_verify ref_crates"
  by (simp_all add: ref_contract_def)

lemma rlp_enc_ref_contract: "rlp_enc ref_contract t = rlp_enc ref_crates t"
  by (simp add: rlp_enc_def ref_contract_crates)

lemma ref_contract_simps [simp]:
  "storage_get ref_contract st = st"
  "storage_set ref_contract st k v = st(k \<mapsto> v)"
  "base64_decode ref_contract s = Some (as_bytes s)"
  "base64_encode ref_contract = chars_of"
  "write_u64_be ref_contract n = be_fixed 8 (unat n)"
  "to_vec ref_contract = ref_to_vec"
  "height_from_slice ref_contract = ref_height_from_slice"
  "u64_from_slice ref_contract b = Ok (of_nat (dec_value (chars_of b)))"
  "merkle_proof_from_slice ref_contract b = Ok \<lparr>proofs = ref_proofs b\<rparr>"
  "light_client_state_encode ref_contract c = ref_enc (light_client_state_item c)"
  "light_client_state_decode ref_contract = ref_light_client_state_decode"
  "partial_consensus_state_decode ref_contract b = Some \<lparr>pcs_code_id = [], pcs_data = b\<rparr>"
  "calculate_existence_root ref_contract (k, v) = Some (ref_digest (k @ v))"
  "ics23_verify_membership ref_contract p sp rt key value \<longleftrightarrow>
     p = Exist (key, value) \<and> rt = ref_digest (key @ value)"
  "ics23_verify_non_membership ref_contract p sp rt key \<longleftrightarrow> p = Nonexist (key, rt)"
  "client_id_from_str ref_contract = ref_identifier"
  "connection_id_from_str ref_contract = ref_identifier"
  "port_id_from_str ref_contract = ref_identifier"
  "channel_id_from_str ref_contract = ref_identifier"
  "path_to_string ref_contract = ref_path"
  by (simp_all add: ref_contract_def)

lemma ref_height_roundtrip: "ref_height_from_slice (as_bytes (height_text h)) = Ok h"
proof -
  let ?n = "dec_string (unat (revision_number h))" and ?m = "dec_string (unat (revision_height h))"
  have "takeWhile is_digit (?n @ CHR ''-'' # ?m) = ?n"
    using dec_string_digits by (simp add: takeWhile_append is_digit_def)
  then show ?thesis by (simp add: ref_height_from_slice_def height_text_def)
qed

lemma ref_bytes_longer:
  "length bs < length (''['' @ concat (map (\<lambda>b. dec_string (unat b) @ '','') bs) @ '']'')"
  by (induction bs) simp_all

lemma ref_update_result_inject:
  "ref_to_vec (CheckHeaderAndUpdateStateResult c s r) = Ok d \<Longrightarrow>
   ref_to_vec (CheckHeaderAndUpdateStateResult c' s' r') = Ok d \<Longrightarrow> c = c' \<and> s = s' \<and> r = r'"
  by (drule sym, cases r; cases r')
    (auto simp: client_state_text_append consensus_state_text_append bool_text_append)

lemma ref_light_client_state_roundtrip:
  assumes "rlp_fits (light_client_state_item c)"
  shows "ref_light_client_state_decode (ref_enc (light_client_state_item c)) = Ok c"
proof -
  note item = assms [unfolded light_client_state_item_def]
  have at: "ref_at (ref_enc (RList ts)) i = Ok (ref_enc (ts ! i))"
    if "rlp_fits (RList ts)" "i < length ts" for ts i
    using ref.at_list [OF that] by simp
  have up: "rlp_fits (RList (map (\<lambda>s. RStr (as_bytes s)) (upgrade_path c)))"
    using item by (auto intro: rlp_fits_member)
  have strs: "rlp_fits (RStr (as_bytes s))" if "s \<in> set (upgrade_path c)" for s
    using up that by (auto intro: rlp_fits_member)
  have "collect (\<lambda>r. map_err id (and_then (ref_value r) (\<lambda>v. Ok (chars_of v))))
      (map (\<lambda>s. ref_enc (RStr (as_bytes s))) (upgrade_path c)) = Ok (map (\<lambda>s. s) (upgrade_path c))"
    using ref.value_str [OF strs] by (intro collect_map_Ok) simp
  moreover have "ref_value (ref_enc (bool_item b)) = Ok [if b then 1 else 0]" for b
    using ref.value_str [of "[if b then 1 else 0]"]
    by (simp add: bool_item_def rlp_fits_def usize_bits_def)
  moreover have "ref_as_u64 (ref_enc (RNum n)) = Ok n" for n
    using ref.as_u64_num [of n] by simp
  ultimately show ?thesis
    using ref.iter_list [OF up] at [OF item] unfolding light_client_state_item_def
    by (simp add: ref_light_client_state_decode_def Let_def comp_def del: ref_enc.simps)
qed

interpretation contract: contract_host ref_contract
proof (intro contract_host.intro library_crates.intro)
  show "num_bigint ref_contract"
    using ref_num_bigint by (simp add: num_bigint_def ref_contract_crates)
  show "rlp_crate ref_contract"
    using ref_rlp_crate
    by (simp add: rlp_crate_def ref_contract_crates rlp_enc_ref_contract del: ref_crates_simps rlp_enc_ref)
  show "keccak_crate ref_contract"
    using ref_keccak_crate by (simp add: keccak_crate_def ref_contract_crates)
  show "kv_store ref_contract"
    by unfold_locales simp
  show "base64_crate ref_contract"
    by unfold_locales simp
  show "json_crate ref_contract"
  proof
    show "c = c' \<and> s = s' \<and> r = r'"
      if "to_vec ref_contract (CheckHeaderAndUpdateStateResult c s r) = Ok d"
        and "to_vec ref_contract (CheckHeaderAndUpdateStateResult c' s' r') = Ok d"
      for c s r c' s' r' d
      using that unfolding ref_contract_simps by (rule ref_update_result_inject)
  qed (use ref_bytes_longer in \<open>auto simp: ref_height_roundtrip\<close>)
  show "derived_codec ref_contract"
    by unfold_locales (simp add: ref_light_client_state_roundtrip)
  show "byteorder_crate ref_contract"
    using unat_u64_lt by unfold_locales (simp_all add: be_value_fixed)
qed

lemma sample_host: "contract_host ref_contract"
  by (rule contract.contract_host_axioms)

end
