(* ===== verification/Contract_Util.thy ===== *)
theory Contract_Util
  imports Ref_Contract
begin

text \<open>
  \<^verbatim>\<open>src/contract/util.rs\<close>, \<^verbatim>\<open>src/contract/serialization.rs\<close> and the codec of
  \<^verbatim>\<open>src/contract/types/state.rs\<close>: responses, and decoding of the base64 fields of messages.
\<close>

section \<open>util.rs\<close>

definition u64_to_big_endian :: "('pk, 'sig, 'ep, 'sp, 'st, 'z) contract_crates_scheme \<Rightarrow> u64 \<Rightarrow> bytes" where
  "u64_to_big_endian L value = write_u64_be L value"

definition wrap_response ::
    "('pk, 'sig, 'ep, 'sp, 'st, 'z) contract_crates_scheme \<Rightarrow> document \<Rightarrow> string \<Rightarrow>
     (handle_response, std_error) result" where
  "wrap_response L res action =
     and_then (to_vec L res) (\<lambda>data.
       Ok \<lparr>messages = [], attributes = [(''action'', action)], response_data = Some data\<rparr>)"

definition to_generic_err :: "'e \<Rightarrow> std_error" where
  "to_generic_err err = ForeignErr"

definition to_binary :: "handle_response \<Rightarrow> (bytes, std_error) result" where
  "to_binary t = unwrap (response_data t)"

section \<open>serialization.rs\<close>

definition from_base64 ::
    "('pk, 'sig, 'ep, 'sp, 'st, 'z) contract_crates_scheme \<Rightarrow> string \<Rightarrow> string \<Rightarrow>
     (bytes, std_error) result" where
  "from_base64 L base64_data target_type = ok_or (base64_decode L base64_data) (ParseErr target_type)"

definition from_base64_rlp ::
    "('pk, 'sig, 'ep, 'sp, 'st, 'z) contract_crates_scheme \<Rightarrow> (bytes \<Rightarrow> ('a, kind) result) \<Rightarrow>
     string \<Rightarrow> string \<Rightarrow> ('a, std_error) result" where
  "from_base64_rlp L from_rlp base64_data target_type =
     and_then (from_base64 L base64_data target_type) (\<lambda>bs.
       map_err (\<lambda>_. ParseErr target_type) (from_rlp bs))"

definition from_base64_json_slice ::
    "('pk, 'sig, 'ep, 'sp, 'st, 'z) contract_crates_scheme \<Rightarrow> (bytes \<Rightarrow> ('a, std_error) result) \<Rightarrow>
     string \<Rightarrow> string \<Rightarrow> ('a, std_error) result" where
  "from_base64_json_slice L from_slice base64_data target_type =
     and_then (from_base64 L base64_data target_type) (\<lambda>bs.
       map_err (\<lambda>_. ParseErr target_type) (from_slice bs))"

definition must_deserialize ::
    "(bytes \<Rightarrow> ('a, std_error) result) \<Rightarrow> string \<Rightarrow> bytes option \<Rightarrow> ('a, std_error) result" where
  "must_deserialize from_slice type_name value =
     (case value of Some vec \<Rightarrow> from_slice vec | None \<Rightarrow> Err (NotFound type_name))"

section \<open>types/state.rs\<close>

definition light_client_state_to_rlp ::
    "('pk, 'sig, 'ep, 'sp, 'st, 'z) contract_crates_scheme \<Rightarrow> light_client_state \<Rightarrow> bytes" where
  "light_client_state_to_rlp L c = light_client_state_encode L c"

definition light_client_state_from_rlp ::
    "('pk, 'sig, 'ep, 'sp, 'st, 'z) contract_crates_scheme \<Rightarrow> bytes \<Rightarrow> (light_client_state, kind) result" where
  "light_client_state_from_rlp L bs =
     (case light_client_state_decode L bs of
        Ok config \<Rightarrow> Ok config
      | Err e \<Rightarrow> Err RlpDecodeError
      | Panic \<Rightarrow> Panic)"

text \<open>The three message fields decoded all over the handlers.\<close>

abbreviation header_field where
  "header_field L \<equiv> from_base64_rlp L (header_from_rlp L)"

abbreviation light_consensus_state_field where
  "light_consensus_state_field L \<equiv> from_base64_rlp L (snapshot_from_rlp L)"

abbreviation light_client_state_field where
  "light_client_state_field L \<equiv> from_base64_rlp L (light_client_state_from_rlp L)"

section \<open>Facts\<close>

lemma wrap_response_Ok [result_iff]:
  "wrap_response L d action = Ok r \<longleftrightarrow> (\<exists>b. to_vec L d = Ok b \<and>
     r = \<lparr>messages = [], attributes = [(''action'', action)], response_data = Some b\<rparr>)"
  by (auto simp: wrap_response_def result_iff)

lemma from_base64_Ok [result_iff]: "from_base64 L s t = Ok b \<longleftrightarrow> base64_decode L s = Some b"
  by (auto simp: from_base64_def result_iff)

lemma from_base64_rlp_Ok [result_iff]:
  "from_base64_rlp L f s t = Ok x \<longleftrightarrow> (\<exists>b. base64_decode L s = Some b \<and> f b = Ok x)"
  by (auto simp: from_base64_rlp_def result_iff)

lemma from_base64_json_slice_Ok [result_iff]:
  "from_base64_json_slice L f s t = Ok x \<longleftrightarrow> (\<exists>b. base64_decode L s = Some b \<and> f b = Ok x)"
  by (auto simp: from_base64_json_slice_def result_iff)

lemma light_client_state_from_rlp_eq:
  "light_client_state_from_rlp L bs = map_err (\<lambda>_. RlpDecodeError) (light_client_state_decode L bs)"
  by (simp add: light_client_state_from_rlp_def map_err_def)

context contract_host
begin

lemma light_client_state_field_encode:
  "rlp_fits (light_client_state_item c) \<Longrightarrow>
     light_client_state_field L (base64_encode L (light_client_state_to_rlp L c)) t = Ok c"
  by (simp add: from_base64_rlp_Ok base64_decode_encode light_client_state_from_rlp_eq
      light_client_state_to_rlp_def light_client_state_decode_encode)

lemma light_consensus_state_field_encode:
  "wf_snapshot s \<Longrightarrow> rlp_fits (snapshot_item L s) \<Longrightarrow>
     light_consensus_state_field L (base64_encode L (snapshot_to_rlp L s)) t = Ok s"
  by (simp add: from_base64_rlp_Ok base64_decode_encode snapshot_from_to)

end

sublocale contract_host \<subseteq> light_client_state: wire_codec "light_client_state_to_rlp L"
  "light_client_state_from_rlp L" "\<lambda>c. rlp_fits (light_client_state_item c)"
  by unfold_locales
    (simp add: light_client_state_from_rlp_eq light_client_state_to_rlp_def
      light_client_state_decode_encode)

end
