(* ===== verification/Contract_Store.thy ===== *)
theory Contract_Store
  imports Contract_Util
begin

text \<open>
  \<^verbatim>\<open>src/contract/store.rs\<close>: the contract's view of the client store. Keys are printed paths
  with decimal heights; two keys agree only if their prefix, height and kind do. The store
  is threaded through the writing operations.
\<close>

definition SUBJECT_PREFIX :: string where "SUBJECT_PREFIX = ''subject/''"
definition SUBSTITUTE_PREFIX :: string where "SUBSTITUTE_PREFIX = ''substitute/''"
definition EMPTY_PREFIX :: string where "EMPTY_PREFIX = ''''"

section \<open>Keys\<close>

definition processed_height_key :: "string \<Rightarrow> height \<Rightarrow> bytes" where
  "processed_height_key prefix height = as_bytes
     (prefix @ ''consensusStates/'' @ dec_string (unat (revision_number height)) @ ''-'' @
      dec_string (unat (revision_height height)) @ ''/processedHeight'')"

definition processed_time_key :: "string \<Rightarrow> height \<Rightarrow> bytes" where
  "processed_time_key prefix height = as_bytes
     (prefix @ ''consensusStates/'' @ dec_string (unat (revision_number height)) @ ''-'' @
      dec_string (unat (revision_height height)) @ ''/processedTime'')"

definition consensus_state_key :: "string \<Rightarrow> height \<Rightarrow> bytes" where
  "consensus_state_key prefix height = as_bytes
     (prefix @ ''consensusStates/'' @ dec_string (unat (revision_number height)) @ ''-'' @
      dec_string (unat (revision_height height)))"

section \<open>Operations\<close>

definition get_self_height :: "u64 \<Rightarrow> height" where
  "get_self_height n = Height 0 n"

definition set_processed_height ::
    "('pk, 'sig, 'ep, 'sp, 'st, 'z) contract_crates_scheme \<Rightarrow> 'st \<Rightarrow> string \<Rightarrow> height \<Rightarrow> height \<Rightarrow>
     (unit, std_error) result \<times> 'st" where
  "set_processed_height L storage prefix consensus_height processed_height =
     (let key = processed_height_key prefix consensus_height in
      try_state (to_vec L (HeightDoc processed_height)) storage (\<lambda>v.
        (Ok (), storage_set L storage key v)))"

definition get_processed_height ::
    "('pk, 'sig, 'ep, 'sp, 'st, 'z) contract_crates_scheme \<Rightarrow> 'st \<Rightarrow> string \<Rightarrow> height \<Rightarrow>
     (height, std_error) result" where
  "get_processed_height L storage prefix height =
     must_deserialize (height_from_slice L) ''Height''
       (storage_get L storage (processed_height_key prefix height))"

definition set_processed_time ::
    "('pk, 'sig, 'ep, 'sp, 'st, 'z) contract_crates_scheme \<Rightarrow> 'st \<Rightarrow> string \<Rightarrow> height \<Rightarrow> u64 \<Rightarrow>
     (unit, std_error) result \<times> 'st" where
  "set_processed_time L storage prefix height t =
     (let key = processed_time_key prefix height in
      try_state (to_vec L (U64Doc t)) storage (\<lambda>v.
        (Ok (), storage_set L storage key v)))"

definition get_processed_time ::
    "('pk, 'sig, 'ep, 'sp, 'st, 'z) contract_crates_scheme \<Rightarrow> 'st \<Rightarrow> string \<Rightarrow> height \<Rightarrow>
     (u64, std_error) result" where
  "get_processed_time L storage prefix height =
     must_deserialize (u64_from_slice L) ''u64''
       (storage_get L storage (processed_time_key prefix height))"

definition set_consensus_meta ::
    "('pk, 'sig, 'ep, 'sp, 'st, 'z) contract_crates_scheme \<Rightarrow> env \<Rightarrow> 'st \<Rightarrow> string \<Rightarrow> height \<Rightarrow>
     (unit, std_error) result \<times> 'st" where
  "set_consensus_meta L env storage prefix height =
     (let (r, storage) = set_processed_time L storage prefix height (block_time env) in
      try_state r storage (\<lambda>_.
      let (r, storage) =
            set_processed_height L storage prefix height (get_self_height (block_height env)) in
      try_state r storage (\<lambda>_.
        (Ok (), storage))))"

definition get_consensus_state ::
    "('pk, 'sig, 'ep, 'sp, 'st, 'z) contract_crates_scheme \<Rightarrow> 'st \<Rightarrow> string \<Rightarrow> height \<Rightarrow>
     (bytes, std_error) result" where
  "get_consensus_state L storage prefix height =
     (case storage_get L storage (consensus_state_key prefix height) of
        Some vec \<Rightarrow> Ok vec
      | None \<Rightarrow> Err (NotFound ''consensus state not found''))"

definition set_consensus_state ::
    "('pk, 'sig, 'ep, 'sp, 'st, 'z) contract_crates_scheme \<Rightarrow> 'st \<Rightarrow> string \<Rightarrow> height \<Rightarrow> bytes \<Rightarrow>
     (unit, std_error) result \<times> 'st" where
  "set_consensus_state L storage prefix height bs =
     (let key = consensus_state_key prefix height in
      try_state (to_vec L (BytesDoc bs)) storage (\<lambda>v.
        (Ok (), storage_set L storage key v)))"

section \<open>Keys are told apart\<close>

text \<open>
  The three prefixes: a key starts with its prefix, and the path that follows starts with the
  letter c, the other prefixes with the letter s and differ in the fourth letter.
\<close>

definition client_prefix :: "string \<Rightarrow> bool" where
  "client_prefix p \<longleftrightarrow> p \<in> {EMPTY_PREFIX, SUBJECT_PREFIX, SUBSTITUTE_PREFIX}"

lemma not_digit_dash: "\<not> is_digit CHR ''-''" and not_digit_slash: "\<not> is_digit CHR ''/''"
  by (simp_all add: is_digit_def)

lemma prefix_split:
  assumes "client_prefix p" and "client_prefix q"
    and "p @ ''consensusStates/'' @ s = q @ ''consensusStates/'' @ t"
  shows "p = q \<and> s = t"
  using assms by (auto simp: client_prefix_def EMPTY_PREFIX_def SUBJECT_PREFIX_def SUBSTITUTE_PREFIX_def)

text \<open>What follows the height in a key: nothing, or a slash and the kind.\<close>

definition key_suffix :: "string \<Rightarrow> bool" where
  "key_suffix s \<longleftrightarrow> s = '''' \<or> (\<exists>t. s = CHR ''/'' # t)"

lemma dec_string_suffix:
  assumes "key_suffix s" and "key_suffix t" and eq: "dec_string m @ s = dec_string n @ t"
  shows "m = n \<and> s = t"
proof -
  consider "s = ''''" "t = ''''" | u where "s = ''''" "t = CHR ''/'' # u"
    | u where "s = CHR ''/'' # u" "t = ''''" | u v where "s = CHR ''/'' # u" "t = CHR ''/'' # v"
    using assms(1,2) by (auto simp: key_suffix_def)
  then show ?thesis
  proof cases
    case 2
    then show ?thesis using eq dec_string_no_split [OF not_digit_slash, of m n u] by simp
  next
    case 3
    then show ?thesis using eq dec_string_no_split [OF not_digit_slash, of n m u] by simp
  next
    case 4
    then show ?thesis
      using eq dec_string_append_split [OF not_digit_slash not_digit_slash, of m u n v] by simp
  qed (use eq in simp)
qed

lemma path_inject:
  assumes "client_prefix p" and "client_prefix q" and "key_suffix s" and "key_suffix t"
    and "p @ ''consensusStates/'' @ dec_string (unat (revision_number h)) @ ''-'' @
         dec_string (unat (revision_height h)) @ s =
       q @ ''consensusStates/'' @ dec_string (unat (revision_number k)) @ ''-'' @
         dec_string (unat (revision_height k)) @ t"
  shows "p = q \<and> h = k \<and> s = t"
proof -
  let ?n = "\<lambda>h. dec_string (unat (revision_number h))"
    and ?m = "\<lambda>h. dec_string (unat (revision_height h))"
  from prefix_split [OF assms(1,2,5)] have pq: "p = q"
    and rest: "?n h @ CHR ''-'' # ?m h @ s = ?n k @ CHR ''-'' # ?m k @ t"
    by simp_all
  from dec_string_append_split [OF not_digit_dash not_digit_dash rest]
  have n: "revision_number h = revision_number k" and tail: "?m h @ s = ?m k @ t"
    by (simp_all add: word_unat_eq_iff)
  from dec_string_suffix [OF assms(3,4) tail] have "revision_height h = revision_height k" "s = t"
    by (simp_all add: word_unat_eq_iff)
  with pq n show ?thesis by (simp add: height.expand)
qed

lemma key_suffixes: "key_suffix ''''" "key_suffix ''/processedHeight''" "key_suffix ''/processedTime''"
  by (simp_all add: key_suffix_def)

lemma key_inject:
  assumes "client_prefix p" and "client_prefix q"
  shows "processed_height_key p h = processed_height_key q k \<longleftrightarrow> p = q \<and> h = k"
    and "processed_time_key p h = processed_time_key q k \<longleftrightarrow> p = q \<and> h = k"
    and "consensus_state_key p h = consensus_state_key q k \<longleftrightarrow> p = q \<and> h = k"
    and "processed_height_key p h \<noteq> processed_time_key q k"
    and "consensus_state_key p h \<noteq> processed_height_key q k"
    and "consensus_state_key p h \<noteq> processed_time_key q k"
proof -
  note inj = path_inject [OF assms]
  show "processed_height_key p h = processed_height_key q k \<longleftrightarrow> p = q \<and> h = k"
    using inj [OF key_suffixes(2,2)] unfolding processed_height_key_def as_bytes_inject by blast
  show "processed_time_key p h = processed_time_key q k \<longleftrightarrow> p = q \<and> h = k"
    using inj [OF key_suffixes(3,3)] unfolding processed_time_key_def as_bytes_inject by blast
  show "consensus_state_key p h = consensus_state_key q k \<longleftrightarrow> p = q \<and> h = k"
    using inj [OF key_suffixes(1,1)] unfolding consensus_state_key_def as_bytes_inject by auto
  show "processed_height_key p h \<noteq> processed_time_key q k"
    using inj [OF key_suffixes(2,3)] unfolding processed_height_key_def processed_time_key_def
      as_bytes_inject by blast
  show "consensus_state_key p h \<noteq> processed_height_key q k"
    using inj [OF key_suffixes(1,2)] unfolding processed_height_key_def consensus_state_key_def
      as_bytes_inject by auto
  show "consensus_state_key p h \<noteq> processed_time_key q k"
    using inj [OF key_suffixes(1,3)] unfolding processed_time_key_def consensus_state_key_def
      as_bytes_inject by auto
qed

lemma client_prefixes [simp]:
  "client_prefix EMPTY_PREFIX" "client_prefix SUBJECT_PREFIX" "client_prefix SUBSTITUTE_PREFIX"
  by (simp_all add: client_prefix_def)

section \<open>What is read back\<close>

lemma set_consensus_meta_Ok:
  "set_consensus_meta L env st p h = (Ok (), st') \<longleftrightarrow>
     (\<exists>t b. to_vec L (U64Doc (block_time env)) = Ok t \<and>
        to_vec L (HeightDoc (get_self_height (block_height env))) = Ok b \<and>
        st' = storage_set L (storage_set L st (processed_time_key p h) t) (processed_height_key p h) b)"
  by (auto simp: set_consensus_meta_def set_processed_time_def set_processed_height_def Let_def
      result_iff split: prod.splits)

lemma set_consensus_state_Ok:
  "set_consensus_state L st p h bs = (Ok (), st') \<longleftrightarrow>
     (\<exists>b. to_vec L (BytesDoc bs) = Ok b \<and> st' = storage_set L st (consensus_state_key p h) b)"
  by (auto simp: set_consensus_state_def Let_def result_iff)

context contract_host
begin

lemma processed_time_after_meta:
  assumes "client_prefix p" and "client_prefix q"
    and "set_consensus_meta L env st p h = (Ok (), st')"
  shows "get_processed_time L st' q k =
    (if q = p \<and> k = h then Ok (block_time env) else get_processed_time L st q k)"
proof -
  obtain t b where "to_vec L (U64Doc (block_time env)) = Ok t"
    and st': "st' = storage_set L (storage_set L st (processed_time_key p h) t) (processed_height_key p h) b"
    using assms(3) by (auto simp: set_consensus_meta_Ok)
  then have "u64_from_slice L t = Ok (block_time env)" by (elim u64_from_to)
  then show ?thesis
    using key_inject(2) [OF assms(2,1)] key_inject(4) [OF assms(1,2), symmetric]
    by (simp add: get_processed_time_def storage_get_set must_deserialize_def st')
qed

lemma processed_height_after_meta:
  assumes "client_prefix p" and "client_prefix q"
    and "set_consensus_meta L env st p h = (Ok (), st')"
  shows "get_processed_height L st' q k =
    (if q = p \<and> k = h then Ok (get_self_height (block_height env)) else get_processed_height L st q k)"
proof -
  obtain t b where "to_vec L (HeightDoc (get_self_height (block_height env))) = Ok b"
    and st': "st' = storage_set L (storage_set L st (processed_time_key p h) t) (processed_height_key p h) b"
    using assms(3) by (auto simp: set_consensus_meta_Ok)
  then have "height_from_slice L b = Ok (get_self_height (block_height env))" by (elim height_from_to)
  then show ?thesis
    using key_inject(1,4) [OF assms(2,1)]
    by (simp add: get_processed_height_def storage_get_set must_deserialize_def st')
qed

lemma consensus_state_after_meta:
  assumes "client_prefix p" and "client_prefix q"
    and "set_consensus_meta L env st p h = (Ok (), st')"
  shows "get_consensus_state L st' q k = get_consensus_state L st q k"
  using assms(3) key_inject [OF assms(2,1)]
  by (auto simp: set_consensus_meta_Ok get_consensus_state_def storage_get_set)

lemma consensus_state_after_set:
  assumes "client_prefix p" and "client_prefix q"
    and "set_consensus_state L st p h bs = (Ok (), st')"
  shows "\<exists>b. to_vec L (BytesDoc bs) = Ok b \<and>
    get_consensus_state L st' q k = (if q = p \<and> k = h then Ok b else get_consensus_state L st q k)"
  using assms(3) key_inject [OF assms(2,1)]
  by (auto simp: set_consensus_state_Ok get_consensus_state_def storage_get_set)

end

text \<open>The metadata the contract records for a height is what it reads back, for that height
  and prefix and no other: after \<^verbatim>\<open>set_consensus_meta\<close> the processed time and height are those
  of the block, every other height's metadata and every consensus state is as before. So the
  delay period of a packet is counted from the block that recorded its proof height.\<close>

theorem consensus_meta_recorded:
  assumes "contract_host L" and "client_prefix p" and "client_prefix q"
    and "set_consensus_meta L env st p h = (Ok (), st')"
  shows "get_processed_time L st' q k =
      (if q = p \<and> k = h then Ok (block_time env) else get_processed_time L st q k) \<and>
    get_processed_height L st' q k =
      (if q = p \<and> k = h then Ok (Height 0 (block_height env)) else get_processed_height L st q k) \<and>
    get_consensus_state L st' q k = get_consensus_state L st q k"
  using contract_host.processed_time_after_meta [OF assms]
    contract_host.processed_height_after_meta [OF assms]
    contract_host.consensus_state_after_meta [OF assms]
  by (simp add: get_self_height_def)

definition sample_env :: env where
  "sample_env = \<lparr>block_height = 500, block_time = 1600000000\<rparr>"

theorem consensus_meta_recorded_witness:
  "\<exists>st'. set_consensus_meta ref_contract sample_env Map.empty EMPTY_PREFIX (Height 1 17280) = (Ok (), st') \<and>
     get_processed_time ref_contract st' EMPTY_PREFIX (Height 1 17280) = Ok 1600000000 \<and>
     get_processed_time ref_contract st' SUBJECT_PREFIX (Height 1 17280) = Err (NotFound ''u64'')"
proof -
  obtain st' where set: "set_consensus_meta ref_contract sample_env Map.empty EMPTY_PREFIX
      (Height 1 17280) = (Ok (), st')"
    by (simp add: set_consensus_meta_Ok)
  note m = consensus_meta_recorded [OF sample_host client_prefixes(1) _ set]
  have "get_processed_time ref_contract st' EMPTY_PREFIX (Height 1 17280) = Ok 1600000000"
    using m [OF client_prefixes(1), of "Height 1 17280"] by (simp add: sample_env_def)
  moreover have "get_processed_time ref_contract st' SUBJECT_PREFIX (Height 1 17280) =
      Err (NotFound ''u64'')"
    using m [OF client_prefixes(2), of "Height 1 17280"]
    by (simp add: EMPTY_PREFIX_def SUBJECT_PREFIX_def get_processed_time_def must_deserialize_def)
  ultimately show ?thesis using set by blast
qed

text \<open>C28: \<^verbatim>\<open>get_consensus_state\<close> does not invert \<^verbatim>\<open>set_consensus_state\<close>: the setter writes the JSON
  text of the byte vector it is given, the getter returns the stored bytes as they are, so
  what is read is the encoding and never the consensus state that was set.\<close>

theorem set_consensus_state_stores_json:
  assumes "contract_host L" and "client_prefix p" and "set_consensus_state L st p h bs = (Ok (), st')"
  shows "\<exists>b. get_consensus_state L st' p h = Ok b \<and> to_vec L (BytesDoc bs) = Ok b \<and> b \<noteq> bs"
proof -
  obtain b where "to_vec L (BytesDoc bs) = Ok b" "get_consensus_state L st' p h = Ok b"
    using contract_host.consensus_state_after_set [OF assms(1,2,2,3), of h] by auto
  moreover have "json_crate L"
    using assms(1) by (simp add: contract_host_def)
  ultimately show ?thesis
    using json_crate.to_vec_bytes_longer [of L bs b] by auto
qed

theorem set_consensus_state_stores_json_witness:
  "\<exists>st'. set_consensus_state ref_contract Map.empty SUBJECT_PREFIX (Height 0 5) [1, 2] = (Ok (), st') \<and>
     get_consensus_state ref_contract st' SUBJECT_PREFIX (Height 0 5) \<noteq> Ok [1, 2]"
proof -
  obtain st' where "set_consensus_state ref_contract Map.empty SUBJECT_PREFIX (Height 0 5) [1, 2] =
      (Ok (), st')"
    by (simp add: set_consensus_state_Ok)
  with set_consensus_state_stores_json [OF sample_host _ this] show ?thesis by auto
qed

section \<open>The metadata store as an interface\<close>

text \<open>
  What the packet queries rely on: a store in which each recording of a height's metadata
  replaces what was recorded for that height and leaves the other heights alone.
\<close>

fun record_all ::
    "(env \<Rightarrow> 'st \<Rightarrow> height \<Rightarrow> (unit, std_error) result \<times> 'st) \<Rightarrow> (env \<times> height) list \<Rightarrow> 'st \<Rightarrow>
     (unit, std_error) result \<times> 'st" where
  "record_all rec [] st = (Ok (), st)"
| "record_all rec ((env, h) # es) st =
     (let (r, st) = rec env st h in try_state r st (\<lambda>_. record_all rec es st))"

text \<open>The last entry of a log for a height.\<close>

definition last_recorded :: "(env \<times> height) list \<Rightarrow> height \<Rightarrow> env option" where
  "last_recorded es k = map_of (rev (map (\<lambda>(env, h). (h, env)) es)) k"

lemma last_recorded_Nil [simp]: "last_recorded [] k = None"
  by (simp add: last_recorded_def)

lemma last_recorded_Cons:
  "last_recorded ((env, h) # es) k =
     (case last_recorded es k of Some e \<Rightarrow> Some e | None \<Rightarrow> if k = h then Some env else None)"
  by (simp add: last_recorded_def map_add_def split: option.split)

locale meta_store =
  fixes rec :: "env \<Rightarrow> 'st \<Rightarrow> height \<Rightarrow> (unit, std_error) result \<times> 'st"
    and time_of :: "'st \<Rightarrow> height \<Rightarrow> (u64, std_error) result"
    and height_of :: "'st \<Rightarrow> height \<Rightarrow> (height, std_error) result"
  assumes time_after: "rec env st h = (Ok (), st') \<Longrightarrow>
      time_of st' k = (if k = h then Ok (block_time env) else time_of st k)"
    and height_after: "rec env st h = (Ok (), st') \<Longrightarrow>
      height_of st' k = (if k = h then Ok (get_self_height (block_height env)) else height_of st k)"
begin

lemma recorded_now:
  "rec env st h = (Ok (), st') \<Longrightarrow> time_of st' h = Ok t \<Longrightarrow> height_of st' h = Ok p \<Longrightarrow>
     t = block_time env \<and> p = get_self_height (block_height env)"
  by (simp add: time_after height_after)

lemma after_records:
  "record_all rec es st = (Ok (), st') \<Longrightarrow>
     time_of st' k = (case last_recorded es k of Some env \<Rightarrow> Ok (block_time env) | None \<Rightarrow> time_of st k) \<and>
     height_of st' k = (case last_recorded es k of
       Some env \<Rightarrow> Ok (get_self_height (block_height env)) | None \<Rightarrow> height_of st k)"
proof (induction es arbitrary: st)
  case (Cons e es)
  obtain env h where e: "e = (env, h)" by (cases e)
  with Cons.prems obtain st1 where "rec env st h = (Ok (), st1)"
    and rest: "record_all rec es st1 = (Ok (), st')"
    by (auto simp: call_state_eq_Ok)
  with Cons.IH [OF rest] show ?case
    by (simp add: e last_recorded_Cons time_after height_after split: option.split)
qed simp

end

sublocale contract_host \<subseteq> meta: meta_store
  "\<lambda>env st h. set_consensus_meta L env st EMPTY_PREFIX h"
  "\<lambda>st h. get_processed_time L st EMPTY_PREFIX h"
  "\<lambda>st h. get_processed_height L st EMPTY_PREFIX h"
  using processed_time_after_meta [OF client_prefixes(1,1)]
    processed_height_after_meta [OF client_prefixes(1,1)]
  by unfold_locales simp_all

context contract_host
begin

lemmas meta_recorded_now = meta.recorded_now
lemmas meta_after_records = meta.after_records

end

text \<open>C27: the client's metadata is a map from heights to blocks: after any sequence of successful
  recordings, each height reads the time and height of the last block that recorded it,
  or what the store held before when none did.\<close>

theorem metadata_refines_map:
  assumes "contract_host L"
    and "record_all (\<lambda>env st h. set_consensus_meta L env st EMPTY_PREFIX h) es st = (Ok (), st')"
  shows "get_processed_time L st' EMPTY_PREFIX k =
      (case last_recorded es k of Some env \<Rightarrow> Ok (block_time env)
       | None \<Rightarrow> get_processed_time L st EMPTY_PREFIX k) \<and>
    get_processed_height L st' EMPTY_PREFIX k =
      (case last_recorded es k of Some env \<Rightarrow> Ok (get_self_height (block_height env))
       | None \<Rightarrow> get_processed_height L st EMPTY_PREFIX k)"
  using contract_host.meta_after_records [OF assms] by simp

theorem metadata_refines_map_witness:
  "\<exists>st'. record_all (\<lambda>env st h. set_consensus_meta ref_contract env st EMPTY_PREFIX h)
       [(sample_env, Height 0 1), (sample_env, Height 0 2), (sample_env\<lparr>block_time := 7\<rparr>, Height 0 1)]
       Map.empty = (Ok (), st') \<and>
     get_processed_time ref_contract st' EMPTY_PREFIX (Height 0 1) = Ok 7"
proof -
  let ?es = "[(sample_env, Height 0 1), (sample_env, Height 0 2),
    (sample_env\<lparr>block_time := 7\<rparr>, Height 0 1)]"
  have ok: "\<exists>st'. set_consensus_meta ref_contract env st EMPTY_PREFIX h = (Ok (), st')" for env st h
    by (simp add: set_consensus_meta_Ok)
  obtain s1 where 1: "set_consensus_meta ref_contract sample_env Map.empty EMPTY_PREFIX (Height 0 1)
      = (Ok (), s1)" using ok by blast
  obtain s2 where 2: "set_consensus_meta ref_contract sample_env s1 EMPTY_PREFIX (Height 0 2)
      = (Ok (), s2)" using ok by blast
  obtain s3 where 3: "set_consensus_meta ref_contract (sample_env\<lparr>block_time := 7\<rparr>) s2 EMPTY_PREFIX
      (Height 0 1) = (Ok (), s3)" using ok by blast
  have "record_all (\<lambda>env st h. set_consensus_meta ref_contract env st EMPTY_PREFIX h) ?es Map.empty
      = (Ok (), s3)"
    using 1 2 3 by simp
  from metadata_refines_map [OF sample_host this, of "Height 0 1"] this show ?thesis
    by (auto simp: last_recorded_def)
qed

end
