(* ===== verification/Membership.thy ===== *)
theory Membership
  imports Contract_Util
begin

text \<open>
  \<^verbatim>\<open>src/contract/types/ibc.rs\<close>, functions: the commitment prefix of a path and the
  verification of a chained membership proof. The loop over the proofs is a recursion that
  carries the loop's \<open>value\<close> and \<open>subroot\<close>; the reference \<open>proof_chain\<close> consumes one proof
  specification and one key, innermost first, per proof.
\<close>

section \<open>Commitment prefix\<close>

definition apply_prefix ::
    "('pk, 'sig, 'ep, 'sp, 'st, 'z) contract_crates_scheme \<Rightarrow> merkle_prefix \<Rightarrow> string list \<Rightarrow>
     (merkle_path, std_error) result" where
  "apply_prefix L prefix path =
     (if length (key_prefix prefix) = 0 then Err (GenericErr ''empty prefix'')
      else
      and_then (ok_or (base64_decode L (key_prefix prefix)) (to_generic_err ())) (\<lambda>prefix_from_base64.
      and_then (ok_or (from_utf8 prefix_from_base64) (to_generic_err ())) (\<lambda>decoded_prefix.
        Ok \<lparr>key_path = [decoded_prefix] @ path\<rparr>)))"

section \<open>Membership\<close>

definition missing_key_error :: std_error where
  "missing_key_error = GenericErr ''could not retrieve key bytes''"

definition membership_error :: std_error where
  "membership_error = GenericErr ''membership proof failed to verify membership of value:  in subroot: ''"

definition proof_type_error :: std_error where
  "proof_type_error = GenericErr ''expected proof type: ics23::ExistenceProof''"

definition root_error :: std_error where
  "root_error = GenericErr ''proof did not commit to expected root: , got: ''"

fun verify_layers ::
    "('pk, 'sig, 'ep, 'sp, 'st, 'z) contract_crates_scheme \<Rightarrow> 'sp list \<Rightarrow> string list \<Rightarrow> nat \<Rightarrow>
     'ep commitment_proof list \<Rightarrow> bytes \<Rightarrow> bytes \<Rightarrow> (bytes, std_error) result" where
  "verify_layers L specs keys i [] value subroot = Ok subroot"
| "verify_layers L specs keys i (commitment_proof # ps) value subroot =
     (case get_exist_proof commitment_proof of
        Some ex \<Rightarrow>
          and_then (ok_or (calculate_existence_root L ex) (to_generic_err ())) (\<lambda>subroot.
          and_then (usize_sub (length keys) 1) (\<lambda>n.
          and_then (usize_sub n i) (\<lambda>j.
          and_then (if j < length keys then Ok (keys ! j) else Err missing_key_error) (\<lambda>key.
          and_then (index specs i) (\<lambda>spec.
          if \<not> ics23_verify_membership L commitment_proof spec subroot (as_bytes key) value
          then Err membership_error
          else verify_layers L specs keys (i + 1) ps subroot subroot)))))
      | None \<Rightarrow> Err proof_type_error)"

definition verify_membership ::
    "('pk, 'sig, 'ep, 'sp, 'st, 'z) contract_crates_scheme \<Rightarrow> 'ep merkle_proof \<Rightarrow> 'sp list \<Rightarrow>
     bytes \<Rightarrow> merkle_path \<Rightarrow> bytes \<Rightarrow> nat \<Rightarrow> (bool, std_error) result" where
  "verify_membership L proof specs rt keys value idx =
     and_then (verify_layers L specs (key_path keys) 0 (drop idx (proofs proof)) value value) (\<lambda>subroot.
     if rt \<noteq> subroot then Err root_error else Ok True)"

section \<open>The reference\<close>

text \<open>
  A chain of existence proofs: each proves the value under its key in the root it computes, and
  that root is the value of the next; the last root is the expected one.
\<close>

fun proof_chain ::
    "('pk, 'sig, 'ep, 'sp, 'st, 'z) contract_crates_scheme \<Rightarrow> 'sp list \<Rightarrow> string list \<Rightarrow>
     'ep commitment_proof list \<Rightarrow> bytes \<Rightarrow> bytes \<Rightarrow> bool" where
  "proof_chain L specs keys [] value rt \<longleftrightarrow> rt = value"
| "proof_chain L (spec # specs) (key # keys) (p # ps) value rt \<longleftrightarrow>
     (case get_exist_proof p of
        Some ex \<Rightarrow>
          (case calculate_existence_root L ex of
             Some subroot \<Rightarrow> ics23_verify_membership L p spec subroot (as_bytes key) value \<and>
               proof_chain L specs keys ps subroot rt
           | None \<Rightarrow> False)
      | None \<Rightarrow> False)"
| "proof_chain L _ _ _ _ _ \<longleftrightarrow> False"

lemma proof_chain_Nil [simp]: "proof_chain L [] keys ps v r \<longleftrightarrow> ps = [] \<and> r = v"
  by (cases ps; cases keys) simp_all

lemma proof_chain_no_key [simp]: "proof_chain L specs [] ps v r \<longleftrightarrow> ps = [] \<and> r = v"
  by (cases ps; cases specs) simp_all

lemma drop_rev_Cons: "i < length ks \<Longrightarrow> drop i (rev ks) = ks ! (length ks - 1 - i) # drop (Suc i) (rev ks)"
  by (subst Cons_nth_drop_Suc [symmetric]) (simp_all add: rev_nth)

lemma verify_layers_Ok:
  "verify_layers L specs keys i ps v s = Ok rt \<longleftrightarrow>
     (if ps = [] then rt = s else proof_chain L (drop i specs) (drop i (rev keys)) ps v rt)"
proof (induction ps arbitrary: i v s)
  case Nil
  then show ?case by auto
next
  case (Cons p ps)
  show ?case
  proof (cases "i < length keys \<and> i < length specs")
    case True
    then have "drop i specs = specs ! i # drop (Suc i) specs"
      by (simp add: Cons_nth_drop_Suc)
    with True show ?thesis
      using Cons.IH
      by (cases "get_exist_proof p"; cases "calculate_existence_root L (the (get_exist_proof p))")
        (auto simp: drop_rev_Cons usize_sub_def index_def)
  next
    case False
    then show ?thesis
      by (cases "get_exist_proof p"; cases "calculate_existence_root L (the (get_exist_proof p))")
        (auto simp: usize_sub_def index_def and_then_eq_Ok split: if_splits)
  qed
qed

text \<open>C20: the membership check computes the reference: it returns only \<^verbatim>\<open>true\<close>, never \<^verbatim>\<open>false\<close>
  (a failure is an error), and it does so exactly for the proof lists that chain the value to
  the rt, layer by layer, each under its own specification and its own path element from
  the innermost outwards. \<close>

theorem verify_membership_iff_proof_chain:
  "verify_membership L p specs rt path value 0 = Ok b \<longleftrightarrow>
     b \<and> proof_chain L specs (rev (key_path path)) (proofs p) value rt"
  by (cases "proofs p = []") (auto simp: verify_membership_def and_then_eq_Ok verify_layers_Ok)

text \<open>A membership proof without layers proves a value equal to the root, whatever the path is:
  the empty list of proofs is accepted for every key, and the root is never hashed. \<close>

theorem empty_proof_proves_the_root:
  "verify_membership L \<lparr>proofs = []\<rparr> specs rt path value 0 =
     (if rt = value then Ok True else Err root_error)"
  by (simp add: verify_membership_def)

lemma verify_layers_ne_Panic:
  "i + length ps \<le> length specs \<Longrightarrow> i + length ps \<le> length keys \<Longrightarrow>
     verify_layers L specs keys i ps v s \<noteq> Panic"
proof (induction ps arbitrary: i v s)
  case (Cons p ps)
  then show ?case
    by (auto simp: and_then_eq_Panic usize_sub_def index_def split: option.splits)
qed simp

text \<open>The indexing of the membership check is in range as long as there are no more proofs than
  specifications and path elements; then it always returns. (A longer proof panics: the
  number of proofs comes from the message and is not checked.) \<close>

theorem verify_membership_returns:
  assumes "length (proofs p) \<le> length specs" and "length (proofs p) \<le> length (key_path path)"
  shows "verify_membership L p specs rt path value 0 \<noteq> Panic"
  using verify_layers_ne_Panic [of 0 "proofs p" specs "key_path path" L] assms
  by (auto simp: verify_membership_def and_then_eq_Panic)

definition sample_proof :: "(bytes \<times> bytes) merkle_proof" where
  "sample_proof = \<lparr>proofs = [Exist (as_bytes ''clients/07-tendermint-0'', [1, 2])]\<rparr>"

theorem verify_membership_returns_witness:
  "verify_membership ref_contract sample_proof [0, 1] [] \<lparr>key_path = [''prefix'', ''clients'']\<rparr> [1, 2] 0
     \<noteq> Panic"
  by (rule verify_membership_returns) (simp_all add: sample_proof_def)

lemma verify_layers_append:
  "verify_layers L specs keys i (ps @ qs) v v =
     and_then (verify_layers L specs keys i ps v v) (\<lambda>r.
       verify_layers L specs keys (i + length ps) qs r r)"
proof (induction ps arbitrary: i v)
  case (Cons p ps)
  then show ?case
    by (auto simp: and_then_assoc if_distrib [of "\<lambda>m. and_then m f" for f] split: option.split
        intro!: ext arg_cong2 [where f = and_then])
qed simp

text \<open>A proof list with more layers than path elements aborts the contract: when every layer
  of the path has verified and one more existence proof follows, the index into the path
  underflows.\<close>

theorem overlong_proof_panics:
  assumes "get_exist_proof q = Some ex" and "calculate_existence_root L ex \<noteq> None"
    and "proof_chain L specs (rev (key_path path)) ps value mid"
    and "length ps = length (key_path path)" and "ps \<noteq> []"
  shows "verify_membership L \<lparr>proofs = ps @ [q]\<rparr> specs rt path value 0 = Panic"
proof -
  have "verify_layers L specs (key_path path) 0 ps value value = Ok mid"
    using assms(3,5) by (simp add: verify_layers_Ok)
  then show ?thesis
    using assms by (auto simp: verify_membership_def verify_layers_append usize_sub_def)
qed

theorem overlong_proof_panics_witness:
  "verify_membership ref_contract \<lparr>proofs = proofs sample_proof @ proofs sample_proof\<rparr> [0, 1] []
     \<lparr>key_path = [''clients/07-tendermint-0'']\<rparr> [1, 2] 0 = Panic"
  unfolding sample_proof_def merkle_proof.simps
  by (rule overlong_proof_panics
      [where ex = "(as_bytes ''clients/07-tendermint-0'', [1, 2])" and mid = "ref_digest (as_bytes ''clients/07-tendermint-0'' @ [1, 2])"]) simp_all

end
