(* ===== verification/Contract_Handlers.thy ===== *)
theory Contract_Handlers
  imports Contract_Store Membership Light_State
begin

text \<open>
  \<^verbatim>\<open>src/contract/mod.rs\<close>, the handlers that may change the store: each takes the store and
  returns its result with the store it leaves behind. The messages' values interpolated into
  errors are dropped (\<open>std_error\<close>), except where computing them can panic.
\<close>

section \<open>Helpers\<close>

definition is_expired :: "u64 \<Rightarrow> u64 \<Rightarrow> light_client_state \<Rightarrow> (bool, std_error) result" where
  "is_expired current_timestamp latest_timestamp light_client_state =
     and_then (u64_add latest_timestamp (trusting_period light_client_state)) (\<lambda>limit.
       Ok (current_timestamp > limit))"

definition construct_upgrade_merkle_path ::
    "('pk, 'sig, 'ep, 'sp, 'st, 'z) contract_crates_scheme \<Rightarrow> string list \<Rightarrow> client_upgrade_path \<Rightarrow>
     merkle_path" where
  "construct_upgrade_merkle_path L path client_upgrade_path =
     (let appended_key = path_to_string L (UpgradePath client_upgrade_path)
      in \<lparr>key_path = path @ [appended_key]\<rparr>)"

definition ics23_specs :: "('pk, 'sig, 'ep, 'sp, 'st, 'z) contract_crates_scheme \<Rightarrow> 'sp list" where
  "ics23_specs L = [iavl_spec L, tendermint_spec L]"

definition invalid_proof_error :: std_error where
  "invalid_proof_error = GenericErr ''proof membership verification failed (invalid proof)''"

section \<open>Initialisation\<close>

definition init_instance :: "(init_response, std_error) result" where
  "init_instance = Ok \<lparr>init_messages = [], init_attributes = []\<rparr>"

definition init_contract ::
    "('pk, 'sig, 'ep, 'sp, 'st, 'z) contract_crates_scheme \<Rightarrow> env \<Rightarrow> consensus_state \<Rightarrow> client_state \<Rightarrow>
     'st \<Rightarrow> (handle_response, std_error) result \<times> 'st" where
  "init_contract L env cs me storage =
     try_state (light_consensus_state_field L (cs_data cs) ''msg.initial_state_entry'') storage
       (\<lambda>light_consensus_state.
     try_state (map_err (\<lambda>_. GenericErr ''Initial state verification failed. Error: '')
         (snapshot_verify L light_consensus_state)) storage (\<lambda>_.
     try_state (unwrap (latest_height me)) storage (\<lambda>height.
     let (r, storage) = set_consensus_meta L env storage EMPTY_PREFIX height in
     try_state r storage (\<lambda>_.
     try_state (to_vec L (InitializeStateResult call_success me)) storage (\<lambda>data.
       (Ok \<lparr>messages = [],
            attributes = [(''action'', ''init_block''),
              (''last_consensus_state_height'', dec_string (unat (snap_number light_consensus_state)))],
            response_data = Some data\<rparr>, storage))))))"

section \<open>Header update\<close>

definition check_header_and_update_state ::
    "('pk, 'sig, 'ep, 'sp, 'st, 'z) contract_crates_scheme \<Rightarrow> env \<Rightarrow> client_state \<Rightarrow> consensus_state \<Rightarrow>
     wasm_header \<Rightarrow> 'st \<Rightarrow> (handle_response, std_error) result \<times> 'st" where
  "check_header_and_update_state L env me cs wh storage =
     (let current_timestamp = block_time env in
     try_state (header_field L (wh_data wh) ''msg.header'') storage (\<lambda>header.
     try_state (light_consensus_state_field L (cs_data cs) ''msg.light_consensus_state'') storage
       (\<lambda>light_consensus_state.
     try_state (light_client_state_field L (cl_data me) ''msg.light_client_state'') storage
       (\<lambda>light_client_state.
     let state = state_new light_consensus_state (light_client_state_config light_client_state);
         (r, state) = insert_header L state header current_timestamp in
     try_state (map_err (\<lambda>_. GenericErr ''Unable to ingest header. Error: '') r) storage (\<lambda>_.
     let new_client_state = me;
         new_consensus_state =
           \<lparr>cs_code_id = cs_code_id cs,
            cs_data = base64_encode L (snapshot_to_rlp L (st_snapshot state)),
            cs_timestamp = time header,
            cs_root = \<lparr>root_hash = base64_encode L (header.root header)\<rparr>\<rparr>;
         (r, storage) = set_consensus_meta L env storage EMPTY_PREFIX (wh_height wh) in
     try_state r storage (\<lambda>_.
     try_state (to_vec L
         (CheckHeaderAndUpdateStateResult new_client_state new_consensus_state call_success)) storage
       (\<lambda>data.
       (Ok \<lparr>messages = [],
            attributes = [(''action'', ''update_block''),
              (''last_consensus_state_height'', dec_string (unat (snap_number (st_snapshot state))))],
            response_data = Some data\<rparr>, storage))))))))"

section \<open>Upgrade\<close>

definition upgrade_height_error :: std_error where
  "upgrade_height_error =
     GenericErr ''upgraded client height  must be at greater than current client height ''"

definition verify_upgrade_and_update_state ::
    "('pk, 'sig, 'ep, 'sp, 'st, 'z) contract_crates_scheme \<Rightarrow> env \<Rightarrow> client_state \<Rightarrow> client_state \<Rightarrow>
     consensus_state \<Rightarrow> string \<Rightarrow> string \<Rightarrow> consensus_state \<Rightarrow>
     'st \<Rightarrow> (handle_response, std_error) result \<times> 'st" where
  "verify_upgrade_and_update_state L env me new_client_state new_consensus_state client_upgrade_proof
       consensus_state_upgrade_proof last_height_consensus_state storage =
     (let specs = ics23_specs L in
     if \<not> latest_height new_client_state > latest_height me
     then (Err upgrade_height_error, storage)
     else
     try_state (from_base64_json_slice L (merkle_proof_from_slice L) client_upgrade_proof
         ''msg.client_proof'') storage (\<lambda>proof_client.
     try_state (from_base64_json_slice L (merkle_proof_from_slice L) consensus_state_upgrade_proof
         ''msg.consensus_proof'') storage (\<lambda>proof_consensus.
     try_state (from_base64 L (root_hash (cs_root last_height_consensus_state))
         ''msg.last_height_consensus_state.root'') storage (\<lambda>rt.
     let current_timestamp = block_time env in
     try_state (light_client_state_field L (cl_data me) ''msg.light_client_state'') storage
       (\<lambda>light_client_state.
     try_state (is_expired current_timestamp (cs_timestamp last_height_consensus_state)
         light_client_state) storage (\<lambda>expired.
     if expired then (Err (GenericErr ''cannot upgrade an expired client''), storage)
     else
     try_state (to_vec L (ClientStateDoc new_client_state)) storage (\<lambda>val.
     try_state (unwrap (latest_height me)) storage (\<lambda>height.
     let upgrade_client_path = construct_upgrade_merkle_path L (upgrade_path light_client_state)
           (UpgradedClientState (revision_number height)) in
     try_state (verify_membership L proof_consensus specs rt upgrade_client_path val 0) storage (\<lambda>b.
     if \<not> b then (Err invalid_proof_error, storage)
     else
     try_state (to_vec L (ConsensusStateDoc new_consensus_state)) storage (\<lambda>val.
     try_state (unwrap (latest_height me)) storage (\<lambda>height.
     let upgrade_consensus_state_path = construct_upgrade_merkle_path L (upgrade_path light_client_state)
           (UpgradedClientConsensusState (revision_number height)) in
     try_state (verify_membership L proof_client specs rt upgrade_consensus_state_path val 0) storage (\<lambda>b.
     if \<not> b then (Err invalid_proof_error, storage)
     else
     try_state (unwrap (latest_height new_client_state)) storage (\<lambda>new_height.
     let (r, storage) = set_consensus_meta L env storage EMPTY_PREFIX new_height in
     try_state r storage (\<lambda>_.
       (wrap_response L
          (VerifyUpgradeAndUpdateStateResult call_success new_client_state new_consensus_state)
          ''verify_client_state'', storage)))))))))))))))"

section \<open>Misbehaviour\<close>

definition check_misbehaviour_header ::
    "('pk, 'sig, 'ep, 'sp, 'st, 'z) contract_crates_scheme \<Rightarrow> 16 word \<Rightarrow> client_state \<Rightarrow>
     consensus_state \<Rightarrow> header \<Rightarrow> (unit, std_error) result" where
  "check_misbehaviour_header L num me cs header =
     and_then (light_consensus_state_field L (cs_data cs) ''msg.light_consensus_state'')
       (\<lambda>light_consensus_state.
     and_then (light_client_state_field L (cl_data me) ''msg.light_client_state'')
       (\<lambda>light_client_state.
     let state = state_new light_consensus_state (light_client_state_config light_client_state) in
     map_err (\<lambda>_. GenericErr ''Failed to verify header num:  against it's consensus state. Error: '')
       (verify_header_seal L state header)))"

definition check_misbehaviour ::
    "('pk, 'sig, 'ep, 'sp, 'st, 'z) contract_crates_scheme \<Rightarrow> client_state \<Rightarrow> misbehaviour \<Rightarrow>
     consensus_state \<Rightarrow> consensus_state \<Rightarrow> (handle_response, std_error) result" where
  "check_misbehaviour L me mb consensus_state1 consensus_state2 =
     (if wh_height (header_1 mb) \<noteq> wh_height (header_2 mb)
      then Err (GenericErr ''Misbehaviour header heights differ,  != '')
      else
      and_then
        (if frozen me \<and> frozen_height me \<noteq> None
         then and_then (unwrap (frozen_height me)) (\<lambda>h. Ok (h \<le> wh_height (header_1 mb)))
         else Ok False) (\<lambda>already.
      if already
      then Err (GenericErr ''Client is already frozen at earlier height  than misbehaviour height '')
      else
      and_then (header_field L (wh_data (header_1 mb)) ''msg.header'') (\<lambda>h1.
      and_then (header_field L (wh_data (header_2 mb)) ''msg.header'') (\<lambda>h2.
      if header.root h1 = header.root h2
      then Err (GenericErr ''Header's state roots should differ, but are the same'')
      else
      and_then (check_misbehaviour_header L 1 me consensus_state1 h1) (\<lambda>_.
      and_then (check_misbehaviour_header L 2 me consensus_state2 h2) (\<lambda>_.
      let new_client_state =
            me\<lparr>frozen := True, frozen_height := Some (wh_height (header_1 mb))\<rparr> in
      and_then (to_vec L (CheckMisbehaviourAndUpdateStateResult call_success new_client_state)) (\<lambda>data.
        Ok \<lparr>messages = [],
            attributes = [(''action'', ''verify_misbehaviour''),
              (''height'', height_display (wh_height (header_1 mb)))],
            response_data = Some data\<rparr>)))))))"

section \<open>Zero custom fields\<close>

definition zero_custom_fields ::
    "('pk, 'sig, 'ep, 'sp, 'st, 'z) contract_crates_scheme \<Rightarrow> client_state \<Rightarrow>
     (handle_response, std_error) result" where
  "zero_custom_fields L me =
     (let new_client_state =
            \<lparr>cl_data = cl_data me, cl_code_id = cl_code_id me, frozen = False,
             frozen_height = None, latest_height = None\<rparr>
      in wrap_response L (ZeroCustomFieldsResult new_client_state) ''zero_custom_fields'')"

section \<open>Substitution\<close>

text \<open>The loop over \<^verbatim>\<open>initial_height.revision_height..latest_height.revision_height + 1\<close>.\<close>

fun copy_consensus_states ::
    "('pk, 'sig, 'ep, 'sp, 'st, 'z) contract_crates_scheme \<Rightarrow> env \<Rightarrow> u64 \<Rightarrow> u64 list \<Rightarrow> 'st \<Rightarrow>
     (unit, std_error) result \<times> 'st" where
  "copy_consensus_states L env num [] storage = (Ok (), storage)"
| "copy_consensus_states L env num (i # is) storage =
     (let height = Height num i;
          (r, storage) =
            (case get_consensus_state L storage SUBSTITUTE_PREFIX height of
               Ok cs_bytes \<Rightarrow> set_consensus_state L storage SUBJECT_PREFIX height cs_bytes
             | _ \<Rightarrow> (Ok (), storage))
      in try_state r storage (\<lambda>_.
      let (r, storage) = set_consensus_meta L env storage SUBJECT_PREFIX height
      in try_state r storage (\<lambda>_.
        copy_consensus_states L env num is storage)))"

text \<open>The decision whether the subject client may be revived, and the state it is revived to.\<close>

definition revived_client_state ::
    "client_state \<Rightarrow> light_client_state \<Rightarrow> u64 \<Rightarrow> u64 \<Rightarrow> (client_state, std_error) result" where
  "revived_client_state me light_subject_client_state current_timestamp subject_timestamp =
     (if frozen me \<and> frozen_height me \<noteq> None
      then if allow_update_after_misbehavior light_subject_client_state
           then Err (GenericErr ''client is not allowed to be unfrozen'')
           else Ok (me\<lparr>frozen := False, frozen_height := None\<rparr>)
      else
      and_then (is_expired current_timestamp subject_timestamp light_subject_client_state) (\<lambda>expired.
        if expired \<and> \<not> allow_update_after_expiry light_subject_client_state
        then Err (GenericErr ''client is not allowed to be unexpired'')
        else Ok me))"

definition initial_height_error :: std_error where
  "initial_height_error = GenericErr
     ''substitute client revision number must equal initial height revision number ( != )''"

definition check_substitute_client_state ::
    "('pk, 'sig, 'ep, 'sp, 'st, 'z) contract_crates_scheme \<Rightarrow> env \<Rightarrow> client_state \<Rightarrow> client_state \<Rightarrow>
     consensus_state \<Rightarrow> height \<Rightarrow> 'st \<Rightarrow> (handle_response, std_error) result \<times> 'st" where
  "check_substitute_client_state L env me substitute_client_state subject_consensus_state initial_height
       storage =
     try_state (unwrap (latest_height substitute_client_state)) storage (\<lambda>substitute_height.
     if substitute_height \<noteq> initial_height
     then try_state (unwrap (latest_height me)) storage (\<lambda>_. (Err initial_height_error, storage))
     else
     try_state (light_client_state_field L (cl_data me) ''msg.light_subject_client_state'') storage
       (\<lambda>light_subject_client_state.
     try_state (light_client_state_field L (cl_data substitute_client_state)
         ''msg.light_substitute_client_state'') storage (\<lambda>light_substitute_client_state.
     if light_substitute_client_state \<noteq> light_subject_client_state
     then (Err (GenericErr ''subject client state does not match substitute client state''), storage)
     else
     let current_timestamp = block_time env in
     try_state (revived_client_state me light_subject_client_state current_timestamp
         (cs_timestamp subject_consensus_state)) storage (\<lambda>new_client_state.
     try_state (unwrap (latest_height substitute_client_state)) storage (\<lambda>latest_height'.
     try_state (u64_add (revision_height latest_height') 1) storage (\<lambda>end_height.
     let (r, storage) = copy_consensus_states L env (revision_number latest_height')
           (u64_range (revision_height initial_height) end_height) storage in
     try_state r storage (\<lambda>_.
     let new_client_state =
           new_client_state\<lparr>latest_height := latest_height substitute_client_state\<rparr> in
     try_state (unwrap (latest_height me)) storage (\<lambda>me_height.
     try_state (get_consensus_state L storage SUBJECT_PREFIX me_height) storage
       (\<lambda>latest_consensus_state_bytes.
     try_state (unwrap (partial_consensus_state_decode L latest_consensus_state_bytes)) storage
       (\<lambda>latest_consensus_state.
     try_state (map_err to_generic_err (snapshot_from_rlp L (pcs_data latest_consensus_state))) storage
       (\<lambda>latest_light_consensus_state.
     try_state (is_expired current_timestamp (snap_timestamp latest_light_consensus_state)
         light_subject_client_state) storage (\<lambda>expired.
     if expired then (Err (GenericErr ''updated subject client is expired''), storage)
     else
       (wrap_response L (CheckSubstituteAndUpdateStateResult call_success new_client_state)
          ''check_substitute_and_update_state'', storage)))))))))))))"

section \<open>Dispatch\<close>

definition handle ::
    "('pk, 'sig, 'ep, 'sp, 'st, 'z) contract_crates_scheme \<Rightarrow> env \<Rightarrow> handle_msg \<Rightarrow> 'st \<Rightarrow>
     (handle_response, std_error) result \<times> 'st" where
  "handle L env msg storage =
     (case msg of
        InitializeState cs me \<Rightarrow> init_contract L env cs me storage
      | CheckHeaderAndUpdateState header cs me \<Rightarrow>
          check_header_and_update_state L env me cs header storage
      | CheckMisbehaviourAndUpdateState me mb cs1 cs2 \<Rightarrow>
          (check_misbehaviour L me mb cs1 cs2, storage)
      | VerifyUpgradeAndUpdateState me new_client new_cs client_proof cs_proof last_cs \<Rightarrow>
          verify_upgrade_and_update_state L env me new_client new_cs client_proof cs_proof last_cs
            storage
      | CheckSubstituteAndUpdateState me substitute subject_cs initial_height \<Rightarrow>
          check_substitute_client_state L env me substitute subject_cs initial_height storage
      | ZeroCustomFields me \<Rightarrow> (zero_custom_fields L me, storage))"

end
