(* ===== verification/Contract_Queries.thy ===== *)
theory Contract_Queries
  imports Contract_Handlers
begin

text \<open>
  \<^verbatim>\<open>src/contract/mod.rs\<close>, the queries: they read the store and never write it. The six
  membership queries share the shape \<open>prove\<close> (decode the proof and the root, build the path,
  prefix it, check the proof of the value); each is written out in the order of its code.
\<close>

section \<open>Delay period\<close>

definition verify_delay_period_passed ::
    "('pk, 'sig, 'ep, 'sp, 'st, 'z) contract_crates_scheme \<Rightarrow> 'st \<Rightarrow> height \<Rightarrow> u64 \<Rightarrow>
     u64 \<Rightarrow> u64 \<Rightarrow> u64 \<Rightarrow> (unit, std_error) result" where
  "verify_delay_period_passed L storage proof_height current_height current_timestamp
       delay_time_period delay_block_period =
     and_then (get_processed_time L storage EMPTY_PREFIX proof_height) (\<lambda>processed_time.
     and_then (u64_add processed_time delay_time_period) (\<lambda>valid_time.
     if current_timestamp < valid_time
     then Err (GenericErr ''cannot verify packet until time: , current time: '')
     else
     and_then (get_processed_height L storage EMPTY_PREFIX proof_height) (\<lambda>processed_height.
     and_then (u64_add (revision_height processed_height) delay_block_period) (\<lambda>h.
     let valid_height = Height (revision_number processed_height) h;
         current_height = get_self_height current_height in
     if current_height < valid_height
     then Err (GenericErr ''cannot verify packet until height: , current height: '')
     else Ok ()))))"

section \<open>Membership queries\<close>

text \<open>The tail of the membership queries: prefix the path, produce the value, check the proof.\<close>

definition prove ::
    "('pk, 'sig, 'ep, 'sp, 'st, 'z) contract_crates_scheme \<Rightarrow> 'ep merkle_proof \<Rightarrow> bytes \<Rightarrow>
     merkle_prefix \<Rightarrow> ics_path \<Rightarrow> (bytes, std_error) result \<Rightarrow> (unit, std_error) result" where
  "prove L proof rt commitment_prefix path val =
     and_then (apply_prefix L commitment_prefix [path_to_string L path]) (\<lambda>prefixed.
     and_then val (\<lambda>v.
     and_then (verify_membership L proof (ics23_specs L) rt prefixed v 0) (\<lambda>b.
     if \<not> b then Err invalid_proof_error else Ok ())))"

abbreviation identifier_of :: "string option \<Rightarrow> (string, std_error) result" where
  "identifier_of x \<equiv> ok_or x (to_generic_err ())"

abbreviation proof_field where
  "proof_field L s \<equiv> from_base64_json_slice L (merkle_proof_from_slice L) s ''msg.proof''"

definition verify_client_state ::
    "('pk, 'sig, 'ep, 'sp, 'st, 'z) contract_crates_scheme \<Rightarrow> merkle_prefix \<Rightarrow> string \<Rightarrow> string \<Rightarrow>
     cosmos_client_state \<Rightarrow> consensus_state \<Rightarrow> (handle_response, std_error) result" where
  "verify_client_state L commitment_prefix counterparty_client_identifier proof
       counterparty_client_state proving_consensus_state =
     and_then (proof_field L proof) (\<lambda>proof.
     and_then (from_base64 L (root_hash (cs_root proving_consensus_state))
         ''msg.proving_consensus_state.root'') (\<lambda>rt.
     and_then (identifier_of (client_id_from_str L counterparty_client_identifier)) (\<lambda>client_id.
     and_then (prove L proof rt commitment_prefix (ClientStatePath client_id)
         (to_vec L (CosmosClientStateDoc counterparty_client_state))) (\<lambda>_.
       wrap_response L (VerifyClientStateResult call_success) ''verify_client_state''))))"

definition verify_client_consensus_state ::
    "('pk, 'sig, 'ep, 'sp, 'st, 'z) contract_crates_scheme \<Rightarrow> height \<Rightarrow> merkle_prefix \<Rightarrow> string \<Rightarrow>
     string \<Rightarrow> cosmos_consensus_state \<Rightarrow> consensus_state \<Rightarrow> (handle_response, std_error) result" where
  "verify_client_consensus_state L consensus_height commitment_prefix counterparty_client_identifier
       proof counterparty_consensus_state proving_consensus_state =
     and_then (proof_field L proof) (\<lambda>proof.
     and_then (from_base64 L (root_hash (cs_root proving_consensus_state))
         ''msg.proving_consensus_state.root'') (\<lambda>rt.
     and_then (identifier_of (client_id_from_str L counterparty_client_identifier)) (\<lambda>client_id.
     and_then (prove L proof rt commitment_prefix
         (ClientConsensusStatePath client_id (revision_number consensus_height)
            (revision_height consensus_height))
         (to_vec L (CosmosConsensusStateDoc counterparty_consensus_state))) (\<lambda>_.
       wrap_response L (VerifyClientConsensusStateResult call_success) ''verify_client_state''))))"

definition verify_connection_state ::
    "('pk, 'sig, 'ep, 'sp, 'st, 'z) contract_crates_scheme \<Rightarrow> merkle_prefix \<Rightarrow> string \<Rightarrow> string \<Rightarrow>
     connection_end \<Rightarrow> consensus_state \<Rightarrow> (handle_response, std_error) result" where
  "verify_connection_state L commitment_prefix proof connection_id connection_end cs =
     and_then (proof_field L proof) (\<lambda>proof.
     and_then (from_base64 L (root_hash (cs_root cs)) ''msg.proving_consensus_state.root'') (\<lambda>rt.
     and_then (identifier_of (connection_id_from_str L connection_id)) (\<lambda>connection_id.
     and_then (prove L proof rt commitment_prefix (ConnectionsPath connection_id)
         (to_vec L (ConnectionEndDoc connection_end))) (\<lambda>_.
       wrap_response L (VerifyConnectionStateResult call_success) ''verify_connection_state''))))"

definition verify_channel_state ::
    "('pk, 'sig, 'ep, 'sp, 'st, 'z) contract_crates_scheme \<Rightarrow> merkle_prefix \<Rightarrow> string \<Rightarrow> string \<Rightarrow>
     string \<Rightarrow> channel \<Rightarrow> consensus_state \<Rightarrow> (handle_response, std_error) result" where
  "verify_channel_state L commitment_prefix proof port_id channel_id channel cs =
     and_then (proof_field L proof) (\<lambda>proof.
     and_then (from_base64 L (root_hash (cs_root cs)) ''msg.proving_consensus_state.root'') (\<lambda>rt.
     and_then (identifier_of (port_id_from_str L port_id)) (\<lambda>port_id.
     and_then (identifier_of (channel_id_from_str L channel_id)) (\<lambda>channel_id.
     and_then (prove L proof rt commitment_prefix (ChannelEndsPath port_id channel_id)
         (to_vec L (ChannelDoc channel))) (\<lambda>_.
       wrap_response L (VerifyChannelStateResult call_success) ''verify_channel_state'')))))"

section \<open>Packet queries\<close>

definition verify_packet_commitment ::
    "('pk, 'sig, 'ep, 'sp, 'st, 'z) contract_crates_scheme \<Rightarrow> env \<Rightarrow> 'st \<Rightarrow> height \<Rightarrow>
     merkle_prefix \<Rightarrow> string \<Rightarrow> string \<Rightarrow> string \<Rightarrow> u64 \<Rightarrow> u64 \<Rightarrow> u64 \<Rightarrow> string \<Rightarrow>
     consensus_state \<Rightarrow> (handle_response, std_error) result" where
  "verify_packet_commitment L env storage height commitment_prefix proof port_id channel_id
       delay_time_period delay_block_period sequence commitment_bytes cs =
     and_then (proof_field L proof) (\<lambda>proof.
     and_then (from_base64 L (root_hash (cs_root cs)) ''msg.consensus_state.root'') (\<lambda>rt.
     and_then (verify_delay_period_passed L storage height (block_height env) (block_time env)
         delay_time_period delay_block_period) (\<lambda>_.
     and_then (identifier_of (port_id_from_str L port_id)) (\<lambda>port_id.
     and_then (identifier_of (channel_id_from_str L channel_id)) (\<lambda>channel_id.
     and_then (prove L proof rt commitment_prefix (CommitmentsPath port_id channel_id sequence)
         (from_base64 L commitment_bytes ''msg.commitment_bytes'')) (\<lambda>_.
       wrap_response L (VerifyPacketCommitmentResult call_success)
         ''verify_packet_commitment''))))))"

definition verify_packet_acknowledgment ::
    "('pk, 'sig, 'ep, 'sp, 'st, 'z) contract_crates_scheme \<Rightarrow> env \<Rightarrow> 'st \<Rightarrow> height \<Rightarrow>
     merkle_prefix \<Rightarrow> string \<Rightarrow> string \<Rightarrow> string \<Rightarrow> u64 \<Rightarrow> u64 \<Rightarrow> u64 \<Rightarrow> string \<Rightarrow>
     consensus_state \<Rightarrow> (handle_response, std_error) result" where
  "verify_packet_acknowledgment L env storage height commitment_prefix proof port_id channel_id
       delay_time_period delay_block_period sequence acknowledgement cs =
     and_then (proof_field L proof) (\<lambda>proof.
     and_then (from_base64 L (root_hash (cs_root cs)) ''msg.consensus_state.root'') (\<lambda>rt.
     and_then (verify_delay_period_passed L storage height (block_height env) (block_time env)
         delay_time_period delay_block_period) (\<lambda>_.
     and_then (identifier_of (port_id_from_str L port_id)) (\<lambda>port_id.
     and_then (identifier_of (channel_id_from_str L channel_id)) (\<lambda>channel_id.
     and_then (prove L proof rt commitment_prefix (AcksPath port_id channel_id sequence)
         (from_base64 L acknowledgement ''msg.acknowledgement'')) (\<lambda>_.
       wrap_response L (VerifyPacketAcknowledgementResult call_success)
         ''verify_packet_acknowledgment''))))))"

definition verify_next_sequence_recv ::
    "('pk, 'sig, 'ep, 'sp, 'st, 'z) contract_crates_scheme \<Rightarrow> env \<Rightarrow> 'st \<Rightarrow> height \<Rightarrow>
     merkle_prefix \<Rightarrow> string \<Rightarrow> string \<Rightarrow> string \<Rightarrow> u64 \<Rightarrow> u64 \<Rightarrow> u64 \<Rightarrow>
     consensus_state \<Rightarrow> (handle_response, std_error) result" where
  "verify_next_sequence_recv L env storage height commitment_prefix proof port_id channel_id
       delay_time_period delay_block_period next_sequence_recv cs =
     and_then (proof_field L proof) (\<lambda>proof.
     and_then (from_base64 L (root_hash (cs_root cs)) ''msg.consensus_state.root'') (\<lambda>rt.
     and_then (verify_delay_period_passed L storage height (block_height env) (block_time env)
         delay_time_period delay_block_period) (\<lambda>_.
     and_then (identifier_of (port_id_from_str L port_id)) (\<lambda>port_id.
     and_then (identifier_of (channel_id_from_str L channel_id)) (\<lambda>channel_id.
     and_then (prove L proof rt commitment_prefix (SeqRecvsPath port_id channel_id)
         (Ok (u64_to_big_endian L next_sequence_recv))) (\<lambda>_.
       wrap_response L (VerifyPacketAcknowledgementResult call_success)
         ''verify_next_sequence_recv''))))))"

definition verify_packet_receipt_absence ::
    "('pk, 'sig, 'ep, 'sp, 'st, 'z) contract_crates_scheme \<Rightarrow> env \<Rightarrow> 'st \<Rightarrow> height \<Rightarrow>
     merkle_prefix \<Rightarrow> string \<Rightarrow> string \<Rightarrow> string \<Rightarrow> u64 \<Rightarrow> u64 \<Rightarrow> u64 \<Rightarrow>
     consensus_state \<Rightarrow> (handle_response, std_error) result" where
  "verify_packet_receipt_absence L env storage height commitment_prefix proof port_id channel_id
       delay_time_period delay_block_period sequence cs =
     and_then (proof_field L proof) (\<lambda>proof.
     and_then (from_base64 L (root_hash (cs_root cs)) ''msg.consensus_state.root'') (\<lambda>rt.
     and_then (verify_delay_period_passed L storage height (block_height env) (block_time env)
         delay_time_period delay_block_period) (\<lambda>_.
     and_then (identifier_of (port_id_from_str L port_id)) (\<lambda>port_id.
     and_then (identifier_of (channel_id_from_str L channel_id)) (\<lambda>channel_id.
     and_then (apply_prefix L commitment_prefix
         [path_to_string L (ReceiptsPath port_id channel_id sequence)]) (\<lambda>path.
     and_then (unwrap (if key_path path = [] then None else Some (last (key_path path)))) (\<lambda>key.
     and_then (index (proofs proof) 0) (\<lambda>p.
     and_then (index (ics23_specs L) 0) (\<lambda>spec.
     if \<not> ics23_verify_non_membership L p spec rt (as_bytes key)
     then Err (GenericErr ''proof non membership verification failed (invalid proof)'')
     else wrap_response L (VerifyPacketReceiptAbsenceResult call_success)
            ''verify_packet_receipt_absence'')))))))))"

section \<open>Status\<close>

definition status ::
    "('pk, 'sig, 'ep, 'sp, 'st, 'z) contract_crates_scheme \<Rightarrow> env \<Rightarrow> client_state \<Rightarrow> consensus_state \<Rightarrow>
     (handle_response, std_error) result" where
  "status L env me cs =
     (let current_timestamp = block_time env in
     and_then (light_client_state_field L (cl_data me) ''msg.light_client_state'')
       (\<lambda>light_client_state.
     and_then
       (if frozen me then Ok Frozen
        else
        and_then (light_consensus_state_field L (cs_data cs) ''msg.light_consensus_state'')
          (\<lambda>light_consensus_state.
        and_then (is_expired current_timestamp (snap_timestamp light_consensus_state)
            light_client_state) (\<lambda>expired.
          Ok (if expired then Exipred else Active)))) (\<lambda>status.
       wrap_response L (StatusResult status) ''status'')))"

section \<open>Dispatch\<close>

definition query ::
    "('pk, 'sig, 'ep, 'sp, 'st, 'z) contract_crates_scheme \<Rightarrow> env \<Rightarrow> query_msg \<Rightarrow> 'st \<Rightarrow>
     (bytes, std_error) result" where
  "query L env msg storage =
     (case msg of
        VerifyClientState me height prefix client_id proof client cs \<Rightarrow>
          and_then (verify_client_state L prefix client_id proof client cs) to_binary
      | VerifyClientConsensusState me height consensus_height prefix client_id proof consensus cs \<Rightarrow>
          and_then (verify_client_consensus_state L consensus_height prefix client_id proof consensus cs)
            to_binary
      | VerifyConnectionState me height prefix proof connection_id connection_end cs \<Rightarrow>
          and_then (verify_connection_state L prefix proof connection_id connection_end cs) to_binary
      | VerifyChannelState me height prefix proof port_id channel_id channel cs \<Rightarrow>
          and_then (verify_channel_state L prefix proof port_id channel_id channel cs) to_binary
      | VerifyPacketCommitment me height prefix proof port_id channel_id delay_time delay_block
            sequence commitment_bytes cs \<Rightarrow>
          and_then (verify_packet_commitment L env storage height prefix proof port_id channel_id
            delay_time delay_block sequence commitment_bytes cs) to_binary
      | VerifyPacketAcknowledgement me height prefix proof port_id channel_id delay_time delay_block
            sequence acknowledgement cs \<Rightarrow>
          and_then (verify_packet_acknowledgment L env storage height prefix proof port_id channel_id
            delay_time delay_block sequence acknowledgement cs) to_binary
      | VerifyPacketReceiptAbsence me height prefix proof port_id channel_id delay_time delay_block
            sequence cs \<Rightarrow>
          and_then (verify_packet_receipt_absence L env storage height prefix proof port_id channel_id
            delay_time delay_block sequence cs) to_binary
      | VerifyNextSequenceRecv me height prefix proof port_id channel_id delay_time delay_block
            next_sequence_recv cs \<Rightarrow>
          and_then (verify_next_sequence_recv L env storage height prefix proof port_id channel_id
            delay_time delay_block next_sequence_recv cs) to_binary
      | ProcessedTime height \<Rightarrow>
          and_then (get_processed_time L storage EMPTY_PREFIX height) (\<lambda>processed_time.
            to_vec L (ProcessedTimeResponse processed_time))
      | QueryStatus me cs \<Rightarrow> and_then (status L env me cs) to_binary)"

end
