(* ===== verification/Library_Fields.thy ===== *)
theory Library_Fields
  imports Light_Safety
begin

text \<open>
  The operations of the library use no more of the crates than the fields of \<open>crates\<close>: on a
  record that extends it, as the contract's does, they compute what they compute on the
  record without the extension.
\<close>

lemma truncate_crates:
  "bi_bits (crates.truncate L) = bi_bits L" "bi_bit (crates.truncate L) = bi_bit L"
  "bi_is_zero (crates.truncate L) = bi_is_zero L" "bi_to_u64 (crates.truncate L) = bi_to_u64 L"
  "bi_from_bytes_be (crates.truncate L) = bi_from_bytes_be L"
  "bi_to_bytes_be (crates.truncate L) = bi_to_bytes_be L"
  "rlp_out (crates.truncate L) = rlp_out L" "rlp_at (crates.truncate L) = rlp_at L"
  "rlp_iter (crates.truncate L) = rlp_iter L" "rlp_value (crates.truncate L) = rlp_value L"
  "rlp_as_vec (crates.truncate L) = rlp_as_vec L" "rlp_as_u64 (crates.truncate L) = rlp_as_u64 L"
  "keccak256 (crates.truncate L) = keccak256 L"
  "pk_deserialize (crates.truncate L) = pk_deserialize L"
  "sig_deserialize (crates.truncate L) = sig_deserialize L"
  "pk_aggregate (crates.truncate L) = pk_aggregate L" "pk_verify (crates.truncate L) = pk_verify L"
  by (simp_all add: crates.truncate_def)

lemma library_only_codec:
  "decode_value (crates.truncate L) r f = decode_value L r f"
  "val_at (crates.truncate L) g r i = val_at L g r i"
  by (simp_all only: decode_value_def val_at_def truncate_crates)

lemma library_only_fields:
  "rlp_list_field_from_bytes (crates.truncate L) = rlp_list_field_from_bytes L"
  "rlp_field_from_bytes (crates.truncate L) = rlp_field_from_bytes L"
  "rlp_to_big_int (crates.truncate L) = rlp_to_big_int L"
  "big_int_to_rlp_compat_bytes (crates.truncate L) = big_int_to_rlp_compat_bytes L"
  by (intro ext, simp only: rlp_list_field_from_bytes_def rlp_field_from_bytes_def rlp_to_big_int_def
      big_int_to_rlp_compat_bytes_def library_only_codec truncate_crates)+

lemma library_only_seal:
  "seal_append (crates.truncate L) = seal_append L"
  "seal_decode (crates.truncate L) = seal_decode L"
  by (intro ext, simp only: seal_append_def seal_decode_def library_only_codec library_only_fields
      truncate_crates)+

lemma library_only_extra:
  "extra_append (crates.truncate L) = extra_append L"
  "extra_decode (crates.truncate L) = extra_decode L"
  by (intro ext, simp only: extra_append_def extra_decode_def library_only_codec library_only_fields
      library_only_seal truncate_crates)+

lemma library_only_istanbul:
  "istanbul_extra_from_rlp (crates.truncate L) = istanbul_extra_from_rlp L"
  "istanbul_extra_to_rlp (crates.truncate L) = istanbul_extra_to_rlp L"
  by (intro ext, simp only: istanbul_extra_from_rlp_def istanbul_extra_to_rlp_def library_only_codec
      library_only_fields library_only_extra truncate_crates)+

lemma library_only_header:
  "header_append (crates.truncate L) = header_append L"
  "header_decode (crates.truncate L) = header_decode L"
  by (intro ext, simp only: header_append_def header_decode_def library_only_codec library_only_fields
      truncate_crates)+

lemma library_only_header_rlp:
  "header_to_rlp (crates.truncate L) = header_to_rlp L"
  "header_from_rlp (crates.truncate L) = header_from_rlp L"
  by (intro ext, simp only: header_to_rlp_def header_from_rlp_def library_only_header truncate_crates)+

lemma library_only_rlp_hash: "rlp_hash (crates.truncate L) = rlp_hash L"
  by (intro ext, simp only: rlp_hash_def library_only_header library_only_header_rlp truncate_crates)

lemma library_only_filtered:
  "istanbul_filtered_header (crates.truncate L) = istanbul_filtered_header L"
  by (intro ext, simp only: istanbul_filtered_header_def library_only_istanbul)

lemma library_only_hash: "header_hash (crates.truncate L) = header_hash L"
  by (intro ext, simp only: header_hash_def library_only_filtered library_only_rlp_hash truncate_crates)

lemma library_only_items:
  "extra_item (crates.truncate L) = extra_item L" "header_item (crates.truncate L) = header_item L"
  by (intro ext, simp only: extra_item_def seal_item_def header_item_def library_only_fields)+

lemma library_only_bls: "verify_aggregated_seal (crates.truncate L) = verify_aggregated_seal L"
  by (intro ext, simp only: verify_aggregated_seal_def prepare_commited_seal_def
      deserialize_signature_def deserialize_pub_key_def library_only_fields truncate_crates)

lemma library_only_validator: "validator_decode (crates.truncate L) = validator_decode L"
  by (intro ext, simp only: validator_decode_def library_only_fields truncate_crates)

lemma library_only_snapshot:
  "snapshot_append (crates.truncate L) = snapshot_append L"
  "snapshot_decode (crates.truncate L) = snapshot_decode L"
  by (intro ext, simp only: snapshot_append_def snapshot_decode_def library_only_codec
      library_only_validator library_only_fields library_only_seal truncate_crates)+

lemma library_only_snapshot_rlp:
  "snapshot_to_rlp (crates.truncate L) = snapshot_to_rlp L"
  "snapshot_from_rlp (crates.truncate L) = snapshot_from_rlp L"
  "snapshot_verify (crates.truncate L) = snapshot_verify L"
  "snapshot_item (crates.truncate L) = snapshot_item L"
  by (intro ext, simp only: snapshot_to_rlp_def snapshot_from_rlp_def snapshot_verify_def
      snapshot_item_def seal_item_def library_only_fields
      library_only_snapshot library_only_bls truncate_crates)+

lemma library_only_insert:
  "insert_header (crates.truncate L) = insert_header L"
  "verify_header_seal (crates.truncate L) = verify_header_seal L"
  by (intro ext, simp only: insert_header_def store_epoch_header_def store_non_epoch_header_def
      verify_header_def verify_header_seal_def remove_validators_def library_only_istanbul library_only_hash
      library_only_bls truncate_crates)+

lemmas library_only = library_only_header_rlp library_only_hash library_only_snapshot_rlp library_only_insert
  library_only_istanbul

end
