(* ===== verification/Contract_Samples.thy ===== *)
theory Contract_Samples
  imports Contract_Util Library_Fields
begin

text \<open>
  Concrete messages for the witnesses of the contract's properties: the sample light-client
  state, headers and misbehaviour of the library, encoded the way the Go side passes them.
  The library's operations only use the fields \<open>ref_contract\<close> shares with \<open>ref_crates\<close>, so
  they compute the same on both.
\<close>

section \<open>The library on \<open>ref_contract\<close>\<close>

lemma truncate_ref_contract: "crates.truncate ref_contract = ref_crates"
  by (simp add: crates.truncate_def ref_contract_crates)

lemmas ref_same = library_only [of ref_contract, symmetric, unfolded truncate_ref_contract]

section \<open>Sample messages\<close>

definition sample_client :: light_client_state where
  "sample_client =
     \<lparr>lc_epoch_size = 17280, lc_allowed_clock_skew = 5, trusting_period = 1000,
      upgrade_path = [''upgrade''], lc_verify_epoch_headers = True, lc_verify_non_epoch_headers = True,
      lc_verify_header_timestamp = True, allow_update_after_misbehavior = True,
      allow_update_after_expiry = True\<rparr>"

lemma sample_client_fits: "rlp_fits (light_client_state_item sample_client)"
  by (simp add: sample_client_def light_client_state_item_def bool_item_def rlp_fits_def usize_bits_def)

lemma sample_client_config: "light_client_state_config sample_client = sample_config"
  by (simp add: sample_client_def light_client_state_config_def sample_config_def)

definition client_with :: "light_client_state \<Rightarrow> client_state" where
  "client_with c =
     \<lparr>cl_data = base64_encode ref_contract (light_client_state_to_rlp ref_contract c),
      cl_code_id = ''code'', frozen = False, frozen_height = None,
      latest_height = Some (Height 0 17279)\<rparr>"

definition consensus_with :: "snapshot \<Rightarrow> consensus_state" where
  "consensus_with s =
     \<lparr>cs_code_id = ''code'', cs_data = base64_encode ref_contract (snapshot_to_rlp ref_contract s),
      cs_timestamp = snap_timestamp s, cs_root = \<lparr>root_hash = ''root''\<rparr>\<rparr>"

definition wasm_header_with :: "header \<Rightarrow> wasm_header" where
  "wasm_header_with h =
     \<lparr>wh_data = base64_encode ref_contract (header_to_rlp ref_contract h),
      wh_height = Height 0 17280\<rparr>"

lemma client_with_field:
  "rlp_fits (light_client_state_item c) \<Longrightarrow>
     light_client_state_field ref_contract (cl_data (client_with c)) t = Ok c"
  using contract.light_client_state_field_encode [of c t] by (simp add: client_with_def)

lemma consensus_with_field:
  "wf_snapshot s \<Longrightarrow> rlp_fits (snapshot_item ref_crates s) \<Longrightarrow>
     light_consensus_state_field ref_contract (cs_data (consensus_with s)) t = Ok s"
  using contract.light_consensus_state_field_encode [of s t]
  by (simp add: consensus_with_def ref_same)

lemma wasm_header_with_field:
  "wf_header h \<Longrightarrow> rlp_fits (header_item ref_crates h) \<Longrightarrow>
     header_field ref_contract (wh_data (wasm_header_with h)) t = Ok h"
  using ref.header_from_to [of h]
  by (simp add: from_base64_rlp_Ok wasm_header_with_def ref_same)

lemma epoch_header_wf: "wf_header (header_with 17280 epoch_extra)"
  using wf_header_new by (simp add: header_with_def wf_header_def)

lemma epoch_header_fits: "rlp_fits (header_item ref_crates (header_with 17280 epoch_extra))"
  by (rule header_with_fits [OF epoch_extra_small])

end
