(* ===== verification/Contract_Update.thy ===== *)
theory Contract_Update
  imports Contract_Queries Light_Runs Contract_Samples
begin

text \<open>
  The header update of the contract refines the light client: on messages whose fields encode a
  light-client state, a successful \<^verbatim>\<open>check_header_and_update_state\<close> is an accepted
  \<open>insert_header\<close>, and the consensus state it returns encodes the next state. Runs of
  updates therefore inherit the chain of trust of \<open>Light_Runs\<close>.
\<close>

section \<open>Encoded states\<close>

text \<open>A client state and a consensus state as the Go side passes them, and the state they encode.\<close>

definition represents ::
    "('pk, 'sig, 'ep, 'sp, 'st, 'z) contract_crates_scheme \<Rightarrow> client_state \<Rightarrow> consensus_state \<Rightarrow>
     state \<Rightarrow> bool" where
  "represents L me cs lst \<longleftrightarrow>
     (\<exists>t u c. light_client_state_field L (cl_data me) t = Ok c \<and>
        light_consensus_state_field L (cs_data cs) u = Ok (st_snapshot lst) \<and>
        st_config lst = light_client_state_config c)"

definition updated_consensus_state ::
    "('pk, 'sig, 'ep, 'sp, 'st, 'z) contract_crates_scheme \<Rightarrow> consensus_state \<Rightarrow> header \<Rightarrow> state \<Rightarrow>
     consensus_state" where
  "updated_consensus_state L cs h lst =
     \<lparr>cs_code_id = cs_code_id cs,
      cs_data = base64_encode L (snapshot_to_rlp L (st_snapshot lst)),
      cs_timestamp = time h,
      cs_root = \<lparr>root_hash = base64_encode L (header.root h)\<rparr>\<rparr>"

lemma state_eqI: "st_snapshot a = st_snapshot b \<Longrightarrow> st_config a = st_config b \<Longrightarrow> a = (b :: state)"
  by simp

context contract_host
begin

lemma light_consensus_state_field_wf: "light_consensus_state_field L s t = Ok x \<Longrightarrow> wf_snapshot x"
  by (auto simp: from_base64_rlp_Ok dest: snapshot_from_rlp_wf)

end

section \<open>Outcome of the handlers\<close>

lemma init_contract_Ok:
  "init_contract L env cs me st = (Ok r, st') \<longleftrightarrow>
     (\<exists>s h d. light_consensus_state_field L (cs_data cs) ''msg.initial_state_entry'' = Ok s \<and>
        snapshot_verify L s = Ok () \<and> latest_height me = Some h \<and>
        set_consensus_meta L env st EMPTY_PREFIX h = (Ok (), st') \<and>
        to_vec L (InitializeStateResult call_success me) = Ok d \<and>
        r = \<lparr>messages = [], attributes = [(''action'', ''init_block''),
               (''last_consensus_state_height'', dec_string (unat (snap_number s)))],
             response_data = Some d\<rparr>)"
  by (auto simp: init_contract_def result_iff)

lemma check_header_Ok:
  "check_header_and_update_state L env me cs wh st = (Ok r, st') \<longleftrightarrow>
     (\<exists>h s c lst d. header_field L (wh_data wh) ''msg.header'' = Ok h \<and>
        light_consensus_state_field L (cs_data cs) ''msg.light_consensus_state'' = Ok s \<and>
        light_client_state_field L (cl_data me) ''msg.light_client_state'' = Ok c \<and>
        insert_header L (state_new s (light_client_state_config c)) h (block_time env) = (Ok (), lst) \<and>
        set_consensus_meta L env st EMPTY_PREFIX (wh_height wh) = (Ok (), st') \<and>
        to_vec L (CheckHeaderAndUpdateStateResult me (updated_consensus_state L cs h lst) call_success)
          = Ok d \<and>
        r = \<lparr>messages = [], attributes = [(''action'', ''update_block''),
               (''last_consensus_state_height'', dec_string (unat (snap_number (st_snapshot lst))))],
             response_data = Some d\<rparr>)"
  by (auto simp: check_header_and_update_state_def updated_consensus_state_def Let_def result_iff)

section \<open>Refinement\<close>

context contract_host
begin

lemma represents_unique: "represents L me cs a \<Longrightarrow> represents L me cs b \<Longrightarrow> a = b"
  by (intro state_eqI) (auto simp: represents_def from_base64_rlp_Ok)

lemma represents_wf: "represents L me cs lst \<Longrightarrow> wf_snapshot (st_snapshot lst)"
  by (auto simp: represents_def dest: light_consensus_state_field_wf)

lemma represents_step:
  assumes "represents L me cs lst" and "insert_header L lst h now = (Ok (), lst')"
    and "rlp_fits (snapshot_item L (st_snapshot lst'))"
  shows "represents L me (updated_consensus_state L cs h lst') lst'"
proof -
  have "wf_snapshot (st_snapshot lst')" and "st_config lst' = st_config lst"
    using insert_header_wf_Ok [OF represents_wf [OF assms(1)] assms(2)] insert_header_config assms(2) by auto
  then show ?thesis
    using assms(1) light_consensus_state_field_encode [OF _ assms(3)]
    by (auto simp: represents_def updated_consensus_state_def)
qed

lemma check_header_iff:
  assumes "represents L me cs lst"
  shows "check_header_and_update_state L env me cs wh st = (Ok r, st') \<longleftrightarrow>
     (\<exists>h lst' d. header_field L (wh_data wh) ''msg.header'' = Ok h \<and>
        insert_header L lst h (block_time env) = (Ok (), lst') \<and>
        set_consensus_meta L env st EMPTY_PREFIX (wh_height wh) = (Ok (), st') \<and>
        to_vec L (CheckHeaderAndUpdateStateResult me (updated_consensus_state L cs h lst') call_success)
          = Ok d \<and>
        r = \<lparr>messages = [], attributes = [(''action'', ''update_block''),
               (''last_consensus_state_height'', dec_string (unat (snap_number (st_snapshot lst'))))],
             response_data = Some d\<rparr>)"
proof -
  obtain c where c: "light_client_state_field L (cl_data me) ''msg.light_client_state'' = Ok c"
    and s: "light_consensus_state_field L (cs_data cs) ''msg.light_consensus_state'' = Ok (st_snapshot lst)"
    and cfg: "st_config lst = light_client_state_config c"
    using assms by (auto simp: represents_def from_base64_rlp_Ok)
  have "state_new (st_snapshot lst) (light_client_state_config c) = lst"
    by (intro state_eqI) (simp_all add: state_new_def cfg)
  with c s show ?thesis unfolding check_header_Ok by simp
qed

end

text \<open>C10: a header update of the contract is a step of the light client, in both directions: when the
  messages encode the light-client state, the handler succeeds if and only if the message
  decodes to a header that \<^verbatim>\<open>insert_header\<close> accepts at the block's time, and the metadata of
  the claimed height and the response can be serialized. It then records that metadata, returns
  the client state unchanged (its latest height included) and a consensus state with the
  header's time and state root that encodes the light client's next state.\<close>

theorem header_update_refines_light_client:
  assumes "contract_host L" and "represents L me cs lst"
  shows "(check_header_and_update_state L env me cs wh st = (Ok r, st') \<longleftrightarrow>
     (\<exists>h lst' d. header_field L (wh_data wh) ''msg.header'' = Ok h \<and>
        insert_header L lst h (block_time env) = (Ok (), lst') \<and>
        set_consensus_meta L env st EMPTY_PREFIX (wh_height wh) = (Ok (), st') \<and>
        to_vec L (CheckHeaderAndUpdateStateResult me (updated_consensus_state L cs h lst') call_success)
          = Ok d \<and>
        r = \<lparr>messages = [], attributes = [(''action'', ''update_block''),
               (''last_consensus_state_height'', dec_string (unat (snap_number (st_snapshot lst'))))],
             response_data = Some d\<rparr>)) \<and>
     (\<forall>h lst'. insert_header L lst h (block_time env) = (Ok (), lst') \<longrightarrow>
        rlp_fits (snapshot_item L (st_snapshot lst')) \<longrightarrow>
        represents L me (updated_consensus_state L cs h lst') lst')"
  using contract_host.check_header_iff [OF assms] contract_host.represents_step [OF assms] by blast

lemma sample_represents:
  "represents ref_contract (client_with sample_client) (consensus_with sample_snapshot) sample_state"
  unfolding represents_def
  using client_with_field [OF sample_client_fits] consensus_with_field [OF sample_snapshot_wf sample_snapshot_fits]
  by (intro exI [of _ sample_client] exI)
    (simp add: sample_client_config sample_state_def state_new_def)

lemma sample_update:
  "\<exists>r st' lst'. check_header_and_update_state ref_contract sample_env (client_with sample_client)
       (consensus_with sample_snapshot) (wasm_header_with (header_with 17280 epoch_extra)) Map.empty
     = (Ok r, st') \<and>
   insert_header ref_contract sample_state (header_with 17280 epoch_extra) 1600000000 = (Ok (), lst') \<and>
   (\<exists>d. response_data r = Some d \<and>
     to_vec ref_contract (CheckHeaderAndUpdateStateResult (client_with sample_client)
       (updated_consensus_state ref_contract (consensus_with sample_snapshot)
         (header_with 17280 epoch_extra) lst') call_success) = Ok d)"
proof -
  obtain lst' where ins:
    "insert_header ref_contract sample_state (header_with 17280 epoch_extra) 1600000000 = (Ok (), lst')"
    using epoch_header_accepted by (auto simp: ref_same)
  have st: "state_new sample_snapshot (light_client_state_config sample_client) = sample_state"
    by (simp add: sample_state_def sample_client_config)
  obtain st' where "set_consensus_meta ref_contract sample_env Map.empty EMPTY_PREFIX
      (wh_height (wasm_header_with (header_with 17280 epoch_extra))) = (Ok (), st')"
    by (simp add: set_consensus_meta_Ok)
  then show ?thesis
    using ins st client_with_field [OF sample_client_fits]
      consensus_with_field [OF sample_snapshot_wf sample_snapshot_fits]
      wasm_header_with_field [OF epoch_header_wf epoch_header_fits]
    unfolding check_header_Ok
    by (simp add: sample_env_def)
qed

theorem header_update_refines_light_client_witness:
  "\<exists>h lst'. header_field ref_contract (wh_data (wasm_header_with (header_with 17280 epoch_extra)))
       ''msg.header'' = Ok h \<and>
     insert_header ref_contract sample_state h 1600000000 = (Ok (), lst')"
proof -
  obtain r st' where "check_header_and_update_state ref_contract sample_env
      (client_with sample_client) (consensus_with sample_snapshot)
      (wasm_header_with (header_with 17280 epoch_extra)) Map.empty = (Ok r, st')"
    using sample_update by blast
  with header_update_refines_light_client [OF sample_host sample_represents]
  show ?thesis by (auto simp: sample_env_def)
qed

section \<open>Runs of updates\<close>

text \<open>
  A sequence of header updates as the host drives them: it reads the client and consensus
  state from each response and passes them to the next call, with the store in between.
\<close>

inductive contract_run ::
    "('pk, 'sig, 'ep, 'sp, 'st, 'z) contract_crates_scheme \<Rightarrow>
     client_state \<times> consensus_state \<times> 'st \<Rightarrow> (env \<times> wasm_header) list \<Rightarrow>
     client_state \<times> consensus_state \<times> 'st \<Rightarrow> bool" for L where
  finish: "contract_run L g [] g"
| advance: "check_header_and_update_state L env me cs wh st = (Ok r, st1) \<Longrightarrow>
     response_data r = Some d \<Longrightarrow>
     to_vec L (CheckHeaderAndUpdateStateResult me1 cs1 call_success) = Ok d \<Longrightarrow>
     contract_run L (me1, cs1, st1) ws g \<Longrightarrow>
     contract_run L (me, cs, st) ((env, wh) # ws) g"

inductive_cases contract_run_ConsE: "contract_run L (me, cs, st) ((env, wh) # ws) g"
inductive_cases contract_run_NilE: "contract_run L g [] g'"

text \<open>The headers of the messages, with the times at which they are processed.\<close>

definition decoded_updates ::
    "('pk, 'sig, 'ep, 'sp, 'st, 'z) contract_crates_scheme \<Rightarrow> (env \<times> wasm_header) list \<Rightarrow>
     (header \<times> u64) list \<Rightarrow> bool" where
  "decoded_updates L ws hs \<longleftrightarrow> list_all2 (\<lambda>(env, wh) (h, now).
     header_field L (wh_data wh) ''msg.header'' = Ok h \<and> now = block_time env) ws hs"

text \<open>Every snapshot on the way fits the address space.\<close>

definition run_fits ::
    "('pk, 'sig, 'ep, 'sp, 'st, 'z) contract_crates_scheme \<Rightarrow> state \<Rightarrow> (header \<times> u64) list \<Rightarrow> bool" where
  "run_fits L lst hs \<longleftrightarrow> (\<forall>n lst'. accepted_run L lst (take n hs) lst' \<longrightarrow>
     rlp_fits (snapshot_item L (st_snapshot lst')))"

lemma run_fits_Cons:
  assumes "run_fits L lst ((h, now) # hs)" and "insert_header L lst h now = (Ok (), lst1)"
  shows "rlp_fits (snapshot_item L (st_snapshot lst1)) \<and> run_fits L lst1 hs"
proof
  have step: "accepted_run L lst (take (Suc n) ((h, now) # hs)) l"
    if "accepted_run L lst1 (take n hs) l" for n l
    using that assms(2) by (simp add: accepted_run.advance)
  have "accepted_run L lst (take (Suc 0) ((h, now) # hs)) lst1"
    by (rule step) (simp add: accepted_run.finish)
  then show "rlp_fits (snapshot_item L (st_snapshot lst1))"
    using assms(1) unfolding run_fits_def by blast
  show "run_fits L lst1 hs"
    using step assms(1) unfolding run_fits_def by blast
qed

lemma contract_run_refines:
  assumes L: "contract_host L" and "contract_run L (me, cs, st) ws (me', cs', st')"
    and "represents L me cs lst" and "decoded_updates L ws hs" and "run_fits L lst hs"
  shows "me' = me \<and> (\<exists>lst'. accepted_run L lst hs lst' \<and> represents L me' cs' lst' \<and>
    cs' = (if hs = [] then cs else updated_consensus_state L cs (fst (last hs)) lst'))"
  using assms(2-5)
proof (induction ws arbitrary: me cs st lst hs)
  case Nil
  then show ?case
    by (auto simp: decoded_updates_def elim!: contract_run_NilE intro: accepted_run.finish)
next
  case (Cons w ws)
  obtain env wh where w: "w = (env, wh)" by (cases w)
  from Cons.prems(3) w obtain h hs' where hs: "hs = (h, block_time env) # hs'"
    and h: "header_field L (wh_data wh) ''msg.header'' = Ok h" and rest: "decoded_updates L ws hs'"
    by (auto simp: decoded_updates_def list_all2_Cons1)
  from Cons.prems(1) [unfolded w] obtain r st1 d me1 cs1 where
    ok: "check_header_and_update_state L env me cs wh st = (Ok r, st1)"
    and d: "response_data r = Some d"
      "to_vec L (CheckHeaderAndUpdateStateResult me1 cs1 call_success) = Ok d"
    and run: "contract_run L (me1, cs1, st1) ws (me', cs', st')"
    by (elim contract_run_ConsE) blast
  from contract_host.check_header_iff [OF L Cons.prems(2)] ok h obtain lst1 d' where
    ins: "insert_header L lst h (block_time env) = (Ok (), lst1)" and d': "response_data r = Some d'"
      "to_vec L (CheckHeaderAndUpdateStateResult me (updated_consensus_state L cs h lst1) call_success)
         = Ok d'"
    by auto
  note rep = contract_host.represents_step [OF L Cons.prems(2) ins]
  have "json_crate L" using L by (simp add: contract_host_def)
  then have new: "me1 = me \<and> cs1 = updated_consensus_state L cs h lst1"
    using json_crate.update_result_inject [of L me1 cs1 call_success d me _ call_success] d d' by simp
  have fits: "rlp_fits (snapshot_item L (st_snapshot lst1)) \<and> run_fits L lst1 hs'"
    using Cons.prems(4) ins unfolding hs by (rule run_fits_Cons)
  with rep new have "represents L me1 cs1 lst1" by simp
  from Cons.IH [OF run this rest] fits obtain lst' where lst': "me' = me1" "accepted_run L lst1 hs' lst'"
    "represents L me' cs' lst'"
    "cs' = (if hs' = [] then cs1 else updated_consensus_state L cs1 (fst (last hs')) lst')"
    by blast
  have "hs' = [] \<Longrightarrow> lst' = lst1" using lst'(2) by (auto elim: accepted_run.cases)
  then have "cs' = updated_consensus_state L cs (fst (last hs)) lst'"
    using lst'(4) new unfolding hs by (auto simp: updated_consensus_state_def)
  with lst'(1-3) new show ?case
    using ins unfolding hs by (auto intro: accepted_run.advance)
qed

text \<open>C9: runs of the contract are runs of the light client: whatever sequence of header updates the
  host drives successfully, feeding each response into the next call, is a run of accepted
  headers of the light client from the encoded initial state, the client state never
  changes, and the last consensus state encodes the light client's last state and carries the
  time and the state root of the last header. (The chain of trust of accepted runs thus holds
  of the deployed contract.)\<close>

theorem contract_runs_refine_light_client_runs:
  assumes "contract_host L" and "contract_run L (me, cs, st) ws (me', cs', st')"
    and "represents L me cs lst" and "decoded_updates L ws hs" and "run_fits L lst hs"
  shows "me' = me \<and> (\<exists>lst'. accepted_run L lst hs lst' \<and> represents L me' cs' lst' \<and>
    cs' = (if hs = [] then cs else updated_consensus_state L cs (fst (last hs)) lst'))"
  using assms by (rule contract_run_refines)

lemma epoch_snapshot_fits:
  assumes "next_validators ref_crates sample_validators epoch_extra = Some vs \<or> vs = sample_validators"
    and "length hsh = 32" and "rlp_size (seal_item ref_crates (aggregated_seal ex)) < 900"
  shows "rlp_fits (snapshot_item ref_crates (snapshot_of n h hsh ex vs))"
proof -
  have "length vs = 4 \<and> (\<forall>v \<in> set vs. wf_validator v)"
    using assms(1)
    by (auto simp: next_validators_def epoch_extra_def sample_extra_def sample_survivors
        new_validators_def wf_validator_def split: if_splits)
      (auto simp: sample_validators_def)
  then obtain a b c d where vs: "vs = [a, b, c, d]" "wf_validator a" "wf_validator b" "wf_validator c"
      "wf_validator d"
    by (auto simp: length_Suc_conv numeral_eq_Suc)
  then show ?thesis
    using assms(2,3)
    by (simp add: snapshot_item_def snapshot_of_def validator_item_def wf_validator_def rlp_fits_def
        usize_bits_def)
qed

lemma epoch_seal_small: "rlp_size (seal_item ref_crates (aggregated_seal epoch_extra)) < 900"
  using epoch_extra_small by (simp add: extra_item_def)

lemma epoch_run_fits:
  assumes "extra h = extra (header_with 17280 epoch_extra)" and "number h = 17280" and "time h = 1600000000"
  shows "run_fits ref_contract sample_state [(h, 1600000000)]"
  unfolding run_fits_def
proof (intro allI impI)
  obtain hsh vs where ins: "header_hash ref_crates h = Ok hsh"
    "next_validators ref_crates sample_validators epoch_extra = Some vs"
    "insert_header ref_crates sample_state h 1600000000 =
      (Ok (), sample_state\<lparr>st_snapshot := snapshot_of 17280 h hsh epoch_extra vs\<rparr>)"
    using epoch_header_inserted [OF assms] by blast
  have fits: "rlp_fits (snapshot_item ref_crates (snapshot_of 17280 h hsh epoch_extra vs))"
    using epoch_snapshot_fits [OF _ header_hash_length [OF ins(1)] epoch_seal_small] ins(2) by blast
  fix n lst' assume "accepted_run ref_contract sample_state (take n [(h, 1600000000)]) lst'"
  then show "rlp_fits (snapshot_item ref_contract (st_snapshot lst'))"
    using sample_snapshot_fits fits ins(3)
    by (cases n) (auto simp: ref_same sample_state_def state_new_def elim!: accepted_run.cases)
qed

lemma sample_run:
  "\<exists>cs' st'. contract_run ref_contract (client_with sample_client, consensus_with sample_snapshot, Map.empty)
     [(sample_env, wasm_header_with (header_with 17280 epoch_extra))] (client_with sample_client, cs', st')"
proof -
  obtain r st' cs' d where "check_header_and_update_state ref_contract sample_env (client_with sample_client)
      (consensus_with sample_snapshot) (wasm_header_with (header_with 17280 epoch_extra)) Map.empty = (Ok r, st')"
    and "response_data r = Some d"
      "to_vec ref_contract (CheckHeaderAndUpdateStateResult (client_with sample_client) cs' call_success) = Ok d"
    using sample_update by blast
  from contract_run.advance [OF this contract_run.finish] show ?thesis by blast
qed

lemma sample_decoded:
  "decoded_updates ref_contract [(sample_env, wasm_header_with (header_with 17280 epoch_extra))]
     [(header_with 17280 epoch_extra, 1600000000)]"
  using wasm_header_with_field [OF epoch_header_wf epoch_header_fits]
  by (simp add: decoded_updates_def sample_env_def)

lemma sample_run_fits: "run_fits ref_contract sample_state [(header_with 17280 epoch_extra, 1600000000)]"
  by (rule epoch_run_fits [OF refl epoch_header_fields])

theorem contract_runs_refine_light_client_runs_witness:
  "\<exists>cs' st' lst'. contract_run ref_contract (client_with sample_client, consensus_with sample_snapshot, Map.empty)
       [(sample_env, wasm_header_with (header_with 17280 epoch_extra))] (client_with sample_client, cs', st') \<and>
     accepted_run ref_contract sample_state [(header_with 17280 epoch_extra, 1600000000)] lst' \<and>
     represents ref_contract (client_with sample_client) cs' lst'"
proof -
  obtain cs' st' where run: "contract_run ref_contract (client_with sample_client, consensus_with sample_snapshot,
      Map.empty) [(sample_env, wasm_header_with (header_with 17280 epoch_extra))]
      (client_with sample_client, cs', st')"
    using sample_run by blast
  from contract_runs_refine_light_client_runs [OF sample_host run sample_represents sample_decoded sample_run_fits]
  show ?thesis using run by blast
qed

end
