(* ===== verification/Contract_Progress.thy ===== *)
theory Contract_Progress
  imports Contract_Update Light_Progress
begin

text \<open>
  What the deployed contract does not refuse: \<open>Contract_Update\<close> carried runs of updates down to the
  light client; here runs of the light client are carried up to the contract, for a host
  whose JSON writer does not fail, so that the honest chains of \<open>Light_Progress\<close> are exactly
  the sequences of headers the contract follows.
\<close>

lemma contract_run_exists:
  assumes L: "contract_host L" and writes: "\<And>d. \<exists>b. to_vec L d = Ok b"
    and "accepted_run L lst hs lst'" and "represents L me cs lst"
    and "decoded_updates L ws hs" and "run_fits L lst hs"
  shows "\<exists>cs' st'. contract_run L (me, cs, st) ws (me, cs', st') \<and> represents L me cs' lst'"
  using assms(3-6)
proof (induction arbitrary: ws cs st rule: accepted_run.induct)
  case (finish lst)
  then have "ws = []" by (simp add: decoded_updates_def)
  with finish.prems(1) show ?case by (blast intro: contract_run.finish)
next
  case (advance lst h now lst1 hs lst')
  obtain env wh ws' where ws: "ws = (env, wh) # ws'" and h: "header_field L (wh_data wh) ''msg.header'' = Ok h"
    and now: "now = block_time env" and dec: "decoded_updates L ws' hs"
    using advance.prems(2) by (auto simp: decoded_updates_def list_all2_Cons2)
  have fits: "rlp_fits (snapshot_item L (st_snapshot lst1))" "run_fits L lst1 hs"
    using run_fits_Cons [OF advance.prems(3) advance.hyps(1)] by simp_all
  let ?cs = "updated_consensus_state L cs h lst1"
  obtain st1 where meta: "set_consensus_meta L env st EMPTY_PREFIX (wh_height wh) = (Ok (), st1)"
    using writes unfolding set_consensus_meta_Ok by blast
  obtain d where d: "to_vec L (CheckHeaderAndUpdateStateResult me ?cs call_success) = Ok d"
    using writes by blast
  obtain r where "check_header_and_update_state L env me cs wh st = (Ok r, st1)"
    and "response_data r = Some d"
    using contract_host.check_header_iff [OF L advance.prems(1)] h advance.hyps(1) now meta d by auto
  note step = contract_run.advance [OF this d]
  obtain cs' st' where "contract_run L (me, ?cs, st1) ws' (me, cs', st')" "represents L me cs' lst'"
    using advance.IH [OF contract_host.represents_step [OF L advance.prems(1) advance.hyps(1) fits(1)] dec fits(2)]
    by blast
  with step show ?case unfolding ws by blast
qed

text \<open>C6: the deployed contract follows exactly the honest chains. For a configuration with every check
  on, a host whose JSON writer does not fail, and messages that decode to headers not numbered
  zero, the contract accepts the whole sequence of updates, each response fed into the next
  call, if and only if the headers form an honest chain of the protocol from the snapshot its
  consensus state encodes and none is from the future of the block that processes it; the
  consensus state it ends with then encodes the snapshot of the chain's last block. \<close>

theorem contract_follows_exactly_honest_chains:
  assumes "contract_host L" and "\<forall>d. \<exists>b. to_vec L d = Ok b"
    and "represents L me cs (state_new s cfg)"
    and "epoch_size cfg \<noteq> 0" and "verify_epoch_headers cfg" and "verify_non_epoch_headers cfg"
    and "verify_header_timestamp cfg"
    and "decoded_updates L ws hs" and "\<forall>(h, now) \<in> set hs. number h \<noteq> 0"
    and "run_fits L (state_new s cfg) hs"
  shows "(\<exists>cs' st'. contract_run L (me, cs, st) ws (me, cs', st') \<and> represents L me cs' lst') \<longleftrightarrow>
     (\<exists>s'. honest_chain L (epoch_size cfg) s (map fst hs) s' \<and> lst' = state_new s' cfg) \<and>
     list_all (\<lambda>(h, now). in_time cfg h now) hs"
proof -
  have "library_crates L" using assms(1) by (simp add: contract_host_def)
  note iff = accepted_run_iff_honest [OF this assms(4-7,9)]
  have "accepted_run L (state_new s cfg) hs lst'"
    if "contract_run L (me, cs, st) ws (me, cs', st')" "represents L me cs' lst'" for cs' st'
    using contract_run_refines [OF assms(1) that(1) assms(3,8,10)] that(2)
      contract_host.represents_unique [OF assms(1)] by blast
  moreover have "\<exists>cs' st'. contract_run L (me, cs, st) ws (me, cs', st') \<and> represents L me cs' lst'"
    if "accepted_run L (state_new s cfg) hs lst'"
    using contract_run_exists [OF assms(1) _ that assms(3,8,10)] assms(2) by blast
  ultimately show ?thesis unfolding iff [symmetric] by blast
qed

text \<open>The sample epoch header is followed, so it is honest.\<close>

lemma ref_to_vec_Ok: "\<exists>b. ref_to_vec d = Ok b"
  by (cases d) simp_all

theorem contract_follows_exactly_honest_chains_witness:
  "\<exists>cs' st' s'. contract_run ref_contract
       (client_with sample_client, consensus_with sample_snapshot, Map.empty)
       [(sample_env, wasm_header_with (header_with 17280 epoch_extra))]
       (client_with sample_client, cs', st') \<and>
     represents ref_contract (client_with sample_client) cs' (state_new s' sample_config) \<and>
     honest_chain ref_contract 17280 sample_snapshot [header_with 17280 epoch_extra] s'"
proof -
  let ?ws = "[(sample_env, wasm_header_with (header_with 17280 epoch_extra))]"
    and ?hs = "[(header_with 17280 epoch_extra, 1600000000 :: u64)]"
  obtain cs' st' where run: "contract_run ref_contract (client_with sample_client, consensus_with sample_snapshot,
      Map.empty) ?ws (client_with sample_client, cs', st')"
    using sample_run by blast
  obtain lst' where rep: "represents ref_contract (client_with sample_client) cs' lst'"
    using contract_run_refines [OF sample_host run sample_represents sample_decoded sample_run_fits] by blast
  have "(\<exists>cs' st'. contract_run ref_contract (client_with sample_client, consensus_with sample_snapshot,
      Map.empty) ?ws (client_with sample_client, cs', st') \<and>
      represents ref_contract (client_with sample_client) cs' lst') \<longleftrightarrow>
    (\<exists>s'. honest_chain ref_contract (epoch_size sample_config) sample_snapshot (map fst ?hs) s' \<and>
      lst' = state_new s' sample_config) \<and> list_all (\<lambda>(h, now). in_time sample_config h now) ?hs"
    by (rule contract_follows_exactly_honest_chains [OF sample_host])
      (use sample_represents sample_decoded sample_run_fits ref_to_vec_Ok
        in \<open>auto simp: sample_state_def sample_config_def header_with_def\<close>)
  with run rep show ?thesis by (auto simp: sample_config_def)
qed

end
