(* ===== verification/Contract_Safety.thy ===== *)
theory Contract_Safety
  imports Contract_Update
begin

text \<open>
  What a success of initialisation and of the misbehaviour check establishes (a verified
  initial state, evidence against the frozen client), and the status query with its expiry test.
\<close>

section \<open>Initialisation\<close>

text \<open>C19: a contract is initialised with exactly the verified states: the snapshot decoded from the
  consensus state is sealed, over its own hash, by two thirds of its own validator set (which
  is small enough for the quorum's arithmetic), the client's latest height is present, and its
  metadata and the response can be serialized. The metadata is recorded, the client state
  returned as it came, and the log shows the snapshot's number. \<close>

theorem initial_state_is_verified:
  "init_contract L env cs me st = (Ok r, st') \<longleftrightarrow>
     (\<exists>s h d. light_consensus_state_field L (cs_data cs) ''msg.initial_state_entry'' = Ok s \<and>
        2 * length (snap_validators s) + 2 < 2 ^ usize_bits \<and>
        quorum_sealed L (snap_validators s) (snap_hash s) (snap_aggregated_seal s) \<and>
        latest_height me = Some h \<and> set_consensus_meta L env st EMPTY_PREFIX h = (Ok (), st') \<and>
        to_vec L (InitializeStateResult call_success me) = Ok d \<and>
        r = \<lparr>messages = [], attributes = [(''action'', ''init_block''),
               (''last_consensus_state_height'', dec_string (unat (snap_number s)))],
             response_data = Some d\<rparr>)"
  by (auto simp: init_contract_Ok snapshot_verify_def verify_aggregated_seal_Ok_iff)

text \<open>The sample snapshot is accepted.\<close>

lemma sample_initialised:
  "\<exists>r st'. init_contract ref_contract sample_env (consensus_with sample_snapshot)
     (client_with sample_client) Map.empty = (Ok r, st')"
proof -
  have "snapshot_verify ref_contract sample_snapshot = Ok ()"
    using sample_seal_ok [of 7] by (simp add: ref_same snapshot_verify_def sample_snapshot_def)
  moreover obtain st' where "set_consensus_meta ref_contract sample_env Map.empty EMPTY_PREFIX
      (Height 0 17279) = (Ok (), st')"
    by (simp add: set_consensus_meta_Ok)
  ultimately show ?thesis
    using consensus_with_field [OF sample_snapshot_wf sample_snapshot_fits]
    unfolding init_contract_Ok by (simp add: client_with_def)
qed

section \<open>Misbehaviour\<close>

lemma verify_header_seal_Ok:
  "verify_header_seal L st h = Ok () \<longleftrightarrow> (\<exists>hsh ex. header_hash L h = Ok hsh \<and>
     istanbul_extra_from_rlp L (extra h) = Ok ex \<and>
     verify_aggregated_seal L hsh (st_validators st) (aggregated_seal ex) = Ok ())"
  by (auto simp: verify_header_seal_def and_then_eq_Ok)

text \<open>A header sealed by a quorum of the validators of an encoded consensus state.\<close>

definition sealed_by ::
    "('pk, 'sig, 'ep, 'sp, 'st, 'z) contract_crates_scheme \<Rightarrow> consensus_state \<Rightarrow> header \<Rightarrow> bool" where
  "sealed_by L cs h \<longleftrightarrow>
     (\<exists>s hsh ex. light_consensus_state_field L (cs_data cs) ''msg.light_consensus_state'' = Ok s \<and>
        header_hash L h = Ok hsh \<and> istanbul_extra_from_rlp L (extra h) = Ok ex \<and>
        2 * length (snap_validators s) + 2 < 2 ^ usize_bits \<and>
        quorum_sealed L (snap_validators s) hsh (aggregated_seal ex))"

lemma check_misbehaviour_header_sealed:
  "check_misbehaviour_header L n me cs h = Ok () \<longleftrightarrow> sealed_by L cs h \<and>
     (\<exists>c. light_client_state_field L (cl_data me) ''msg.light_client_state'' = Ok c)"
  by (auto simp: check_misbehaviour_header_def Let_def result_iff verify_header_seal_Ok state_new_def
      verify_aggregated_seal_Ok_iff sealed_by_def)

text \<open>The client as a misbehaviour check returns it.\<close>

definition frozen_at :: "client_state \<Rightarrow> height \<Rightarrow> client_state" where
  "frozen_at me h = me\<lparr>frozen := True, frozen_height := Some h\<rparr>"

text \<open>C18: what freezes a client, exactly: the misbehaviour check succeeds if and only if both headers
  are sealed by a quorum of the validators of their consensus states, have different state
  roots, and are submitted under one height, below the one the client was frozen at before
  if it was (and the client's own data decodes and the answer can be serialized). The client
  comes back frozen at that height and otherwise unchanged. The height is the one the
  messages claim: the block numbers inside the headers play no part, so two honest headers
  of different blocks are evidence too. \<close>

theorem misbehaviour_accepted_iff:
  "check_misbehaviour L me mb cs1 cs2 = Ok r \<longleftrightarrow>
     (\<exists>h1 h2 d c.
        header_field L (wh_data (header_1 mb)) ''msg.header'' = Ok h1 \<and>
        header_field L (wh_data (header_2 mb)) ''msg.header'' = Ok h2 \<and>
        sealed_by L cs1 h1 \<and> sealed_by L cs2 h2 \<and> header.root h1 \<noteq> header.root h2 \<and>
        wh_height (header_1 mb) = wh_height (header_2 mb) \<and>
        (\<not> frozen me \<or> frozen_height me = None \<or> wh_height (header_1 mb) < the (frozen_height me)) \<and>
        light_client_state_field L (cl_data me) ''msg.light_client_state'' = Ok c \<and>
        to_vec L (CheckMisbehaviourAndUpdateStateResult call_success
          (frozen_at me (wh_height (header_1 mb)))) = Ok d \<and>
        r = \<lparr>messages = [], attributes = [(''action'', ''verify_misbehaviour''),
              (''height'', height_display (wh_height (header_1 mb)))], response_data = Some d\<rparr>)"
  by (cases "frozen_height me")
    (auto simp: check_misbehaviour_def frozen_at_def Let_def and_then_eq_Ok not_le
      check_misbehaviour_header_sealed if_Err_eq_Ok)

definition conflicting_header :: header where
  "conflicting_header = (header_with 17281 epoch_extra)\<lparr>header.root := replicate 32 1\<rparr>"

lemma conflicting_header_facts:
  "wf_header conflicting_header" "rlp_fits (header_item ref_crates conflicting_header)"
  "header.root conflicting_header \<noteq> header.root (header_with 17280 epoch_extra)"
  "istanbul_extra_from_rlp ref_crates (extra conflicting_header) = Ok epoch_extra"
  "\<exists>hsh. header_hash ref_crates conflicting_header = Ok hsh"
proof -
  show "wf_header conflicting_header"
    using wf_header_new by (simp add: wf_header_def conflicting_header_def header_with_def)
  show "rlp_fits (header_item ref_crates conflicting_header)"
    using epoch_header_fits
    by (simp add: rlp_fits_def header_item_def conflicting_header_def header_with_def header_new_def
        big_int_to_rlp_compat_bytes_def be_bytes.simps)
  show "header.root conflicting_header \<noteq> header.root (header_with 17280 epoch_extra)"
    by (simp add: conflicting_header_def header_with_def header_new_def)
  show "istanbul_extra_from_rlp ref_crates (extra conflicting_header) = Ok epoch_extra"
    using header_with_decodes(1) [OF epoch_extra_wf epoch_extra_fits, of 17281]
    by (simp add: conflicting_header_def)
  have "conflicting_header\<lparr>extra := istanbul_extra_to_rlp ref_crates epoch_extra (replicate 32 0)\<rparr> =
      conflicting_header"
    by (simp add: conflicting_header_def header_with_def)
  then show "\<exists>hsh. header_hash ref_crates conflicting_header = Ok hsh"
    using ref.header_hash_istanbul [OF epoch_extra_wf epoch_extra_fits, of "replicate 32 0"
      conflicting_header] by simp
qed

definition sample_misbehaviour :: misbehaviour where
  "sample_misbehaviour = \<lparr>mb_code_id = ''code'', mb_client_id = ''client'',
     header_1 = wasm_header_with (header_with 17280 epoch_extra),
     header_2 = wasm_header_with conflicting_header\<rparr>"

text \<open>Two headers of different blocks, sealed by the same validators, freeze the client.\<close>

theorem misbehaviour_accepted_iff_witness:
  "\<exists>r. check_misbehaviour ref_contract (client_with sample_client) sample_misbehaviour
       (consensus_with sample_snapshot) (consensus_with sample_snapshot) = Ok r \<and>
     number (header_with 17280 epoch_extra) \<noteq> number conflicting_header"
proof -
  let ?h = "header_with 17280 epoch_extra" and ?cs = "consensus_with sample_snapshot"
  have sealed: "sealed_by ref_contract ?cs h"
    if "istanbul_extra_from_rlp ref_crates (extra h) = Ok epoch_extra"
      and "\<exists>hsh. header_hash ref_crates h = Ok hsh" for h
  proof -
    have "check_misbehaviour_header ref_contract 1 (client_with sample_client) ?cs h = Ok ()"
      using that consensus_with_field [OF sample_snapshot_wf sample_snapshot_fits]
        client_with_field [OF sample_client_fits] epoch_extra_seal
      by (auto simp: check_misbehaviour_header_def Let_def ref_same verify_header_seal_def state_new_def
          sample_snapshot_def)
    then show ?thesis by (simp add: check_misbehaviour_header_sealed)
  qed
  have "\<exists>r. check_misbehaviour ref_contract (client_with sample_client) sample_misbehaviour ?cs ?cs = Ok r"
    unfolding misbehaviour_accepted_iff
    using sealed [OF conflicting_header_facts(4,5)] conflicting_header_facts(3) [symmetric]
      sealed [OF header_with_decodes [OF epoch_extra_wf epoch_extra_fits, of 17280]]
      wasm_header_with_field [OF conflicting_header_facts(1,2)]
      wasm_header_with_field [OF epoch_header_wf epoch_header_fits]
      client_with_field [OF sample_client_fits]
    by (simp add: sample_misbehaviour_def) (simp add: wasm_header_with_def client_with_def)
  then show ?thesis by (simp add: conflicting_header_def header_with_def)
qed

section \<open>Expiry and status\<close>

text \<open>A client expires when the current time is past the timestamp of its consensus state plus
  the trusting period; where that sum exceeds 64 bits the check aborts instead. \<close>

theorem is_expired_iff:
  "is_expired now ts c =
     (if unat ts + unat (trusting_period c) < 2 ^ 64
      then Ok (unat ts + unat (trusting_period c) < unat now) else Panic)"
  by (auto simp: is_expired_def u64_add_def unat_add_u64 word_less_nat_alt)

lemma is_expired_Ok:
  "is_expired now ts c = Ok b \<longleftrightarrow> unat ts + unat (trusting_period c) < 2 ^ 64 \<and>
     b = (unat ts + unat (trusting_period c) < unat now)"
  by (auto simp: is_expired_def u64_add_def unat_add_u64 word_less_nat_alt)

text \<open>The status query reports a frozen client as frozen, without looking at its consensus state;
  otherwise as expired or active according to the decoded snapshot's timestamp. \<close>

theorem status_reports:
  assumes "status L env me cs = Ok r"
  shows "\<exists>c d. light_client_state_field L (cl_data me) ''msg.light_client_state'' = Ok c \<and>
     response_data r = Some d \<and>
     (if frozen me then to_vec L (StatusResult Frozen) = Ok d
      else (\<exists>s. light_consensus_state_field L (cs_data cs) ''msg.light_consensus_state'' = Ok s \<and>
        to_vec L (StatusResult
          (if unat (snap_timestamp s) + unat (trusting_period c) < unat (block_time env)
           then Exipred else Active)) = Ok d))"
proof (cases "frozen me")
  case True
  then show ?thesis
    using assms by (auto simp: status_def Let_def and_then_eq_Ok wrap_response_Ok)
next
  case False
  then show ?thesis
    using assms
    by (auto simp: status_def Let_def and_then_eq_Ok wrap_response_Ok is_expired_Ok split del: if_split)
qed

theorem status_reports_witness:
  "\<exists>r. status ref_contract sample_env (client_with sample_client) (consensus_with sample_snapshot) = Ok r \<and>
     (\<exists>d. response_data r = Some d)"
proof -
  have "\<exists>r. status ref_contract sample_env (client_with sample_client)
      (consensus_with sample_snapshot) = Ok r"
    using client_with_field [OF sample_client_fits]
      consensus_with_field [OF sample_snapshot_wf sample_snapshot_fits]
    by (simp add: status_def Let_def client_with_def is_expired_iff sample_client_def sample_snapshot_def
        wrap_response_def)
  then obtain r where "status ref_contract sample_env (client_with sample_client)
      (consensus_with sample_snapshot) = Ok r" ..
  with status_reports [OF this] show ?thesis by blast
qed

end
