(* ===== verification/Query_Safety.thy ===== *)
theory Query_Safety
  imports Contract_Update
begin

text \<open>
  What a successful query establishes: the membership queries prove the value under the
  prefixed path in the consensus state's root, and the packet queries do so only after the
  delay period since the proof height was recorded.
\<close>

section \<open>Membership\<close>

lemma apply_prefix_Ok:
  "apply_prefix L p path = Ok q \<longleftrightarrow>
     (\<exists>b s. key_prefix p \<noteq> '''' \<and> base64_decode L (key_prefix p) = Some b \<and> from_utf8 b = Some s \<and>
        q = \<lparr>key_path = s # path\<rparr>)"
  by (auto simp: apply_prefix_def and_then_eq_Ok ok_or_eq_Ok)

text \<open>The value is proved under the path below the prefix, in the root of the consensus state.\<close>

definition proves ::
    "('pk, 'sig, 'ep, 'sp, 'st, 'z) contract_crates_scheme \<Rightarrow> string \<Rightarrow> consensus_state \<Rightarrow>
     merkle_prefix \<Rightarrow> ics_path \<Rightarrow> bytes \<Rightarrow> bool" where
  "proves L proof cs prefix path v \<longleftrightarrow>
     (\<exists>b p rt pb ps. base64_decode L proof = Some b \<and> merkle_proof_from_slice L b = Ok p \<and>
        base64_decode L (root_hash (cs_root cs)) = Some rt \<and> key_prefix prefix \<noteq> '''' \<and>
        base64_decode L (key_prefix prefix) = Some pb \<and> from_utf8 pb = Some ps \<and>
        proof_chain L (ics23_specs L) [path_to_string L path, ps] (proofs p) v rt)"

lemma verify_membership_Ok:
  "verify_membership L p specs rt path val 0 = Ok b \<longleftrightarrow>
     b \<and> proof_chain L specs (rev (key_path path)) (proofs p) val rt"
  by (cases "proofs p = []") (auto simp: verify_membership_def and_then_eq_Ok verify_layers_Ok)

lemma prove_Ok:
  "prove L p rt prefix path val = Ok u \<longleftrightarrow>
     (\<exists>v pb ps. key_prefix prefix \<noteq> '''' \<and> base64_decode L (key_prefix prefix) = Some pb \<and>
        from_utf8 pb = Some ps \<and> val = Ok v \<and>
        proof_chain L (ics23_specs L) [path_to_string L path, ps] (proofs p) v rt)"
  by (auto simp: prove_def and_then_eq_Ok apply_prefix_Ok verify_membership_Ok)

text \<open>The common part of the membership queries, from the decoding of the proof to the check.\<close>

lemma proves_iff:
  "(\<exists>p rt. proof_field L proof = Ok p \<and> from_base64 L (root_hash (cs_root cs)) t = Ok rt \<and>
      prove L p rt prefix path val = Ok u) \<longleftrightarrow> (\<exists>v. val = Ok v \<and> proves L proof cs prefix path v)"
  by (auto simp: from_base64_json_slice_Ok from_base64_Ok prove_Ok proves_def)

text \<open>The state queries differ in the identifiers they parse, the path, the value and the answer.\<close>

lemma ex_and_then_Ok: "(\<exists>r. and_then m f = Ok r) \<longleftrightarrow> (\<exists>a. m = Ok a \<and> (\<exists>r. f a = Ok r))"
  by (auto simp: and_then_eq_Ok)

lemma ex_wrap_response_Ok: "(\<exists>r. wrap_response L d action = Ok r) \<longleftrightarrow> (\<exists>b. to_vec L d = Ok b)"
  by (auto simp: wrap_response_Ok)

lemma query_proves:
  "(\<exists>r. and_then (proof_field L proof) (\<lambda>p. and_then (from_base64 L (root_hash (cs_root cs)) t) (\<lambda>rt.
      and_then (identifier_of x) (\<lambda>i. and_then (prove L p rt prefix (path i) val) (\<lambda>_.
        wrap_response L doc action)))) = Ok r) \<longleftrightarrow>
     (\<exists>i v. x = Some i \<and> val = Ok v \<and> proves L proof cs prefix (path i) v) \<and> (\<exists>d. to_vec L doc = Ok d)"
proof -
  have "(\<exists>i v. x = Some i \<and> val = Ok v \<and> proves L proof cs prefix (path i) v) \<longleftrightarrow>
      (\<exists>i. x = Some i \<and> (\<exists>v. val = Ok v \<and> proves L proof cs prefix (path i) v))" by blast
  then show ?thesis
    unfolding ex_and_then_Ok ex_wrap_response_Ok ok_or_eq_Ok proves_iff [where t = t and u = "()", symmetric]
    by auto
qed

lemma query_proves2:
  "(\<exists>r. and_then (proof_field L proof) (\<lambda>p. and_then (from_base64 L (root_hash (cs_root cs)) t) (\<lambda>rt.
      and_then (identifier_of x) (\<lambda>i. and_then (identifier_of y) (\<lambda>j.
        and_then (prove L p rt prefix (path i j) val) (\<lambda>_. wrap_response L doc action))))) = Ok r) \<longleftrightarrow>
     (\<exists>i j v. x = Some i \<and> y = Some j \<and> val = Ok v \<and> proves L proof cs prefix (path i j) v) \<and>
     (\<exists>d. to_vec L doc = Ok d)"
proof -
  have "(\<exists>i j v. x = Some i \<and> y = Some j \<and> val = Ok v \<and> proves L proof cs prefix (path i j) v) \<longleftrightarrow>
      (\<exists>i j. x = Some i \<and> y = Some j \<and> (\<exists>v. val = Ok v \<and> proves L proof cs prefix (path i j) v))" by blast
  then show ?thesis
    unfolding ex_and_then_Ok ex_wrap_response_Ok ok_or_eq_Ok proves_iff [where t = t and u = "()", symmetric]
    by auto
qed

lemma proves_intro:
  "proof_field L proof = Ok p \<Longrightarrow> from_base64 L (root_hash (cs_root cs)) t = Ok rt \<Longrightarrow>
     prove L p rt prefix path val = Ok u \<Longrightarrow> \<exists>v. val = Ok v \<and> proves L proof cs prefix path v"
  using proves_iff by blast

section \<open>Sample proofs\<close>

text \<open>A proof of one layer, as the Go side passes it, and a consensus state with its root.\<close>

definition sample_key :: "ics_path \<Rightarrow> bytes" where
  "sample_key path = as_bytes (path_to_string ref_contract path)"

definition proof_string :: "ics_path \<Rightarrow> bytes \<Rightarrow> string" where
  "proof_string path v = chars_of (of_nat (length (sample_key path)) # sample_key path @ v)"

definition rooted_consensus :: "ics_path \<Rightarrow> bytes \<Rightarrow> consensus_state" where
  "rooted_consensus path v = (consensus_with sample_snapshot)
     \<lparr>cs_root := \<lparr>root_hash = chars_of (ref_digest (sample_key path @ v))\<rparr>\<rparr>"

definition sample_prefix :: merkle_prefix where
  "sample_prefix = \<lparr>key_prefix = ''ibc''\<rparr>"

lemma proof_string_field:
  "length (sample_key path) < 256 \<Longrightarrow> proof_field ref_contract (proof_string path v) =
     Ok \<lparr>proofs = [Exist (sample_key path, v)]\<rparr>"
  by (simp add: from_base64_json_slice_Ok proof_string_def unat_of_nat take_bit_eq_mod)

lemma sample_prefix_utf8: "from_utf8 (as_bytes ''ibc'') = Some ''ibc''"
proof -
  have "utf8_valid (as_bytes ''ibc'')" by code_simp
  then show ?thesis by (simp add: from_utf8_def)
qed

lemma sample_prove:
  "prove ref_contract \<lparr>proofs = [Exist (sample_key path, v)]\<rparr> (ref_digest (sample_key path @ v))
     sample_prefix path (Ok v) = Ok ()"
  by (simp add: prove_Ok sample_prefix_def sample_prefix_utf8 ics23_specs_def sample_key_def)

lemma rooted_consensus_root:
  "from_base64 ref_contract (root_hash (cs_root (rooted_consensus path v))) t =
     Ok (ref_digest (sample_key path @ v))"
  by (simp add: from_base64_Ok rooted_consensus_def)

section \<open>State queries\<close>

text \<open>C25: the state queries accept exactly what is proved: each succeeds if and only if the
  identifiers are valid and the JSON text of the counterparty's state (client, consensus
  state, connection end or channel) is chained by the given proof, under the printed path of
  that object below the decoded prefix, to the root of the proving consensus state; and the
  answer, a constant, can be serialized. \<close>

theorem state_queries_accept_iff:
  "((\<exists>r. verify_client_state L prefix client proof state cs = Ok r) \<longleftrightarrow>
      (\<exists>c v. client_id_from_str L client = Some c \<and> to_vec L (CosmosClientStateDoc state) = Ok v \<and>
         proves L proof cs prefix (ClientStatePath c) v) \<and>
      (\<exists>d. to_vec L (VerifyClientStateResult call_success) = Ok d)) \<and>
   ((\<exists>r. verify_client_consensus_state L h prefix client proof consensus cs = Ok r) \<longleftrightarrow>
      (\<exists>c v. client_id_from_str L client = Some c \<and> to_vec L (CosmosConsensusStateDoc consensus) = Ok v \<and>
         proves L proof cs prefix (ClientConsensusStatePath c (revision_number h) (revision_height h)) v) \<and>
      (\<exists>d. to_vec L (VerifyClientConsensusStateResult call_success) = Ok d)) \<and>
   ((\<exists>r. verify_connection_state L prefix proof conn conn_end cs = Ok r) \<longleftrightarrow>
      (\<exists>c v. connection_id_from_str L conn = Some c \<and> to_vec L (ConnectionEndDoc conn_end) = Ok v \<and>
         proves L proof cs prefix (ConnectionsPath c) v) \<and>
      (\<exists>d. to_vec L (VerifyConnectionStateResult call_success) = Ok d)) \<and>
   ((\<exists>r. verify_channel_state L prefix proof port chan ch cs = Ok r) \<longleftrightarrow>
      (\<exists>p c v. port_id_from_str L port = Some p \<and> channel_id_from_str L chan = Some c \<and>
         to_vec L (ChannelDoc ch) = Ok v \<and> proves L proof cs prefix (ChannelEndsPath p c) v) \<and>
      (\<exists>d. to_vec L (VerifyChannelStateResult call_success) = Ok d))"
  by (intro conjI; simp only: verify_client_state_def verify_client_consensus_state_def
      verify_connection_state_def verify_channel_state_def query_proves query_proves2)

text \<open>A proof of one layer is accepted.\<close>

lemma sample_proves:
  assumes "length (sample_key path) < 256"
  shows "proves ref_contract (proof_string path v) (rooted_consensus path v) sample_prefix path v"
  using proof_string_field [OF assms] rooted_consensus_root sample_prove proves_intro by (metis result.inject(1))

lemma sample_consensus_accepted:
  "\<exists>r. verify_client_consensus_state ref_contract (Height 0 5) sample_prefix ''07-tendermint-0''
       (proof_string (ClientConsensusStatePath ''07-tendermint-0'' 0 5) (as_bytes ''null''))
       \<lparr>ccs_root = \<lparr>root_hash = ''base64''\<rparr>\<rparr>
       (rooted_consensus (ClientConsensusStatePath ''07-tendermint-0'' 0 5) (as_bytes ''null'')) = Ok r"
proof -
  have "length (sample_key (ClientConsensusStatePath ''07-tendermint-0'' 0 5)) < 256"
    by (simp add: sample_key_def dec_string.simps)
  from sample_proves [OF this] show ?thesis
    unfolding verify_client_consensus_state_def query_proves by (auto simp: ref_identifier_def)
qed

section \<open>Delay period\<close>

lemma verify_delay_period_passed_Ok:
  "verify_delay_period_passed L st h bh now dt db = Ok () \<longleftrightarrow>
     (\<exists>t p. get_processed_time L st EMPTY_PREFIX h = Ok t \<and> unat t + unat dt < 2 ^ 64 \<and>
        unat t + unat dt \<le> unat now \<and>
        get_processed_height L st EMPTY_PREFIX h = Ok p \<and>
        unat (revision_height p) + unat db < 2 ^ 64 \<and>
        Height (revision_number p) (revision_height p + db) \<le> get_self_height bh)"
  by (auto simp: verify_delay_period_passed_def and_then_eq_Ok u64_add_eq_Ok Let_def not_less
      word_le_nat_alt unat_add_u64 if_Err_eq_Ok)

text \<open>The store after an update, and a later block.\<close>

definition later_env :: env where
  "later_env = \<lparr>block_height = 520, block_time = 1600000100\<rparr>"

lemma sample_meta:
  "\<exists>st'. set_consensus_meta ref_contract sample_env Map.empty EMPTY_PREFIX (Height 0 17280) = (Ok (), st')"
  by (simp add: set_consensus_meta_Ok)

lemma sample_delay:
  assumes "set_consensus_meta ref_contract sample_env st EMPTY_PREFIX h = (Ok (), st')"
  shows "verify_delay_period_passed ref_contract st' h 520 1600000100 60 10 = Ok ()"
  using contract.processed_time_after_meta [OF client_prefixes(1,1) assms, of h]
    contract.processed_height_after_meta [OF client_prefixes(1,1) assms, of h]
  by (simp add: verify_delay_period_passed_Ok sample_env_def get_self_height_def height_less_eq_iff)

lemma sample_path_lengths:
  "length (sample_key (CommitmentsPath ''transfer'' ''channel-0'' 1)) < 256"
  "length (sample_key (AcksPath ''transfer'' ''channel-0'' 1)) < 256"
  by (simp_all add: sample_key_def dec_string.simps)

lemma sample_commitment:
  assumes "set_consensus_meta ref_contract sample_env Map.empty EMPTY_PREFIX (Height 0 17280) = (Ok (), st')"
  shows "\<exists>r. verify_packet_commitment ref_contract later_env st' (Height 0 17280) sample_prefix
    (proof_string (CommitmentsPath ''transfer'' ''channel-0'' 1) (as_bytes ''packet'')) ''transfer''
    ''channel-0'' 60 10 1 ''packet''
    (rooted_consensus (CommitmentsPath ''transfer'' ''channel-0'' 1) (as_bytes ''packet'')) = Ok r"
  using proof_string_field [OF sample_path_lengths(1)] rooted_consensus_root sample_prove
    sample_delay [OF assms]
  by (simp add: verify_packet_commitment_def ref_identifier_def wrap_response_def later_env_def
      from_base64_def)

text \<open>The delay period is enforced: a packet query that succeeds runs at least the time delay after
  the recorded processing time of the proof height, and, for metadata recorded by this
  contract (revision 0), at least the block delay after its processing height; without
  recorded metadata it fails. \<close>

theorem packet_commitment_waits_for_delay:
  assumes "verify_packet_commitment L env st h prefix proof port chan dt db sq commitment cs = Ok r"
  shows "\<exists>t p. get_processed_time L st EMPTY_PREFIX h = Ok t \<and>
     unat t + unat dt \<le> unat (block_time env) \<and>
     get_processed_height L st EMPTY_PREFIX h = Ok p \<and>
     (revision_number p = 0 \<longrightarrow> unat (revision_height p) + unat db \<le> unat (block_height env))"
  using assms
  by (auto simp: verify_packet_commitment_def and_then_eq_Ok verify_delay_period_passed_Ok
      height_less_eq_iff get_self_height_def word_le_nat_alt unat_add_u64)

theorem packet_commitment_waits_for_delay_witness:
  "\<exists>st' t. get_processed_time ref_contract st' EMPTY_PREFIX (Height 0 17280) = Ok t \<and>
     unat t + 60 \<le> unat (block_time later_env)"
proof -
  obtain st' where set: "set_consensus_meta ref_contract sample_env Map.empty EMPTY_PREFIX
      (Height 0 17280) = (Ok (), st')"
    using sample_meta by blast
  obtain r where "verify_packet_commitment ref_contract later_env st' (Height 0 17280) sample_prefix
    (proof_string (CommitmentsPath ''transfer'' ''channel-0'' 1) (as_bytes ''packet'')) ''transfer''
    ''channel-0'' 60 10 1 ''packet''
    (rooted_consensus (CommitmentsPath ''transfer'' ''channel-0'' 1) (as_bytes ''packet'')) = Ok r"
    using sample_commitment [OF set] by blast
  from packet_commitment_waits_for_delay [OF this] show ?thesis by auto
qed

text \<open>Across the interface between updates and packets: if the metadata of a height was last
  recorded in the block of \<open>env\<close>, the packet acknowledgements proved against that height
  succeed only in blocks later by both delays. \<close>

theorem acknowledgement_waits_since_update:
  assumes "contract_host L"
    and "set_consensus_meta L env st EMPTY_PREFIX h = (Ok (), st')"
    and "verify_packet_acknowledgment L env' st' h prefix proof port chan dt db sq ack cs = Ok r"
  shows "unat (block_time env) + unat dt \<le> unat (block_time env') \<and>
     unat (block_height env) + unat db \<le> unat (block_height env')"
  using assms(3)
  by (auto simp: verify_packet_acknowledgment_def and_then_eq_Ok verify_delay_period_passed_Ok
      height_less_eq_iff get_self_height_def word_le_nat_alt unat_add_u64
      dest!: contract_host.meta_recorded_now [OF assms(1,2)])

theorem acknowledgement_waits_since_update_witness:
  "\<exists>st' r. verify_packet_acknowledgment ref_contract later_env st' (Height 0 17280) sample_prefix
     (proof_string (AcksPath ''transfer'' ''channel-0'' 1) (as_bytes ''ack'')) ''transfer''
     ''channel-0'' 60 10 1 ''ack''
     (rooted_consensus (AcksPath ''transfer'' ''channel-0'' 1) (as_bytes ''ack'')) = Ok r \<and>
     unat (block_time sample_env) + 60 \<le> unat (block_time later_env)"
proof -
  obtain st' where set: "set_consensus_meta ref_contract sample_env Map.empty EMPTY_PREFIX
      (Height 0 17280) = (Ok (), st')"
    using sample_meta by blast
  have "\<exists>r. verify_packet_acknowledgment ref_contract later_env st' (Height 0 17280) sample_prefix
     (proof_string (AcksPath ''transfer'' ''channel-0'' 1) (as_bytes ''ack'')) ''transfer''
     ''channel-0'' 60 10 1 ''ack''
     (rooted_consensus (AcksPath ''transfer'' ''channel-0'' 1) (as_bytes ''ack'')) = Ok r"
    using proof_string_field [OF sample_path_lengths(2)] rooted_consensus_root sample_prove
      sample_delay [OF set]
    by (simp add: verify_packet_acknowledgment_def ref_identifier_def wrap_response_def later_env_def
        from_base64_def)
  then obtain r where ok: "verify_packet_acknowledgment ref_contract later_env st' (Height 0 17280)
      sample_prefix (proof_string (AcksPath ''transfer'' ''channel-0'' 1) (as_bytes ''ack'')) ''transfer''
      ''channel-0'' 60 10 1 ''ack''
      (rooted_consensus (AcksPath ''transfer'' ''channel-0'' 1) (as_bytes ''ack'')) = Ok r" ..
  from acknowledgement_waits_since_update [OF sample_host set ok] ok show ?thesis by auto
qed

text \<open>The proof height was recorded, and the block runs later than that by both delays.\<close>

definition delay_passed ::
    "('pk, 'sig, 'ep, 'sp, 'st, 'z) contract_crates_scheme \<Rightarrow> 'st \<Rightarrow> height \<Rightarrow> env \<Rightarrow> u64 \<Rightarrow> u64 \<Rightarrow> bool" where
  "delay_passed L st h env dt db \<longleftrightarrow>
     (\<exists>t p. get_processed_time L st EMPTY_PREFIX h = Ok t \<and> unat t + unat dt < 2 ^ 64 \<and>
        unat t + unat dt \<le> unat (block_time env) \<and>
        get_processed_height L st EMPTY_PREFIX h = Ok p \<and>
        unat (revision_height p) + unat db < 2 ^ 64 \<and>
        Height (revision_number p) (revision_height p + db) \<le> get_self_height (block_height env))"

lemma verify_delay_iff:
  "verify_delay_period_passed L st h (block_height env) (block_time env) dt db = Ok u \<longleftrightarrow>
     delay_passed L st h env dt db"
  unfolding delay_passed_def verify_delay_period_passed_Ok [symmetric] by (cases u) simp

lemma packet_query_proves:
  "(\<exists>r. and_then (proof_field L proof) (\<lambda>p. and_then (from_base64 L (root_hash (cs_root cs)) t) (\<lambda>rt.
      and_then (verify_delay_period_passed L st h (block_height env) (block_time env) dt db) (\<lambda>_.
      and_then (identifier_of x) (\<lambda>i. and_then (identifier_of y) (\<lambda>j.
        and_then (prove L p rt prefix (path i j) val) (\<lambda>_. wrap_response L doc action)))))) = Ok r) \<longleftrightarrow>
     delay_passed L st h env dt db \<and>
     (\<exists>i j v. x = Some i \<and> y = Some j \<and> val = Ok v \<and> proves L proof cs prefix (path i j) v) \<and>
     (\<exists>d. to_vec L doc = Ok d)"
  unfolding query_proves2 [where t = t and action = action, symmetric] ex_and_then_Ok verify_delay_iff by auto

text \<open>C24: the packet queries that expect a value accept exactly what is proved and old enough: each
  succeeds if and only if the proof height's metadata was recorded at least both delays ago
  (the sums within 64 bits), port and channel are valid identifiers, and the decoded commitment,
  the decoded acknowledgement or the eight bytes of the next sequence number are chained,
  under the printed path below the decoded prefix, to the root of the consensus state; and
  the answer, a constant, can be serialized. \<close>

theorem packet_queries_accept_iff:
  "((\<exists>r. verify_packet_commitment L env st h prefix proof port chan dt db sq commitment cs = Ok r) \<longleftrightarrow>
      delay_passed L st h env dt db \<and>
      (\<exists>p c v. port_id_from_str L port = Some p \<and> channel_id_from_str L chan = Some c \<and>
         base64_decode L commitment = Some v \<and> proves L proof cs prefix (CommitmentsPath p c sq) v) \<and>
      (\<exists>d. to_vec L (VerifyPacketCommitmentResult call_success) = Ok d)) \<and>
   ((\<exists>r. verify_packet_acknowledgment L env st h prefix proof port chan dt db sq ack cs = Ok r) \<longleftrightarrow>
      delay_passed L st h env dt db \<and>
      (\<exists>p c v. port_id_from_str L port = Some p \<and> channel_id_from_str L chan = Some c \<and>
         base64_decode L ack = Some v \<and> proves L proof cs prefix (AcksPath p c sq) v) \<and>
      (\<exists>d. to_vec L (VerifyPacketAcknowledgementResult call_success) = Ok d)) \<and>
   ((\<exists>r. verify_next_sequence_recv L env st h prefix proof port chan dt db sq cs = Ok r) \<longleftrightarrow>
      delay_passed L st h env dt db \<and>
      (\<exists>p c. port_id_from_str L port = Some p \<and> channel_id_from_str L chan = Some c \<and>
         proves L proof cs prefix (SeqRecvsPath p c) (u64_to_big_endian L sq)) \<and>
      (\<exists>d. to_vec L (VerifyPacketAcknowledgementResult call_success) = Ok d))"
  unfolding verify_packet_commitment_def verify_packet_acknowledgment_def verify_next_sequence_recv_def
    packet_query_proves
  by (simp add: from_base64_Ok)

text \<open>C26: absence of a receipt is decided by the first proof alone, under the first specification and
  the last path element, directly against the root of the consensus state; a message with
  an empty list of proofs aborts the query once the delay has passed.\<close>

theorem receipt_absence_uses_first_proof:
  assumes "proof_field L proof = Ok p"
    and "from_base64 L (root_hash (cs_root cs)) ''msg.consensus_state.root'' = Ok rt"
    and "verify_delay_period_passed L st h (block_height env) (block_time env) dt db = Ok ()"
    and "port_id_from_str L port = Some po" and "channel_id_from_str L chan = Some ch"
    and "apply_prefix L prefix [path_to_string L (ReceiptsPath po ch sq)] = Ok path"
  shows "verify_packet_receipt_absence L env st h prefix proof port chan dt db sq cs =
    (case proofs p of [] \<Rightarrow> Panic
     | q # _ \<Rightarrow>
         if ics23_verify_non_membership L q (iavl_spec L) rt
              (as_bytes (path_to_string L (ReceiptsPath po ch sq)))
         then wrap_response L (VerifyPacketReceiptAbsenceResult call_success) ''verify_packet_receipt_absence''
         else Err (GenericErr ''proof non membership verification failed (invalid proof)''))"
proof -
  have "key_path path \<noteq> [] \<and> last (key_path path) = path_to_string L (ReceiptsPath po ch sq)"
    using assms(6) by (auto simp: apply_prefix_Ok)
  then show ?thesis
    using assms(1-5) unfolding verify_packet_receipt_absence_def assms(6)
    by (cases "proofs p") (simp_all add: index_def ics23_specs_def assms(6))
qed

theorem receipt_absence_uses_first_proof_witness:
  "\<exists>st'. verify_packet_receipt_absence ref_contract later_env st' (Height 0 17280) sample_prefix ''''
     ''transfer'' ''channel-0'' 60 10 1 (consensus_with sample_snapshot) = Panic"
proof -
  obtain st' where set: "set_consensus_meta ref_contract sample_env Map.empty EMPTY_PREFIX
      (Height 0 17280) = (Ok (), st')"
    using sample_meta by blast
  have pf: "proof_field ref_contract '''' = Ok \<lparr>proofs = []\<rparr>"
    by (simp add: from_base64_json_slice_Ok as_bytes_def)
  have root: "from_base64 ref_contract (root_hash (cs_root (consensus_with sample_snapshot)))
      ''msg.consensus_state.root'' = Ok (as_bytes ''root'')"
    by (simp add: from_base64_Ok consensus_with_def)
  have delay: "verify_delay_period_passed ref_contract st' (Height 0 17280) (block_height later_env)
      (block_time later_env) 60 10 = Ok ()"
    using sample_delay [OF set] by (simp add: later_env_def)
  have ids: "port_id_from_str ref_contract ''transfer'' = Some ''transfer''"
    "channel_id_from_str ref_contract ''channel-0'' = Some ''channel-0''"
    by (simp_all add: ref_identifier_def)
  have path: "apply_prefix ref_contract sample_prefix
      [path_to_string ref_contract (ReceiptsPath ''transfer'' ''channel-0'' 1)] =
      Ok \<lparr>key_path = [''ibc'', path_to_string ref_contract (ReceiptsPath ''transfer'' ''channel-0'' 1)]\<rparr>"
    by (simp add: apply_prefix_Ok sample_prefix_def sample_prefix_utf8)
  from receipt_absence_uses_first_proof [OF pf root delay ids path] show ?thesis by auto
qed

end
