(* ===== verification/Handler_Safety.thy ===== *)
theory Handler_Safety
  imports Contract_Safety Query_Safety
begin

text \<open>
  Upgrades, substitution, and what the handlers leave alone: no message changes a stored
  consensus state of the client itself or of a substitute, on success or on failure.
\<close>

section \<open>Upgrade\<close>

text \<open>C21: what an upgrade accepts, exactly, and with the proofs exchanged: it succeeds if and only if
  the new height is greater than the present one (both being there), the time is within the
  trusting period of the last consensus state (the sum within 64 bits), the new client state
  is chained to the trusted root by the message's \<^emph>\<open>consensus-state\<close> proof and the new consensus
  state by its \<^emph>\<open>client\<close> proof, each under its own upgrade path, and the metadata of the new
  height and the answer can be serialized. \<close>

theorem upgrade_proofs_are_exchanged:
  "verify_upgrade_and_update_state L env me me' cs' client_proof cs_proof last_cs st = (Ok r, st') \<longleftrightarrow>
     (\<exists>h h' c rt pb pp qb qq v w d.
       latest_height me = Some h \<and> latest_height me' = Some h' \<and> h < h' \<and>
       light_client_state_field L (cl_data me) ''msg.light_client_state'' = Ok c \<and>
       unat (cs_timestamp last_cs) + unat (trusting_period c) < 2 ^ 64 \<and>
       unat (block_time env) \<le> unat (cs_timestamp last_cs) + unat (trusting_period c) \<and>
       base64_decode L (root_hash (cs_root last_cs)) = Some rt \<and>
       base64_decode L cs_proof = Some pb \<and> merkle_proof_from_slice L pb = Ok pp \<and>
       base64_decode L client_proof = Some qb \<and> merkle_proof_from_slice L qb = Ok qq \<and>
       to_vec L (ClientStateDoc me') = Ok v \<and>
       proof_chain L (ics23_specs L)
         (rev (upgrade_path c @ [path_to_string L (UpgradePath (UpgradedClientState (revision_number h)))]))
         (proofs pp) v rt \<and>
       to_vec L (ConsensusStateDoc cs') = Ok w \<and>
       proof_chain L (ics23_specs L)
         (rev (upgrade_path c @
            [path_to_string L (UpgradePath (UpgradedClientConsensusState (revision_number h)))]))
         (proofs qq) w rt \<and>
       set_consensus_meta L env st EMPTY_PREFIX h' = (Ok (), st') \<and>
       to_vec L (VerifyUpgradeAndUpdateStateResult call_success me' cs') = Ok d \<and>
       r = \<lparr>messages = [], attributes = [(''action'', ''verify_client_state'')], response_data = Some d\<rparr>)"
proof -
  have if_state: "(if b then (Err e, s) else p) = (Ok r, t) \<longleftrightarrow> \<not> b \<and> p = (Ok r, t)"
    for b :: bool and e :: std_error and s p t
    by simp
  show ?thesis
    unfolding verify_upgrade_and_update_state_def Let_def if_state
    by (auto simp: try_state_eq_Ok call_state_eq_Ok if_state unwrap_eq_Ok from_base64_Ok
        from_base64_json_slice_Ok verify_membership_Ok construct_upgrade_merkle_path_def is_expired_Ok
        wrap_response_Ok not_less simp del: proof_chain.simps)
qed

definition upgraded_client :: client_state where
  "upgraded_client = (client_with sample_client)\<lparr>latest_height := Some (Height 1 1)\<rparr>"

text \<open>A sample upgrade is accepted.\<close>

lemma sample_upgrade:
  "\<exists>r st'. verify_upgrade_and_update_state ref_contract sample_env (client_with sample_client)
       upgraded_client (consensus_with sample_snapshot) '''' ''''
       ((consensus_with sample_snapshot)\<lparr>cs_root := \<lparr>root_hash = ''null''\<rparr>\<rparr>) Map.empty = (Ok r, st')"
proof -
  let ?last = "(consensus_with sample_snapshot)\<lparr>cs_root := \<lparr>root_hash = ''null''\<rparr>\<rparr>"
  obtain st' where set: "set_consensus_meta ref_contract sample_env Map.empty EMPTY_PREFIX (Height 1 1)
      = (Ok (), st')"
    by (simp add: set_consensus_meta_Ok)
  have pf: "from_base64_json_slice ref_contract (merkle_proof_from_slice ref_contract) '''' t
      = Ok \<lparr>proofs = []\<rparr>" for t
    by (simp add: from_base64_json_slice_Ok as_bytes_def)
  have "latest_height (client_with sample_client) < latest_height upgraded_client"
    by (simp add: client_with_def upgraded_client_def height_less_iff)
  moreover have "is_expired 1600000000 1599999995 sample_client = Ok False"
    by (simp add: is_expired_Ok sample_client_def)
  ultimately have "\<exists>r. verify_upgrade_and_update_state ref_contract sample_env
      (client_with sample_client) upgraded_client (consensus_with sample_snapshot) '''' '''' ?last
      Map.empty = (Ok r, st')"
    using pf set client_with_field [OF sample_client_fits]
    by (simp add: verify_upgrade_and_update_state_def Let_def sample_env_def consensus_with_def
        sample_snapshot_def from_base64_def verify_membership_def client_with_def upgraded_client_def
        wrap_response_def)
  then show ?thesis by blast
qed

section \<open>Substitution\<close>

lemma u64_range_single:
  assumes "u64_add a 1 = (Ok e :: (u64, 'e) result)" shows "u64_range a e = [a]"
proof -
  have "e = a + 1" "unat a + 1 < 2 ^ 64"
    using assms by (simp_all add: u64_add_eq_Ok)
  then have "unat e = Suc (unat a)" using unat_add_u64 [of a 1] by simp
  then show ?thesis by (simp add: u64_range_def)
qed

text \<open>The success of a substitution, step by step.\<close>

lemma check_substitute_Ok:
  "check_substitute_client_state L env me sub subject_cs h st = (Ok r, st') \<longleftrightarrow>
     (\<exists>c c' new e mh bs pcs s d.
        latest_height sub = Some h \<and>
        light_client_state_field L (cl_data me) ''msg.light_subject_client_state'' = Ok c \<and>
        light_client_state_field L (cl_data sub) ''msg.light_substitute_client_state'' = Ok c' \<and> c' = c \<and>
        revived_client_state me c (block_time env) (cs_timestamp subject_cs) = Ok new \<and>
        u64_add (revision_height h) 1 = (Ok e :: (u64, std_error) result) \<and>
        copy_consensus_states L env (revision_number h) [revision_height h] st = (Ok (), st') \<and>
        latest_height me = Some mh \<and> get_consensus_state L st' SUBJECT_PREFIX mh = Ok bs \<and>
        partial_consensus_state_decode L bs = Some pcs \<and> snapshot_from_rlp L (pcs_data pcs) = Ok s \<and>
        is_expired (block_time env) (snap_timestamp s) c = Ok False \<and>
        to_vec L (CheckSubstituteAndUpdateStateResult call_success
          (new\<lparr>latest_height := latest_height sub\<rparr>)) = Ok d \<and>
        r = \<lparr>messages = [], attributes = [(''action'', ''check_substitute_and_update_state'')],
             response_data = Some d\<rparr>)"
proof -
  have if_state: "(if b then (Err e, s) else p) = (Ok r, t) \<longleftrightarrow> \<not> b \<and> p = (Ok r, t)"
    for b :: bool and e :: std_error and s p t
    by simp
  have err: "(try_state m s (\<lambda>_. (Err e, s')) = (Ok r, t)) = False" for m :: "('x, std_error) result"
    and s s' e t
    by (cases m) simp_all
  have ifp: "(if b then p else q) = (Ok r, t) \<longleftrightarrow> (b \<and> p = (Ok r, t)) \<or> (\<not> b \<and> q = (Ok r, t))"
    for b :: bool and p q t
    by simp
  show ?thesis
    unfolding check_substitute_client_state_def Let_def
    by (auto simp: try_state_eq_Ok call_state_eq_Ok unwrap_eq_Ok ifp err u64_range_single map_err_eq_Ok
        wrap_response_Ok simp del: copy_consensus_states.simps)
qed

text \<open>C22: a client frozen for misbehaviour is revived by a substitution only when its configuration
  forbids updates after misbehaviour: the flag is tested the wrong way round. The revived
  client takes the substitute's height, which must be the given initial height.\<close>

theorem revival_needs_forbidding_flag:
  assumes "check_substitute_client_state L env me sub subject_cs h st = (Ok r, st')"
    and "frozen me" and "frozen_height me \<noteq> None"
  shows "\<exists>c d. light_client_state_field L (cl_data me) ''msg.light_subject_client_state'' = Ok c \<and>
     \<not> allow_update_after_misbehavior c \<and> latest_height sub = Some h \<and> response_data r = Some d \<and>
     to_vec L (CheckSubstituteAndUpdateStateResult call_success
       (me\<lparr>frozen := False, frozen_height := None, latest_height := Some h\<rparr>)) = Ok d"
  using assms by (auto simp: check_substitute_Ok revived_client_state_def split: if_splits)

text \<open>With the flag set, the substitution of a client frozen for misbehaviour is refused, with
  the store untouched. \<close>

theorem revival_refused_when_allowed:
  assumes "frozen me" and "frozen_height me \<noteq> None" and "latest_height sub = Some h"
    and "light_client_state_field L (cl_data me) ''msg.light_subject_client_state'' = Ok c"
    and "light_client_state_field L (cl_data sub) ''msg.light_substitute_client_state'' = Ok c"
    and "allow_update_after_misbehavior c"
  shows "check_substitute_client_state L env me sub subject_cs h st =
    (Err (GenericErr ''client is not allowed to be unfrozen''), st)"
  using assms by (simp add: check_substitute_client_state_def Let_def revived_client_state_def)

definition frozen_client :: "light_client_state \<Rightarrow> client_state" where
  "frozen_client c = (client_with c)\<lparr>frozen := True, frozen_height := Some (Height 0 17279)\<rparr>"

theorem revival_refused_when_allowed_witness:
  "check_substitute_client_state ref_contract sample_env (frozen_client sample_client)
     (client_with sample_client) (consensus_with sample_snapshot) (Height 0 17279) Map.empty =
   (Err (GenericErr ''client is not allowed to be unfrozen''), Map.empty)"
proof (rule revival_refused_when_allowed)
  show "light_client_state_field ref_contract (cl_data (frozen_client sample_client))
      ''msg.light_subject_client_state'' = Ok sample_client"
    using client_with_field [OF sample_client_fits] by (simp add: frozen_client_def)
  show "light_client_state_field ref_contract (cl_data (client_with sample_client))
      ''msg.light_substitute_client_state'' = Ok sample_client"
    using client_with_field [OF sample_client_fits] by simp
qed (simp_all add: frozen_client_def client_with_def sample_client_def)

text \<open>A subject store that holds a consensus state at the client's latest height.\<close>

definition subject_store :: "bytes \<rightharpoonup> bytes" where
  "subject_store = [consensus_state_key SUBJECT_PREFIX (Height 0 17279) \<mapsto>
     snapshot_to_rlp ref_contract sample_snapshot]"

definition strict_client :: light_client_state where
  "strict_client = sample_client\<lparr>allow_update_after_misbehavior := False\<rparr>"

lemma strict_client_fits: "rlp_fits (light_client_state_item strict_client)"
  by (simp add: strict_client_def sample_client_def light_client_state_item_def bool_item_def
      rlp_fits_def usize_bits_def)

theorem revival_needs_forbidding_flag_witness:
  "\<exists>r st'. check_substitute_client_state ref_contract sample_env (frozen_client strict_client)
       (client_with strict_client) (consensus_with sample_snapshot) (Height 0 17279) subject_store
     = (Ok r, st') \<and> \<not> allow_update_after_misbehavior strict_client \<and>
     (\<exists>d. response_data r = Some d)"
proof -
  have sub: "get_consensus_state ref_contract subject_store SUBSTITUTE_PREFIX (Height 0 17279) =
      Err (NotFound ''consensus state not found'')"
    by (simp add: get_consensus_state_def subject_store_def key_inject)
      (simp add: SUBSTITUTE_PREFIX_def SUBJECT_PREFIX_def)
  obtain st' where set: "set_consensus_meta ref_contract sample_env subject_store SUBJECT_PREFIX
      (Height 0 17279) = (Ok (), st')"
    by (simp add: set_consensus_meta_Ok)
  have "get_consensus_state ref_contract st' SUBJECT_PREFIX (Height 0 17279) =
      Ok (snapshot_to_rlp ref_contract sample_snapshot)"
    using contract.consensus_state_after_meta [OF client_prefixes(2,2) set]
    by (simp add: get_consensus_state_def subject_store_def)
  moreover have "snapshot_from_rlp ref_contract (snapshot_to_rlp ref_contract sample_snapshot) =
      Ok sample_snapshot"
    using ref.snapshot_from_to [OF sample_snapshot_wf sample_snapshot_fits] by (simp add: ref_same)
  moreover have "copy_consensus_states ref_contract sample_env 0 [17279] subject_store = (Ok (), st')"
    using sub set by simp
  ultimately have "\<exists>r. check_substitute_client_state ref_contract sample_env (frozen_client strict_client)
       (client_with strict_client) (consensus_with sample_snapshot) (Height 0 17279) subject_store
     = (Ok r, st')"
    using client_with_field [OF strict_client_fits] unfolding check_substitute_Ok
    by (simp add: frozen_client_def client_with_def revived_client_state_def u64_add_def is_expired_Ok
        strict_client_def sample_client_def sample_snapshot_def sample_env_def)
  then obtain r where ok: "check_substitute_client_state ref_contract sample_env
      (frozen_client strict_client) (client_with strict_client) (consensus_with sample_snapshot)
      (Height 0 17279) subject_store = (Ok r, st')" ..
  have "frozen (frozen_client strict_client)" "frozen_height (frozen_client strict_client) \<noteq> None"
    by (simp_all add: frozen_client_def)
  from revival_needs_forbidding_flag [OF ok this] ok show ?thesis
    by (auto simp: strict_client_def)
qed

section \<open>Frame\<close>

text \<open>The consensus states stored under a prefix are the same.\<close>

definition keeps ::
    "('pk, 'sig, 'ep, 'sp, 'st, 'z) contract_crates_scheme \<Rightarrow> string \<Rightarrow> 'st \<Rightarrow> 'st \<Rightarrow> bool" where
  "keeps L q st st' \<longleftrightarrow> (\<forall>k. get_consensus_state L st' q k = get_consensus_state L st q k)"

lemma keeps_refl [simp]: "keeps L q st st"
  by (simp add: keeps_def)

lemma keeps_trans: "keeps L q a b \<Longrightarrow> keeps L q b c \<Longrightarrow> keeps L q a c"
  by (simp add: keeps_def)

lemma keeps_try:
  "keeps L q st0 st \<Longrightarrow> (\<And>a. m = Ok a \<Longrightarrow> keeps L q st0 (snd (f a))) \<Longrightarrow>
     keeps L q st0 (snd (try_state m st f))"
  by (cases m) simp_all

lemma keeps_call:
  "keeps L q st0 (snd p) \<Longrightarrow> (\<And>a s. p = (Ok a, s) \<Longrightarrow> keeps L q st0 s \<Longrightarrow> keeps L q st0 (snd (f a s))) \<Longrightarrow>
     keeps L q st0 (snd (case p of (r, s) \<Rightarrow> try_state r s (\<lambda>x. f x s)))"
  by (cases p; cases "fst p") auto

lemma keeps_if:
  "keeps L q st0 (snd p) \<Longrightarrow> keeps L q st0 (snd p') \<Longrightarrow> keeps L q st0 (snd (if b then p else p'))"
  by simp

lemma keeps_pair: "keeps L q st0 s \<Longrightarrow> keeps L q st0 (snd (r, s))"
  by simp

lemmas keeps_steps = keeps_try keeps_call keeps_if keeps_pair

context contract_host
begin

lemma keeps_set:
  "(\<And>k. key \<noteq> consensus_state_key q k) \<Longrightarrow> keeps L q st (storage_set L st key v)"
  by (auto simp: keeps_def get_consensus_state_def storage_get_set)

lemma keeps_meta:
  assumes "client_prefix p" and "client_prefix q" and "keeps L q st0 st"
  shows "keeps L q st0 (snd (set_consensus_meta L env st p h))"
proof -
  note neq = key_inject(5,6) [OF assms(2,1), symmetric]
  have time: "keeps L q st (snd (set_processed_time L st p h t))" for st t
    unfolding set_processed_time_def Let_def
    by (intro keeps_steps keeps_refl) (simp add: keeps_set neq)
  have height: "keeps L q st (snd (set_processed_height L st p h b))" for st b
    unfolding set_processed_height_def Let_def
    by (intro keeps_steps keeps_refl) (simp add: keeps_set neq)
  show ?thesis
    unfolding set_consensus_meta_def Let_def
    by (intro keeps_steps keeps_trans [OF assms(3) time] keeps_trans [OF _ height])
qed

lemma keeps_copy:
  assumes "client_prefix q" and "q \<noteq> SUBJECT_PREFIX"
  shows "keeps L q st0 st \<Longrightarrow> keeps L q st0 (snd (copy_consensus_states L env n is st))"
proof (induction "is" arbitrary: st)
  case (Cons i "is")
  have set: "keeps L q st (snd (set_consensus_state L st SUBJECT_PREFIX h bs))" for st h bs
    unfolding set_consensus_state_def Let_def
    using key_inject(3) [OF client_prefixes(2) assms(1)] assms(2)
    by (intro keeps_steps keeps_refl) (simp add: keeps_set)
  show ?case
    unfolding copy_consensus_states.simps Let_def
    by (intro keeps_call keeps_meta client_prefixes assms(1) Cons.IH)
      (auto intro: keeps_trans [OF Cons.prems set] Cons.prems split: result.split)
qed simp

lemma keeps_handle:
  assumes "q \<in> {EMPTY_PREFIX, SUBSTITUTE_PREFIX}"
  shows "keeps L q st (snd (handle L env msg st))"
proof -
  have q: "client_prefix q" "q \<noteq> SUBJECT_PREFIX"
    using assms by (auto simp: client_prefix_def EMPTY_PREFIX_def SUBSTITUTE_PREFIX_def SUBJECT_PREFIX_def)
  note steps = keeps_steps keeps_refl keeps_meta [OF client_prefixes(1) q(1)] keeps_copy [OF q]
  have meta: "keeps L q st s" if "set_consensus_meta L env st EMPTY_PREFIX h = (r, s)" for h r s
    using keeps_meta [OF client_prefixes(1) q(1) keeps_refl, of st env h] that by simp
  have "keeps L q st (snd (init_contract L env cs me st))" for cs me
    unfolding init_contract_def Let_def by (intro steps)
  moreover have "keeps L q st (snd (check_header_and_update_state L env me cs wh st))" for me cs wh
    unfolding check_header_and_update_state_def Let_def
    by (auto intro!: steps intro: meta split: prod.split)
  moreover have "keeps L q st (snd (verify_upgrade_and_update_state L env a b c d e f st))"
    for a b c d e f
    unfolding verify_upgrade_and_update_state_def Let_def by (intro steps)
  moreover have "keeps L q st (snd (check_substitute_client_state L env a b c d st))" for a b c d
    unfolding check_substitute_client_state_def Let_def by (intro steps)
  ultimately show ?thesis by (cases msg) (simp_all add: handle_def)
qed

end

text \<open>C23: no message overwrites a consensus state of the client or of a substitute: whatever
  \<^verbatim>\<open>handle\<close> is sent, and whether it succeeds, fails or aborts half-way, every consensus state
  under the empty and under the substitute prefix reads as before. (The consensus states of
  the client itself are written by the host; the contract writes metadata, and copies
  into the subject prefix.)\<close>

theorem handle_keeps_consensus_states:
  assumes "contract_host L" and "q = EMPTY_PREFIX \<or> q = SUBSTITUTE_PREFIX"
    and "handle L env msg st = (r, st')"
  shows "get_consensus_state L st' q k = get_consensus_state L st q k"
  using contract_host.keeps_handle [OF assms(1), of q st env msg] assms(2,3)
  by (auto simp: keeps_def)

theorem handle_keeps_consensus_states_witness:
  "\<exists>r st'. handle ref_contract sample_env (CheckSubstituteAndUpdateState (frozen_client strict_client)
       (client_with strict_client) (consensus_with sample_snapshot) (Height 0 17279)) subject_store = (r, st') \<and>
     get_consensus_state ref_contract st' EMPTY_PREFIX (Height 0 17279) =
       get_consensus_state ref_contract subject_store EMPTY_PREFIX (Height 0 17279)"
proof -
  obtain r st' where h: "handle ref_contract sample_env (CheckSubstituteAndUpdateState
      (frozen_client strict_client) (client_with strict_client) (consensus_with sample_snapshot)
      (Height 0 17279)) subject_store = (r, st')"
    by (cases "handle ref_contract sample_env (CheckSubstituteAndUpdateState
      (frozen_client strict_client) (client_with strict_client) (consensus_with sample_snapshot)
      (Height 0 17279)) subject_store")
  from handle_keeps_consensus_states [OF sample_host _ h, of EMPTY_PREFIX "Height 0 17279"] h
  show ?thesis by blast
qed

end
