(* ===== verification/Light_Returns.thy ===== *)
theory Light_Returns
  imports Light_Runs
begin

text \<open>
  When the library's calls return. A panic aborts the program (the contract, on chain), so what can
  cause one is part of the interface: here every panic of the decoders, of the hash and of the
  operations of \<open>Light_State\<close> is traced to a short byte array, a number out of range, or an
  unusable validator set. That the calls into \<^verbatim>\<open>rlp\<close> return errors and never panic is the
  law of the locale \<open>returning_crates\<close>.
\<close>

locale returning_crates = library_crates L
  for L :: "('pk, 'sig, 'z) crates_scheme" +
  assumes rlp_at_returns: "rlp_at L r i \<noteq> Panic"
    and rlp_value_returns: "rlp_value L r \<noteq> Panic"
    and rlp_as_vec_returns: "rlp_as_vec L r \<noteq> Panic"
    and rlp_as_u64_returns: "rlp_as_u64 L r \<noteq> Panic"

section \<open>Decoders\<close>

text \<open>An item that holds fewer bytes than the array it is read as.\<close>

definition short_item :: "('pk, 'sig, 'z) crates_scheme \<Rightarrow> nat \<Rightarrow> bytes \<Rightarrow> bool" where
  "short_item L n r \<longleftrightarrow> (\<exists>b. rlp_value L r = Ok b \<and> length b < n)"

definition short_at :: "('pk, 'sig, 'z) crates_scheme \<Rightarrow> nat \<Rightarrow> bytes \<Rightarrow> nat \<Rightarrow> bool" where
  "short_at L n rlp i \<longleftrightarrow> (\<exists>r. rlp_at L rlp i = Ok r \<and> short_item L n r)"

definition short_in :: "('pk, 'sig, 'z) crates_scheme \<Rightarrow> nat \<Rightarrow> bytes \<Rightarrow> nat \<Rightarrow> bool" where
  "short_in L n rlp i \<longleftrightarrow> (\<exists>l. rlp_at L rlp i = Ok l \<and> (\<exists>r \<in> set (rlp_iter L l). short_item L n r))"

definition short_extra :: "('pk, 'sig, 'z) crates_scheme \<Rightarrow> bytes \<Rightarrow> bool" where
  "short_extra L bs \<longleftrightarrow> 32 \<le> length bs \<and> (short_in L 20 (drop 32 bs) 0 \<or> short_in L 96 (drop 32 bs) 1)"

definition short_header :: "('pk, 'sig, 'z) crates_scheme \<Rightarrow> bytes \<Rightarrow> bool" where
  "short_header L rlp \<longleftrightarrow>
     (\<exists>(i, n) \<in> set [(0, 32), (1, 20), (2, 32), (3, 32), (4, 32), (5, 256)]. short_at L n rlp i)"

definition short_snapshot :: "('pk, 'sig, 'z) crates_scheme \<Rightarrow> bytes \<Rightarrow> bool" where
  "short_snapshot L rlp \<longleftrightarrow> short_at L 32 rlp 3 \<or>
     (\<exists>l. rlp_at L rlp 2 = Ok l \<and>
        (\<exists>v \<in> set (rlp_iter L l). short_at L 20 v 0 \<or> short_at L 96 v 1))"

lemma collect_eq_Panic [result_iff]: "collect f xs = Panic \<Longrightarrow> \<exists>x \<in> set xs. f x = Panic"
  by (induction xs) (auto simp: and_then_eq_Panic)

lemma let_result_eq_Panic [result_iff]:
  "let_result m f = Panic \<longleftrightarrow> m = Panic \<or> m \<noteq> Panic \<and> f m = Panic"
  by (cases m) simp_all

context returning_crates
begin

lemma array_field_Panic:
  "rlp_field_from_bytes L (array_from_bytes n) r = Panic \<Longrightarrow> short_item L n r"
  by (auto simp: rlp_field_from_bytes_def decode_value_def short_item_def and_then_eq_Panic
      map_err_eq_Panic rlp_value_returns array_from_bytes_eq split: if_splits)

lemma array_at_Panic:
  "rlp_list_field_from_bytes L (array_from_bytes n) rlp i = Panic \<Longrightarrow> short_at L n rlp i"
  by (auto simp: rlp_list_field_from_bytes_def short_at_def short_item_def decode_value_def
      and_then_eq_Panic map_err_eq_Panic rlp_at_returns rlp_value_returns array_from_bytes_eq
      split: if_splits)

lemma big_int_returns [simp]: "rlp_to_big_int L rlp i \<noteq> Panic"
  by (auto simp: rlp_to_big_int_def decode_value_def and_then_eq_Panic rlp_at_returns rlp_value_returns)

lemma seal_decode_returns [simp]: "seal_decode L rlp \<noteq> Panic"
  by (auto simp: seal_decode_def val_at_def and_then_eq_Panic rlp_at_returns rlp_as_vec_returns)

lemma header_from_rlp_Panic: "header_from_rlp L bs = Panic \<Longrightarrow> short_header L bs"
  unfolding header_from_rlp_def map_err_eq_Panic header_decode_def and_then_eq_Panic header_arrays
  by (auto simp: short_header_def val_at_def and_then_eq_Panic rlp_at_returns rlp_as_vec_returns
      rlp_as_u64_returns dest: array_at_Panic)

lemma extra_decode_Panic:
  "extra_decode L rlp = Panic \<Longrightarrow> short_in L 20 rlp 0 \<or> short_in L 96 rlp 1"
  unfolding extra_decode_def and_then_eq_Panic let_result_eq_Panic from_bytes_array
  by (auto simp: short_in_def val_at_def and_then_eq_Panic rlp_at_returns rlp_as_vec_returns
      dest!: collect_eq_Panic array_field_Panic)

lemma extra_from_rlp_Panic: "istanbul_extra_from_rlp L bs = Panic \<Longrightarrow> short_extra L bs"
  by (auto simp: istanbul_extra_from_rlp_def short_extra_def slice_from_def map_err_eq_Panic
      not_less split: if_splits dest: extra_decode_Panic)

lemma snapshot_from_rlp_Panic: "snapshot_from_rlp L bs = Panic \<Longrightarrow> short_snapshot L bs"
  unfolding snapshot_from_rlp_def map_err_eq_Panic snapshot_decode_def and_then_eq_Panic
    let_result_eq_Panic validator_decode_def header_arrays from_bytes_array
  by (auto simp: short_snapshot_def short_at_def val_at_def and_then_eq_Panic rlp_at_returns
      rlp_as_u64_returns dest!: collect_eq_Panic array_field_Panic array_at_Panic)

text \<open>What decodes has no short array.\<close>

lemma array_at_Ok: "rlp_list_field_from_bytes L (array_from_bytes n) rlp i = Ok b \<Longrightarrow> \<not> short_at L n rlp i"
  by (auto simp: rlp_list_field_from_bytes_def short_at_def short_item_def decode_value_def
      and_then_eq_Ok map_err_eq_Ok array_from_bytes_eq split: if_splits)

lemma array_field_Ok: "rlp_field_from_bytes L (array_from_bytes n) r = Ok b \<Longrightarrow> \<not> short_item L n r"
  by (auto simp: rlp_field_from_bytes_def short_item_def decode_value_def and_then_eq_Ok
      map_err_eq_Ok array_from_bytes_eq split: if_splits)

lemma collect_all_Ok: "collect f xs = Ok ys \<Longrightarrow> \<forall>x\<in>set xs. \<exists>y. f x = Ok y"
  by (induction xs arbitrary: ys) (auto simp: and_then_eq_Ok)

lemma collect_arrays_Ok:
  "collect (\<lambda>r. rlp_field_from_bytes L (array_from_bytes n) r) xs = Ok ys \<Longrightarrow>
    \<forall>r\<in>set xs. \<not> short_item L n r"
  by (drule collect_all_Ok) (auto dest: array_field_Ok)

lemma validator_decode_not_short:
  "validator_decode L v = Ok w \<Longrightarrow> \<not> short_at L 20 v 0 \<and> \<not> short_at L 96 v 1"
  unfolding validator_decode_def and_then_eq_Ok header_arrays from_bytes_array
  by (auto simp: short_at_def dest: array_field_Ok)

lemma header_from_rlp_not_short: "header_from_rlp L bs = Ok h \<Longrightarrow> \<not> short_header L bs"
  unfolding header_from_rlp_def map_err_eq_Ok header_decode_def and_then_eq_Ok header_arrays
  by (auto simp: short_header_def dest: array_at_Ok)

lemma extra_from_rlp_not_short: "istanbul_extra_from_rlp L bs = Ok ex \<Longrightarrow> \<not> short_extra L bs"
  unfolding istanbul_extra_from_rlp_def extra_decode_def slice_from_def from_bytes_array
  by (auto simp: short_extra_def short_in_def map_err_eq_Ok and_then_eq_Ok let_result_eq_Ok
      dest!: collect_arrays_Ok split: if_splits)

lemma snapshot_from_rlp_not_short: "snapshot_from_rlp L bs = Ok s \<Longrightarrow> \<not> short_snapshot L bs"
  unfolding snapshot_from_rlp_def map_err_eq_Ok snapshot_decode_def and_then_eq_Ok let_result_eq_Ok
    header_arrays from_bytes_array
  by (fastforce simp: short_snapshot_def dest: collect_all_Ok array_at_Ok array_field_Ok
      validator_decode_not_short)

section \<open>The light client\<close>

lemma rlp_hash_returns [simp]: "rlp_hash L h \<noteq> Panic"
  by (simp add: rlp_hash_def slice_to_def digest_length slice_as_array_ref_def)

lemma header_hash_Panic: "header_hash L h = Panic \<Longrightarrow> short_extra L (extra h)"
  by (auto simp: header_hash_def istanbul_filtered_header_def let_result_eq_Panic and_then_eq_Panic
      from_bytes_array array_from_bytes_eq Let_def split: if_splits result.splits dest: extra_from_rlp_Panic)

end

text \<open>A validator set whose quorum can be computed.\<close>

definition quorum_defined :: "validator list \<Rightarrow> bool" where
  "quorum_defined vs \<longleftrightarrow> vs \<noteq> [] \<and> 2 * length vs + 2 < 2 ^ usize_bits"

lemma verify_aggregated_seal_Panic:
  "verify_aggregated_seal L hsh vs s = Panic \<Longrightarrow> \<not> quorum_defined vs"
  by (auto simp: verify_aggregated_seal_def Let_def and_then_eq_Panic collect_keys_ne_Panic
      deserialize_signature_def min_quorum_size_eq quorum_defined_def split: if_splits)

lemma try_state_eq_Panic:
  "try_state m st f = (Panic, st') \<longleftrightarrow> m = Panic \<and> st' = st \<or> (\<exists>a. m = Ok a \<and> f a = (Panic, st'))"
  by (cases m) auto

context returning_crates
begin

lemma verify_header_seal_Panic:
  "verify_header_seal L st h = Panic \<Longrightarrow> short_extra L (extra h) \<or> \<not> quorum_defined (st_validators st)"
  unfolding verify_header_seal_def and_then_eq_Panic
  by (auto dest: header_hash_Panic extra_from_rlp_Panic verify_aggregated_seal_Panic)

lemma verify_header_Panic:
  assumes "verify_header L st h now = Panic" and "bi_to_u64 L (number h) \<noteq> None"
    and "\<not> short_extra L (extra h)" and "quorum_defined (st_validators st)"
  shows "verify_header_timestamp (st_config st) \<and>
     2 ^ 64 \<le> unat now + unat (allowed_clock_skew (st_config st))"
  using assms verify_header_seal_Panic [of st h]
  by (auto simp: verify_header_def and_then_eq_Panic unwrap_eq_Panic u64_add_def not_less
      split: if_splits)

lemma insert_header_Panic:
  assumes "insert_header L st h now = (Panic, st')"
    and "bi_to_u64 L (number h) \<noteq> None" and "epoch_size (st_config st) \<noteq> 0"
    and "\<not> short_extra L (extra h)"
  shows "(verify_epoch_headers (st_config st) \<or> verify_non_epoch_headers (st_config st)) \<and>
     verify_header L st h now = Panic"
proof -
  obtain n where n: "bi_to_u64 L (number h) = Some n" using assms(2) by blast
  have ret: "header_hash L h \<noteq> Panic" "istanbul_extra_from_rlp L (extra h) \<noteq> Panic"
    using assms(4) header_hash_Panic extra_from_rlp_Panic by blast+
  show ?thesis
    using assms(1) n ret is_last_block_of_epoch_eq [OF assms(3), of n]
    by (auto simp: insert_header_def store_epoch_header_eq store_non_epoch_header_eq checks_header_def
        try_state_eq_Panic split: if_splits option.splits)
qed

lemma insert_header_returning:
  assumes "0 \<le> number h" "number h < 2 ^ 64" and "epoch_size (st_config st) \<noteq> 0"
    and "\<not> short_extra L (extra h)"
    and "verify_epoch_headers (st_config st) \<or> verify_non_epoch_headers (st_config st) \<longrightarrow>
      quorum_defined (st_validators st) \<and> (verify_header_timestamp (st_config st) \<longrightarrow>
        unat now + unat (allowed_clock_skew (st_config st)) < 2 ^ 64)"
  shows "fst (insert_header L st h now) \<noteq> Panic"
proof
  assume "fst (insert_header L st h now) = Panic"
  then obtain st' where "insert_header L st h now = (Panic, st')" by (metis prod.collapse)
  moreover have "bi_to_u64 L (number h) \<noteq> None" using assms(1,2) by (simp add: to_u64_eq)
  ultimately show False
    using insert_header_Panic [OF _ _ assms(3,4)] verify_header_Panic [of st h now] assms(4,5) by force
qed

end

text \<open>C16: \<^verbatim>\<open>insert_header\<close> returns: for a block number within \<open>u64\<close> and a non-zero epoch size, and unless
  one of the arrays in the header's extra data is shorter than its type, the call comes back
  with success or an error whatever the header holds, whatever state it is applied to and
  however wrong it is; with verification this needs a validator set whose quorum can be
  computed (the empty one cannot) and, when timestamps are checked, a clock whose sum with
  the skew does not overflow. \<close>

theorem insert_header_returns:
  assumes "returning_crates L"
    and "0 \<le> number h" "number h < 2 ^ 64" and "epoch_size (st_config st) \<noteq> 0"
    and "\<not> short_extra L (extra h)"
    and "verify_epoch_headers (st_config st) \<or> verify_non_epoch_headers (st_config st) \<longrightarrow>
      quorum_defined (st_validators st) \<and> (verify_header_timestamp (st_config st) \<longrightarrow>
        unat now + unat (allowed_clock_skew (st_config st)) < 2 ^ 64)"
  shows "\<exists>st'. insert_header L st h now = (Ok (), st') \<or> (\<exists>e. insert_header L st h now = (Err e, st'))"
proof -
  have "fst (insert_header L st h now) \<noteq> Panic"
    using assms by (rule returning_crates.insert_header_returning)
  then show ?thesis
    by (cases "insert_header L st h now"; cases "fst (insert_header L st h now)") auto
qed

interpretation returning: returning_crates ref_crates
  by unfold_locales
    (auto simp: ref_at_def ref_value_def ref_as_u64_def and_then_eq_Panic split: option.splits bool.splits)

theorem insert_header_returns_witness:
  "\<exists>st'. insert_header ref_crates sample_state (header_new\<lparr>number := 20000, extra := [1, 2, 3]\<rparr>) 0 = (Ok (), st') \<or>
     (\<exists>e. insert_header ref_crates sample_state (header_new\<lparr>number := 20000, extra := [1, 2, 3]\<rparr>) 0 = (Err e, st'))"
  by (rule insert_header_returns [OF returning.returning_crates_axioms])
    (simp_all add: sample_state_def state_new_def sample_config_def sample_snapshot_def
      sample_validators_def short_extra_def quorum_defined_def usize_bits_def)

section \<open>What the decoders return\<close>

text \<open>C31: decoded values are well-typed: whatever bytes a peer or the host hands over, a header, extra
  data or a snapshot that \<^verbatim>\<open>from_rlp\<close> returns has arrays of exactly the lengths of the Rust types
  and no negative number where the encoding has no sign, so it is again in the domain of the
  round trips: encoding it and decoding that gives it back, although the bytes may have been
  another encoding of it. \<close>

theorem decoded_values_are_well_typed:
  assumes "library_crates L"
  shows "(header_from_rlp L bs = Ok h \<longrightarrow> wf_header h \<and>
      (rlp_fits (header_item L h) \<longrightarrow> header_from_rlp L (header_to_rlp L h) = Ok h)) \<and>
    (istanbul_extra_from_rlp L bs = Ok ex \<longrightarrow> wf_extra ex \<and>
      (rlp_fits (extra_item L ex) \<and> length v = 32 \<longrightarrow>
         istanbul_extra_from_rlp L (istanbul_extra_to_rlp L ex v) = Ok ex)) \<and>
    (snapshot_from_rlp L bs = Ok s \<longrightarrow> wf_snapshot s \<and>
      (rlp_fits (snapshot_item L s) \<longrightarrow> snapshot_from_rlp L (snapshot_to_rlp L s) = Ok s))"
  using assms by (auto dest: library_crates.header_from_rlp_wf library_crates.istanbul_extra_from_rlp_wf
      library_crates.snapshot_from_rlp_wf library_crates.header_from_to
      library_crates.istanbul_extra_from_to library_crates.snapshot_from_to)

theorem decoded_values_are_well_typed_witness:
  "snapshot_from_rlp ref_crates (snapshot_to_rlp ref_crates sample_snapshot) = Ok sample_snapshot \<and>
   wf_snapshot sample_snapshot"
proof -
  have s: "snapshot_from_rlp ref_crates (snapshot_to_rlp ref_crates sample_snapshot) = Ok sample_snapshot"
    using ref.snapshot_from_to [OF sample_snapshot_wf sample_snapshot_fits] .
  with decoded_values_are_well_typed [OF sample_library, of _ undefined undefined] show ?thesis by blast
qed

end
