(* ===== verification/Contract_Returns.thy ===== *)
theory Contract_Returns
  imports Contract_Safety Light_Returns
begin

text \<open>
  When a message aborts the contract. Each \<open>\<dots>_aborts\<close> predicate below lists, for one message, the
  inputs on which its handler can panic; \<open>handle\<close> and \<open>query\<close> come back with a response or an error
  on all others. The host's JSON, RLP and protobuf functions return errors and do not panic, which is
  the law of the locale \<open>returning_host\<close>.
\<close>

locale returning_host = contract_host L + returning_crates L
  for L :: "('pk, 'sig, 'ep, 'sp, 'st, 'z) contract_crates_scheme" +
  assumes to_vec_returns: "to_vec L d \<noteq> Panic"
    and light_client_state_decode_returns: "light_client_state_decode L b \<noteq> Panic"
    and merkle_proof_returns: "merkle_proof_from_slice L b \<noteq> Panic"
    and height_from_slice_returns: "height_from_slice L b \<noteq> Panic"
    and u64_from_slice_returns: "u64_from_slice L b \<noteq> Panic"

section \<open>The causes\<close>

definition short_header_field ::
    "('pk, 'sig, 'ep, 'sp, 'st, 'z) contract_crates_scheme \<Rightarrow> string \<Rightarrow> bool" where
  "short_header_field L s \<longleftrightarrow> (\<exists>b. base64_decode L s = Some b \<and> short_header L b)"

definition short_snapshot_field ::
    "('pk, 'sig, 'ep, 'sp, 'st, 'z) contract_crates_scheme \<Rightarrow> string \<Rightarrow> bool" where
  "short_snapshot_field L s \<longleftrightarrow> (\<exists>b. base64_decode L s = Some b \<and> short_snapshot L b)"

definition expiry_overflow :: "u64 \<Rightarrow> light_client_state \<Rightarrow> bool" where
  "expiry_overflow ts c \<longleftrightarrow> 2 ^ 64 \<le> unat ts + unat (trusting_period c)"

definition init_aborts ::
    "('pk, 'sig, 'ep, 'sp, 'st, 'z) contract_crates_scheme \<Rightarrow> consensus_state \<Rightarrow> client_state \<Rightarrow> bool" where
  "init_aborts L cs me \<longleftrightarrow> short_snapshot_field L (cs_data cs) \<or> latest_height me = None \<or>
     (\<exists>t s. light_consensus_state_field L (cs_data cs) t = Ok s \<and> \<not> quorum_defined (snap_validators s))"

definition insertion_aborts ::
    "('pk, 'sig, 'z) crates_scheme \<Rightarrow> u64 \<Rightarrow> header \<Rightarrow> snapshot \<Rightarrow> light_client_state \<Rightarrow> bool" where
  "insertion_aborts L now h s c \<longleftrightarrow> 2 ^ 64 \<le> number h \<or> lc_epoch_size c = 0 \<or>
     short_extra L (extra h) \<or>
     (lc_verify_epoch_headers c \<or> lc_verify_non_epoch_headers c) \<and>
       (\<not> quorum_defined (snap_validators s) \<or> lc_verify_header_timestamp c \<and>
          2 ^ 64 \<le> unat now + unat (lc_allowed_clock_skew c))"

definition update_aborts ::
    "('pk, 'sig, 'ep, 'sp, 'st, 'z) contract_crates_scheme \<Rightarrow> env \<Rightarrow> wasm_header \<Rightarrow> consensus_state \<Rightarrow>
     client_state \<Rightarrow> bool" where
  "update_aborts L env wh cs me \<longleftrightarrow>
     short_header_field L (wh_data wh) \<or> short_snapshot_field L (cs_data cs) \<or>
     (\<exists>t u v h s c. header_field L (wh_data wh) t = Ok h \<and>
        light_consensus_state_field L (cs_data cs) u = Ok s \<and>
        light_client_state_field L (cl_data me) v = Ok c \<and>
        insertion_aborts L (block_time env) h s c)"

definition misbehaviour_aborts ::
    "('pk, 'sig, 'ep, 'sp, 'st, 'z) contract_crates_scheme \<Rightarrow> wasm_header \<Rightarrow> consensus_state \<Rightarrow> bool" where
  "misbehaviour_aborts L wh cs \<longleftrightarrow>
     short_header_field L (wh_data wh) \<or> short_snapshot_field L (cs_data cs) \<or>
     (\<exists>t h. header_field L (wh_data wh) t = Ok h \<and> short_extra L (extra h)) \<or>
     (\<exists>t s. light_consensus_state_field L (cs_data cs) t = Ok s \<and> \<not> quorum_defined (snap_validators s))"

definition overlong_proof ::
    "('pk, 'sig, 'ep, 'sp, 'st, 'z) contract_crates_scheme \<Rightarrow> string \<Rightarrow> nat \<Rightarrow> bool" where
  "overlong_proof L s n \<longleftrightarrow> (\<exists>b p. base64_decode L s = Some b \<and> merkle_proof_from_slice L b = Ok p \<and>
     (2 < length (proofs p) \<or> n < length (proofs p)))"

definition upgrade_aborts ::
    "('pk, 'sig, 'ep, 'sp, 'st, 'z) contract_crates_scheme \<Rightarrow> client_state \<Rightarrow> string \<Rightarrow> string \<Rightarrow>
     consensus_state \<Rightarrow> bool" where
  "upgrade_aborts L me client_proof cs_proof last_cs \<longleftrightarrow> latest_height me = None \<or>
     (\<exists>t c. light_client_state_field L (cl_data me) t = Ok c \<and>
        (expiry_overflow (cs_timestamp last_cs) c \<or>
         overlong_proof L client_proof (length (upgrade_path c) + 1) \<or>
         overlong_proof L cs_proof (length (upgrade_path c) + 1)))"

definition substitute_aborts ::
    "('pk, 'sig, 'ep, 'sp, 'st, 'z) contract_crates_scheme \<Rightarrow> env \<Rightarrow> client_state \<Rightarrow> client_state \<Rightarrow>
     consensus_state \<Rightarrow> 'st \<Rightarrow> bool" where
  "substitute_aborts L env me substitute subject_cs st \<longleftrightarrow>
     latest_height me = None \<or> latest_height substitute = None \<or>
     revision_height (the (latest_height substitute)) = - 1 \<or>
     (\<exists>t c. light_client_state_field L (cl_data me) t = Ok c \<and>
        (expiry_overflow (cs_timestamp subject_cs) c \<or>
         (\<exists>st' b. copy_consensus_states L env (revision_number (the (latest_height substitute)))
              [revision_height (the (latest_height substitute))] st = (Ok (), st') \<and>
            get_consensus_state L st' SUBJECT_PREFIX (the (latest_height me)) = Ok b \<and>
            (case partial_consensus_state_decode L b of
               None \<Rightarrow> True
             | Some p \<Rightarrow> short_snapshot L (pcs_data p) \<or>
                 (\<exists>s. snapshot_from_rlp L (pcs_data p) = Ok s \<and> expiry_overflow (snap_timestamp s) c)))))"

fun aborts ::
    "('pk, 'sig, 'ep, 'sp, 'st, 'z) contract_crates_scheme \<Rightarrow> env \<Rightarrow> handle_msg \<Rightarrow> 'st \<Rightarrow> bool" where
  "aborts L env (InitializeState cs me) st \<longleftrightarrow> init_aborts L cs me"
| "aborts L env (CheckHeaderAndUpdateState wh cs me) st \<longleftrightarrow> update_aborts L env wh cs me"
| "aborts L env (CheckMisbehaviourAndUpdateState me mb cs1 cs2) st \<longleftrightarrow>
     misbehaviour_aborts L (header_1 mb) cs1 \<or> misbehaviour_aborts L (header_2 mb) cs2"
| "aborts L env (VerifyUpgradeAndUpdateState me new_client new_cs client_proof cs_proof last_cs) st \<longleftrightarrow>
     upgrade_aborts L me client_proof cs_proof last_cs"
| "aborts L env (CheckSubstituteAndUpdateState me substitute subject_cs initial_height) st \<longleftrightarrow>
     substitute_aborts L env me substitute subject_cs st"
| "aborts L env (ZeroCustomFields me) st \<longleftrightarrow> False"

text \<open>Queries: the delay's sums, the proof, and the consensus state of the status.\<close>

definition delay_overflow ::
    "('pk, 'sig, 'ep, 'sp, 'st, 'z) contract_crates_scheme \<Rightarrow> 'st \<Rightarrow> height \<Rightarrow> u64 \<Rightarrow> u64 \<Rightarrow> bool" where
  "delay_overflow L st h dt db \<longleftrightarrow>
     (\<exists>t. get_processed_time L st EMPTY_PREFIX h = Ok t \<and> 2 ^ 64 \<le> unat t + unat dt) \<or>
     (\<exists>p. get_processed_height L st EMPTY_PREFIX h = Ok p \<and> 2 ^ 64 \<le> unat (revision_height p) + unat db)"

definition no_proof :: "('pk, 'sig, 'ep, 'sp, 'st, 'z) contract_crates_scheme \<Rightarrow> string \<Rightarrow> bool" where
  "no_proof L s \<longleftrightarrow> (\<exists>b p. base64_decode L s = Some b \<and> merkle_proof_from_slice L b = Ok p \<and> proofs p = [])"

fun query_aborts ::
    "('pk, 'sig, 'ep, 'sp, 'st, 'z) contract_crates_scheme \<Rightarrow> query_msg \<Rightarrow> 'st \<Rightarrow> bool" where
  "query_aborts L (VerifyClientState me h prefix client proof state cs) st \<longleftrightarrow> overlong_proof L proof 2"
| "query_aborts L (VerifyClientConsensusState me h h' prefix client proof consensus cs) st \<longleftrightarrow>
     overlong_proof L proof 2"
| "query_aborts L (VerifyConnectionState me h prefix proof conn conn_end cs) st \<longleftrightarrow> overlong_proof L proof 2"
| "query_aborts L (VerifyChannelState me h prefix proof port chan ch cs) st \<longleftrightarrow> overlong_proof L proof 2"
| "query_aborts L (VerifyPacketCommitment me h prefix proof port chan dt db sq commitment cs) st \<longleftrightarrow>
     overlong_proof L proof 2 \<or> delay_overflow L st h dt db"
| "query_aborts L (VerifyPacketAcknowledgement me h prefix proof port chan dt db sq ack cs) st \<longleftrightarrow>
     overlong_proof L proof 2 \<or> delay_overflow L st h dt db"
| "query_aborts L (VerifyPacketReceiptAbsence me h prefix proof port chan dt db sq cs) st \<longleftrightarrow>
     no_proof L proof \<or> delay_overflow L st h dt db"
| "query_aborts L (VerifyNextSequenceRecv me h prefix proof port chan dt db sq cs) st \<longleftrightarrow>
     overlong_proof L proof 2 \<or> delay_overflow L st h dt db"
| "query_aborts L (ProcessedTime h) st \<longleftrightarrow> False"
| "query_aborts L (QueryStatus me cs) st \<longleftrightarrow> \<not> frozen me \<and>
     (short_snapshot_field L (cs_data cs) \<or>
      (\<exists>t u c s. light_client_state_field L (cl_data me) t = Ok c \<and>
         light_consensus_state_field L (cs_data cs) u = Ok s \<and> expiry_overflow (snap_timestamp s) c))"

section \<open>Every handler\<close>

lemma call_state_eq_Panic:
  "(case p of (r, s) \<Rightarrow> try_state r s (\<lambda>x. f x s)) = (Panic, st') \<longleftrightarrow>
     p = (Panic, st') \<or> (\<exists>a s. p = (Ok a, s) \<and> f a s = (Panic, st'))"
  by (cases p; cases "fst p") auto

lemma call_map_err_eq_Panic:
  "(case p of (r, s) \<Rightarrow> try_state (map_err g r) st (\<lambda>x. f x s)) = (Panic, st') \<longleftrightarrow>
     fst p = Panic \<and> st' = st \<or> (\<exists>a s. p = (Ok a, s) \<and> f a s = (Panic, st'))"
  by (cases p; cases "fst p") auto

lemmas panics = try_state_eq_Panic call_state_eq_Panic call_map_err_eq_Panic and_then_eq_Panic
  map_err_eq_Panic unwrap_eq_Panic

context returning_host
begin

lemma field_Panic: "from_base64_rlp L f s t = Panic \<longleftrightarrow> (\<exists>b. base64_decode L s = Some b \<and> f b = Panic)"
  by (auto simp: from_base64_rlp_def from_base64_def panics result_iff)

lemma header_field_Panic: "header_field L s t = Panic \<Longrightarrow> short_header_field L s"
  by (auto simp: field_Panic short_header_field_def dest: header_from_rlp_Panic)

lemma snapshot_field_Panic: "light_consensus_state_field L s t = Panic \<Longrightarrow> short_snapshot_field L s"
  by (auto simp: field_Panic short_snapshot_field_def dest: snapshot_from_rlp_Panic)

lemma client_field_returns [simp]: "light_client_state_field L s t \<noteq> Panic"
  by (auto simp: field_Panic light_client_state_from_rlp_eq panics light_client_state_decode_returns)

lemma proof_field_returns [simp]: "from_base64_json_slice L (merkle_proof_from_slice L) s t \<noteq> Panic"
  by (auto simp: from_base64_json_slice_def from_base64_def panics merkle_proof_returns)

lemma from_base64_returns [simp]: "from_base64 L s t \<noteq> Panic"
  by (simp add: from_base64_def)

lemma set_consensus_meta_returns [simp]: "set_consensus_meta L env st p h \<noteq> (Panic, st')"
  by (auto simp: set_consensus_meta_def set_processed_time_def set_processed_height_def Let_def
      panics to_vec_returns)

lemma wrap_response_returns [simp]: "wrap_response L d a \<noteq> Panic"
  by (auto simp: wrap_response_def panics to_vec_returns)

lemma is_expired_Panic: "is_expired now ts c = Panic \<longleftrightarrow> expiry_overflow ts c"
  by (auto simp: is_expired_def u64_add_def expiry_overflow_def)

lemma init_Panic: "init_contract L env cs me st = (Panic, st') \<Longrightarrow> init_aborts L cs me"
  by (auto simp: init_contract_def init_aborts_def panics to_vec_returns snapshot_verify_def
      dest: snapshot_field_Panic verify_aggregated_seal_Panic)

lemma update_Panic:
  assumes "check_header_and_update_state L env me cs wh st = (Panic, st')"
  shows "update_aborts L env wh cs me"
proof (rule ccontr)
  assume safe: "\<not> update_aborts L env wh cs me"
  have ret: "fst (insert_header L (state_new s (light_client_state_config c)) h (block_time env)) \<noteq> Panic"
    if f: "header_field L (wh_data wh) ''msg.header'' = Ok h"
      "light_consensus_state_field L (cs_data cs) ''msg.light_consensus_state'' = Ok s"
      "light_client_state_field L (cl_data me) ''msg.light_client_state'' = Ok c" for h s c
  proof (rule insert_header_returning)
    have "wf_header h" using f(1) by (auto simp: from_base64_rlp_Ok dest: header_from_rlp_wf)
    then show "0 \<le> number h" by (simp add: wf_header_def)
    have "\<not> insertion_aborts L (block_time env) h s c"
      using safe f unfolding update_aborts_def by blast
    then show "number h < 2 ^ 64" "epoch_size (st_config (state_new s (light_client_state_config c))) \<noteq> 0"
      "\<not> short_extra L (extra h)"
      "verify_epoch_headers (st_config (state_new s (light_client_state_config c))) \<or>
         verify_non_epoch_headers (st_config (state_new s (light_client_state_config c))) \<longrightarrow>
       quorum_defined (st_validators (state_new s (light_client_state_config c))) \<and>
       (verify_header_timestamp (st_config (state_new s (light_client_state_config c))) \<longrightarrow>
          unat (block_time env) +
          unat (allowed_clock_skew (st_config (state_new s (light_client_state_config c)))) < 2 ^ 64)"
      by (auto simp: insertion_aborts_def state_new_def light_client_state_config_def)
  qed
  show False
    using assms ret safe unfolding check_header_and_update_state_def Let_def
    by (auto simp: panics to_vec_returns update_aborts_def call_map_err_eq_Panic
        dest: header_field_Panic snapshot_field_Panic)
qed

lemma misbehaviour_header_Panic:
  assumes "check_misbehaviour_header L n me cs h = Panic" and "header_field L (wh_data wh) t = Ok h"
  shows "misbehaviour_aborts L wh cs"
  using assms
  by (auto simp: check_misbehaviour_header_def misbehaviour_aborts_def panics Let_def state_new_def
      dest!: snapshot_field_Panic verify_header_seal_Panic)

lemma misbehaviour_Panic:
  assumes "check_misbehaviour L me mb cs1 cs2 = Panic"
  shows "misbehaviour_aborts L (header_1 mb) cs1 \<or> misbehaviour_aborts L (header_2 mb) cs2"
proof (rule ccontr)
  assume "\<not> ?thesis"
  then have safe: "\<not> misbehaviour_aborts L (header_1 mb) cs1" "\<not> misbehaviour_aborts L (header_2 mb) cs2"
    by auto
  have "header_field L (wh_data (header_1 mb)) t \<noteq> Panic"
    "header_field L (wh_data (header_2 mb)) t \<noteq> Panic" for t
    using safe header_field_Panic unfolding misbehaviour_aborts_def by blast+
  moreover have "check_misbehaviour_header L n me cs1 h \<noteq> Panic"
    if "header_field L (wh_data (header_1 mb)) ''msg.header'' = Ok h" for n h
    using misbehaviour_header_Panic that safe(1) by blast
  moreover have "check_misbehaviour_header L n me cs2 h \<noteq> Panic"
    if "header_field L (wh_data (header_2 mb)) ''msg.header'' = Ok h" for n h
    using misbehaviour_header_Panic that safe(2) by blast
  moreover have "(if frozen me \<and> frozen_height me \<noteq> None
      then and_then (unwrap (frozen_height me)) (\<lambda>h. Ok (h \<le> wh_height (header_1 mb)))
      else Ok False) \<noteq> (Panic :: (bool, std_error) result)"
    by auto
  ultimately show False
    using assms to_vec_returns unfolding check_misbehaviour_def Let_def
    by (fastforce simp: and_then_eq_Panic split: if_splits)
qed

lemma zero_custom_fields_returns [simp]: "zero_custom_fields L me \<noteq> Panic"
  by (simp add: zero_custom_fields_def Let_def)

lemma verify_membership_Panic:
  assumes "verify_membership L p (ics23_specs L) rt path val 0 = Panic"
  shows "2 < length (proofs p) \<or> length (key_path path) < length (proofs p)"
proof (rule ccontr)
  assume "\<not> ?thesis"
  then have "verify_layers L (ics23_specs L) (key_path path) 0 (proofs p) v r \<noteq> Panic" for v r
    using verify_layers_ne_Panic [of 0 "proofs p" "ics23_specs L" "key_path path" L]
    by (simp add: ics23_specs_def)
  with assms show False by (auto simp: verify_membership_def and_then_eq_Panic split: if_splits)
qed

lemma upgrade_proof_Panic:
  assumes "verify_membership L p (ics23_specs L) rt (construct_upgrade_merkle_path L ks q) val 0 = Panic"
    and "from_base64_json_slice L (merkle_proof_from_slice L) s t = Ok p"
  shows "overlong_proof L s (length ks + 1)"
  using verify_membership_Panic [OF assms(1)] assms(2)
  by (auto simp: overlong_proof_def construct_upgrade_merkle_path_def from_base64_json_slice_Ok)

lemma upgrade_Panic:
  assumes "verify_upgrade_and_update_state L env me new_client new_cs client_proof cs_proof last_cs st =
      (Panic, st')"
  shows "upgrade_aborts L me client_proof cs_proof last_cs"
proof (rule ccontr)
  assume safe: "\<not> upgrade_aborts L me client_proof cs_proof last_cs"
  then obtain h where h: "latest_height me = Some h" by (auto simp: upgrade_aborts_def)
  have exp: "is_expired now (cs_timestamp last_cs) c \<noteq> Panic"
    and len: "\<not> overlong_proof L client_proof (length (upgrade_path c) + 1)"
      "\<not> overlong_proof L cs_proof (length (upgrade_path c) + 1)"
    if "light_client_state_field L (cl_data me) t = Ok c" for c t now
    using safe that unfolding upgrade_aborts_def is_expired_Panic by blast+
  have new: "latest_height new_client \<noteq> None" if "latest_height new_client > latest_height me"
    using that h by (cases "latest_height new_client") auto
  show False
    using assms exp len h new unfolding verify_upgrade_and_update_state_def Let_def
    by (auto simp: panics to_vec_returns call_state_eq_Panic dest!: upgrade_proof_Panic split: if_splits)
qed

lemma copy_consensus_states_returns: "copy_consensus_states L env num is st \<noteq> (Panic, st')"
  by (induction "is" arbitrary: st)
    (auto simp: Let_def call_state_eq_Panic set_consensus_state_def panics to_vec_returns
      split: result.splits prod.splits)

lemma revived_Panic:
  "revived_client_state me c now ts = Panic \<Longrightarrow> expiry_overflow ts c"
  by (auto simp: revived_client_state_def panics is_expired_Panic split: if_splits)

lemma get_consensus_state_returns [simp]: "get_consensus_state L st p h \<noteq> Panic"
  by (simp add: get_consensus_state_def split: option.split)

lemma substitute_tail_Panic:
  assumes "\<not> substitute_aborts L env me substitute subject_cs st"
    and "light_client_state_field L (cl_data me) t = Ok c"
    and "copy_consensus_states L env (revision_number (the (latest_height substitute)))
      [revision_height (the (latest_height substitute))] st = (Ok (), st')"
    and "get_consensus_state L st' SUBJECT_PREFIX (the (latest_height me)) = Ok b"
  shows "\<exists>p. partial_consensus_state_decode L b = Some p \<and> snapshot_from_rlp L (pcs_data p) \<noteq> Panic \<and>
     (\<forall>s now. snapshot_from_rlp L (pcs_data p) = Ok s \<longrightarrow> is_expired now (snap_timestamp s) c \<noteq> Panic)"
proof -
  have "\<not> (case partial_consensus_state_decode L b of
        None \<Rightarrow> True
      | Some p \<Rightarrow> short_snapshot L (pcs_data p) \<or>
          (\<exists>s. snapshot_from_rlp L (pcs_data p) = Ok s \<and> expiry_overflow (snap_timestamp s) c))"
    using assms unfolding substitute_aborts_def by blast
  then show ?thesis
    by (auto simp: is_expired_Panic split: option.splits dest: snapshot_from_rlp_Panic)
qed

lemma substitute_Panic:
  assumes "check_substitute_client_state L env me substitute subject_cs initial_height st = (Panic, st')"
  shows "substitute_aborts L env me substitute subject_cs st"
proof (rule ccontr)
  assume safe: "\<not> substitute_aborts L env me substitute subject_cs st"
  then obtain h k where h: "latest_height me = Some h" "latest_height substitute = Some k"
    and k: "revision_height k \<noteq> - 1"
    by (auto simp: substitute_aborts_def)
  have "unat (revision_height k) \<noteq> unat (- 1 :: u64)" using k by (simp only: word_unat_eq_iff) simp
  then have "unat (revision_height k) + unat (1 :: u64) < 2 ^ 64"
    using unat_u64_lt [of "revision_height k"] by (simp add: unsigned_minus_1_eq_mask mask_eq_exp_minus_1)
  then have add: "u64_add (revision_height k) 1 = (Ok (revision_height k + 1) :: (u64, std_error) result)"
    and range: "u64_range (revision_height k) (revision_height k + 1) = [revision_height k]"
    by (simp_all add: u64_add_def u64_range_def unat_add_u64)
  have rev: "revived_client_state me c now (cs_timestamp subject_cs) \<noteq> Panic"
    if "light_client_state_field L (cl_data me) t = Ok c" for c t now
    using safe that revived_Panic unfolding substitute_aborts_def by blast
  note tail = substitute_tail_Panic [OF safe, unfolded h option.sel]
  show False
  proof (cases "k = initial_height")
    case True
    note assms [folded True, unfolded check_substitute_client_state_def Let_def h add range]
    then show False
      by (auto simp: panics map_err_eq_Ok add range rev call_state_eq_Panic
          copy_consensus_states_returns simp del: copy_consensus_states.simps dest!: tail split: if_splits)
  next
    case False
    with assms show False
      unfolding check_substitute_client_state_def by (auto simp: h)
  qed
qed

lemma handle_Panic: "handle L env msg st = (Panic, st') \<Longrightarrow> aborts L env msg st"
  by (cases msg) (auto simp: handle_def dest: init_Panic update_Panic misbehaviour_Panic upgrade_Panic
      substitute_Panic)

text \<open>Queries.\<close>

lemma get_processed_returns [simp]:
  "get_processed_time L st p h \<noteq> Panic" "get_processed_height L st p h \<noteq> Panic"
  by (simp_all add: get_processed_time_def get_processed_height_def must_deserialize_def
      u64_from_slice_returns height_from_slice_returns split: option.split)

lemma verify_delay_Panic:
  "verify_delay_period_passed L st h bh now dt db = Panic \<Longrightarrow> delay_overflow L st h dt db"
  by (auto simp: verify_delay_period_passed_def panics u64_add_def delay_overflow_def Let_def not_less
      split: if_splits)

lemma apply_prefix_returns [simp]: "apply_prefix L p path \<noteq> Panic"
  by (simp add: apply_prefix_def and_then_eq_Panic)

lemma prove_Panic:
  assumes "prove L p rt prefix path val = Panic" and "val \<noteq> Panic" and "proof_field L s = Ok p"
  shows "overlong_proof L s 2"
proof -
  obtain q v where q: "apply_prefix L prefix [path_to_string L path] = Ok q"
    and "verify_membership L p (ics23_specs L) rt q v 0 = Panic"
    using assms(1,2) by (auto simp: prove_def and_then_eq_Panic split: if_splits)
  then have "2 < length (proofs p) \<or> length (key_path q) < length (proofs p)"
    by (blast dest: verify_membership_Panic)
  moreover have "length (key_path q) = 2"
    using q by (auto simp: apply_prefix_def and_then_eq_Ok split: if_splits)
  ultimately show ?thesis
    using assms(3) by (auto simp: overlong_proof_def from_base64_json_slice_Ok)
qed

lemmas prove_Panics = prove_Panic [OF _ to_vec_returns] prove_Panic [OF _ from_base64_returns]
  prove_Panic [OF _ result.distinct(3)]

lemma to_binary_returns: "wrap_response L d a = Ok r \<Longrightarrow> to_binary r \<noteq> Panic"
  by (auto simp: wrap_response_Ok to_binary_def)

lemmas query_panics = and_then_eq_Panic and_then_eq_Ok to_vec_returns from_base64_returns
  proof_field_returns wrap_response_returns

lemma state_query_Panic:
  assumes "query L env q st = Panic"
    and "q = VerifyClientState me h prefix client proof state cs \<or>
      q = VerifyClientConsensusState me h h' prefix client proof consensus cs \<or>
      q = VerifyConnectionState me h prefix proof conn conn_end cs \<or>
      q = VerifyChannelState me h prefix proof port chan ch cs"
  shows "overlong_proof L proof 2"
  using assms
  by (auto simp: query_def verify_client_state_def verify_client_consensus_state_def
      verify_connection_state_def verify_channel_state_def query_panics
      dest: prove_Panics dest!: to_binary_returns)

lemma packet_query_Panic:
  assumes "query L env q st = Panic"
    and "q = VerifyPacketCommitment me h prefix proof port chan dt db sq commitment cs \<or>
      q = VerifyPacketAcknowledgement me h prefix proof port chan dt db sq ack cs \<or>
      q = VerifyNextSequenceRecv me h prefix proof port chan dt db sq cs"
  shows "overlong_proof L proof 2 \<or> delay_overflow L st h dt db"
  using assms
  by (auto simp: query_def verify_packet_commitment_def verify_packet_acknowledgment_def
      verify_next_sequence_recv_def query_panics
      dest: prove_Panics verify_delay_Panic dest!: to_binary_returns)

lemma absence_query_Panic:
  assumes "query L env (VerifyPacketReceiptAbsence me h prefix proof port chan dt db sq cs) st = Panic"
  shows "no_proof L proof \<or> delay_overflow L st h dt db"
  using assms
  by (auto simp: query_def verify_packet_receipt_absence_def query_panics index_def ics23_specs_def
      no_proof_def from_base64_json_slice_Ok apply_prefix_def unwrap_eq_Panic
      dest: verify_delay_Panic dest!: to_binary_returns split: if_splits)

lemma status_query_Panic:
  assumes "query L env (QueryStatus me cs) st = Panic"
  shows "query_aborts L (QueryStatus me cs) st"
  using assms
  by (auto simp: query_def status_def Let_def query_panics is_expired_Panic
      dest: snapshot_field_Panic dest!: to_binary_returns split: if_splits)

lemma query_Panic: "query L env q st = Panic \<Longrightarrow> query_aborts L q st"
proof (cases q)
  case (ProcessedTime h)
  then show "query L env q st = Panic \<Longrightarrow> ?thesis"
    by (simp add: query_def query_panics)
qed (auto dest: state_query_Panic packet_query_Panic absence_query_Panic status_query_Panic
    simp del: query_aborts.simps(10))

end

text \<open>C11: the contract returns: every message and every query outside the listed cases is answered with a
  response or an error, whatever the store holds. The cases, per message: a header or snapshot
  field with an array shorter than its type; a missing latest height; a snapshot whose validator
  set is empty or too large for its quorum; an epoch size of zero, a block number beyond \<open>u64\<close>,
  or a clock, skew, trusting period or height whose sum overflows; a proof with more layers
  than specifications or path elements; and, for a substitution, a stored consensus state that
  does not decode. Queries: again a proof that is too long (or, for absence, empty), a delay whose
  sum with the recorded time or height overflows, and for the status a short snapshot field or an
  overflowing trusting period. \<close>

theorem contract_returns:
  assumes "returning_host L"
  shows "(\<not> aborts L env msg st \<longrightarrow>
      (\<exists>st'. (\<exists>r. handle L env msg st = (Ok r, st')) \<or> (\<exists>e. handle L env msg st = (Err e, st')))) \<and>
    (\<not> query_aborts L q st \<longrightarrow>
      (\<exists>b. query L env q st = Ok b) \<or> (\<exists>e. query L env q st = Err e))"
  using returning_host.handle_Panic [OF assms, of env msg st] returning_host.query_Panic [OF assms, of env q st]
  by (cases "handle L env msg st"; cases "fst (handle L env msg st)"; cases "query L env q st") auto

text \<open>The header update of the sample messages is in none of the cases.\<close>

interpretation returning_contract: returning_host ref_contract
proof (intro returning_host.intro returning_crates.intro)
  show "returning_crates_axioms ref_contract"
    using returning.rlp_at_returns returning.rlp_value_returns returning.rlp_as_vec_returns
      returning.rlp_as_u64_returns
    by unfold_locales (simp_all add: ref_contract_crates)
  have "ref_to_vec d \<noteq> Panic" for d by (cases d) simp_all
  moreover have "ref_light_client_state_decode b \<noteq> Panic" for b
    using returning.rlp_at_returns returning.rlp_value_returns returning.rlp_as_u64_returns
    by (auto simp: ref_light_client_state_decode_def Let_def panics dest!: collect_eq_Panic)
  ultimately show "returning_host_axioms ref_contract"
    by unfold_locales (simp_all add: ref_height_from_slice_def Let_def)
qed (use sample_host in \<open>simp_all add: contract_host_def\<close>)

theorem contract_returns_witness:
  "\<exists>st'. (\<exists>r. handle ref_contract sample_env (CheckHeaderAndUpdateState (wasm_header_with (header_with 17280 epoch_extra))
       (consensus_with sample_snapshot) (client_with sample_client)) Map.empty = (Ok r, st')) \<or>
     (\<exists>e. handle ref_contract sample_env (CheckHeaderAndUpdateState (wasm_header_with (header_with 17280 epoch_extra))
       (consensus_with sample_snapshot) (client_with sample_client)) Map.empty = (Err e, st'))"
proof (rule contract_returns [OF returning_contract.returning_host_axioms, THEN conjunct1, rule_format])
  let ?h = "header_with 17280 epoch_extra"
  note h = wasm_header_with_field [OF epoch_header_wf epoch_header_fits]
    and s = consensus_with_field [OF sample_snapshot_wf sample_snapshot_fits]
    and c = client_with_field [OF sample_client_fits]
    and ex = header_with_decodes(1) [OF epoch_extra_wf epoch_extra_fits, of 17280]
  have "\<not> short_header_field ref_contract (wh_data (wasm_header_with ?h))"
    using h [of "''''"] returning_contract.header_from_rlp_not_short
    by (auto simp: short_header_field_def from_base64_rlp_Ok simp del: ref_contract_simps)
  moreover have "\<not> short_snapshot_field ref_contract (cs_data (consensus_with sample_snapshot))"
    using s [of "''''"] returning_contract.snapshot_from_rlp_not_short
    by (auto simp: short_snapshot_field_def from_base64_rlp_Ok simp del: ref_contract_simps)
  moreover have "\<not> short_extra ref_contract (extra ?h)"
    using returning_contract.extra_from_rlp_not_short ex by (simp add: ref_same)
  moreover have "number ?h = 17280" by (simp add: header_with_def header_new_def)
  ultimately show "\<not> aborts ref_contract sample_env (CheckHeaderAndUpdateState (wasm_header_with ?h)
      (consensus_with sample_snapshot) (client_with sample_client)) Map.empty"
    using h s c
    by (auto simp: update_aborts_def insertion_aborts_def sample_client_def sample_snapshot_def
        quorum_defined_def sample_validators_def usize_bits_def sample_env_def)
qed

end
