(* ===== verification/State_Codecs.thy ===== *)
theory State_Codecs
  imports Snapshots
begin

text \<open>
  The two codecs of \<^verbatim>\<open>src/types/state.rs\<close> that rest on code of other crates: \<^verbatim>\<open>Vec<Validator>\<close>, with
  \<^verbatim>\<open>rlp::encode_list\<close> and \<^verbatim>\<open>rlp::decode_list\<close>, and \<^verbatim>\<open>Config\<close>, whose \<^verbatim>\<open>Encodable\<close> and \<^verbatim>\<open>Decodable\<close>
  are derived by \<^verbatim>\<open>rlp_derive\<close>. The record \<open>state_crates\<close> adds these calls to the crates;
  \<^verbatim>\<open>decode_list\<close> is given the decoder of the element type, as its type parameter is in the code.
\<close>

record ('pk, 'sig) state_crates = "('pk, 'sig) crates" +
  \<comment> \<open>\<^verbatim>\<open>rlp::encode_list\<close> on the calls the elements make, \<^verbatim>\<open>rlp::decode_list\<close>, derived codec\<close>
  rlp_encode_list :: "rlp_op list list \<Rightarrow> bytes"
  rlp_decode_list :: "(bytes \<Rightarrow> (validator, decoder_error) result) \<Rightarrow> bytes \<Rightarrow> (validator list, kind) result"
  config_encode :: "config \<Rightarrow> bytes"
  config_decode :: "bytes \<Rightarrow> (config, decoder_error) result"

section \<open>Operations\<close>

definition validators_to_rlp :: "('pk, 'sig, 'z) state_crates_scheme \<Rightarrow> validator list \<Rightarrow> bytes" where
  "validators_to_rlp L vs = rlp_encode_list L (map validator_append vs)"

definition validators_from_rlp ::
    "('pk, 'sig, 'z) state_crates_scheme \<Rightarrow> bytes \<Rightarrow> (validator list, kind) result" where
  "validators_from_rlp L bytes = rlp_decode_list L (validator_decode L) bytes"

definition config_to_rlp :: "('pk, 'sig, 'z) state_crates_scheme \<Rightarrow> config \<Rightarrow> bytes" where
  "config_to_rlp L c = config_encode L c"

definition config_from_rlp :: "('pk, 'sig, 'z) state_crates_scheme \<Rightarrow> bytes \<Rightarrow> (config, kind) result" where
  "config_from_rlp L bytes = map_err (\<lambda>_. RlpDecodeError) (config_decode L bytes)"

section \<open>Laws and round trips\<close>

definition config_item :: "config \<Rightarrow> rlp_item" where
  "config_item c = RList
     [RNum (cfg_epoch_size c), RNum (cfg_allowed_clock_skew c),
      bool_item (cfg_verify_epoch_headers c), bool_item (cfg_verify_non_epoch_headers c),
      bool_item (cfg_verify_header_timestamp c)]"

lemma config_fits: "rlp_fits (config_item c)"
  by (simp add: config_item_def bool_item_def rlp_fits_def usize_bits_def)

text \<open>\<^verbatim>\<open>decode_list\<close> is documented to panic on what is not a list of decodable elements.\<close>

locale list_codec = library_crates L
  for L :: "('pk, 'sig, 'z) state_crates_scheme" +
  assumes encode_list: "rlp_encode_list L (map item_ops ts) = rlp_enc L (RList ts)"
    and decode_list: "rlp_fits (RList ts) \<Longrightarrow>
      rlp_decode_list L decode (rlp_enc L (RList ts)) = unwrap_result (collect decode (map (rlp_enc L) ts))"
begin

lemma validators_to_rlp_item: "validators_to_rlp L vs = rlp_enc L (RList (map validator_item vs))"
  unfolding validators_to_rlp_def validator_append_fun map_map [symmetric] by (rule encode_list)

lemma validators_from_to:
  assumes "list_all wf_validator vs" and "rlp_fits (RList (map validator_item vs))"
  shows "validators_from_rlp L (validators_to_rlp L vs) = Ok vs"
proof -
  have "collect (validator_decode L) (map (\<lambda>v. rlp_enc L (validator_item v)) vs) = Ok (map (\<lambda>v. v) vs)"
    using assms(1) rlp_fits_member [OF assms(2)]
    by (intro collect_map_Ok validator_decode_item) (auto simp: list_all_iff)
  then show ?thesis
    using assms(2) by (simp add: validators_from_rlp_def validators_to_rlp_item decode_list comp_def)
qed

end

text \<open>
  The derived codec of \<^verbatim>\<open>Config\<close> is the crate's code alone: that it reads back what it writes is a law, and
  \<open>to_rlp\<close> and \<open>from_rlp\<close> only wrap it.
\<close>

locale state_codecs = list_codec L
  for L :: "('pk, 'sig, 'z) state_crates_scheme" +
  assumes config_decode_encode: "rlp_fits (config_item c) \<Longrightarrow> config_decode L (config_encode L c) = Ok c"
begin

lemma config_from_to: "config_from_rlp L (config_to_rlp L c) = Ok c"
  by (simp add: config_to_rlp_def config_from_rlp_def config_decode_encode config_fits)

end

sublocale list_codec \<subseteq> validators: wire_codec "validators_to_rlp L" "validators_from_rlp L"
  "\<lambda>vs. list_all wf_validator vs \<and> rlp_fits (RList (map validator_item vs))"
  by unfold_locales (simp add: validators_from_to)

sublocale state_codecs \<subseteq> config: wire_codec "config_to_rlp L" "config_from_rlp L" "\<lambda>_. True"
  by unfold_locales (rule config_from_to)

section \<open>Reference crates\<close>

definition ref_bool :: "bytes \<Rightarrow> (bool, decoder_error) result" where
  "ref_bool bs = and_then (ref_value bs) (\<lambda>b.
     if b = [0] then Ok False else if b = [1] then Ok True else Err (LibraryError 4))"

definition ref_config_decode :: "bytes \<Rightarrow> (config, decoder_error) result" where
  "ref_config_decode bs =
     and_then (and_then (ref_at bs 0) ref_as_u64) (\<lambda>es.
     and_then (and_then (ref_at bs 1) ref_as_u64) (\<lambda>skew.
     and_then (and_then (ref_at bs 2) ref_bool) (\<lambda>e.
     and_then (and_then (ref_at bs 3) ref_bool) (\<lambda>n.
     and_then (and_then (ref_at bs 4) ref_bool) (\<lambda>t.
       Ok \<lparr>cfg_epoch_size = es, cfg_allowed_clock_skew = skew, cfg_verify_epoch_headers = e,
           cfg_verify_non_epoch_headers = n, cfg_verify_header_timestamp = t\<rparr>)))))"

definition ref_state_crates :: "(bytes list, bytes) state_crates" where
  "ref_state_crates = crates.extend ref_crates
     \<lparr>rlp_encode_list = (\<lambda>ops. ref_out (BeginList (length ops) # concat ops)),
      rlp_decode_list = (\<lambda>decode bs. unwrap_result (collect decode (ref_iter bs))),
      config_encode = (\<lambda>c. ref_enc (config_item c)),
      config_decode = ref_config_decode\<rparr>"

lemma ref_state_simps [simp]:
  "bi_bits ref_state_crates n = bi_bits ref_crates n"
  "bi_bit ref_state_crates = bi_bit ref_crates"
  "bi_is_zero ref_state_crates n = bi_is_zero ref_crates n"
  "bi_to_u64 ref_state_crates n = bi_to_u64 ref_crates n"
  "bi_from_bytes_be ref_state_crates bs = bi_from_bytes_be ref_crates bs"
  "bi_to_bytes_be ref_state_crates n = bi_to_bytes_be ref_crates n"
  "rlp_out ref_state_crates = ref_out"
  "rlp_at ref_state_crates = ref_at"
  "rlp_iter ref_state_crates = ref_iter"
  "rlp_value ref_state_crates = ref_value"
  "rlp_as_vec ref_state_crates = ref_value"
  "rlp_as_u64 ref_state_crates = ref_as_u64"
  "keccak256 ref_state_crates = ref_digest"
  "rlp_encode_list ref_state_crates ops = ref_out (BeginList (length ops) # concat ops)"
  "rlp_decode_list ref_state_crates decode bs = unwrap_result (collect decode (ref_iter bs))"
  "config_encode ref_state_crates c = ref_enc (config_item c)"
  "config_decode ref_state_crates = ref_config_decode"
  by (simp_all add: ref_state_crates_def crates.extend_def)

lemma ref_config_decode_enc: "ref_config_decode (ref_enc (config_item c)) = Ok c"
proof -
  note fits = config_fits [of c, unfolded config_item_def]
  have at: "i < 5 \<Longrightarrow> ref_at (ref_enc (config_item c)) i = Ok (ref_enc
      ([RNum (cfg_epoch_size c), RNum (cfg_allowed_clock_skew c),
      bool_item (cfg_verify_epoch_headers c), bool_item (cfg_verify_non_epoch_headers c),
      bool_item (cfg_verify_header_timestamp c)] ! i))" for i
    using ref.at_list [OF fits, of i] by (simp add: config_item_def del: ref_enc.simps)
  have "ref_bool (ref_enc (bool_item b)) = Ok b" for b
    using ref.value_str [of "[if b then 1 else 0]"]
    by (auto simp: ref_bool_def bool_item_def rlp_fits_def usize_bits_def)
  then show ?thesis
    by (simp add: ref_config_decode_def at ref_as_u64_enc del: ref_enc.simps)
qed

interpretation ref_state: state_codecs ref_state_crates
proof (rule state_codecs.intro, rule list_codec.intro)
  have enc: "rlp_enc ref_state_crates = rlp_enc ref_crates"
    by (rule ext) (simp add: rlp_enc_def)
  show "library_crates ref_state_crates"
    unfolding ref_state_crates_def by (rule library_crates_extend [OF ref.library_crates_axioms])
  show "state_codecs_axioms ref_state_crates"
    by unfold_locales (simp add: ref_config_decode_enc)
  show "list_codec_axioms ref_state_crates"
  proof
    fix ts and decode :: "bytes \<Rightarrow> (validator, decoder_error) result"
    show "rlp_encode_list ref_state_crates (map item_ops ts) = rlp_enc ref_state_crates (RList ts)"
      by (simp add: rlp_enc_def)
    show "rlp_decode_list ref_state_crates decode (rlp_enc ref_state_crates (RList ts)) =
        unwrap_result (collect decode (map (rlp_enc ref_state_crates) ts))" if "rlp_fits (RList ts)"
      using ref.iter_list [OF that] by (simp add: enc del: ref_enc.simps)
  qed
qed

text \<open>C32: the codec of \<^verbatim>\<open>Vec<Validator>\<close> round trips: a list of validators with addresses and keys of the
  declared lengths, which fits the address space, is read back by \<^verbatim>\<open>from_rlp\<close> from what \<^verbatim>\<open>to_rlp\<close> writes,
  in its order. \<close>

theorem validator_list_roundtrip:
  assumes "list_codec L" and "list_all wf_validator vs" and "rlp_fits (RList (map validator_item vs))"
  shows "validators_from_rlp L (validators_to_rlp L vs) = Ok vs"
  using list_codec.validators_from_to [OF assms] .

theorem validator_list_roundtrip_witness:
  "validators_from_rlp ref_state_crates (validators_to_rlp ref_state_crates sample_validators) =
     Ok sample_validators"
proof (rule validator_list_roundtrip [OF ref_state.list_codec_axioms])
  show "list_all wf_validator sample_validators" "rlp_fits (RList (map validator_item sample_validators))"
    by (simp_all add: sample_validators_def wf_validator_def validator_item_def rlp_fits_def usize_bits_def)
qed

end
