(* ===== verification/State_Tests.thy ===== *)
theory State_Tests
  imports Light_State Effects "HOL-Library.Multiset" "HOL-Library.List_Lexorder"
begin

text \<open>
  The unit tests of \<^verbatim>\<open>src/state.rs\<close> (module \<^verbatim>\<open>tests\<close>): each test is a computation that panics
  when an assertion fails. The names of a test stand for accounts whose keys are generated
  on first use; the key generator of \<^verbatim>\<open>secp256k1\<close> and the operating system's randomness it
  reads (\<open>'rng\<close>) are parameters. That the tests pass, for every library with the documented
  behaviour, rests on a general fact about \<^verbatim>\<open>remove_validators\<close> and \<^verbatim>\<open>add_validators\<close>: driven by
  names, they replay the changes of the list of names.
\<close>

section \<open>The crates of the tests\<close>

record ('pk, 'sig, 'sk, 'pub, 'rng) test_crates = "('pk, 'sig) crates" +
  \<comment> \<open>\<^verbatim>\<open>BigInt::set_bit\<close>; \<^verbatim>\<open>Secp256k1::generate_keypair\<close> with a fresh \<^verbatim>\<open>OsRng\<close>;
    \<^verbatim>\<open>PublicKey::serialize_uncompressed\<close>\<close>
  bi_set_bit :: "int \<Rightarrow> nat \<Rightarrow> bool \<Rightarrow> int"
  generate_keypair :: "'rng \<Rightarrow> ('sk \<times> 'pub) \<times> 'rng"
  serialize_uncompressed :: "'pub \<Rightarrow> bytes"

text \<open>\<^verbatim>\<open>Ord\<close> of byte arrays, and the standard library's stable \<^verbatim>\<open>sort_by\<close>.\<close>

fun bytes_cmp :: "bytes \<Rightarrow> bytes \<Rightarrow> ordering" where
  "bytes_cmp [] [] = Equal"
| "bytes_cmp [] (y # ys) = Less"
| "bytes_cmp (x # xs) [] = Greater"
| "bytes_cmp (x # xs) (y # ys) = (if x < y then Less else if y < x then Greater else bytes_cmp xs ys)"

definition usize_cmp :: "nat \<Rightarrow> nat \<Rightarrow> ordering" where
  "usize_cmp m n = (if m < n then Less else if n < m then Greater else Equal)"

fun insert_by :: "('a \<Rightarrow> 'a \<Rightarrow> ordering) \<Rightarrow> 'a \<Rightarrow> 'a list \<Rightarrow> 'a list" where
  "insert_by f x [] = [x]"
| "insert_by f x (y # ys) = (if f x y = Greater then y # insert_by f x ys else x # y # ys)"

definition sort_by :: "('a \<Rightarrow> 'a \<Rightarrow> ordering) \<Rightarrow> 'a list \<Rightarrow> 'a list" where
  "sort_by f xs = foldr (insert_by f) xs []"

section \<open>Helpers of the tests\<close>

record validator_set_diff =
  vsd_added_validators :: "string list"
  vsd_removed_validators :: "string list"

record test_validator_set =
  tvs_validators :: "string list"
  tvs_validator_set_diffs :: "validator_set_diff list"
  tvs_results :: "string list"

record ('sk, 'pub) account_pool =
  accounts :: "string \<rightharpoonup> 'sk \<times> 'pub"

definition state_config :: config where
  "state_config =
     \<lparr>cfg_epoch_size = 123, cfg_allowed_clock_skew = 123, cfg_verify_epoch_headers = True,
      cfg_verify_non_epoch_headers = True, cfg_verify_header_timestamp = True\<rparr>"

definition account_pool_new :: "('sk, 'pub) account_pool" where
  "account_pool_new = \<lparr>accounts = Map.empty\<rparr>"

definition address_default :: address where
  "address_default = replicate ADDRESS_LENGTH 0"

definition pubkey_to_address ::
    "('pk, 'sig, 'sk, 'pub, 'rng, 'z) test_crates_scheme \<Rightarrow> 'pub \<Rightarrow> (address, kind) result" where
  "pubkey_to_address L p =
     and_then (slice_from (serialize_uncompressed L p) 1) (\<lambda>pub_bytes.
     and_then (slice_from (keccak256 L pub_bytes) 12) (\<lambda>digest.
       unwrap_result (address_from_bytes digest)))"

definition bytes_to_address :: "bytes \<Rightarrow> (address, kind) result" where
  "bytes_to_address bytes =
     and_then (usize_sub ADDRESS_LENGTH (length bytes)) (\<lambda>n.
       unwrap_result (address_from_bytes (replicate n 0 @ bytes)))"

type_synonym ('a, 'sk, 'pub, 'rng) test_io = "('a, kind, ('sk, 'pub) account_pool \<times> 'rng) io"

definition generate_key ::
    "('pk, 'sig, 'sk, 'pub, 'rng, 'z) test_crates_scheme \<Rightarrow> 'rng \<Rightarrow> ('sk \<times> 'pub) \<times> 'rng" where
  "generate_key L rng = generate_keypair L rng"

definition account_address ::
    "('pk, 'sig, 'sk, 'pub, 'rng, 'z) test_crates_scheme \<Rightarrow> string \<Rightarrow> (address, 'sk, 'pub, 'rng) test_io" where
  "account_address L account w =
     (case w of (pool, rng) \<Rightarrow>
        if account = '''' then (Ok address_default, (pool, rng))
        else
          let (pool, rng) =
                (if accounts pool account = None
                 then let (key, rng) = generate_key L rng
                      in (pool\<lparr>accounts := (accounts pool)(account \<mapsto> key)\<rparr>, rng)
                 else (pool, rng))
          in (and_then (unwrap (accounts pool account)) (\<lambda>key. pubkey_to_address L (snd key)), (pool, rng)))"

definition convert_val_names_to_validators ::
    "('pk, 'sig, 'sk, 'pub, 'rng, 'z) test_crates_scheme \<Rightarrow> string list \<Rightarrow>
     (validator list, 'sk, 'pub, 'rng) test_io" where
  "convert_val_names_to_validators L val_names =
     io_collect (\<lambda>name. io_then (account_address L name) (\<lambda>a.
       io_return \<lparr>address = a, public_key = public_key_default\<rparr>)) val_names"

definition mark_removed ::
    "('pk, 'sig, 'sk, 'pub, 'rng, 'z) test_crates_scheme \<Rightarrow> validator list \<Rightarrow> string \<Rightarrow> nat \<Rightarrow> int \<Rightarrow>
     (int, 'sk, 'pub, 'rng) test_io" where
  "mark_removed L old_validators v j bitmap =
     io_then (account_address L v) (\<lambda>a.
     io_then (io_result (index old_validators j)) (\<lambda>old.
       io_return (if a = address old then bi_set_bit L bitmap j True else bitmap)))"

definition convert_val_names_to_removed_validators ::
    "('pk, 'sig, 'sk, 'pub, 'rng, 'z) test_crates_scheme \<Rightarrow> validator list \<Rightarrow> string list \<Rightarrow>
     (int, 'sk, 'pub, 'rng) test_io" where
  "convert_val_names_to_removed_validators L old_validators val_names =
     io_fold (\<lambda>v. io_fold (mark_removed L old_validators v) [0..<length old_validators]) val_names 0"

definition compare :: "validator list \<Rightarrow> validator list \<Rightarrow> ordering" where
  "compare a b =
     (let sorted_a = sort_by (\<lambda>a b. bytes_cmp (address b) (address a)) a;
          sorted_b = sort_by (\<lambda>a b. bytes_cmp (address b) (address a)) b
      in case List.find (\<lambda>ord. ord \<noteq> Equal)
               (map (\<lambda>(x, y). bytes_cmp (address x) (address y)) (zip sorted_a sorted_b)) of
           Some ord \<Rightarrow> ord
         | None \<Rightarrow> usize_cmp (length a) (length b))"

section \<open>The tests\<close>

definition test_encode_state_snapshot ::
    "('pk, 'sig, 'z) crates_scheme \<Rightarrow> (unit, kind) result" where
  "test_encode_state_snapshot L =
     (let v = \<lparr>address = address_default, public_key = public_key_default\<rparr>;
          snapshot =
            \<lparr>snap_number = 456, snap_timestamp = 123456, snap_validators = [v, v],
             snap_hash = replicate HASH_LENGTH 0,
             snap_aggregated_seal = istanbul_aggregated_seal_new\<rparr>;
          encoded = rlp_out L (snapshot_append L snapshot)
      in and_then (unwrap_result (snapshot_from_rlp L encoded)) (\<lambda>decoded.
         assert_that (snapshot = decoded)))"

definition test_add_remove :: "('pk, 'sig, 'z) crates_scheme \<Rightarrow> (unit, kind) result" where
  "test_add_remove L =
     and_then (bytes_to_address [3]) (\<lambda>a3.
     and_then (bytes_to_address [2]) (\<lambda>a2.
     and_then (bytes_to_address [1]) (\<lambda>a1.
     let validator = (\<lambda>a. \<lparr>address = a, public_key = public_key_default\<rparr>);
         state = state_new snapshot_new (config_state_config state_config);
         (result, state) = add_validators state [validator a3]
     in and_then (assert_that (result = True)) (\<lambda>_.
     let (result, state) = add_validators state [validator a2, validator a1]
     in and_then (assert_that (result = True)) (\<lambda>_.
     and_then (assert_that (length (st_validators state) = 3)) (\<lambda>_.
     let current_addresses = map address (st_validators state);
         expected_addresses = [a3, a2, a1]
     in and_then (assert_that (current_addresses = expected_addresses)) (\<lambda>_.
     let (result, state) = remove_validators L state 1
     in and_then (assert_that (result = True)) (\<lambda>_.
     and_then (assert_that (length (st_validators state) = 2)) (\<lambda>_.
     let (result, state) = remove_validators L state 2
     in and_then (assert_that (result = True)) (\<lambda>_.
     and_then (assert_that (length (st_validators state) = 1)) (\<lambda>_.
     let (result, state) = remove_validators L state 1
     in and_then (assert_that (result = True)) (\<lambda>_.
     assert_that (length (st_validators state) = 0)))))))))))))"

definition apply_diff ::
    "('pk, 'sig, 'sk, 'pub, 'rng, 'z) test_crates_scheme \<Rightarrow> validator_set_diff \<Rightarrow> state \<Rightarrow>
     (state, 'sk, 'pub, 'rng) test_io" where
  "apply_diff L diff state =
     io_then (convert_val_names_to_validators L (vsd_added_validators diff)) (\<lambda>added_validators.
     io_then (convert_val_names_to_removed_validators L (st_validators state)
         (vsd_removed_validators diff)) (\<lambda>removed_validators.
     let (_, state) = remove_validators L state removed_validators;
         (_, state) = add_validators state added_validators
     in io_return state))"

definition validator_set_tests :: "test_validator_set list" where
  "validator_set_tests =
     [\<lparr>tvs_validators = [''A''],
       tvs_validator_set_diffs = [\<lparr>vsd_added_validators = [], vsd_removed_validators = []\<rparr>],
       tvs_results = [''A'']\<rparr>,
      \<lparr>tvs_validators = [''A''],
       tvs_validator_set_diffs = [\<lparr>vsd_added_validators = [''B'', ''C''], vsd_removed_validators = []\<rparr>],
       tvs_results = [''A'', ''B'', ''C'']\<rparr>,
      \<lparr>tvs_validators = [''A'', ''B''],
       tvs_validator_set_diffs = [\<lparr>vsd_added_validators = [], vsd_removed_validators = [''A'', ''B'']\<rparr>],
       tvs_results = []\<rparr>,
      \<lparr>tvs_validators = [''A'', ''B'', ''C''],
       tvs_validator_set_diffs =
         [\<lparr>vsd_added_validators = [''D'', ''E''], vsd_removed_validators = [''B'', ''C'']\<rparr>],
       tvs_results = [''A'', ''D'', ''E'']\<rparr>,
      \<lparr>tvs_validators = [''A'', ''B'', ''C''],
       tvs_validator_set_diffs =
         [\<lparr>vsd_added_validators = [''D'', ''E''], vsd_removed_validators = [''B'', ''C'']\<rparr>,
          \<lparr>vsd_added_validators = [''F''], vsd_removed_validators = [''A'', ''D'']\<rparr>],
       tvs_results = [''F'', ''E'']\<rparr>]"

definition run_validator_set_test ::
    "('pk, 'sig, 'sk, 'pub, 'rng, 'z) test_crates_scheme \<Rightarrow> test_validator_set \<Rightarrow>
     (unit, 'sk, 'pub, 'rng) test_io" where
  "run_validator_set_test L test =
     (let state = state_new snapshot_new (config_state_config state_config) in
      io_then (convert_val_names_to_validators L (tvs_validators test)) (\<lambda>validators.
      let (_, state) = add_validators state validators in
      io_then (io_fold (apply_diff L) (tvs_validator_set_diffs test) state) (\<lambda>state.
      io_then (convert_val_names_to_validators L (tvs_results test)) (\<lambda>results.
        io_result (assert_that (compare (st_validators state) results = Equal))))))"

text \<open>Every test of the table starts with an account pool of its own.\<close>

definition applies_validator_set_changes ::
    "('pk, 'sig, 'sk, 'pub, 'rng, 'z) test_crates_scheme \<Rightarrow> (unit, kind, 'rng) io" where
  "applies_validator_set_changes L =
     io_fold (\<lambda>test _ rng.
        case run_validator_set_test L test (account_pool_new, rng) of (r, (_, rng)) \<Rightarrow> (r, rng))
       validator_set_tests ()"

section \<open>Comparing validator sets\<close>

lemma bytes_cmp_less [simp]: "bytes_cmp a b = Less \<longleftrightarrow> a < b"
  by (induction a b rule: bytes_cmp.induct) auto

lemma bytes_cmp_greater [simp]: "bytes_cmp a b = Greater \<longleftrightarrow> b < a"
  by (induction a b rule: bytes_cmp.induct) auto

lemma bytes_cmp_equal [simp]: "bytes_cmp a b = Equal \<longleftrightarrow> a = b"
  by (induction a b rule: bytes_cmp.induct) auto

lemma mset_insert_by [simp]: "mset (insert_by f x xs) = add_mset x (mset xs)"
  by (induction xs) auto

lemma mset_sort_by [simp]: "mset (sort_by f xs) = mset xs"
  by (induction xs) (auto simp: sort_by_def)

definition by_address :: "validator \<Rightarrow> validator \<Rightarrow> ordering" where
  "by_address a b = bytes_cmp (address b) (address a)"

lemma by_address_greater [simp]: "by_address v w = Greater \<longleftrightarrow> address v < address w"
  by (simp add: by_address_def)

lemma insert_by_address_sorted:
  "sorted_wrt (\<lambda>a b. b \<le> a) (map address vs) \<Longrightarrow>
     sorted_wrt (\<lambda>a b. b \<le> a) (map address (insert_by by_address v vs))"
proof (induction vs)
  case (Cons w vs)
  have "set (insert_by by_address v vs) = insert v (set vs)"
    by (metis mset_insert_by set_mset_add_mset_insert set_mset_mset)
  with Cons show ?case by auto
qed simp

lemma sort_by_address_sorted: "sorted_wrt (\<lambda>a b. b \<le> a) (map address (sort_by by_address vs))"
  by (induction vs) (simp_all add: sort_by_def insert_by_address_sorted)

lemma sorted_desc_unique:
  fixes xs ys :: "'a::linorder list"
  assumes "sorted_wrt (\<lambda>a b. b \<le> a) xs" and "sorted_wrt (\<lambda>a b. b \<le> a) ys" and "mset xs = mset ys"
  shows "xs = ys"
proof -
  have "sorted (rev xs)" "sorted (rev ys)" using assms(1,2) by (simp_all add: sorted_wrt_rev)
  moreover have "mset (rev xs) = mset (rev ys)" using assms(3) by simp
  ultimately have "rev xs = rev ys" using properties_for_sort by metis
  then show ?thesis by simp
qed

lemma find_difference: "List.find (\<lambda>ord. ord \<noteq> Equal) ords \<noteq> Some Equal"
  by (auto simp: find_Some_iff)

lemma find_difference_None:
  "length xs = length ys \<Longrightarrow>
     List.find (\<lambda>ord. ord \<noteq> Equal) (map (\<lambda>(x, y). bytes_cmp (address x) (address y)) (zip xs ys)) = None
     \<longleftrightarrow> map address xs = map address ys"
  by (induction xs ys rule: list_induct2) auto

lemma compare_Equal_iff: "compare a b = Equal \<longleftrightarrow> mset (map address a) = mset (map address b)"
proof -
  let ?s = "sort_by by_address"
  have cmp: "(\<lambda>a b. bytes_cmp (address b) (address a)) = by_address"
    by (intro ext) (simp add: by_address_def)
  have len: "length (?s xs) = length xs" for xs by (metis mset_sort_by size_mset)
  then have len_eq: "length a = length b \<Longrightarrow> length (?s a) = length (?s b)" by simp
  have ms: "mset (map address (?s xs)) = mset (map address xs)" for xs by simp
  show ?thesis
  proof (cases "length a = length b")
    case True
    have "map address (?s a) = map address (?s b) \<longleftrightarrow> mset (map address a) = mset (map address b)"
      using sorted_desc_unique [OF sort_by_address_sorted sort_by_address_sorted] ms by metis
    moreover have "compare a b = Equal \<longleftrightarrow> map address (?s a) = map address (?s b)"
      using True unfolding find_difference_None [OF len_eq [OF True], symmetric]
      by (auto simp: compare_def cmp usize_cmp_def Let_def find_difference split: option.splits)
    ultimately show ?thesis by simp
  next
    case False
    then have "mset (map address a) \<noteq> mset (map address b)" by (metis length_map size_mset)
    moreover have "compare a b \<noteq> Equal"
      using False by (auto simp: compare_def usize_cmp_def Let_def find_difference split: option.splits)
    ultimately show ?thesis by simp
  qed
qed

section \<open>Accounts\<close>

text \<open>
  The keys drawn from a source of randomness, in their order, and the pool after the names \<open>ns\<close>
  have been looked up for the first time in this order.
\<close>

definition rng_after :: "('pk, 'sig, 'sk, 'pub, 'rng, 'z) test_crates_scheme \<Rightarrow> 'rng \<Rightarrow> nat \<Rightarrow> 'rng" where
  "rng_after L rng n = ((\<lambda>r. snd (generate_keypair L r)) ^^ n) rng"

definition nth_key :: "('pk, 'sig, 'sk, 'pub, 'rng, 'z) test_crates_scheme \<Rightarrow> 'rng \<Rightarrow> nat \<Rightarrow> 'sk \<times> 'pub" where
  "nth_key L rng n = fst (generate_keypair L (rng_after L rng n))"

definition nth_address :: "('pk, 'sig, 'sk, 'pub, 'rng, 'z) test_crates_scheme \<Rightarrow> 'rng \<Rightarrow> nat \<Rightarrow> address" where
  "nth_address L rng n = take 20 (drop 12 (keccak256 L (drop 1 (serialize_uncompressed L (snd (nth_key L rng n))))))"

definition pool_of ::
    "('pk, 'sig, 'sk, 'pub, 'rng, 'z) test_crates_scheme \<Rightarrow> 'rng \<Rightarrow> string list \<Rightarrow>
     ('sk, 'pub) account_pool \<times> 'rng" where
  "pool_of L rng ns =
     (\<lparr>accounts = map_of (zip ns (map (nth_key L rng) [0..<length ns]))\<rparr>, rng_after L rng (length ns))"

definition place :: "string list \<Rightarrow> string \<Rightarrow> nat" where
  "place ns n = length (takeWhile (\<lambda>m. m \<noteq> n) ns)"

definition look_up :: "string \<Rightarrow> string list \<Rightarrow> string list" where
  "look_up n ns = (if n \<in> set ns then ns else ns @ [n])"

abbreviation look_up_all :: "string list \<Rightarrow> string list \<Rightarrow> string list" where
  "look_up_all \<equiv> fold look_up"

definition name_address ::
    "('pk, 'sig, 'sk, 'pub, 'rng, 'z) test_crates_scheme \<Rightarrow> 'rng \<Rightarrow> string list \<Rightarrow> string \<Rightarrow> address" where
  "name_address L rng ns n = nth_address L rng (place ns n)"

definition name_validator ::
    "('pk, 'sig, 'sk, 'pub, 'rng, 'z) test_crates_scheme \<Rightarrow> 'rng \<Rightarrow> string list \<Rightarrow> string \<Rightarrow> validator" where
  "name_validator L rng ns n = \<lparr>address = name_address L rng ns n, public_key = public_key_default\<rparr>"

lemma place_less: "n \<in> set ns \<Longrightarrow> place ns n < length ns"
  by (induction ns) (auto simp: place_def)

lemma nth_place: "n \<in> set ns \<Longrightarrow> ns ! place ns n = n"
  by (induction ns) (auto simp: place_def)

lemma place_append [simp]: "n \<in> set ns \<Longrightarrow> place (ns @ ms) n = place ns n"
  by (induction ns) (auto simp: place_def)

lemma place_snoc: "n \<notin> set ns \<Longrightarrow> place (ns @ [n]) n = length ns"
  by (induction ns) (auto simp: place_def)

lemma look_up_all_set: "set (look_up_all names ns) = set ns \<union> set names"
  by (induction names arbitrary: ns) (auto simp: look_up_def)

lemma look_up_all_distinct: "distinct ns \<Longrightarrow> distinct (look_up_all names ns)"
  by (induction names arbitrary: ns) (auto simp: look_up_def)

lemma look_up_all_prefix: "\<exists>ms. look_up_all names ns = ns @ ms"
proof (induction names arbitrary: ns)
  case (Cons n names)
  from Cons [of "look_up n ns"] show ?case by (auto simp: look_up_def split: if_splits)
qed simp

lemma name_validator_stable [simp]:
  "n \<in> set ns \<Longrightarrow> name_validator L rng (look_up_all names ns) n = name_validator L rng ns n"
  using look_up_all_prefix [of names ns] by (auto simp: name_validator_def name_address_def)

lemma map_of_pool: "distinct ns \<Longrightarrow> n \<in> set ns \<Longrightarrow>
    map_of (zip ns (map f [0..<length ns])) n = Some (f (place ns n))"
  using map_of_zip_nth [of ns "map f [0..<length ns]" "place ns n"] place_less [of n ns] nth_place [of n ns]
  by simp

lemma map_of_pool_new: "n \<notin> set ns \<Longrightarrow> map_of (zip ns (map f [0..<length ns])) n = None"
  by (simp add: map_of_zip_is_None)

lemma generate_keypair_after:
  "generate_keypair L (rng_after L rng n) = (nth_key L rng n, rng_after L rng (Suc n))"
  by (simp add: rng_after_def nth_key_def)

text \<open>The laws used: \<^verbatim>\<open>set_bit\<close> and \<^verbatim>\<open>bits\<close> of \<^verbatim>\<open>BigInt\<close>, a serialized key has a first byte.\<close>

locale test_library = library_crates L
  for L :: "('pk, 'sig, 'sk, 'pub, 'rng, 'z) test_crates_scheme" +
  assumes set_bit_eq: "bi_set_bit L n i True = set_bit i n"
    and bits_least: "0 \<le> n \<Longrightarrow> n < 2 ^ k \<Longrightarrow> bi_bits L n \<le> k"
    and serialized_key: "serialize_uncompressed L p \<noteq> []"
begin

lemma pubkey_to_address_key:
  "pubkey_to_address L (snd (nth_key L rng n)) = Ok (nth_address L rng n)"
proof -
  have "Suc 0 \<le> length (serialize_uncompressed L p)" for p
    using serialized_key [of p] by (cases "serialize_uncompressed L p") simp_all
  then show ?thesis
    by (simp add: pubkey_to_address_def slice_from_def digest_length from_bytes_array
        array_from_bytes_eq nth_address_def)
qed

lemma account_address_pool:
  assumes "distinct ns" and "n \<noteq> ''''"
  shows "account_address L n (pool_of L rng ns) =
     (Ok (name_address L rng (look_up n ns) n), pool_of L rng (look_up n ns))"
proof (cases "n \<in> set ns")
  case True
  with assms show ?thesis
    by (simp add: account_address_def pool_of_def look_up_def map_of_pool pubkey_to_address_key
        name_address_def)
next
  case False
  have "fst (pool_of L rng (ns @ [n])) =
      \<lparr>accounts = (map_of (zip ns (map (nth_key L rng) [0..<length ns])))(n \<mapsto> nth_key L rng (length ns))\<rparr>"
    using False
    by (auto simp: pool_of_def map_of_append fun_eq_iff map_add_def map_of_pool_new split: option.splits)
  with assms False show ?thesis
    by (simp add: account_address_def pool_of_def look_up_def generate_key_def Let_def
        map_of_pool_new generate_keypair_after pubkey_to_address_key name_address_def place_snoc)
qed

end

lemma name_address_stable [simp]:
  "n \<in> set ns \<Longrightarrow> name_address L rng (look_up_all names ns) n = name_address L rng ns n"
  using look_up_all_prefix [of names ns] by (auto simp: name_address_def)

lemma look_up_set [simp]: "set (look_up n ns) = insert n (set ns)"
  by (auto simp: look_up_def)

lemma look_up_distinct [simp]: "distinct ns \<Longrightarrow> distinct (look_up n ns)"
  by (simp add: look_up_def)

lemma look_up_again [simp]: "look_up n (look_up n ns) = look_up n ns"
  by (simp add: look_up_def)

section \<open>Names and bitmaps\<close>

definition mark_bits :: "address \<Rightarrow> validator list \<Rightarrow> nat list \<Rightarrow> int \<Rightarrow> int" where
  "mark_bits a old js b = fold (\<lambda>j b. if a = address (old ! j) then set_bit j b else b) js b"

lemma bit_mark_bits: "bit (mark_bits a old js b) i \<longleftrightarrow> bit b i \<or> i \<in> set js \<and> address (old ! i) = a"
  by (induction js arbitrary: b) (auto simp: mark_bits_def bit_set_bit_iff)

lemma mark_bits_nonneg: "0 \<le> b \<Longrightarrow> 0 \<le> mark_bits a old js b"
  by (induction js arbitrary: b) (auto simp: mark_bits_def)

lemma int_less_exp_of_bits:
  fixes n :: int
  assumes "0 \<le> n" and "\<And>i. bit n i \<Longrightarrow> i < k"
  shows "n < 2 ^ k"
proof -
  have "take_bit k n = n" by (rule bit_eqI) (auto simp: bit_take_bit_iff dest: assms(2))
  then show ?thesis by (metis take_bit_int_less_exp)
qed

lemma survivors_filter:
  assumes "\<And>i. i < length vs \<Longrightarrow> bi_bit L b i \<longleftrightarrow> P (vs ! i)"
  shows "survivors L b vs = filter (\<lambda>v. \<not> P v) vs"
  using assms
proof (induction vs rule: rev_induct)
  case (snoc v vs)
  have "survivors L b vs = filter (\<lambda>v. \<not> P v) vs"
    using snoc.prems by (intro snoc.IH) (auto simp: nth_append)
  then show ?case
    using snoc.prems [of "length vs"] by (simp add: survivors_def enumerate_append_eq)
qed (simp add: survivors_def)

context test_library
begin

lemma convert_names:
  "distinct ns \<Longrightarrow> '''' \<notin> set names \<Longrightarrow>
     convert_val_names_to_validators L names (pool_of L rng ns) =
       (Ok (map (name_validator L rng (look_up_all names ns)) names), pool_of L rng (look_up_all names ns))"
proof (induction names arbitrary: ns)
  case (Cons n names)
  then have "n \<noteq> ''''" by auto
  note head = account_address_pool [OF Cons.prems(1) this, of rng]
  have "name_validator L rng (look_up_all names (look_up n ns)) n = name_validator L rng (look_up n ns) n"
    by (rule name_validator_stable) simp
  with Cons head show ?case
    by (simp add: convert_val_names_to_validators_def io_then_def name_validator_def)
qed (simp add: convert_val_names_to_validators_def)

lemma mark_removed_step:
  "distinct ns \<Longrightarrow> v \<noteq> '''' \<Longrightarrow> j < length old \<Longrightarrow>
     mark_removed L old v j b (pool_of L rng ns) =
       (Ok (mark_bits (name_address L rng (look_up v ns) v) old [j] b), pool_of L rng (look_up v ns))"
  by (simp add: mark_removed_def io_then_def account_address_pool index_def mark_bits_def set_bit_eq)

lemma mark_removed_loop:
  "distinct ns \<Longrightarrow> v \<noteq> '''' \<Longrightarrow> set js \<subseteq> {..<length old} \<Longrightarrow>
     io_fold (mark_removed L old v) js b (pool_of L rng ns) =
       (Ok (mark_bits (name_address L rng (look_up v ns) v) old js b),
        pool_of L rng (if js = [] then ns else look_up v ns))"
proof (induction js arbitrary: b ns)
  case (Cons j js)
  have "io_fold (mark_removed L old v) js b' (pool_of L rng (look_up v ns)) =
      (Ok (mark_bits (name_address L rng (look_up v ns) v) old js b'), pool_of L rng (look_up v ns))" for b'
    using Cons.IH [of "look_up v ns" b'] Cons.prems by simp
  then show ?case
    using mark_removed_step [OF Cons.prems(1,2), of j old b rng] Cons.prems(3)
    by (simp add: io_then_Ok mark_bits_def)
qed (simp add: mark_bits_def)

lemma removed_bitmap_from:
  "distinct ns \<Longrightarrow> '''' \<notin> set names \<Longrightarrow> 0 \<le> b \<Longrightarrow>
     \<exists>bm. io_fold (\<lambda>v. io_fold (mark_removed L old v) [0..<length old]) names b (pool_of L rng ns) =
         (Ok bm, pool_of L rng (if old = [] then ns else look_up_all names ns)) \<and> 0 \<le> bm \<and>
       (\<forall>i. bit bm i \<longleftrightarrow> bit b i \<or> i < length old \<and>
          address (old ! i) \<in> name_address L rng (look_up_all names ns) ` set names)"
proof (induction names arbitrary: b ns)
  case (Cons v names)
  let ?ns = "if old = [] then ns else look_up v ns"
    and ?b = "mark_bits (name_address L rng (look_up v ns) v) old [0..<length old] b"
  have v: "v \<noteq> ''''" and names: "'''' \<notin> set names" and d: "distinct ?ns"
    using Cons.prems by auto
  have head: "io_fold (mark_removed L old v) [0..<length old] b (pool_of L rng ns) = (Ok ?b, pool_of L rng ?ns)"
    using mark_removed_loop [OF Cons.prems(1) v, of "[0..<length old]" old b rng]
    by (auto simp: lessThan_atLeast0)
  obtain bm where bm: "io_fold (\<lambda>v. io_fold (mark_removed L old v) [0..<length old]) names ?b (pool_of L rng ?ns) =
      (Ok bm, pool_of L rng (if old = [] then ?ns else look_up_all names ?ns))" "0 \<le> bm"
    "\<forall>i. bit bm i \<longleftrightarrow> bit ?b i \<or> i < length old \<and>
       address (old ! i) \<in> name_address L rng (look_up_all names ?ns) ` set names"
    using Cons.IH [OF d names mark_bits_nonneg [OF Cons.prems(3)]] by blast
  have "name_address L rng (look_up_all names (look_up v ns)) v = name_address L rng (look_up v ns) v"
    by (rule name_address_stable) simp
  with bm(3) have "\<forall>i. bit bm i \<longleftrightarrow> bit b i \<or> i < length old \<and>
      address (old ! i) \<in> name_address L rng (look_up_all (v # names) ns) ` set (v # names)"
    by (auto simp: bit_mark_bits split: if_splits)
  moreover have "io_fold (\<lambda>v. io_fold (mark_removed L old v) [0..<length old]) (v # names) b (pool_of L rng ns) =
      (Ok bm, pool_of L rng (if old = [] then ns else look_up_all (v # names) ns))"
    unfolding io_fold.simps(2)
    by (rule trans [OF io_then_Ok [where m = "io_fold _ _ _", OF head]])
      (use bm(1) in \<open>simp split: if_splits\<close>)
  ultimately show ?case using bm(2) by blast
qed simp

lemma removed_bitmap:
  assumes "distinct ns" and "'''' \<notin> set names"
  shows "\<exists>bm. convert_val_names_to_removed_validators L old names (pool_of L rng ns) =
      (Ok bm, pool_of L rng (if old = [] then ns else look_up_all names ns)) \<and>
    bi_bits L bm \<le> length old \<and>
    survivors L bm old =
      filter (\<lambda>v. address v \<notin> name_address L rng (look_up_all names ns) ` set names) old"
proof -
  obtain bm where bm: "convert_val_names_to_removed_validators L old names (pool_of L rng ns) =
      (Ok bm, pool_of L rng (if old = [] then ns else look_up_all names ns))" "0 \<le> bm"
    "\<forall>i. bit bm i \<longleftrightarrow> i < length old \<and>
       address (old ! i) \<in> name_address L rng (look_up_all names ns) ` set names"
    using removed_bitmap_from [OF assms, of 0 old rng]
    by (auto simp: convert_val_names_to_removed_validators_def)
  then have "bi_bits L bm \<le> length old" by (intro bits_least int_less_exp_of_bits) auto
  moreover have "survivors L bm old =
      filter (\<lambda>v. \<not> address v \<in> name_address L rng (look_up_all names ns) ` set names) old"
    using bm(3) by (intro survivors_filter) (simp add: bit_eq)
  ultimately show ?thesis using bm(1) by auto
qed

end

section \<open>Changes by name\<close>

definition changed_names :: "validator_set_diff \<Rightarrow> string list \<Rightarrow> string list" where
  "changed_names diff cur =
     filter (\<lambda>n. n \<notin> set (vsd_removed_validators diff)) cur @ vsd_added_validators diff"

text \<open>No diff of the sequence adds a name that is still there.\<close>

fun replayable :: "validator_set_diff list \<Rightarrow> string list \<Rightarrow> bool" where
  "replayable [] cur \<longleftrightarrow> True"
| "replayable (diff # ds) cur \<longleftrightarrow>
     (\<forall>n \<in> set (vsd_added_validators diff). n \<in> set cur \<longrightarrow> n \<in> set (vsd_removed_validators diff)) \<and>
     replayable ds (changed_names diff cur)"

definition diff_names :: "validator_set_diff \<Rightarrow> string set" where
  "diff_names diff = set (vsd_added_validators diff) \<union> set (vsd_removed_validators diff)"

text \<open>The first \<open>n\<close> keys drawn have different addresses.\<close>

definition distinct_addresses ::
    "('pk, 'sig, 'sk, 'pub, 'rng, 'z) test_crates_scheme \<Rightarrow> 'rng \<Rightarrow> nat \<Rightarrow> bool" where
  "distinct_addresses L rng n \<longleftrightarrow> distinct (map (nth_address L rng) [0..<n])"

lemma name_address_inject:
  assumes "distinct_addresses L rng n" and "length ns \<le> n" and "a \<in> set ns" and "b \<in> set ns"
  shows "name_address L rng ns a = name_address L rng ns b \<longleftrightarrow> a = b"
proof
  assume "name_address L rng ns a = name_address L rng ns b"
  then have "place ns a = place ns b"
    using assms place_less [of a ns] place_less [of b ns]
      nth_eq_iff_index_eq [of "map (nth_address L rng) [0..<n]" "place ns a" "place ns b"]
    by (simp add: name_address_def distinct_addresses_def)
  then show "a = b" using nth_place assms(3,4) by metis
qed simp

context test_library
begin

lemma apply_diff_names:
  assumes "distinct ns" and "'''' \<notin> diff_names diff" and "set cur \<subseteq> set ns"
    and "st_validators st = map (name_validator L rng ns) cur"
    and "\<forall>n \<in> set (vsd_added_validators diff). n \<in> set cur \<longrightarrow> n \<in> set (vsd_removed_validators diff)"
    and "distinct_addresses L rng k" and "card (set ns \<union> diff_names diff) \<le> k"
  shows "\<exists>ns'. apply_diff L diff st (pool_of L rng ns) =
      (Ok (set_validators st (map (name_validator L rng ns') (changed_names diff cur))), pool_of L rng ns') \<and>
    distinct ns' \<and> set (changed_names diff cur) \<subseteq> set ns' \<and> set ns' \<subseteq> set ns \<union> diff_names diff"
proof -
  let ?added = "vsd_added_validators diff" and ?removed = "vsd_removed_validators diff"
  define ns1 where "ns1 = look_up_all ?added ns"
  define ns2 where "ns2 = look_up_all ?removed ns1"
  define ns' where "ns' = (if cur = [] then ns1 else ns2)"
  have sets: "set ns1 = set ns \<union> set ?added" "set ns2 = set ns \<union> diff_names diff"
    by (auto simp: ns1_def ns2_def look_up_all_set diff_names_def)
  have dist: "distinct ns1" "distinct ns2"
    by (simp_all add: ns1_def ns2_def look_up_all_distinct assms(1))
  have "length ns2 \<le> k" using assms(7) distinct_card [OF dist(2)] sets(2) by simp
  note inject = name_address_inject [OF assms(6) this]
  have old: "st_validators st = map (name_validator L rng ns2) cur"
    using assms(3,4) by (auto simp: ns1_def ns2_def look_up_all_set)
  have same: "name_validator L rng ns' n = name_validator L rng ns2 n"
    if "n \<in> set (changed_names diff cur)" for n
    using that by (auto simp: ns'_def ns2_def changed_names_def sets(1))
  have "name_validator L rng ns1 n = name_validator L rng ns2 n" if "n \<in> set ?added" for n
    using that by (simp add: ns2_def sets(1))
  then have added: "convert_val_names_to_validators L ?added (pool_of L rng ns) =
      (Ok (map (name_validator L rng ns2) ?added), pool_of L rng ns1)"
    using convert_names [OF assms(1), of ?added rng] assms(2) by (simp add: ns1_def diff_names_def)
  obtain bm where removed: "convert_val_names_to_removed_validators L (st_validators st) ?removed
        (pool_of L rng ns1) = (Ok bm, pool_of L rng ns')"
      "bi_bits L bm \<le> length (st_validators st)"
      "survivors L bm (st_validators st) =
        filter (\<lambda>v. address v \<notin> name_address L rng ns2 ` set ?removed) (st_validators st)"
    using removed_bitmap [OF dist(1), of ?removed "st_validators st" rng] assms(2,4)
    by (auto simp: diff_names_def ns'_def ns2_def)
  have "n \<in> set cur \<Longrightarrow> address (name_validator L rng ns2 n) \<in> name_address L rng ns2 ` set ?removed
      \<longleftrightarrow> n \<in> set ?removed" for n
    using inject [of n] assms(3) sets(2) by (auto simp: name_validator_def diff_names_def)
  then have left: "survivors L bm (st_validators st) =
      map (name_validator L rng ns2) (filter (\<lambda>n. n \<notin> set ?removed) cur)"
    by (subst removed(3)) (simp add: old filter_map comp_def cong: filter_cong)
  have "address ` set (map (name_validator L rng ns2) (filter (\<lambda>n. n \<notin> set ?removed) cur)) \<inter>
      address ` set (map (name_validator L rng ns2) ?added) = {}"
    using assms(3,5) sets(2) inject by (auto simp: name_validator_def diff_names_def)
  then have "apply_diff L diff st (pool_of L rng ns) =
      (Ok (set_validators st (map (name_validator L rng ns2) (changed_names diff cur))), pool_of L rng ns')"
    using removed(2)
    by (simp add: apply_diff_def io_then_def added removed(1) remove_validators_eq
        add_validators_eq left changed_names_def)
  moreover have "map (name_validator L rng ns2) (changed_names diff cur) =
      map (name_validator L rng ns') (changed_names diff cur)"
    using same by simp
  ultimately have "apply_diff L diff st (pool_of L rng ns) =
      (Ok (set_validators st (map (name_validator L rng ns') (changed_names diff cur))), pool_of L rng ns')"
    by (simp only:)
  then show ?thesis
    using dist sets assms(3) by (intro exI [of _ ns']) (auto simp: ns'_def changed_names_def diff_names_def)
qed

lemma apply_diffs_names:
  assumes "distinct ns" and "set cur \<subseteq> set ns" and "st_validators st = map (name_validator L rng ns) cur"
    and "replayable ds cur" and "distinct_addresses L rng k"
    and "set ns \<union> (\<Union>diff \<in> set ds. diff_names diff) \<subseteq> names" and "'''' \<notin> names"
    and "finite names" and "card names \<le> k"
  shows "\<exists>ns' st'. io_fold (apply_diff L) ds st (pool_of L rng ns) = (Ok st', pool_of L rng ns') \<and>
    st_validators st' = map (name_validator L rng ns') (fold changed_names ds cur) \<and>
    distinct ns' \<and> set (fold changed_names ds cur) \<subseteq> set ns' \<and> set ns' \<subseteq> names"
  using assms(1-4,6)
proof (induction ds arbitrary: st cur ns)
  case Nil
  then show ?case by auto
next
  case (Cons diff ds)
  have "card (set ns \<union> diff_names diff) \<le> card names"
    using Cons.prems(5) assms(8) by (intro card_mono) auto
  then have card: "card (set ns \<union> diff_names diff) \<le> k" using assms(9) by simp
  have nonempty: "'''' \<notin> diff_names diff" using Cons.prems(5) assms(7) by auto
  obtain ns1 where ns1: "apply_diff L diff st (pool_of L rng ns) =
      (Ok (set_validators st (map (name_validator L rng ns1) (changed_names diff cur))), pool_of L rng ns1)"
    "distinct ns1" "set (changed_names diff cur) \<subseteq> set ns1" "set ns1 \<subseteq> set ns \<union> diff_names diff"
    using apply_diff_names [OF Cons.prems(1) nonempty Cons.prems(2,3) _ assms(5) card] Cons.prems(4)
    by auto
  have "set ns1 \<union> (\<Union>diff \<in> set ds. diff_names diff) \<subseteq> names"
    using ns1(4) Cons.prems(5) by auto
  with Cons.IH [OF ns1(2,3), of "set_validators st (map (name_validator L rng ns1) (changed_names diff cur))"]
    Cons.prems(4)
  show ?case by (simp add: io_then_def ns1(1))
qed

end

section \<open>The tests pass\<close>

definition test_names :: "test_validator_set \<Rightarrow> string set" where
  "test_names test = set (tvs_validators test) \<union>
     (\<Union>diff \<in> set (tvs_validator_set_diffs test). diff_names diff)"

text \<open>The expected result of a test is what its diffs make of the list of names.\<close>

definition well_posed :: "test_validator_set \<Rightarrow> bool" where
  "well_posed test \<longleftrightarrow> '''' \<notin> test_names test \<and>
     replayable (tvs_validator_set_diffs test) (tvs_validators test) \<and>
     mset (fold changed_names (tvs_validator_set_diffs test) (tvs_validators test)) = mset (tvs_results test)"

lemma finite_test_names [simp]: "finite (test_names test)"
  by (simp add: test_names_def diff_names_def)

lemma rng_after_add: "rng_after L (rng_after L rng m) n = rng_after L rng (n + m)"
  by (simp add: rng_after_def funpow_add)

lemma distinct_addresses_later:
  assumes "distinct_addresses L rng (m + n)"
  shows "distinct_addresses L (rng_after L rng m) n"
proof -
  have "nth_address L (rng_after L rng m) i = nth_address L rng (i + m)" for i
    by (simp add: nth_address_def nth_key_def rng_after_add)
  then show ?thesis
    using assms unfolding distinct_addresses_def by (auto simp: distinct_conv_nth)
qed

lemma distinct_addresses_less: "distinct_addresses L rng n \<Longrightarrow> m \<le> n \<Longrightarrow> distinct_addresses L rng m"
  by (auto simp: distinct_addresses_def distinct_conv_nth)

context test_library
begin

lemma well_posed_test_passes:
  assumes "well_posed test" and "distinct_addresses L rng n" and "card (test_names test) \<le> n"
  shows "\<exists>pool k. run_validator_set_test L test (account_pool_new, rng) = (Ok (), (pool, rng_after L rng k)) \<and>
    k \<le> card (test_names test)"
proof -
  let ?vs = "tvs_validators test" and ?ds = "tvs_validator_set_diffs test"
  let ?final = "fold changed_names ?ds ?vs"
  let ?st = "state_new snapshot_new (config_state_config state_config)"
  define ns where "ns = look_up_all ?vs []"
  have wp: "'''' \<notin> test_names test" "replayable ?ds ?vs" "mset ?final = mset (tvs_results test)"
    using assms(1) by (simp_all add: well_posed_def)
  have start: "(account_pool_new, rng) = pool_of L rng []"
    by (simp add: pool_of_def account_pool_new_def rng_after_def)
  have "set ns = set ?vs" by (simp add: ns_def look_up_all_set)
  moreover have "distinct ns" unfolding ns_def by (rule look_up_all_distinct) simp
  ultimately have ns: "distinct ns" "set ?vs \<subseteq> set ns"
    "set ns \<union> (\<Union>diff \<in> set ?ds. diff_names diff) \<subseteq> test_names test"
    by (simp_all add: test_names_def)
  have "'''' \<notin> set ?vs" using wp(1) by (auto simp: test_names_def)
  then have validators: "convert_val_names_to_validators L ?vs (pool_of L rng []) =
      (Ok (map (name_validator L rng ns) ?vs), pool_of L rng ns)"
    using convert_names [of "[]" ?vs rng] by (simp add: ns_def)
  let ?begun = "set_validators ?st (map (name_validator L rng ns) ?vs)"
  have "st_validators ?st = []" by (simp add: state_new_def snapshot_new_def)
  then have "add_validators ?st (map (name_validator L rng ns) ?vs) = (True, ?begun)"
    by (simp add: add_validators_eq)
  moreover obtain ns' st' where run: "io_fold (apply_diff L) ?ds ?begun (pool_of L rng ns) = (Ok st', pool_of L rng ns')"
    "st_validators st' = map (name_validator L rng ns') ?final"
    "distinct ns'" "set ?final \<subseteq> set ns'" "set ns' \<subseteq> test_names test"
    using apply_diffs_names [OF ns(1,2) _ wp(2) assms(2) ns(3) wp(1) finite_test_names assms(3), of ?begun]
    by auto
  define ns'' where "ns'' = look_up_all (tvs_results test) ns'"
  have members: "set (tvs_results test) = set ?final" using wp(3) by (metis mset_eq_setD)
  then have "set ns'' \<subseteq> test_names test" "distinct ns''"
    using run(3-5) by (auto simp: ns''_def look_up_all_set look_up_all_distinct)
  then have k: "length ns'' \<le> card (test_names test)"
    by (metis card_mono distinct_card finite_test_names)
  have nonempty: "'''' \<notin> set (tvs_results test)" using members run(4,5) wp(1) by auto
  have same: "name_validator L rng ns'' m = name_validator L rng ns' m" if "m \<in> set (tvs_results test)" for m
    using that members run(4) by (auto simp: ns''_def)
  have results: "convert_val_names_to_validators L (tvs_results test) (pool_of L rng ns') =
      (Ok (map (name_validator L rng ns') (tvs_results test)), pool_of L rng ns'')"
    using convert_names [OF run(3) nonempty, of rng] same by (simp add: ns''_def [symmetric])
  have "compare (st_validators st') (map (name_validator L rng ns') (tvs_results test)) = Equal"
    unfolding compare_Equal_iff run(2) using wp(3) by simp
  ultimately have "run_validator_set_test L test (pool_of L rng []) = (Ok (), pool_of L rng ns'')"
    using validators run(1) results
    by (simp add: run_validator_set_test_def io_then_def Let_def assert_that_def)
  then show ?thesis using k unfolding start by (auto simp: pool_of_def)
qed

lemma well_posed_tests_pass:
  assumes "list_all well_posed tests" and "distinct_addresses L rng n"
    and "sum_list (map (\<lambda>test. card (test_names test)) tests) \<le> n"
  shows "\<exists>rng'. io_fold (\<lambda>test _ rng. case run_validator_set_test L test (account_pool_new, rng) of
      (r, (_, rng)) \<Rightarrow> (r, rng)) tests () rng = (Ok (), rng')"
  using assms
proof (induction tests arbitrary: rng n)
  case (Cons test tests)
  let ?rest = "sum_list (map (\<lambda>test. card (test_names test)) tests)"
  obtain pool k where run: "run_validator_set_test L test (account_pool_new, rng) =
      (Ok (), (pool, rng_after L rng k))" "k \<le> card (test_names test)"
    using well_posed_test_passes [of test rng n] Cons.prems by auto
  have "distinct_addresses L (rng_after L rng k) ?rest"
    using Cons.prems(2,3) run(2)
    by (intro distinct_addresses_later distinct_addresses_less [of _ _ n "k + ?rest"]) simp_all
  with Cons.IH [of "rng_after L rng k" ?rest] Cons.prems(1) run(1) show ?case
    by (auto simp: io_then_def)
qed simp

end

lemma validator_set_tests_well_posed: "list_all well_posed validator_set_tests"
  by (simp add: validator_set_tests_def well_posed_def test_names_def diff_names_def changed_names_def)

lemma validator_set_tests_size:
  "sum_list (map (\<lambda>test. card (test_names test)) validator_set_tests) = 17"
  by (simp add: validator_set_tests_def test_names_def diff_names_def card_insert_if)

context test_library
begin

lemma encode_state_snapshot_passes: "test_encode_state_snapshot L = Ok ()"
  by (simp add: test_encode_state_snapshot_def Let_def assert_that_def address_default_def
      public_key_default_def flip: snapshot_to_rlp_def)
    (subst snapshot_from_to, simp_all add: wf_snapshot_def wf_validator_def snapshot_item_def
      validator_item_def seal_item_def wf_seal_def rlp_fits_def usize_bits_def big_int_to_rlp_compat_bytes_def
      istanbul_aggregated_seal_new_def is_zero_eq)

lemma add_remove_passes: "test_add_remove L = Ok ()"
proof -
  have "bi_bits L 1 \<le> 1" "bi_bits L 2 \<le> 2" using bits_least [of 1 1] bits_least [of 2 2] by simp_all
  then have bits: "bi_bits L 1 \<le> Suc n" "bi_bits L 2 \<le> Suc (Suc n)" for n by simp_all
  have two: "bit (2 :: int) i \<longleftrightarrow> i = 1" for i
    using bit_exp_iff [of 1 i, where 'a = int] by auto
  have addresses: "bytes_to_address [b] = Ok (replicate 19 0 @ [b])" for b
    by (simp add: bytes_to_address_def usize_sub_def from_bytes_array)
  show ?thesis
    by (simp add: test_add_remove_def addresses add_validators_eq remove_validators_eq Let_def assert_that_def
        bits survivors_def bit_eq two state_new_def snapshot_new_def set_validators_def bit_1_iff)
qed

end

text \<open>Driven by names, the two operations on the validator set replay the list of names. For any
  sequence of diffs, each converted the way a test does it (keys for the added names, a bitmap
  with one bit per validator whose address belongs to a removed name), the state that
  \<^verbatim>\<open>remove_validators\<close> and \<^verbatim>\<open>add_validators\<close> leave holds exactly the validators of the names that
  result, in their order, as long as no diff adds a name that is still present and the keys
  drawn have different addresses. \<close>

theorem diffs_replay_names:
  assumes "test_library L"
    and "distinct ns" and "set cur \<subseteq> set ns" and "st_validators st = map (name_validator L rng ns) cur"
    and "replayable ds cur" and "distinct_addresses L rng k"
    and "set ns \<union> (\<Union>diff \<in> set ds. diff_names diff) \<subseteq> names" and "'''' \<notin> names"
    and "finite names" and "card names \<le> k"
  shows "\<exists>ns' st'. io_fold (apply_diff L) ds st (pool_of L rng ns) = (Ok st', pool_of L rng ns') \<and>
    st_validators st' = map (name_validator L rng ns') (fold changed_names ds cur)"
  using test_library.apply_diffs_names [OF assms] by blast

text \<open>C37: the unit tests of the state machine pass in the model: the snapshot codec test, the test of
  adding and removing, and the table of validator set changes, for every library with the
  documented behaviour and every source of randomness whose first 17 keys (as many as the
  table uses) have different addresses. \<close>

theorem state_tests_pass:
  assumes "test_library L" and "distinct_addresses L rng 17"
  shows "test_encode_state_snapshot L = Ok () \<and> test_add_remove L = Ok () \<and>
    (\<exists>rng'. applies_validator_set_changes L rng = (Ok (), rng'))"
  using test_library.encode_state_snapshot_passes [OF assms(1)] test_library.add_remove_passes [OF assms(1)]
    test_library.well_posed_tests_pass [OF assms(1) validator_set_tests_well_posed assms(2)]
    validator_set_tests_size
  by (simp add: applies_validator_set_changes_def)

section \<open>Reference crates\<close>

text \<open>Keys are numbered, and their serialization shows the number.\<close>

definition ref_test_crates :: "(bytes list, bytes, unit, nat, nat) test_crates" where
  "ref_test_crates = crates.extend ref_crates
     \<lparr>bi_set_bit = (\<lambda>n i b. if b then set_bit i n else unset_bit i n),
      generate_keypair = (\<lambda>n. (((), n), Suc n)),
      serialize_uncompressed = (\<lambda>n. 4 # replicate 12 0 @ [of_nat n] @ replicate 51 0)\<rparr>"

lemma nat_bits_least: "n < 2 ^ k \<Longrightarrow> nat_bits n \<le> k"
proof (induction n arbitrary: k rule: nat_bits.induct)
  case (1 n)
  show ?case
  proof (cases "n = 0")
    case False
    with 1(2) obtain k' where "k = Suc k'" by (cases k) auto
    with 1 False show ?thesis by (simp add: nat_bits.simps [of n])
  qed (simp add: nat_bits.simps)
qed

lemma ref_test_simps [simp]:
  "bi_bits ref_test_crates n = nat_bits (nat \<bar>n\<bar>)"
  "bi_set_bit ref_test_crates n i b = (if b then set_bit i n else unset_bit i n)"
  "generate_keypair ref_test_crates r = (((), r), Suc r)"
  "serialize_uncompressed ref_test_crates p = 4 # replicate 12 0 @ [of_nat p] @ replicate 51 0"
  "keccak256 ref_test_crates = ref_digest"
  by (simp_all add: ref_test_crates_def crates.extend_def)

interpretation ref_test: test_library ref_test_crates
proof (rule test_library.intro)
  show "library_crates ref_test_crates"
    unfolding ref_test_crates_def by (rule library_crates_extend [OF ref.library_crates_axioms])
  show "test_library_axioms ref_test_crates"
    by unfold_locales (simp_all add: nat_bits_least nat_less_iff)
qed

lemma ref_test_addresses:
  "nth_address ref_test_crates r i = of_nat (r + i) # replicate 19 0"
proof -
  have "rng_after ref_test_crates r i = r + i"
    by (induction i) (simp_all add: rng_after_def)
  then show ?thesis by (simp add: nth_address_def nth_key_def ref_digest_def)
qed

lemma ref_test_distinct: "distinct_addresses ref_test_crates 0 17"
  by (simp add: distinct_addresses_def ref_test_addresses upt_rec)

theorem diffs_replay_names_witness:
  "\<exists>ns' st'. io_fold (apply_diff ref_test_crates)
       [\<lparr>vsd_added_validators = [''B'', ''C''], vsd_removed_validators = [''A'']\<rparr>]
       (set_validators (state_new snapshot_new (config_state_config state_config))
          (map (name_validator ref_test_crates 0 [''A'']) [''A'']))
       (pool_of ref_test_crates 0 [''A'']) = (Ok st', pool_of ref_test_crates 0 ns') \<and>
     st_validators st' = map (name_validator ref_test_crates 0 ns') [''B'', ''C'']"
proof -
  let ?diff = "\<lparr>vsd_added_validators = [''B'', ''C''], vsd_removed_validators = [''A'']\<rparr>"
  have "\<exists>ns' st'. io_fold (apply_diff ref_test_crates) [?diff]
      (set_validators (state_new snapshot_new (config_state_config state_config))
        (map (name_validator ref_test_crates 0 [''A'']) [''A'']))
      (pool_of ref_test_crates 0 [''A'']) = (Ok st', pool_of ref_test_crates 0 ns') \<and>
    st_validators st' = map (name_validator ref_test_crates 0 ns') (fold changed_names [?diff] [''A''])"
    by (rule diffs_replay_names [OF ref_test.test_library_axioms _ _ _ _ ref_test_distinct,
          where names = "{''A'', ''B'', ''C''}"]) (simp_all add: diff_names_def)
  then show ?thesis by (simp add: changed_names_def)
qed

theorem state_tests_pass_witness: "\<exists>rng'. applies_validator_set_changes ref_test_crates 0 = (Ok (), rng')"
  using state_tests_pass [OF ref_test.test_library_axioms ref_test_distinct] by blast

end
