(* ===== verification/Contract_Tests.thy ===== *)
theory Contract_Tests
  imports Query_Safety Hex_Serialization
begin

text \<open>
  The unit test of the contract in \<^verbatim>\<open>src/contract/mod.rs\<close>: a proof of one layer, with a leaf and
  one inner node, is built for a counterparty's consensus state, its root is put into the
  proving consensus state, and the query must accept it. The test computes the root with
  \<^verbatim>\<open>ics23\<close>, so it passes for every digest that crate uses: the locale \<open>contract_test_library\<close>
  states its documented behaviour on proofs of the IAVL form. Arguments the query ignores
  (\<^verbatim>\<open>deps\<close>, \<^verbatim>\<open>env\<close>, the client state and the height) are not passed on.
\<close>

section \<open>The crates of the test\<close>

text \<open>The protobuf messages of \<^verbatim>\<open>ics23\<close> the test builds; enumerations are 32-bit integers.\<close>

record leaf_op =
  leaf_hash :: "32 word"
  leaf_prehash_key :: "32 word"
  leaf_prehash_value :: "32 word"
  leaf_length :: "32 word"
  leaf_prefix :: bytes

record inner_op =
  inner_hash :: "32 word"
  inner_prefix :: bytes
  inner_suffix :: bytes

record existence_proof =
  ep_key :: bytes
  ep_value :: bytes
  ep_leaf :: "leaf_op option"
  ep_path :: "inner_op list"

record ('pk, 'sig, 'ep, 'sp, 'st) contract_test_crates =
    "('pk, 'sig, 'ep, 'sp, 'st) contract_crates" +
  \<comment> \<open>\<^verbatim>\<open>to_vec\<close> at \<^verbatim>\<open>MerkleProof\<close>; \<^verbatim>\<open>HashOp::Sha256\<close> and \<^verbatim>\<open>LengthOp::VarProto\<close> as integers\<close>
  merkle_proof_to_vec :: "'ep merkle_proof \<Rightarrow> (bytes, std_error) result"
  hash_op_sha256 :: "32 word"
  length_op_var_proto :: "32 word"

section \<open>The test\<close>

definition get_example_client_state :: "u64 \<Rightarrow> u64 \<Rightarrow> client_state" where
  "get_example_client_state rev_number rev_height =
     \<lparr>cl_data = '''', cl_code_id = '''', frozen = False, frozen_height = None,
      latest_height = Some (Height rev_number rev_height)\<rparr>"

definition get_example_consensus_state ::
    "('pk, 'sig, 'ep, 'sp, 'st, 'z) contract_crates_scheme \<Rightarrow> bytes \<Rightarrow> height \<Rightarrow>
     (consensus_state, std_error) result" where
  "get_example_consensus_state L rt height =
     and_then (u64_add (revision_height height) (revision_number height)) (\<lambda>n.
     let light_cs = snapshot_new\<lparr>snap_number := n\<rparr> in
     Ok \<lparr>cs_code_id = '''', cs_data = base64_encode L (snapshot_to_rlp L light_cs),
         cs_timestamp = 123, cs_root = \<lparr>root_hash = base64_encode L rt\<rparr>\<rparr>)"

definition get_example_proof ::
    "('pk, 'sig, existence_proof, 'sp, 'st, 'z) contract_test_crates_scheme \<Rightarrow> hex_crates \<Rightarrow>
     bytes \<Rightarrow> bytes \<Rightarrow> (existence_proof merkle_proof \<times> bytes, std_error) result" where
  "get_example_proof L H key value =
     (let leaf = \<lparr>leaf_hash = hash_op_sha256 L, leaf_prehash_key = 0,
            leaf_prehash_value = hash_op_sha256 L, leaf_length = length_op_var_proto L,
            leaf_prefix = [0]\<rparr> in
      and_then (unwrap (hex_decode H ''deadbeef00cafe00'')) (\<lambda>inner_prefix.
      let valid_inner = \<lparr>inner_hash = hash_op_sha256 L, inner_prefix = inner_prefix, inner_suffix = []\<rparr>;
          proof = \<lparr>ep_key = key, ep_value = value, ep_leaf = Some leaf, ep_path = [valid_inner]\<rparr> in
      and_then (unwrap (calculate_existence_root L proof)) (\<lambda>rt.
        Ok (\<lparr>proofs = [Exist proof]\<rparr>, rt))))"

definition test_verify_client_consensus_state ::
    "('pk, 'sig, existence_proof, 'sp, 'st, 'z) contract_test_crates_scheme \<Rightarrow> hex_crates \<Rightarrow>
     (unit, std_error) result" where
  "test_verify_client_consensus_state L H =
     (let client_state = get_example_client_state 0 5;
          height = Height 0 5;
          consensus_height = Height 0 5;
          commitment_prefix = \<lparr>key_prefix = base64_encode L (as_bytes ''prefix'')\<rparr>;
          counterparty_client_identifier = ''07-tendermint-0'';
          counterparty_consensus_state = \<lparr>ccs_root = \<lparr>root_hash = ''base64_encoded_hash''\<rparr>\<rparr> in
      and_then (unwrap_result (to_vec L (CosmosConsensusStateDoc counterparty_consensus_state))) (\<lambda>value.
      and_then (get_example_proof L H (as_bytes ''clients/07-tendermint-0/consensusStates/0-5'') value)
        (\<lambda>(commitment_proof, rt).
      and_then (get_example_consensus_state L rt height) (\<lambda>proving_consensus_state.
      and_then (unwrap_result (merkle_proof_to_vec L commitment_proof)) (\<lambda>proof.
      let_result (verify_client_consensus_state L consensus_height commitment_prefix
          counterparty_client_identifier (base64_encode L proof) counterparty_consensus_state
          proving_consensus_state) (\<lambda>response.
        assert_that ((case response of Err _ \<Rightarrow> True | _ \<Rightarrow> False) = False)))))))"

section \<open>Documented behaviour the test relies on\<close>

text \<open>The bytes of a string of hexadecimal digits.\<close>

fun hex_pairs :: "string \<Rightarrow> bytes" where
  "hex_pairs (c # d # s) = of_nat (16 * hex_digit_value c + hex_digit_value d) # hex_pairs s"
| "hex_pairs _ = []"

text \<open>Identifiers of ICS 24, and proofs of the form \<^verbatim>\<open>iavl_spec\<close> prescribes: its leaf operation, and
  inner nodes of four to twelve bytes in front of the only child, not opening like a leaf.\<close>

definition identifier_char :: "char \<Rightarrow> bool" where
  "identifier_char c \<longleftrightarrow> c \<in> set (''0123456789abcdefghijklmnopqrstuvwxyz'' @
     ''ABCDEFGHIJKLMNOPQRSTUVWXYZ._+-#[]<>'')"

definition iavl_form ::
    "('pk, 'sig, 'ep, 'sp, 'st, 'z) contract_test_crates_scheme \<Rightarrow> existence_proof \<Rightarrow> bool" where
  "iavl_form L p \<longleftrightarrow> ep_key p \<noteq> [] \<and> ep_value p \<noteq> [] \<and>
     ep_leaf p = Some \<lparr>leaf_hash = hash_op_sha256 L, leaf_prehash_key = 0,
       leaf_prehash_value = hash_op_sha256 L, leaf_length = length_op_var_proto L, leaf_prefix = [0]\<rparr> \<and>
     list_all (\<lambda>i. inner_hash i = hash_op_sha256 L \<and> inner_suffix i = [] \<and>
       4 \<le> length (inner_prefix i) \<and> length (inner_prefix i) \<le> 12 \<and> hd (inner_prefix i) \<noteq> 0) (ep_path p)"

locale contract_test_library = base64_crate L
  for L :: "('pk, 'sig, existence_proof, 'sp, 'st, 'z) contract_test_crates_scheme" +
  fixes H :: hex_crates
  assumes base64_decode_empty: "base64_decode L '''' = Some []"
    and hex_decode_digits: "list_all (\<lambda>c. c \<in> set ''0123456789abcdef'') s \<Longrightarrow> even (length s) \<Longrightarrow>
      hex_decode H s = Some (hex_pairs s)"
    and to_vec_returns: "\<exists>b. to_vec L d = Ok b \<and> b \<noteq> []"
    and merkle_proof_to_vec_returns: "\<exists>b. merkle_proof_to_vec L mp = Ok b"
    and merkle_proof_from_to: "merkle_proof_to_vec L mp = Ok b \<Longrightarrow> merkle_proof_from_slice L b = Ok mp"
    and client_id_valid: "list_all identifier_char s \<Longrightarrow> 9 \<le> length s \<Longrightarrow> length s \<le> 64 \<Longrightarrow>
      client_id_from_str L s = Some s"
    and consensus_path: "path_to_string L (ClientConsensusStatePath c e h) =
      ''clients/'' @ c @ ''/consensusStates/'' @ dec_string (unat e) @ ''-'' @ dec_string (unat h)"
    and iavl_root: "iavl_form L p \<Longrightarrow> \<exists>rt. calculate_existence_root L p = Some rt"
    and iavl_verified: "iavl_form L p \<Longrightarrow> calculate_existence_root L p = Some rt \<Longrightarrow>
      ics23_verify_membership L (Exist p) (iavl_spec L) rt (ep_key p) (ep_value p)"
begin

lemma base64_encode_nonempty: "b \<noteq> [] \<Longrightarrow> base64_encode L b \<noteq> ''''"
  using base64_decode_encode [of b] base64_decode_empty by auto

text \<open>An honest proof of one layer proves its value.\<close>

lemma honest_layer_proves:
  assumes form: "iavl_form L p" and rt: "calculate_existence_root L p = Some rt"
    and b: "merkle_proof_to_vec L \<lparr>proofs = [Exist p]\<rparr> = Ok b"
    and key: "ep_key p = as_bytes (path_to_string L path)"
    and root: "root_hash (cs_root cs) = base64_encode L rt"
    and prefix: "pb \<noteq> []" "from_utf8 pb = Some ps"
  shows "proves L (base64_encode L b) cs \<lparr>key_prefix = base64_encode L pb\<rparr> path (ep_value p)"
  using base64_encode_nonempty [OF prefix(1)] merkle_proof_from_to [OF b] iavl_verified [OF form rt] key rt root
    prefix(2)
  by (simp add: proves_def base64_decode_encode ics23_specs_def)

lemma example_proof:
  assumes "key \<noteq> []" and "value \<noteq> []"
  shows "\<exists>p rt. get_example_proof L H key value = Ok (\<lparr>proofs = [Exist p]\<rparr>, rt) \<and> iavl_form L p \<and>
    calculate_existence_root L p = Some rt \<and> ep_key p = key \<and> ep_value p = value"
proof -
  let ?bytes = "hex_pairs ''deadbeef00cafe00''"
  let ?p = "\<lparr>ep_key = key, ep_value = value,
    ep_leaf = Some \<lparr>leaf_hash = hash_op_sha256 L, leaf_prehash_key = 0,
      leaf_prehash_value = hash_op_sha256 L, leaf_length = length_op_var_proto L, leaf_prefix = [0]\<rparr>,
    ep_path = [\<lparr>inner_hash = hash_op_sha256 L, inner_prefix = ?bytes, inner_suffix = []\<rparr>]\<rparr>"
  have "hex_decode H ''deadbeef00cafe00'' = Some ?bytes"
    by (rule hex_decode_digits) simp_all
  moreover have form: "iavl_form L ?p"
    using assms by (simp add: iavl_form_def hex_digit_value_def)
  moreover obtain rt where "calculate_existence_root L ?p = Some rt"
    using iavl_root [OF form] ..
  ultimately show ?thesis
    by (auto simp: get_example_proof_def Let_def)
qed

lemma contract_test: "test_verify_client_consensus_state L H = Ok ()"
proof -
  let ?doc = "CosmosConsensusStateDoc \<lparr>ccs_root = \<lparr>root_hash = ''base64_encoded_hash''\<rparr>\<rparr>"
  let ?key = "as_bytes ''clients/07-tendermint-0/consensusStates/0-5''"
  let ?path = "ClientConsensusStatePath ''07-tendermint-0'' 0 5"
  obtain v where v: "to_vec L ?doc = Ok v" "v \<noteq> []"
    using to_vec_returns by blast
  obtain p rt where p: "get_example_proof L H ?key v = Ok (\<lparr>proofs = [Exist p]\<rparr>, rt)" "iavl_form L p"
      "calculate_existence_root L p = Some rt" "ep_key p = ?key" "ep_value p = v"
    using example_proof [of ?key v] v(2) by (auto simp: as_bytes_def)
  obtain b where b: "merkle_proof_to_vec L \<lparr>proofs = [Exist p]\<rparr> = Ok b"
    using merkle_proof_to_vec_returns by blast
  obtain cs where cs: "get_example_consensus_state L rt (Height 0 5) = Ok cs"
      "root_hash (cs_root cs) = base64_encode L rt"
    by (simp add: get_example_consensus_state_def u64_add_def Let_def)
  have "path_to_string L ?path = ''clients/07-tendermint-0/consensusStates/0-5''"
    by (simp add: consensus_path dec_string.simps digit_def char_of_eq_iff)
  moreover have "from_utf8 (as_bytes ''prefix'') = Some ''prefix''"
  proof -
    have "utf8_valid (as_bytes ''prefix'')" by code_simp
    then show ?thesis by (simp add: from_utf8_def)
  qed
  moreover have "as_bytes ''prefix'' \<noteq> []" by (simp add: as_bytes_def)
  ultimately have "proves L (base64_encode L b) cs \<lparr>key_prefix = base64_encode L (as_bytes ''prefix'')\<rparr> ?path v"
    using honest_layer_proves [OF p(2,3) b, of ?path cs] p(4,5) cs(2) by simp
  moreover have "client_id_from_str L ''07-tendermint-0'' = Some ''07-tendermint-0''"
    by (rule client_id_valid) (simp_all add: identifier_char_def)
  moreover obtain d where "to_vec L (VerifyClientConsensusStateResult call_success) = Ok d"
    using to_vec_returns by blast
  ultimately have "\<exists>r. verify_client_consensus_state L (Height 0 5)
      \<lparr>key_prefix = base64_encode L (as_bytes ''prefix'')\<rparr> ''07-tendermint-0'' (base64_encode L b)
      \<lparr>ccs_root = \<lparr>root_hash = ''base64_encoded_hash''\<rparr>\<rparr> cs = Ok r"
    unfolding verify_client_consensus_state_def query_proves using v(1) by auto
  then show ?thesis
    using v p b cs by (auto simp: test_verify_client_consensus_state_def assert_that_def)
qed

end

section \<open>Reference crates\<close>

text \<open>
  A stand-in for the JSON text of a proof: every byte after a mark, every list and option with
  its end marked, numbers as four bytes. A writer is inverted by its reader, which also
  returns the bytes that follow.
\<close>

definition reads :: "('a \<Rightarrow> bytes) \<Rightarrow> (bytes \<Rightarrow> 'a \<times> bytes) \<Rightarrow> bool" where
  "reads write read \<longleftrightarrow> (\<forall>x r. read (write x @ r) = (x, r))"

fun put_list :: "('a \<Rightarrow> bytes) \<Rightarrow> 'a list \<Rightarrow> bytes" where
  "put_list f [] = [0]"
| "put_list f (x # xs) = 1 # f x @ put_list f xs"

fun get_list :: "nat \<Rightarrow> (bytes \<Rightarrow> 'a \<times> bytes) \<Rightarrow> bytes \<Rightarrow> 'a list \<times> bytes" where
  "get_list (Suc n) g (b # bs) =
     (if b = 0 then ([], bs) else case g bs of (x, r) \<Rightarrow> case get_list n g r of (xs, r) \<Rightarrow> (x # xs, r))"
| "get_list _ g bs = ([], bs)"

definition get_all :: "(bytes \<Rightarrow> 'a \<times> bytes) \<Rightarrow> bytes \<Rightarrow> 'a list \<times> bytes" where
  "get_all g bs = get_list (length bs) g bs"

lemma get_list_put: "reads f g \<Longrightarrow> length xs < n \<Longrightarrow> get_list n g (put_list f xs @ r) = (xs, r)"
proof (induction xs arbitrary: n)
  case (Cons x xs)
  then show ?case by (cases n) (auto simp: reads_def)
qed (auto simp: less_eq_Suc_le [symmetric] gr0_conv_Suc)

lemma length_put_list: "length xs < length (put_list f xs)"
  by (induction xs) auto

lemma reads_list [simp]: "reads f g \<Longrightarrow> reads (put_list f) (get_all g)"
  using length_put_list by (auto simp: reads_def [of "put_list f"] get_all_def intro!: get_list_put trans_less_add1)

definition put_byte :: "byte \<Rightarrow> bytes" where "put_byte b = [b]"
definition get_byte :: "bytes \<Rightarrow> byte \<times> bytes" where "get_byte bs = (hd bs, tl bs)"

definition put_i32 :: "32 word \<Rightarrow> bytes" where "put_i32 n = be_fixed 4 (unat n)"
definition get_i32 :: "bytes \<Rightarrow> 32 word \<times> bytes" where
  "get_i32 bs = (of_nat (be_value (take 4 bs)), drop 4 bs)"

lemma unat_i32: "unat (n :: 32 word) mod 4294967296 = unat n"
proof -
  have "unat n < 2 ^ 32" using unsigned_less [of n] by simp
  then show ?thesis by simp
qed

lemma reads_basic [simp]: "reads put_byte get_byte" "reads put_i32 get_i32"
  by (simp_all add: reads_def put_byte_def get_byte_def put_i32_def get_i32_def be_value_fixed unat_i32)

definition put_leaf :: "leaf_op \<Rightarrow> bytes" where
  "put_leaf l = put_i32 (leaf_hash l) @ put_i32 (leaf_prehash_key l) @ put_i32 (leaf_prehash_value l) @
     put_i32 (leaf_length l) @ put_list put_byte (leaf_prefix l)"

definition get_leaf :: "bytes \<Rightarrow> leaf_op \<times> bytes" where
  "get_leaf r =
     (let (h, r) = get_i32 r; (k, r) = get_i32 r; (v, r) = get_i32 r; (n, r) = get_i32 r;
          (p, r) = get_all get_byte r
      in (\<lparr>leaf_hash = h, leaf_prehash_key = k, leaf_prehash_value = v, leaf_length = n,
           leaf_prefix = p\<rparr>, r))"

definition put_inner :: "inner_op \<Rightarrow> bytes" where
  "put_inner i = put_i32 (inner_hash i) @ put_list put_byte (inner_prefix i) @
     put_list put_byte (inner_suffix i)"

definition get_inner :: "bytes \<Rightarrow> inner_op \<times> bytes" where
  "get_inner r =
     (let (h, r) = get_i32 r; (p, r) = get_all get_byte r; (s, r) = get_all get_byte r
      in (\<lparr>inner_hash = h, inner_prefix = p, inner_suffix = s\<rparr>, r))"

definition put_existence :: "existence_proof \<Rightarrow> bytes" where
  "put_existence p = put_list put_byte (ep_key p) @ put_list put_byte (ep_value p) @
     put_list put_leaf (case ep_leaf p of None \<Rightarrow> [] | Some l \<Rightarrow> [l]) @ put_list put_inner (ep_path p)"

definition get_existence :: "bytes \<Rightarrow> existence_proof \<times> bytes" where
  "get_existence r =
     (let (k, r) = get_all get_byte r; (v, r) = get_all get_byte r; (l, r) = get_all get_leaf r;
          (p, r) = get_all get_inner r
      in (\<lparr>ep_key = k, ep_value = v, ep_leaf = (case l of [] \<Rightarrow> None | x # _ \<Rightarrow> Some x), ep_path = p\<rparr>, r))"

lemma readsD: "reads f g \<Longrightarrow> g (f x @ r) = (x, r)"
  by (simp add: reads_def)

lemmas reads_fields = readsD [OF reads_basic(2)] readsD [OF reads_list [OF reads_basic(1)]]

lemma reads_leaf [simp]: "reads put_leaf get_leaf"
  by (simp add: reads_def put_leaf_def get_leaf_def reads_fields)

lemma reads_inner [simp]: "reads put_inner get_inner"
  by (simp add: reads_def put_inner_def get_inner_def reads_fields)

lemma reads_existence [simp]: "reads put_existence get_existence"
  unfolding reads_def put_existence_def get_existence_def
  by (simp add: reads_fields readsD [OF reads_list [OF reads_leaf]] readsD [OF reads_list [OF reads_inner]]
      split: option.split)

fun put_proof :: "existence_proof commitment_proof \<Rightarrow> bytes" where
  "put_proof NoProof = [0]"
| "put_proof (Exist p) = 1 # put_existence p"
| "put_proof (Nonexist p) = 2 # put_existence p"
| "put_proof (Batch p) = 3 # put_existence p"
| "put_proof (Compressed p) = 4 # put_existence p"

fun get_proof :: "bytes \<Rightarrow> existence_proof commitment_proof \<times> bytes" where
  "get_proof [] = (NoProof, [])"
| "get_proof (b # bs) =
     (if b = 0 then (NoProof, bs)
      else case get_existence bs of (p, r) \<Rightarrow>
        ((if b = 1 then Exist p else if b = 2 then Nonexist p else if b = 3 then Batch p else Compressed p), r))"

lemma reads_proof [simp]: "reads put_proof get_proof"
  unfolding reads_def
proof (intro allI)
  show "get_proof (put_proof x @ r) = (x, r)" for x r
    by (cases x) (simp_all add: readsD [OF reads_existence])
qed

definition ref_contract_test ::
    "(bytes list, bytes, existence_proof, nat, bytes \<rightharpoonup> bytes) contract_test_crates" where
  "ref_contract_test = crates.extend ref_crates
     \<lparr>storage_get = storage_get ref_contract, storage_set = storage_set ref_contract,
      base64_decode = base64_decode ref_contract, base64_encode = base64_encode ref_contract,
      write_u64_be = write_u64_be ref_contract, to_vec = to_vec ref_contract,
      height_from_slice = height_from_slice ref_contract, u64_from_slice = u64_from_slice ref_contract,
      merkle_proof_from_slice = (\<lambda>b. Ok \<lparr>proofs = fst (get_all get_proof b)\<rparr>),
      light_client_state_encode = light_client_state_encode ref_contract,
      light_client_state_decode = light_client_state_decode ref_contract,
      partial_consensus_state_decode = partial_consensus_state_decode ref_contract,
      iavl_spec = 0, tendermint_spec = 1,
      calculate_existence_root = (\<lambda>p. Some (ref_digest (ep_key p @ ep_value p))),
      ics23_verify_membership = (\<lambda>p _ rt key value. case p of
         Exist ep \<Rightarrow> ep_key ep = key \<and> ep_value ep = value \<and> rt = ref_digest (key @ value) | _ \<Rightarrow> False),
      ics23_verify_non_membership = (\<lambda>_ _ _ _. False),
      client_id_from_str = ref_identifier, connection_id_from_str = ref_identifier,
      port_id_from_str = ref_identifier, channel_id_from_str = ref_identifier,
      path_to_string = ref_path,
      merkle_proof_to_vec = (\<lambda>p. Ok (put_list put_proof (proofs p))),
      hash_op_sha256 = 1, length_op_var_proto = 1\<rparr>"

lemma ref_contract_test_simps [simp]:
  "base64_decode ref_contract_test s = Some (as_bytes s)"
  "base64_encode ref_contract_test = chars_of"
  "to_vec ref_contract_test = ref_to_vec"
  "merkle_proof_from_slice ref_contract_test b = Ok \<lparr>proofs = fst (get_all get_proof b)\<rparr>"
  "merkle_proof_to_vec ref_contract_test p = Ok (put_list put_proof (proofs p))"
  "calculate_existence_root ref_contract_test ep = Some (ref_digest (ep_key ep @ ep_value ep))"
  "ics23_verify_membership ref_contract_test (Exist ep) sp rt key value \<longleftrightarrow>
     ep_key ep = key \<and> ep_value ep = value \<and> rt = ref_digest (key @ value)"
  "client_id_from_str ref_contract_test = ref_identifier"
  "path_to_string ref_contract_test = ref_path"
  by (simp_all add: ref_contract_test_def crates.extend_def)

lemma ref_hex_digits: "even (length s) \<Longrightarrow> hex_decode ref_hex s = Some (hex_pairs s)"
  by (induction s rule: hex_pairs.induct) (simp_all add: ref_hex_def)

lemma ref_to_vec_returns: "\<exists>b. ref_to_vec d = Ok b \<and> b \<noteq> []"
  by (cases d) (simp_all add: as_bytes_def height_text_def client_state_text_def str_text_def num_text_def)

lemma ref_merkle_proof_from_to: "get_all get_proof (put_list put_proof ps) = (ps, [])"
  using readsD [OF reads_list [OF reads_proof], of ps "[]"] by simp

interpretation ref_contract_test: contract_test_library ref_contract_test ref_hex
  by unfold_locales
    (auto simp: ref_hex_digits ref_to_vec_returns ref_merkle_proof_from_to ref_identifier_def as_bytes_def [of "''''"])

section \<open>The test passes\<close>

text \<open>C38: the unit test of the contract passes: the query accepts an honest existence proof of the IAVL
  form for the path of the consensus state and its JSON text, against the root the proof
  itself commits to, whatever the digest, the JSON text and the base64 alphabet are. \<close>

theorem contract_test_passes:
  assumes "contract_test_library L H"
  shows "test_verify_client_consensus_state L H = Ok ()"
  using assms by (rule contract_test_library.contract_test)

theorem contract_test_passes_witness: "test_verify_client_consensus_state ref_contract_test ref_hex = Ok ()"
  by (rule contract_test_passes) unfold_locales

end
