(* ===== verification/Light_Agreement.thy ===== *)
theory Light_Agreement
  imports Light_Runs Library_Fields
begin

text \<open>
  Agreement. The fault assumption of the protocol, at most a third of a validator set signs two
  headers of one number, and the unforgeability of signatures are stated over an abstract
  predicate: \<open>has_signed pk m\<close> says that the holder of the key has signed the message. Then two clients
  that start from the same state and verify everything cannot be led to different headers,
  validator sets or state roots by feeding them different headers of the same numbers.
\<close>

section \<open>The fault assumption\<close>

text \<open>A signature that verifies under an aggregated key was made by all holders of the keys.\<close>

definition unforgeable ::
    "('pk, 'sig, 'z) crates_scheme \<Rightarrow> ('pk \<Rightarrow> bytes \<Rightarrow> bool) \<Rightarrow> bool" where
  "unforgeable L has_signed \<longleftrightarrow>
     (\<forall>pks msg sig. pk_verify L (pk_aggregate L pks) msg [] sig \<longrightarrow> (\<forall>pk \<in> set pks. has_signed pk msg))"

text \<open>An honest validator commits, in whatever rounds, to one header per block number.\<close>

definition honest_signer ::
    "('pk, 'sig, 'z) crates_scheme \<Rightarrow> ('pk \<Rightarrow> bytes \<Rightarrow> bool) \<Rightarrow> validator \<Rightarrow> bool" where
  "honest_signer L has_signed v \<longleftrightarrow>
     (\<forall>pk h k hsh hsk r r'. pk_deserialize L (public_key v) = Some pk \<longrightarrow> number h = number k \<longrightarrow>
        header_hash L h = Ok hsh \<longrightarrow> has_signed pk (prepare_commited_seal L hsh r) \<longrightarrow>
        header_hash L k = Ok hsk \<longrightarrow> has_signed pk (prepare_commited_seal L hsk r') \<longrightarrow> hsh = hsk)"

definition fault_bound ::
    "('pk, 'sig, 'z) crates_scheme \<Rightarrow> ('pk \<Rightarrow> bytes \<Rightarrow> bool) \<Rightarrow> validator list \<Rightarrow> bool" where
  "fault_bound L has_signed vs \<longleftrightarrow>
     card {i. i < length vs \<and> \<not> honest_signer L has_signed (vs ! i)} \<le> (length vs - 1) div 3"

lemma quorum_sealed_signed:
  assumes "quorum_sealed L vs hsh s" and "unforgeable L has_signed"
    and "i < length vs" and "bi_bit L (seal_bitmap s) i"
  shows "\<exists>pk. pk_deserialize L (public_key (vs ! i)) = Some pk \<and>
    has_signed pk (prepare_commited_seal L hsh (seal_round s))"
proof -
  let ?vs = "signers L (seal_bitmap s) vs"
  obtain pks sig where pks: "map (\<lambda>v. pk_deserialize L (public_key v)) ?vs = map Some pks"
    and "pk_verify L (pk_aggregate L pks) (prepare_commited_seal L hsh (seal_round s)) [] sig"
    using assms(1) by (auto simp: quorum_sealed_def)
  with assms(2) have has_signed: "has_signed pk (prepare_commited_seal L hsh (seal_round s))" if "pk \<in> set pks" for pk
    using that unfolding unforgeable_def by blast
  have "(i, vs ! i) \<in> set (enumerate 0 vs)"
    using assms(3) by (simp add: in_set_enumerate_eq)
  then have "vs ! i \<in> set ?vs"
    using assms(4) by (force simp: signers_def)
  then have "pk_deserialize L (public_key (vs ! i)) \<in> set (map Some pks)"
    using pks by (metis (no_types, lifting) image_eqI list.set_map)
  with has_signed show ?thesis by auto
qed

text \<open>Two sealed headers of one number have one hash.\<close>

lemma sealed_headers_agree:
  assumes seal: "verify_aggregated_seal L hsh vs s = Ok ()" "verify_aggregated_seal L hsk vs t = Ok ()"
    and hash: "header_hash L h = Ok hsh" "header_hash L k = Ok hsk" and "number h = number k"
    and "unforgeable L has_signed" and "fault_bound L has_signed vs"
  shows "hsh = hsk"
proof -
  let ?both = "{i. i < length vs \<and> bi_bit L (seal_bitmap s) i \<and> bi_bit L (seal_bitmap t) i}"
    and ?faulty = "{i. i < length vs \<and> \<not> honest_signer L has_signed (vs ! i)}"
  have "card ?faulty < card ?both"
    using quorum_signers_intersect [OF seal] assms(7) by (simp add: fault_bound_def)
  then have "\<not> ?both \<subseteq> ?faulty"
    using card_mono [of ?faulty ?both] by auto
  then obtain i where i: "i < length vs" "bi_bit L (seal_bitmap s) i" "bi_bit L (seal_bitmap t) i"
    and honest: "honest_signer L has_signed (vs ! i)"
    by blast
  have "quorum_sealed L vs hsh s" "quorum_sealed L vs hsk t"
    using seal by (simp_all add: verify_aggregated_seal_Ok_iff)
  with i assms(6) obtain pk where "pk_deserialize L (public_key (vs ! i)) = Some pk"
    and "has_signed pk (prepare_commited_seal L hsh (seal_round s))"
      "has_signed pk (prepare_commited_seal L hsk (seal_round t))"
    using quorum_sealed_signed by (metis option.inject)
  with honest hash assms(5) show ?thesis unfolding honest_signer_def by blast
qed

section \<open>What a hash determines\<close>

text \<open>The bytes \<^verbatim>\<open>Header::hash\<close> digests, and the headers whose encodings fit the address space.\<close>

definition hashed_bytes :: "('pk, 'sig, 'z) crates_scheme \<Rightarrow> header \<Rightarrow> bytes" where
  "hashed_bytes L h =
     (case istanbul_filtered_header L h True of Ok f \<Rightarrow> header_to_rlp L f | _ \<Rightarrow> header_to_rlp L h)"

definition header_fits :: "('pk, 'sig, 'z) crates_scheme \<Rightarrow> header \<Rightarrow> bool" where
  "header_fits L h \<longleftrightarrow> wf_header h \<and>
     (\<forall>f. istanbul_filtered_header L h True = Ok f \<longrightarrow> rlp_fits (header_item L f)) \<and>
     (\<forall>ex. istanbul_extra_from_rlp L (extra h) = Ok ex \<longrightarrow>
        rlp_fits (extra_item L (ex\<lparr>aggregated_seal := istanbul_aggregated_seal_new\<rparr>)))"

definition collision_free :: "('pk, 'sig, 'z) crates_scheme \<Rightarrow> bytes set \<Rightarrow> bool" where
  "collision_free L H \<longleftrightarrow> inj_on (keccak256 L) H"

context library_crates
begin

lemma filtered_header:
  assumes "istanbul_extra_from_rlp L (extra h) = Ok ex"
  shows "\<exists>v. length v = 32 \<and> istanbul_filtered_header L h True =
      Ok (h\<lparr>extra := istanbul_extra_to_rlp L (ex\<lparr>aggregated_seal := istanbul_aggregated_seal_new\<rparr>) v\<rparr>)"
    and "header_hash L h = Ok (keccak256 L (hashed_bytes L h))"
proof -
  have len: "32 \<le> length (extra h)"
    using assms by (auto simp: istanbul_extra_from_rlp_def split: if_splits)
  then have "vanity_from_bytes (extra h) = Ok (take 32 (extra h))"
    by (simp add: header_arrays array_from_bytes_eq)
  with assms have f: "istanbul_filtered_header L h True = Ok (h\<lparr>extra := istanbul_extra_to_rlp L
      (ex\<lparr>aggregated_seal := istanbul_aggregated_seal_new\<rparr>) (take 32 (extra h))\<rparr>)"
    by (simp add: istanbul_filtered_header_def Let_def)
  then show "\<exists>v. length v = 32 \<and> istanbul_filtered_header L h True =
      Ok (h\<lparr>extra := istanbul_extra_to_rlp L (ex\<lparr>aggregated_seal := istanbul_aggregated_seal_new\<rparr>) v\<rparr>)"
    using len by (intro exI [of _ "take 32 (extra h)"]) simp
  show "header_hash L h = Ok (keccak256 L (hashed_bytes L h))"
    using len f by (simp add: header_hash_def hashed_bytes_def rlp_hash_eq)
qed

text \<open>Headers of one hash agree in everything but the aggregated seal.\<close>

lemma same_hash:
  assumes "header_hash L h = header_hash L k" and "collision_free L {hashed_bytes L h, hashed_bytes L k}"
    and ex: "istanbul_extra_from_rlp L (extra h) = Ok ex" and ek: "istanbul_extra_from_rlp L (extra k) = Ok ek"
    and fits: "header_fits L h" "header_fits L k"
  shows "h\<lparr>extra := extra k\<rparr> = k \<and>
    ex\<lparr>aggregated_seal := istanbul_aggregated_seal_new\<rparr> = ek\<lparr>aggregated_seal := istanbul_aggregated_seal_new\<rparr>"
proof -
  let ?ex = "ex\<lparr>aggregated_seal := istanbul_aggregated_seal_new\<rparr>"
    and ?ek = "ek\<lparr>aggregated_seal := istanbul_aggregated_seal_new\<rparr>"
  obtain v w where v: "length v = 32" "istanbul_filtered_header L h True =
      Ok (h\<lparr>extra := istanbul_extra_to_rlp L ?ex v\<rparr>)"
    and w: "length w = 32" "istanbul_filtered_header L k True = Ok (k\<lparr>extra := istanbul_extra_to_rlp L ?ek w\<rparr>)"
    using filtered_header(1) [OF ex] filtered_header(1) [OF ek] by blast
  let ?f = "h\<lparr>extra := istanbul_extra_to_rlp L ?ex v\<rparr>" and ?g = "k\<lparr>extra := istanbul_extra_to_rlp L ?ek w\<rparr>"
  have "keccak256 L (hashed_bytes L h) = keccak256 L (hashed_bytes L k)"
    using assms(1) filtered_header(2) [OF ex] filtered_header(2) [OF ek] by simp
  then have "hashed_bytes L h = hashed_bytes L k"
    using assms(2) unfolding collision_free_def by (auto dest: inj_onD)
  then have "header_to_rlp L ?f = header_to_rlp L ?g"
    using v(2) w(2) by (simp add: hashed_bytes_def)
  moreover have "wf_header ?f" "wf_header ?g"
    using fits by (simp_all add: header_fits_def wf_header_def)
  moreover have "rlp_fits (header_item L ?f)" "rlp_fits (header_item L ?g)"
    using fits v(2) w(2) unfolding header_fits_def by blast+
  ultimately have eq: "?f = ?g" using header_to_rlp_inject by blast
  have wf: "wf_extra ?ex" "wf_extra ?ek"
    using istanbul_extra_from_rlp_wf [OF ex] istanbul_extra_from_rlp_wf [OF ek]
    by (simp_all add: wf_extra_def wf_seal_def istanbul_aggregated_seal_new_def)
  have "rlp_fits (extra_item L ?ex)" "rlp_fits (extra_item L ?ek)"
    using fits ex ek unfolding header_fits_def by blast+
  with wf v(1) w(1) have "istanbul_extra_from_rlp L (extra ?f) = Ok ?ex" "istanbul_extra_from_rlp L (extra ?g) = Ok ?ek"
    by (simp_all add: istanbul_extra_from_to)
  with eq have "?ex = ?ek" by simp
  moreover have "h\<lparr>extra := extra k\<rparr> = k"
    using arg_cong [OF eq, of "extra_update (\<lambda>_. extra k)"] by simp
  ultimately show ?thesis by blast
qed

end

section \<open>Agreement\<close>

text \<open>
  Two headers of one block: they have one hash, and differ in their extra data only (and there
  in the aggregated seal only, which the hash does not cover).
\<close>

definition same_block :: "('pk, 'sig, 'z) crates_scheme \<Rightarrow> header \<Rightarrow> header \<Rightarrow> bool" where
  "same_block L h k \<longleftrightarrow> header_hash L h = header_hash L k \<and> h\<lparr>extra := extra k\<rparr> = k"

lemma same_block_fields:
  assumes "same_block L h k"
  shows "header.root h = header.root k" "time h = time k"
  using assms by (cases h; cases k; simp add: same_block_def)+

text \<open>Two states that agree in everything but the aggregated seal of the last header.\<close>

definition agree :: "state \<Rightarrow> state \<Rightarrow> bool" where
  "agree a b \<longleftrightarrow> st_config a = st_config b \<and>
     (\<exists>s. st_snapshot b = (st_snapshot a)\<lparr>snap_aggregated_seal := s\<rparr>)"

lemma agree_refl: "agree a a"
  unfolding agree_def by (intro conjI exI [of _ "snap_aggregated_seal (st_snapshot a)"]) simp_all

lemma agree_fields:
  assumes "agree a b"
  shows "st_config b = st_config a" "st_validators b = st_validators a"
    "snap_number (st_snapshot b) = snap_number (st_snapshot a)"
  using assms by (auto simp: agree_def)

lemma next_validators_seal:
  assumes "ex\<lparr>aggregated_seal := s\<rparr> = ek\<lparr>aggregated_seal := s\<rparr>"
  shows "next_validators L vs ex = next_validators L vs ek"
proof -
  have "next_validators L vs (ex\<lparr>aggregated_seal := s\<rparr>) = next_validators L vs ex" for ex
    by (simp add: next_validators_def new_validators_def)
  with assms show ?thesis by metis
qed

context library_crates
begin

lemma agreement_step:
  assumes "agree st su"
    and ins: "insert_header L st h now = (Ok (), st')" "insert_header L su k now' = (Ok (), su')"
    and number: "number h = number k" "number h \<noteq> 0"
    and verify: "verify_epoch_headers (st_config st)" "verify_non_epoch_headers (st_config st)"
    and honest: "unforgeable L has_signed" "fault_bound L has_signed (st_validators st)"
    and fits: "header_fits L h" "header_fits L k" and free: "collision_free L {hashed_bytes L h, hashed_bytes L k}"
  shows "agree st' su' \<and> same_block L h k"
proof -
  note same = agree_fields [OF assms(1)]
  have checks: "checks_header L (st_config st) h last" "checks_header L (st_config st) k last" for last
    using verify number by (simp_all add: checks_header_def is_zero_eq)
  obtain n last hsh ex vs where t: "bi_to_u64 L (number h) = Some n"
    "is_last_block_of_epoch n (epoch_size (st_config st)) = Ok last"
    "verify_header L st h now = Ok ()" "header_hash L h = Ok hsh"
    "istanbul_extra_from_rlp L (extra h) = Ok ex"
    "if last then next_validators L (st_validators st) ex = Some vs else vs = st_validators st"
    "st' = st\<lparr>st_snapshot := snapshot_of n h hsh ex vs\<rparr>"
    using ins(1) checks(1) unfolding insert_header_Ok header_transition_def by blast
  obtain hsk ek ws where u: "verify_header L su k now' = Ok ()" "header_hash L k = Ok hsk"
    "istanbul_extra_from_rlp L (extra k) = Ok ek"
    "if last then next_validators L (st_validators st) ek = Some ws else ws = st_validators st"
    "su' = su\<lparr>st_snapshot := snapshot_of n k hsk ek ws\<rparr>"
    using ins(2) checks(2) t(1,2) unfolding insert_header_Ok header_transition_def same number(1) by auto
  have "verify_aggregated_seal L hsh (st_validators st) (aggregated_seal ex) = Ok ()"
    "verify_aggregated_seal L hsk (st_validators st) (aggregated_seal ek) = Ok ()"
    using t u unfolding verify_header_Ok_iff same by auto
  from sealed_headers_agree [OF this t(4) u(2) number(1) honest] have hash: "hsh = hsk" .
  have eq: "h\<lparr>extra := extra k\<rparr> = k"
    "ex\<lparr>aggregated_seal := istanbul_aggregated_seal_new\<rparr> = ek\<lparr>aggregated_seal := istanbul_aggregated_seal_new\<rparr>"
    using same_hash [OF _ free t(5) u(3) fits] t(4) u(2) hash by simp_all
  have "vs = ws"
    using t(6) u(4) next_validators_seal [OF eq(2), of L "st_validators st"] by (cases last) simp_all
  then have "agree st' su'"
    using t(7) u(5) hash arg_cong [OF eq(1), of time] same(1)
    by (auto simp: agree_def snapshot_of_def intro!: exI [of _ "aggregated_seal ek"])
  with t(4) u(2) hash eq(1) show ?thesis by (simp add: same_block_def)
qed

lemma agreement_runs:
  assumes "accepted_run L st xs st'" and "accepted_run L su ys su'" and "agree st su"
    and "map (\<lambda>(h, _). number h) xs = map (\<lambda>(h, _). number h) ys"
    and "\<forall>(h, _) \<in> set (xs @ ys). number h \<noteq> 0 \<and> header_fits L h"
    and "verify_epoch_headers (st_config st)" and "verify_non_epoch_headers (st_config st)"
    and "unforgeable L has_signed"
    and "\<forall>k sv. accepted_run L st (take k xs) sv \<longrightarrow> fault_bound L has_signed (st_validators sv)"
    and "collision_free L (hashed_bytes L ` fst ` set (xs @ ys))"
  shows "agree st' su' \<and> list_all2 (\<lambda>(h, _) (k, _). same_block L h k) xs ys"
  using assms(1-7,9,10)
proof (induction arbitrary: su ys rule: accepted_run.induct)
  case (finish st)
  then show ?case by (auto elim: accepted_run.cases)
next
  case (advance st h now st1 xs st')
  obtain k now' ys' where ys: "ys = (k, now') # ys'" and num: "number h = number k"
    "map (\<lambda>(h, _). number h) xs = map (\<lambda>(h, _). number h) ys'"
    using advance.prems(3) by (cases ys) auto
  obtain su1 where su1: "insert_header L su k now' = (Ok (), su1)" "accepted_run L su1 ys' su'"
    using advance.prems(1) unfolding ys by (elim accepted_run_ConsE) auto
  have bound: "fault_bound L has_signed (st_validators st)"
    using advance.prems(7) accepted_run.finish [of L st] by (metis take_0)
  have later: "fault_bound L has_signed (st_validators sv)" if "accepted_run L st1 (take i xs) sv" for i sv
    using advance.prems(7) accepted_run.advance [OF advance.hyps(1) that] by (metis take_Suc_Cons)
  have free: "collision_free L {hashed_bytes L h, hashed_bytes L k}"
    "collision_free L (hashed_bytes L ` fst ` set (xs @ ys'))"
    using advance.prems(8) unfolding ys collision_free_def by (auto elim: inj_on_subset)
  have step: "agree st1 su1 \<and> same_block L h k"
    using agreement_step [OF advance.prems(2) advance.hyps(1) su1(1) num(1) _ advance.prems(5,6) assms(8)
        bound _ _ free(1)] advance.prems(4) unfolding ys by simp
  have "st_config st1 = st_config st" using insert_header_config [OF advance.hyps(1)] .
  then show ?case
    using advance.IH [OF su1(2) _ num(2)] step advance.prems(4-6) later free(2) unfolding ys by auto
qed

end

text \<open>C3: agreement: the client cannot be forked. Suppose no more than a third of each validator set the
  first client passes through, as the protocol assumes, signs two headers of one number, that
  signatures cannot be forged and that the digest has no collision among the headers at hand.
  Then two clients that verify every header and start from one state, fed with any two
  sequences of headers of the same (non-zero) numbers, at any times, and accepting them, have
  accepted the same blocks: the headers are equal in every field, state roots and validator set
  diffs among them, but for the aggregated seals the hash does not cover; and they end in the
  same state but for the seal of the last header. \<close>

theorem light_client_does_not_fork:
  assumes "library_crates L"
    and "accepted_run L st xs st1" and "accepted_run L st ys st2"
    and "map (\<lambda>(h, _). number h) xs = map (\<lambda>(h, _). number h) ys"
    and "\<forall>(h, _) \<in> set (xs @ ys). number h \<noteq> 0 \<and> header_fits L h"
    and "verify_epoch_headers (st_config st)" and "verify_non_epoch_headers (st_config st)"
    and "unforgeable L has_signed"
    and "\<forall>k sv. accepted_run L st (take k xs) sv \<longrightarrow> fault_bound L has_signed (st_validators sv)"
    and "collision_free L (hashed_bytes L ` fst ` set (xs @ ys))"
  shows "agree st1 st2 \<and> list_all2 (\<lambda>(h, _) (k, _). same_block L h k) xs ys"
  using library_crates.agreement_runs [OF assms(1-3) agree_refl assms(4-10)] .

section \<open>A network with one header per number\<close>

text \<open>Signatures that verify for one hash only, and the epoch header with two different seals.\<close>

definition one_header_crates :: "hash \<Rightarrow> (bytes list, bytes) crates" where
  "one_header_crates hsh = ref_crates
     \<lparr>pk_verify := \<lambda>apk msg ed sig. apk \<noteq> [] \<and> sig = ref_signature \<and> take 32 msg = hsh\<rparr>"

definition resealed_extra :: istanbul_extra where
  "resealed_extra = epoch_extra
     \<lparr>aggregated_seal := \<lparr>seal_bitmap = 7, seal_signature = ref_signature, seal_round = 0\<rparr>\<rparr>"

definition epoch_hash :: hash where
  "epoch_hash = ref_digest (header_to_rlp ref_crates
     (header_with 17280 (epoch_extra\<lparr>aggregated_seal := istanbul_aggregated_seal_new\<rparr>)))"

abbreviation one_epoch :: "(bytes list, bytes) crates" where
  "one_epoch \<equiv> one_header_crates epoch_hash"

lemma one_header_library: "library_crates (one_header_crates hsh)"
proof -
  have enc: "rlp_enc (one_header_crates hsh) = rlp_enc ref_crates"
    by (rule ext) (simp add: rlp_enc_def one_header_crates_def)
  show ?thesis
    using sample_library unfolding library_crates_def num_bigint_def rlp_crate_def keccak_crate_def enc
    by (simp add: one_header_crates_def)
qed

lemma one_header_encoders:
  "istanbul_extra_to_rlp (one_header_crates hsh) ex v = istanbul_extra_to_rlp ref_crates ex v"
  "header_to_rlp (one_header_crates hsh) h = header_to_rlp ref_crates h"
  "extra_item (one_header_crates hsh) ex = extra_item ref_crates ex"
  "header_item (one_header_crates hsh) h = header_item ref_crates h"
  by (simp_all add: one_header_crates_def istanbul_extra_to_rlp_def extra_append_def seal_append_def
      header_to_rlp_def header_append_def extra_item_def seal_item_def header_item_def
      big_int_to_rlp_compat_bytes_def)

lemma one_header_next_validators:
  "next_validators (one_header_crates hsh) vs ex = next_validators ref_crates vs ex"
proof -
  have "survivors (one_header_crates hsh) n vs = survivors ref_crates n vs" for n
    by (simp add: survivors_def one_header_crates_def)
  then show ?thesis
    by (simp add: next_validators_def) (simp add: one_header_crates_def)
qed

lemma unforgeable_one_header:
  "unforgeable (one_header_crates hsh) (\<lambda>_ msg. take 32 msg = hsh)"
  by (simp add: unforgeable_def one_header_crates_def)

lemma fault_bound_one_header:
  "\<forall>k sv. P k sv \<longrightarrow> fault_bound L (\<lambda>_ msg. take 32 msg = hsh) (st_validators sv)"
proof -
  have "honest_signer L (\<lambda>_ msg. take 32 msg = hsh) v" for v
    unfolding honest_signer_def by (auto simp: prepare_commited_seal_def Let_def dest!: header_hash_length)
  then show ?thesis by (simp add: fault_bound_def)
qed

text \<open>The epoch header, the resealed one and the one without a seal are all short.\<close>

definition resealings :: "istanbul_extra set" where
  "resealings = {epoch_extra, resealed_extra}"

abbreviation unsealed_extra :: istanbul_extra where
  "unsealed_extra \<equiv> epoch_extra\<lparr>aggregated_seal := istanbul_aggregated_seal_new\<rparr>"

lemma resealings_simps:
  assumes "ex \<in> resealings"
  shows "ex\<lparr>aggregated_seal := istanbul_aggregated_seal_new\<rparr> = unsealed_extra" "wf_extra ex"
    "next_validators L vs ex = next_validators L vs epoch_extra"
proof -
  show new: "ex\<lparr>aggregated_seal := istanbul_aggregated_seal_new\<rparr> = unsealed_extra"
    using assms by (auto simp: resealings_def resealed_extra_def)
  show "next_validators L vs ex = next_validators L vs epoch_extra"
    by (rule next_validators_seal [OF new])
  show "wf_extra ex"
    using assms epoch_extra_wf by (auto simp: resealings_def resealed_extra_def wf_extra_def wf_seal_def)
qed

lemma resealings_small:
  assumes "ex \<in> insert unsealed_extra resealings"
  shows "rlp_size (extra_item ref_crates ex) < 900"
proof -
  consider "ex = unsealed_extra" | "ex = epoch_extra" | "ex = resealed_extra"
    using assms unfolding resealings_def by blast
  then show ?thesis
    by cases (simp_all add: resealed_extra_def epoch_extra_def sample_extra_def extra_item_def seal_item_def
        big_int_to_rlp_compat_bytes_def istanbul_aggregated_seal_new_def ref_signature_def be_bytes.simps)
qed

text \<open>Both headers have the hash that is signed, and are accepted.\<close>

lemma resealed:
  assumes "ex \<in> resealings"
  shows "istanbul_extra_from_rlp one_epoch (extra (header_with 17280 ex)) = Ok ex"
    "istanbul_filtered_header one_epoch (header_with 17280 ex) True = Ok (header_with 17280 unsealed_extra)"
    "header_hash one_epoch (header_with 17280 ex) = Ok epoch_hash"
    "verify_aggregated_seal one_epoch epoch_hash sample_validators (aggregated_seal ex) = Ok ()"
proof -
  note lib = one_header_library [of epoch_hash] and new = resealings_simps(1) [OF assms]
    and wf = resealings_simps(2) [OF assms]
  have fits: "rlp_fits (extra_item one_epoch ex)"
    using resealings_small [of ex] assms by (simp add: one_header_encoders rlp_fits_def usize_bits_def)
  show "istanbul_extra_from_rlp one_epoch (extra (header_with 17280 ex)) = Ok ex"
    using library_crates.istanbul_extra_from_to [OF lib wf fits, of "replicate 32 0"]
    by (simp add: header_with_def one_header_encoders)
  show "istanbul_filtered_header one_epoch (header_with 17280 ex) True = Ok (header_with 17280 unsealed_extra)"
    using library_crates.filtered_header_to_rlp [OF lib wf fits, of "replicate 32 0" "header_with 17280 ex"] new
    by (simp add: header_with_def one_header_encoders)
  show "header_hash one_epoch (header_with 17280 ex) = Ok epoch_hash"
    using library_crates.header_hash_istanbul [OF lib wf fits, of "replicate 32 0" "header_with 17280 ex"] new
    by (simp add: header_with_def one_header_encoders epoch_hash_def) (simp add: one_header_crates_def)
  have "aggregated_seal ex \<in> {aggregated_seal epoch_extra, aggregated_seal resealed_extra}" "length epoch_hash = 32"
    using assms by (auto simp: resealings_def epoch_hash_def ref_digest_def)
  then show "verify_aggregated_seal one_epoch epoch_hash sample_validators (aggregated_seal ex) = Ok ()"
    by (auto simp: verify_aggregated_seal_def sample_validators_def Let_def min_quorum_size_eq usize_bits_def
        deserialize_pub_key_def deserialize_signature_def ref_signature_def bit_iff_odd one_header_crates_def
        prepare_commited_seal_def resealed_extra_def epoch_extra_def)
qed

lemma resealed_accepted:
  assumes "ex \<in> resealings"
  shows "\<exists>vs. next_validators ref_crates sample_validators epoch_extra = Some vs \<and>
    insert_header one_epoch sample_state (header_with 17280 ex) 1600000000 =
      (Ok (), sample_state\<lparr>st_snapshot := snapshot_of 17280 (header_with 17280 ex) epoch_hash ex vs\<rparr>)"
proof -
  let ?h = "header_with 17280 ex"
  obtain vs where vs: "next_validators ref_crates sample_validators epoch_extra = Some vs"
    using epoch_extra_next by blast
  then have nxt: "next_validators one_epoch sample_validators ex = Some vs"
    unfolding resealings_simps(3) [OF assms] by (simp add: one_header_next_validators)
  have n: "bi_to_u64 one_epoch (number ?h) = Some 17280"
    by (simp add: header_with_def one_header_crates_def)
  have "verify_header one_epoch sample_state ?h 1600000000 = Ok ()"
    unfolding verify_header_Ok_iff
    using resealed [OF assms] n
    by (simp add: sample_state_def state_new_def sample_snapshot_def sample_config_def)
      (simp add: header_with_def)
  then have "header_transition one_epoch sample_state ?h 1600000000
      (sample_state\<lparr>st_snapshot := snapshot_of 17280 ?h epoch_hash ex vs\<rparr>)"
    unfolding header_transition_def
    using resealed [OF assms] n nxt
    by (intro exI [of _ 17280] exI [of _ True] exI [of _ epoch_hash] exI [of _ ex] exI [of _ vs])
      (simp add: is_last_block_of_epoch_eq sample_state_def state_new_def sample_snapshot_def sample_config_def)
  then show ?thesis
    using vs unfolding library_crates.insert_header_Ok [OF one_header_library, symmetric] by blast
qed

lemma resealed_fits:
  assumes "ex \<in> resealings"
  shows "header_fits one_epoch (header_with 17280 ex)"
    and "hashed_bytes one_epoch (header_with 17280 ex) = header_to_rlp ref_crates (header_with 17280 unsealed_extra)"
proof -
  have "rlp_size (extra_item ref_crates unsealed_extra) < 900"
    using resealings_small by blast
  then show "header_fits one_epoch (header_with 17280 ex)"
    using resealed [OF assms] header_with_fits [of unsealed_extra] resealings_simps(1) [OF assms] wf_header_new
    by (simp add: header_fits_def one_header_encoders rlp_fits_def usize_bits_def)
      (simp add: header_with_def wf_header_def)
  show "hashed_bytes one_epoch (header_with 17280 ex) = header_to_rlp ref_crates (header_with 17280 unsealed_extra)"
    using resealed(2) [OF assms] by (simp add: hashed_bytes_def one_header_encoders)
qed

theorem light_client_does_not_fork_witness:
  "\<exists>st1 st2. accepted_run one_epoch sample_state [(header_with 17280 epoch_extra, 1600000000)] st1 \<and>
     accepted_run one_epoch sample_state [(header_with 17280 resealed_extra, 1600000000)] st2 \<and>
     header_with 17280 epoch_extra \<noteq> header_with 17280 resealed_extra \<and> agree st1 st2"
proof -
  let ?h = "header_with 17280 epoch_extra" and ?k = "header_with 17280 resealed_extra"
  have mem: "epoch_extra \<in> resealings" "resealed_extra \<in> resealings"
    by (simp_all add: resealings_def)
  obtain st1 st2 where run: "accepted_run one_epoch sample_state [(?h, 1600000000)] st1"
    "accepted_run one_epoch sample_state [(?k, 1600000000)] st2"
    using resealed_accepted [OF mem(1)] resealed_accepted [OF mem(2)]
    by (blast intro: accepted_run.intros)
  have "seal_bitmap (aggregated_seal epoch_extra) \<noteq> seal_bitmap (aggregated_seal resealed_extra)"
    by (simp add: epoch_extra_def resealed_extra_def)
  then have "Ok epoch_extra \<noteq> Ok resealed_extra"
    by auto
  then have "?h \<noteq> ?k"
    using resealed(1) [OF mem(1)] resealed(1) [OF mem(2)] by metis
  moreover have "collision_free one_epoch (hashed_bytes one_epoch ` fst ` set [(?h, 1600000000), (?k, 1600000000)])"
    using resealed_fits(2) [OF mem(1)] resealed_fits(2) [OF mem(2)] by (simp add: collision_free_def)
  then have "agree st1 st2"
    using light_client_does_not_fork [OF one_header_library run _ _ _ _ unforgeable_one_header
        fault_bound_one_header] resealed_fits(1) [OF mem(1)] resealed_fits(1) [OF mem(2)]
    by (simp add: sample_state_def state_new_def sample_config_def) (simp add: header_with_def)
  ultimately show ?thesis using run by blast
qed

end
