(* ===== verification/Contract_Agreement.thy ===== *)
theory Contract_Agreement
  imports Light_Agreement Contract_Progress
begin

text \<open>
  Agreement of contracts: \<open>Light_Agreement\<close> carried through the refinement of \<open>Contract_Update\<close>. Two
  deployments of the contract that start from the same client and consensus state and are
  updated for the same block numbers end with consensus states of the same state root.
\<close>

text \<open>C7: the contract cannot be forked. Under the assumptions of the light client's agreement (at most a
  third of each validator set on the way signs two headers of one number, no forged
  signatures, no colliding digests among the headers submitted), two deployments of the
  contract, or one under two relayers, that start from one client and consensus state and are
  successfully driven through updates with headers of the same non-zero numbers end with the
  same client state and with consensus states that agree in code, time and state root, and
  encode light client states that agree but for the seal of the last header. \<close>

theorem contract_does_not_fork:
  assumes "contract_host L"
    and "contract_run L (me, cs, st) ws (me1, cs1, st1)" and "contract_run L (me, cs, su) us (me2, cs2, st2)"
    and "represents L me cs lst"
    and "decoded_updates L ws xs" and "decoded_updates L us ys"
    and "run_fits L lst xs" and "run_fits L lst ys"
    and "map (\<lambda>(h, _). number h) xs = map (\<lambda>(h, _). number h) ys"
    and "\<forall>(h, _) \<in> set (xs @ ys). number h \<noteq> 0 \<and> header_fits L h"
    and "verify_epoch_headers (st_config lst)" and "verify_non_epoch_headers (st_config lst)"
    and "unforgeable L has_signed"
    and "\<forall>k sv. accepted_run L lst (take k xs) sv \<longrightarrow> fault_bound L has_signed (st_validators sv)"
    and "collision_free L (hashed_bytes L ` fst ` set (xs @ ys))"
  shows "me1 = me2 \<and> cs_code_id cs1 = cs_code_id cs2 \<and> cs_timestamp cs1 = cs_timestamp cs2 \<and>
    cs_root cs1 = cs_root cs2 \<and>
    (\<exists>lst1 lst2. represents L me1 cs1 lst1 \<and> represents L me2 cs2 lst2 \<and> agree lst1 lst2)"
proof -
  have lib: "library_crates L" using assms(1) by (simp add: contract_host_def)
  obtain lst1 where l1: "me1 = me" "accepted_run L lst xs lst1" "represents L me1 cs1 lst1"
    "cs1 = (if xs = [] then cs else updated_consensus_state L cs (fst (last xs)) lst1)"
    using contract_run_refines [OF assms(1,2,4,5,7)] by blast
  obtain lst2 where l2: "me2 = me" "accepted_run L lst ys lst2" "represents L me2 cs2 lst2"
    "cs2 = (if ys = [] then cs else updated_consensus_state L cs (fst (last ys)) lst2)"
    using contract_run_refines [OF assms(1,3,4,6,8)] by blast
  have agree: "agree lst1 lst2" and same: "list_all2 (\<lambda>(h, _) (k, _). same_block L h k) xs ys"
    using library_crates.agreement_runs [OF lib l1(2) l2(2) agree_refl assms(9-15)] by blast+
  have "xs = [] \<longleftrightarrow> ys = []"
    using same by (auto dest: list_all2_lengthD)
  moreover have "same_block L (fst (last xs)) (fst (last ys))" if "xs \<noteq> []"
    using same that by (metis (mono_tags, lifting) case_prod_unfold last_conv_nth length_greater_0_conv
        list_all2_conv_all_nth diff_less zero_less_one)
  ultimately have "cs_code_id cs1 = cs_code_id cs2 \<and> cs_timestamp cs1 = cs_timestamp cs2 \<and> cs_root cs1 = cs_root cs2"
    using l1(4) l2(4) same_block_fields [of L "fst (last xs)" "fst (last ys)"]
    by (cases "xs = []") (simp_all add: updated_consensus_state_def)
  with l1(1,3) l2(1,3) agree show ?thesis by blast
qed

section \<open>The network with one header per number, on the contract's crates\<close>

lemma contract_host_pk_verify: "contract_host L \<Longrightarrow> contract_host (L\<lparr>pk_verify := f\<rparr>)"
proof -
  have enc: "rlp_enc (L\<lparr>pk_verify := f\<rparr>) = rlp_enc L"
    by (rule ext) (simp add: rlp_enc_def)
  show "contract_host L \<Longrightarrow> contract_host (L\<lparr>pk_verify := f\<rparr>)"
    unfolding contract_host_def library_crates_def num_bigint_def rlp_crate_def keccak_crate_def kv_store_def
      base64_crate_def json_crate_def derived_codec_def byteorder_crate_def enc
    by simp
qed

definition one_epoch_contract ::
    "(bytes list, bytes, bytes \<times> bytes, nat, bytes \<rightharpoonup> bytes) contract_crates" where
  "one_epoch_contract = ref_contract
     \<lparr>pk_verify := \<lambda>apk msg ed sig. apk \<noteq> [] \<and> sig = ref_signature \<and> take 32 msg = epoch_hash\<rparr>"

lemma one_epoch_host: "contract_host one_epoch_contract"
  unfolding one_epoch_contract_def by (rule contract_host_pk_verify [OF sample_host])

lemma truncate_one_epoch: "crates.truncate one_epoch_contract = one_epoch"
  by (simp add: crates.truncate_def one_epoch_contract_def one_header_crates_def ref_contract_crates)

lemmas one_epoch_same =
  library_only [of one_epoch_contract, symmetric, unfolded truncate_one_epoch]
  library_only_filtered [of one_epoch_contract, symmetric, unfolded truncate_one_epoch]
  library_only_items [of one_epoch_contract, symmetric, unfolded truncate_one_epoch]

lemma one_epoch_snapshot:
  "snapshot_item one_epoch_contract = snapshot_item ref_crates"
  "snapshot_to_rlp one_epoch_contract = snapshot_to_rlp ref_contract"
  "header_to_rlp one_epoch_contract = header_to_rlp ref_contract"
  by (intro ext, simp add: one_epoch_contract_def snapshot_item_def seal_item_def
    snapshot_to_rlp_def snapshot_append_def seal_append_def header_to_rlp_def header_append_def
    big_int_to_rlp_compat_bytes_def ref_contract_crates del: ref_crates_simps)+

lemma one_epoch_represents:
  "represents one_epoch_contract (client_with sample_client) (consensus_with sample_snapshot) sample_state"
proof -
  have data: "cl_data (client_with sample_client) =
      base64_encode one_epoch_contract (light_client_state_to_rlp one_epoch_contract sample_client)"
    "cs_data (consensus_with sample_snapshot) =
      base64_encode one_epoch_contract (snapshot_to_rlp one_epoch_contract sample_snapshot)"
    by (simp_all add: client_with_def consensus_with_def light_client_state_to_rlp_def one_epoch_snapshot)
      (simp_all add: one_epoch_contract_def)
  show ?thesis
    unfolding represents_def data
    using contract_host.light_client_state_field_encode [OF one_epoch_host sample_client_fits]
      contract_host.light_consensus_state_field_encode [OF one_epoch_host sample_snapshot_wf] sample_snapshot_fits
    by (intro exI [of _ sample_client] exI)
      (auto simp: sample_client_config sample_state_def state_new_def one_epoch_snapshot(1))
qed

lemma one_epoch_update:
  assumes "ex \<in> resealings"
  shows "decoded_updates one_epoch_contract [(sample_env, wasm_header_with (header_with 17280 ex))]
      [(header_with 17280 ex, 1600000000)]"
proof -
  let ?h = "header_with 17280 ex"
  have "rlp_fits (header_item ref_crates ?h)"
    using header_with_fits resealings_small [of ex] assms by blast
  then have "header_from_rlp one_epoch (header_to_rlp one_epoch ?h) = Ok ?h"
    using library_crates.header_from_to [OF one_header_library, of ?h epoch_hash] wf_header_new
    by (simp add: one_header_encoders header_with_def wf_header_def)
  then have "header_from_rlp one_epoch_contract (header_to_rlp ref_contract ?h) = Ok ?h"
    by (simp add: one_epoch_same(1,2) one_header_encoders ref_same)
  then have "header_field one_epoch_contract (wh_data (wasm_header_with ?h)) t = Ok ?h" for t
    by (simp add: from_base64_rlp_Ok wasm_header_with_def) (simp add: one_epoch_contract_def)
  then show ?thesis by (simp add: decoded_updates_def sample_env_def)
qed

lemma one_epoch_run:
  assumes "ex \<in> resealings"
  shows "\<exists>lst'. accepted_run one_epoch_contract sample_state [(header_with 17280 ex, 1600000000)] lst'"
    and "run_fits one_epoch_contract sample_state [(header_with 17280 ex, 1600000000)]"
proof -
  let ?h = "header_with 17280 ex"
  obtain vs where vs: "next_validators ref_crates sample_validators epoch_extra = Some vs"
    and ins: "insert_header one_epoch_contract sample_state ?h 1600000000 =
      (Ok (), sample_state\<lparr>st_snapshot := snapshot_of 17280 ?h epoch_hash ex vs\<rparr>)"
    using resealed_accepted [OF assms] by (auto simp: one_epoch_same)
  then show "\<exists>lst'. accepted_run one_epoch_contract sample_state [(?h, 1600000000)] lst'"
    by (blast intro: accepted_run.intros)
  have "length epoch_hash = 32" "rlp_size (seal_item ref_crates (aggregated_seal ex)) < 900"
    using resealings_small [of ex] assms by (simp_all add: extra_item_def epoch_hash_def ref_digest_def)
  then have fits: "rlp_fits (snapshot_item ref_crates (snapshot_of 17280 ?h epoch_hash ex vs))"
    using epoch_snapshot_fits vs by blast
  show "run_fits one_epoch_contract sample_state [(?h, 1600000000)]"
    unfolding run_fits_def
  proof (intro allI impI)
    fix n lst' assume "accepted_run one_epoch_contract sample_state (take n [(?h, 1600000000)]) lst'"
    then show "rlp_fits (snapshot_item one_epoch_contract (st_snapshot lst'))"
      using sample_snapshot_fits fits ins
      by (cases n) (auto simp: one_epoch_snapshot(1) sample_state_def state_new_def elim!: accepted_run.cases)
  qed
qed

lemma one_epoch_contract_run:
  assumes "ex \<in> resealings"
  shows "\<exists>cs' st'. contract_run one_epoch_contract (client_with sample_client, consensus_with sample_snapshot, Map.empty)
     [(sample_env, wasm_header_with (header_with 17280 ex))] (client_with sample_client, cs', st')"
proof -
  have "\<exists>b. to_vec one_epoch_contract d = Ok b" for d
    using ref_to_vec_Ok by (simp add: one_epoch_contract_def)
  then show ?thesis
    using contract_run_exists [OF one_epoch_host _ _ one_epoch_represents one_epoch_update [OF assms]
        one_epoch_run(2) [OF assms]] one_epoch_run(1) [OF assms] by blast
qed

theorem contract_does_not_fork_witness:
  "\<exists>cs1 st1 cs2 st2.
     contract_run one_epoch_contract (client_with sample_client, consensus_with sample_snapshot, Map.empty)
       [(sample_env, wasm_header_with (header_with 17280 epoch_extra))] (client_with sample_client, cs1, st1) \<and>
     contract_run one_epoch_contract (client_with sample_client, consensus_with sample_snapshot, Map.empty)
       [(sample_env, wasm_header_with (header_with 17280 resealed_extra))] (client_with sample_client, cs2, st2) \<and>
     cs_root cs1 = cs_root cs2"
proof -
  let ?h = "header_with 17280 epoch_extra" and ?k = "header_with 17280 resealed_extra"
  have mem: "epoch_extra \<in> resealings" "resealed_extra \<in> resealings"
    by (simp_all add: resealings_def)
  obtain cs1 st1 cs2 st2 where run:
    "contract_run one_epoch_contract (client_with sample_client, consensus_with sample_snapshot, Map.empty)
       [(sample_env, wasm_header_with ?h)] (client_with sample_client, cs1, st1)"
    "contract_run one_epoch_contract (client_with sample_client, consensus_with sample_snapshot, Map.empty)
       [(sample_env, wasm_header_with ?k)] (client_with sample_client, cs2, st2)"
    using one_epoch_contract_run [OF mem(1)] one_epoch_contract_run [OF mem(2)] by blast
  have fits: "header_fits one_epoch_contract h = header_fits one_epoch h"
    and hashed: "hashed_bytes one_epoch_contract h = hashed_bytes one_epoch h" for h
    by (simp_all only: header_fits_def hashed_bytes_def one_epoch_same)
  have free: "collision_free one_epoch_contract
      (hashed_bytes one_epoch_contract ` fst ` set ([(?h, 1600000000 :: u64)] @ [(?k, 1600000000)]))"
    using resealed_fits(2) [OF mem(1)] resealed_fits(2) [OF mem(2)] by (simp add: collision_free_def hashed)
  have "unforgeable one_epoch_contract (\<lambda>_ msg. take 32 msg = epoch_hash)"
    by (simp add: unforgeable_def one_epoch_contract_def)
  from contract_does_not_fork [OF one_epoch_host run one_epoch_represents one_epoch_update [OF mem(1)]
      one_epoch_update [OF mem(2)] one_epoch_run(2) [OF mem(1)] one_epoch_run(2) [OF mem(2)] _ _ _ _ this fault_bound_one_header
      free]
  have "cs_root cs1 = cs_root cs2"
    using resealed_fits(1) [OF mem(1)] resealed_fits(1) [OF mem(2)]
    by (simp add: fits sample_state_def state_new_def sample_config_def) (simp add: header_with_def)
  with run show ?thesis by blast
qed

end
