(* ===== verification/Contract_Trust.thy ===== *)
theory Contract_Trust
  imports Contract_Progress Query_Safety
begin

text \<open>
  From a packet to the validators: what a relayer can have proved against a consensus state that a
  run of updates has produced is committed to by the state root of a block of the Celo chain, sealed
  by the validator set the chain had then; and it is proved no earlier than the delays after
  the update.
\<close>

section \<open>The last update of a run\<close>

lemma contract_run_meta:
  assumes "contract_run L g ws g'" and "ws \<noteq> []"
  shows "\<exists>st0. set_consensus_meta L (fst (last ws)) st0 EMPTY_PREFIX (wh_height (snd (last ws))) =
    (Ok (), snd (snd g'))"
  using assms
proof (induction rule: contract_run.induct)
  case (advance env me cs wh st r st1 d me1 cs1 ws g)
  then obtain st0 where st0: "set_consensus_meta L env st0 EMPTY_PREFIX (wh_height wh) = (Ok (), st1)"
    unfolding check_header_Ok by blast
  show ?case
  proof (cases "ws = []")
    case True
    with advance.hyps(4) have "g = (me1, cs1, st1)" by (auto elim: contract_run_NilE)
    with st0 True show ?thesis by auto
  qed (use advance.IH in auto)
qed simp

lemma honest_chain_last:
  assumes "honest_chain L es s hs s'" and "hs \<noteq> []"
  shows "\<exists>s0. honest_chain L es s (butlast hs) s0 \<and> honest_successor L es s0 (last hs) s'"
  using assms
proof (induction rule: honest_chain.induct)
  case (grow s h s1 hs s')
  show ?case
  proof (cases "hs = []")
    case True
    with grow.hyps show ?thesis
      by (auto elim: honest_chain_NilE intro: honest_chain.start)
  next
    case False
    with grow show ?thesis by (auto intro: honest_chain.grow)
  qed
qed simp

section \<open>Packets\<close>

text \<open>The value is chained, under the path below the prefix, to the state root of the header.\<close>

definition committed ::
    "('pk, 'sig, 'ep, 'sp, 'st, 'z) contract_crates_scheme \<Rightarrow> header \<Rightarrow> string \<Rightarrow> merkle_prefix \<Rightarrow>
     ics_path \<Rightarrow> bytes \<Rightarrow> bool" where
  "committed L h proof prefix path v \<longleftrightarrow>
     (\<exists>b p pb ps. base64_decode L proof = Some b \<and> merkle_proof_from_slice L b = Ok p \<and>
        base64_decode L (key_prefix prefix) = Some pb \<and> from_utf8 pb = Some ps \<and>
        proof_chain L (ics23_specs L) [path_to_string L path, ps] (proofs p) v (header.root h))"

text \<open>A block runs later than another by both delays.\<close>

definition waited :: "env \<Rightarrow> env \<Rightarrow> u64 \<Rightarrow> u64 \<Rightarrow> bool" where
  "waited env0 env dt db \<longleftrightarrow>
     unat (block_time env0) + unat dt \<le> unat (block_time env) \<and>
     unat (block_height env0) + unat db \<le> unat (block_height env)"

lemma proves_committed:
  assumes "contract_host L" and "cs_root cs = \<lparr>root_hash = base64_encode L (header.root h)\<rparr>"
    and "proves L proof cs prefix path v"
  shows "committed L h proof prefix path v"
proof -
  have "base64_decode L (base64_encode L b) = Some b" for b
    using assms(1) by (simp add: contract_host_def base64_crate.base64_decode_encode)
  with assms(2,3) show ?thesis
    unfolding proves_def committed_def by auto
qed

lemma delay_passed_waited:
  assumes "contract_host L" and "set_consensus_meta L env0 st EMPTY_PREFIX h = (Ok (), st')"
    and "delay_passed L st' h env dt db"
  shows "waited env0 env dt db"
  using assms(3)
  by (auto simp: delay_passed_def waited_def height_less_eq_iff get_self_height_def word_le_nat_alt
      unat_add_u64 dest!: contract_host.meta_recorded_now [OF assms(1,2)])

lemma answered: "and_then m to_binary = Ok b \<Longrightarrow> \<exists>r. m = Ok r"
  by (auto simp: and_then_eq_Ok)

lemmas packet_query_sound = packet_query_proves [THEN iffD1, OF exI]

lemma commitment_query_Ok:
  "query L env (VerifyPacketCommitment me h prefix proof port chan dt db sq commitment cs) st = Ok b \<Longrightarrow>
     delay_passed L st h env dt db \<and>
     (\<exists>p c v. port_id_from_str L port = Some p \<and> channel_id_from_str L chan = Some c \<and>
        base64_decode L commitment = Some v \<and> proves L proof cs prefix (CommitmentsPath p c sq) v)"
  by (auto simp: query_def verify_packet_commitment_def from_base64_Ok dest!: answered packet_query_sound)

lemma acknowledgement_query_Ok:
  "query L env (VerifyPacketAcknowledgement me h prefix proof port chan dt db sq ack cs) st = Ok b \<Longrightarrow>
     delay_passed L st h env dt db \<and>
     (\<exists>p c v. port_id_from_str L port = Some p \<and> channel_id_from_str L chan = Some c \<and>
        base64_decode L ack = Some v \<and> proves L proof cs prefix (AcksPath p c sq) v)"
  by (auto simp: query_def verify_packet_acknowledgment_def from_base64_Ok dest!: answered packet_query_sound)

lemma sequence_query_Ok:
  "query L env (VerifyNextSequenceRecv me h prefix proof port chan dt db sq cs) st = Ok b \<Longrightarrow>
     delay_passed L st h env dt db \<and>
     (\<exists>p c. port_id_from_str L port = Some p \<and> channel_id_from_str L chan = Some c \<and>
        proves L proof cs prefix (SeqRecvsPath p c) (u64_to_big_endian L sq))"
  by (auto simp: query_def verify_next_sequence_recv_def from_base64_Ok dest!: answered packet_query_sound)

text \<open>C8: from packets to validators, across all components: take a contract with every check on that
  has been driven through any non-empty run of updates, each response fed into the next call,
  whose messages decode to headers none of which is numbered zero (and which lead through snapshots
  that fit the address space).
  Then the last header extends an honest chain of the protocol that starts at the contract's
  first snapshot, so a quorum of the validator set of that chain has sealed it; and each packet
  query against the resulting consensus state and the height of the last update that is answered
  with success has its commitment, its acknowledgement or its next sequence number chained to
  the state root of that very header, and runs later than the update's block by both delays. \<close>

theorem proved_packets_are_committed:
  assumes "contract_host L"
    and "contract_run L (me, cs, st) ws (me', cs', st')" and "ws \<noteq> []"
    and "represents L me cs (state_new s cfg)"
    and "epoch_size cfg \<noteq> 0" and "verify_epoch_headers cfg" and "verify_non_epoch_headers cfg"
    and "verify_header_timestamp cfg"
    and "decoded_updates L ws hs" and "\<forall>(h, now) \<in> set hs. number h \<noteq> 0"
    and "run_fits L (state_new s cfg) hs"
  shows "\<exists>s0 s'. honest_chain L (epoch_size cfg) s (butlast (map fst hs)) s0 \<and>
      honest_successor L (epoch_size cfg) s0 (fst (last hs)) s' \<and>
    (query L env (VerifyPacketCommitment me' (wh_height (snd (last ws))) prefix proof port chan dt db sq
        commitment cs') st' = Ok b \<longrightarrow>
      waited (fst (last ws)) env dt db \<and>
      (\<exists>p c v. port_id_from_str L port = Some p \<and> channel_id_from_str L chan = Some c \<and>
         base64_decode L commitment = Some v \<and>
         committed L (fst (last hs)) proof prefix (CommitmentsPath p c sq) v)) \<and>
    (query L env (VerifyPacketAcknowledgement me' (wh_height (snd (last ws))) prefix proof port chan dt db sq
        ack cs') st' = Ok b \<longrightarrow>
      waited (fst (last ws)) env dt db \<and>
      (\<exists>p c v. port_id_from_str L port = Some p \<and> channel_id_from_str L chan = Some c \<and>
         base64_decode L ack = Some v \<and>
         committed L (fst (last hs)) proof prefix (AcksPath p c sq) v)) \<and>
    (query L env (VerifyNextSequenceRecv me' (wh_height (snd (last ws))) prefix proof port chan dt db sq
        cs') st' = Ok b \<longrightarrow>
      waited (fst (last ws)) env dt db \<and>
      (\<exists>p c. port_id_from_str L port = Some p \<and> channel_id_from_str L chan = Some c \<and>
         committed L (fst (last hs)) proof prefix (SeqRecvsPath p c) (u64_to_big_endian L sq)))"
proof -
  have lib: "library_crates L" using assms(1) by (simp add: contract_host_def)
  have hs: "hs \<noteq> []" using assms(3,9) by (auto simp: decoded_updates_def)
  obtain lst' where run: "accepted_run L (state_new s cfg) hs lst'"
    and "cs' = (if hs = [] then cs else updated_consensus_state L cs (fst (last hs)) lst')"
    using contract_run_refines [OF assms(1,2,4,9,11)] by blast
  with hs have root: "cs_root cs' = \<lparr>root_hash = base64_encode L (header.root (fst (last hs)))\<rparr>"
    by (simp add: updated_consensus_state_def)
  note committed = proves_committed [OF assms(1) root]
  obtain st0 where "set_consensus_meta L (fst (last ws)) st0 EMPTY_PREFIX (wh_height (snd (last ws))) = (Ok (), st')"
    using contract_run_meta [OF assms(2,3)] by auto
  note waited = delay_passed_waited [OF assms(1) this]
  obtain s' where chain: "honest_chain L (epoch_size cfg) s (map fst hs) s'"
    using run accepted_run_iff_honest [OF lib assms(5-8,10)] by blast
  then obtain s0 where "honest_chain L (epoch_size cfg) s (butlast (map fst hs)) s0"
    "honest_successor L (epoch_size cfg) s0 (fst (last hs)) s'"
    using honest_chain_last [OF chain] hs by (auto simp: last_map)
  then show ?thesis
    by (intro exI [of _ s0] exI [of _ s'])
      (auto dest!: commitment_query_Ok acknowledgement_query_Ok sequence_query_Ok intro: committed waited)
qed

section \<open>A committed packet\<close>

text \<open>The sample epoch header with the root of the sample packet's proof.\<close>

definition packet_path :: ics_path where
  "packet_path = CommitmentsPath ''transfer'' ''channel-0'' 1"

definition packet_root :: bytes where
  "packet_root = ref_digest (sample_key packet_path @ as_bytes ''packet'')"

definition packet_header :: header where
  "packet_header = (header_with 17280 epoch_extra)\<lparr>header.root := packet_root\<rparr>"

lemma packet_header_fields:
  "extra packet_header = extra (header_with 17280 epoch_extra)" "number packet_header = 17280"
  "time packet_header = 1600000000"
  by (simp_all add: packet_header_def epoch_header_fields)

lemma packet_update:
  "decoded_updates ref_contract [(sample_env, wasm_header_with packet_header)] [(packet_header, 1600000000)]"
proof -
  have "length packet_root = 32" by (simp add: packet_root_def ref_digest_def)
  then have "wf_header packet_header" "rlp_fits (header_item ref_crates packet_header)"
    using epoch_header_wf epoch_header_fits
    by (simp_all add: packet_header_def wf_header_def header_item_def rlp_fits_def)
  from wasm_header_with_field [OF this] show ?thesis
    by (simp add: decoded_updates_def sample_env_def)
qed

lemma packet_run:
  "\<exists>cs' st'. contract_run ref_contract (client_with sample_client, consensus_with sample_snapshot, Map.empty)
     [(sample_env, wasm_header_with packet_header)] (client_with sample_client, cs', st')"
proof -
  have "\<exists>b. to_vec ref_contract d = Ok b" for d using ref_to_vec_Ok by simp
  moreover obtain lst' where "insert_header ref_contract sample_state packet_header 1600000000 = (Ok (), lst')"
    using epoch_header_inserted [OF packet_header_fields] unfolding ref_same by blast
  from accepted_run.advance [OF this accepted_run.finish]
  have "accepted_run ref_contract sample_state [(packet_header, 1600000000)] lst'" .
  ultimately show ?thesis
    using contract_run_exists [OF sample_host _ _ sample_represents packet_update
        epoch_run_fits [OF packet_header_fields]] by blast
qed

theorem proved_packets_are_committed_witness:
  "\<exists>cs' st' b. contract_run ref_contract
       (client_with sample_client, consensus_with sample_snapshot, Map.empty)
       [(sample_env, wasm_header_with packet_header)] (client_with sample_client, cs', st') \<and>
     query ref_contract later_env (VerifyPacketCommitment (client_with sample_client) (Height 0 17280) sample_prefix
       (proof_string packet_path (as_bytes ''packet'')) ''transfer'' ''channel-0'' 60 10 1 ''packet'' cs') st' =
       Ok b \<and>
     committed ref_contract packet_header (proof_string packet_path (as_bytes ''packet'')) sample_prefix
       packet_path (as_bytes ''packet'')"
proof -
  let ?ws = "[(sample_env, wasm_header_with packet_header)]" and ?hs = "[(packet_header, 1600000000 :: u64)]"
    and ?cfg = sample_config
  obtain cs' st' where run: "contract_run ref_contract
      (client_with sample_client, consensus_with sample_snapshot, Map.empty) ?ws (client_with sample_client, cs', st')"
    using packet_run by blast
  obtain st0 where set: "set_consensus_meta ref_contract sample_env st0 EMPTY_PREFIX (Height 0 17280) = (Ok (), st')"
    using contract_run_meta [OF run] by (auto simp: wasm_header_with_def)
  have root: "cs_root cs' = \<lparr>root_hash = chars_of packet_root\<rparr>"
    using contract_run_refines [OF sample_host run sample_represents packet_update
        epoch_run_fits [OF packet_header_fields]]
    by (auto simp: updated_consensus_state_def packet_header_def)
  have "from_base64 ref_contract (root_hash (cs_root cs')) t = Ok packet_root"
    "from_base64 ref_contract ''packet'' t = Ok (as_bytes ''packet'')" for t
    by (simp_all add: from_base64_Ok root)
  then have "\<exists>r d. verify_packet_commitment ref_contract later_env st' (Height 0 17280) sample_prefix
    (proof_string packet_path (as_bytes ''packet'')) ''transfer'' ''channel-0'' 60 10 1 ''packet'' cs' = Ok r \<and>
    response_data r = Some d"
    using proof_string_field [OF sample_path_lengths(1)] sample_prove [of packet_path "as_bytes ''packet''"]
      sample_delay [OF set]
    by (simp add: verify_packet_commitment_def ref_identifier_def wrap_response_def later_env_def
        packet_path_def packet_root_def)
  then obtain b where query: "query ref_contract later_env (VerifyPacketCommitment (client_with sample_client)
      (Height 0 17280) sample_prefix (proof_string packet_path (as_bytes ''packet'')) ''transfer'' ''channel-0''
      60 10 1 ''packet'' cs') st' = Ok b"
    by (auto simp: query_def to_binary_def)
  have "epoch_size ?cfg \<noteq> 0" "verify_epoch_headers ?cfg" "verify_non_epoch_headers ?cfg"
    "verify_header_timestamp ?cfg" "\<forall>(h, now) \<in> set ?hs. number h \<noteq> 0"
    by (simp_all add: sample_config_def packet_header_fields)
  from proved_packets_are_committed [OF sample_host run _ _ this(1-4) packet_update this(5)]
  have "committed ref_contract packet_header (proof_string packet_path (as_bytes ''packet'')) sample_prefix
      packet_path (as_bytes ''packet'')"
    using query sample_represents epoch_run_fits [OF packet_header_fields]
    by (fastforce simp: sample_state_def wasm_header_with_def ref_identifier_def packet_path_def)
  with run query show ?thesis by blast
qed

end
