(* ===== verification/Spec2Isabelle.thy ===== *)
theory Spec2Isabelle
  imports Lightest_Sync Json_Tests Contract_Progress Handler_Safety Contract_Returns State_Codecs
    State_Tests Contract_Tests Contract_Agreement Contract_Trust
begin

text \<open>
  The Celo light client: a library that keeps up with the validator set of a Celo chain from
  the last header of each epoch (\<^verbatim>\<open>src/\<close>), an IBC light-client contract for CosmWasm built
  on it (\<^verbatim>\<open>src/contract/\<close>), and a sync program (\<^verbatim>\<open>examples/lightest-sync/\<close>).

  \<^bold>\<open>The program.\<close> The state of the library is a \<^verbatim>\<open>State\<close>: a snapshot (number, timestamp,
  validator set, hash and aggregated seal of the last header accepted) and a configuration.
  \<^verbatim>\<open>State::insert_header\<close> decodes a header's extra data, checks that two thirds of the validators
  have sealed the header's hash, applies the validator set diff on the last block of an epoch
  and replaces the snapshot. The contract keeps nothing of its own between calls but the
  host's key-value store: the messages carry the client state and the consensus state (an RLP
  snapshot in base64), a handler rebuilds a \<^verbatim>\<open>State\<close>, and the response carries the new ones. In
  the store are, per height, the time and the block at which a consensus state arrived
  (which the packet queries wait for) and the consensus states themselves, written by the host.

  \<^bold>\<open>Theories.\<close>
  \<^item> \<open>Prelude\<close>: outcomes (\<open>Ok\<close>, \<open>Err\<close>, \<open>Panic\<close>), sequencing, integers at their width, slices.
  \<^item> \<open>Errors\<close>: \<^verbatim>\<open>src/errors.rs\<close>, \<^verbatim>\<open>src/macros.rs\<close>. \<open>Epochs\<close>: the arithmetic of \<^verbatim>\<open>src/istanbul.rs\<close>.
  \<^item> \<open>Crates\<close>, \<open>Contract_Crates\<close>: the third-party crates as records of parameters, and the
    locales with the documented behaviour relied on (\<open>num_bigint\<close>, \<open>rlp_crate\<close>, \<open>keccak_crate\<close>,
    joined in \<open>library_crates\<close>; \<open>kv_store\<close>, \<open>base64_crate\<close>, \<open>json_crate\<close>, \<open>derived_codec\<close>,
    \<open>byteorder_crate\<close>, joined in \<open>contract_host\<close>). \<open>Ref_Rlp\<close>, \<open>Ref_Crates\<close>, \<open>Ref_Contract\<close>:
    concrete records on which the locales are interpreted and the witnesses run.
  \<^item> \<open>Rlp_Serialization\<close>: \<^verbatim>\<open>src/serialization/rlp.rs\<close>. \<open>Hex_Serialization\<close>:
    \<^verbatim>\<open>src/serialization/bytes.rs\<close>. \<open>Strings\<close>: the strings of Rust's standard library.
  \<^item> \<open>Serde\<close>: the interface of \<^verbatim>\<open>serde\<close> and \<^verbatim>\<open>serde_json\<close> (\<open>json_text\<close>, \<open>derived\<close>), with a struct
    as the list of its fields (\<open>json_struct\<close>). \<open>Ref_Json\<close>: a JSON printer and reader on which its
    locales are interpreted. \<open>Json_Codecs\<close>: the fields of the header and of the extra data as
    the attributes in \<^verbatim>\<open>src/types/\<close> declare them.
  \<^item> \<open>Istanbul_Types\<close>: \<^verbatim>\<open>src/types/istanbul.rs\<close>. \<open>Headers\<close>: \<^verbatim>\<open>src/types/header.rs\<close> and
    \<^verbatim>\<open>istanbul_filtered_header\<close>. \<open>Bls\<close>: \<^verbatim>\<open>src/bls.rs\<close>. \<open>Snapshots\<close>: \<^verbatim>\<open>src/types/state.rs\<close>.
    \<open>State_Codecs\<close>: the codecs of the same file that rest on derived or library code.
  \<^item> \<open>Light_State\<close>: \<^verbatim>\<open>src/state.rs\<close>, each method with the state it leaves behind.
    \<open>Light_Safety\<close>, \<open>Light_Runs\<close>: what its operations and their sequences guarantee.
    \<open>Light_Progress\<close>: the protocol's header chains, and that the client follows exactly these.
    \<open>Light_Agreement\<close>: the fault assumption, unforgeability, and that two clients cannot differ.
    \<open>Library_Fields\<close>: the operations use no more of a crates record than the fields they name.
    \<open>Light_Skipping\<close>: blocks inside an epoch need not be seen.
    \<open>Light_Returns\<close>: when its operations panic and what its decoders return.
    \<open>State_Tests\<close>: the unit tests of the same file, on a general theorem about diffs by name.
    \<open>Codec_Tests\<close>, \<open>Json_Tests\<close>: those of the codecs and of the arithmetic, with their vectors.
  \<^item> \<open>Effects\<close>: computations that thread a state or a world. \<open>Numerals\<close>, \<open>Relayer\<close>,
    \<open>Lightest_Sync\<close>: number formats, \<^verbatim>\<open>relayer.rs\<close> and \<^verbatim>\<open>main.rs\<close> of
    \<^verbatim>\<open>examples/lightest-sync/\<close>; outside calls thread a world, and the log is part of the state.
  \<^item> \<open>Ibc_Types\<close>, \<open>Membership\<close>: data and functions of \<^verbatim>\<open>src/contract/types/ibc.rs\<close>.
    \<open>Contract_Types\<close>: \<^verbatim>\<open>wasm.rs\<close>, \<^verbatim>\<open>state.rs\<close> and \<^verbatim>\<open>msg.rs\<close> of the same directory.
    \<open>Contract_Util\<close>: \<^verbatim>\<open>src/contract/util.rs\<close> and \<^verbatim>\<open>serialization.rs\<close>.
    \<open>Contract_Store\<close>: \<^verbatim>\<open>src/contract/store.rs\<close>.
  \<^item> \<open>Contract_Handlers\<close>, \<open>Contract_Queries\<close>: \<^verbatim>\<open>src/contract/mod.rs\<close>; a handler takes the store
    and returns its result with the store it leaves behind, a query only reads.
    \<open>Contract_Samples\<close>: messages for the witnesses.
    \<open>Contract_Update\<close>, \<open>Contract_Progress\<close>, \<open>Contract_Agreement\<close>, \<open>Contract_Safety\<close>,
    \<open>Query_Safety\<close>, \<open>Handler_Safety\<close>: their properties. \<open>Contract_Trust\<close>: all components composed.
    \<open>Contract_Tests\<close>: the unit test of the same file.
    \<open>Contract_Returns\<close>: for each message and query, the cases in which the contract aborts.

  \<^bold>\<open>What is shown.\<close>
  \<^item> Trust. Seal verification computes \<open>quorum_sealed\<close> (C13), accepted headers
    are sealed by the validator set of the snapshot before them (C1, C2), the set moves by the
    header's diff (C12), rejected headers leave all but the validators alone and lose validators
    in exactly one case (C15), and every reachable snapshot is well-formed and can be stored
    (C17).
  \<^item> Agreement. Two accepted seals share signers
    (\<open>accepted_seals_share_signers\<close>), more than may be faulty; so, with unforgeable
    signatures and no colliding digests, clients that start alike and accept headers of the same
    numbers have accepted the same blocks (C3), and contracts so driven end with the same state
    root (C7).
  \<^item> Progress. With all checks on the client accepts exactly the honest chains (C4): these
    are the specification of the protocol, stated without the code's operations. Of such a chain
    the last headers of the epochs are enough: a client that is given no others ends in the state
    of one that has followed every block (C5), and so does the sync program against a node that
    follows one (C36); whatever the node answers, its verdict is that of a client that applied the
    fetched headers (C35).
  \<^item> Panics. \<^verbatim>\<open>insert_header\<close> (C16) and every message and query of
    the contract (C11) return outside the listed cases; so does the epoch arithmetic (C40).
  \<^item> The contract. A header update succeeds exactly when the light client accepts the header
    (C10), runs of updates are its runs, with the snapshot carried through the messages (C9), and
    so the deployed contract follows exactly the honest chains (C6); what a packet query then
    accepts is committed to by a header the validators of the chain have sealed, after the delays
    (C8); initialisation (C19), upgrade (C21) and the misbehaviour check (C18) accept exactly what
    is stated, a substitution (C22) establishes what it checks, and no message changes a stored
    consensus state (C23).
  \<^item> Proofs. The membership check accepts exactly the chains of proofs (C20), and the state
    and packet queries exactly the values so proved (C25, C24), packets moreover only after the
    delay period, for the metadata is a map from heights to blocks (C27). The indexing of the
    check stays in range for proofs no longer than the path
    (\<open>verify_membership_returns\<close>).
  \<^item> Data. The codecs of header, extra data, snapshot and validator list
    round trip (C30, C33, C32, \<open>snapshot_roundtrip\<close>; that of the configuration is derived code, whose
    round trip is a law), and so do header and extra data as JSON,
    the header's fields in any order (C34); what is decoded is well-typed (C31), the header hash
    ignores the aggregated seal (C29). Epochs end in one block
    (\<open>epoch_last_block_roundtrip\<close>), the quorum is two thirds rounded up
    (\<open>min_quorum_size_is_ceiling\<close>).
  \<^item> Tests. The unit tests of the repository are definitions too and pass in the model:
    those of the state for every library with the documented behaviour and every source of keys
    without collisions (C37), after a theorem on all diffs (\<open>diffs_replay_names\<close>);
    the one of the contract for every library with the documented behaviour (C38); those of the
    codecs and of the arithmetic for every library that writes the published formats of RLP,
    big-endian numbers and hexadecimal digits (C39); and the one of the header hash, on the
    reference crates, with any digest that has its expected value (\<open>hash_test_passes_iff\<close>).
  \<^item> Where the code does otherwise than it means to, the theorem states what it does:
    headers numbered zero (C14), rejected epoch headers (C15), exchanged upgrade proofs (C21), the
    inverted flag of substitutions (C22), absence by the first proof only (C26), consensus states
    stored as JSON (C28), misbehaviour judged by the claimed height (C18); also the theorems
    \<open>header_field_length_not_checked\<close>, \<open>empty_validator_set_panics\<close> and
    \<open>overlong_proof_panics\<close>.

  \<^bold>\<open>Conventions and bounds.\<close> \<^verbatim>\<open>usize\<close> has 32 bits (the contract's target, wasm32); \<open>rlp_fits\<close>
  says that an encoded value fits that address space, the only size bound in the statements.
  Overflow, indexing out of range and \<^verbatim>\<open>unwrap\<close> of \<^verbatim>\<open>None\<close> are \<open>Panic\<close>, as the release profile of
  \<^verbatim>\<open>Cargo.toml\<close> has it (\<^verbatim>\<open>overflow-checks\<close>, \<^verbatim>\<open>panic = 'abort'\<close>). All loops of the code run over
  lists or ranges and are structural recursion or folds: nothing of it needs fuel, and every
  operation is total. (The JSON reader of \<open>Ref_Json\<close> takes the length of its text as fuel, which
  its interpretation shows to be enough.) BLS keys, signatures and their verification are abstract parameters; no
  law is assumed of them, nor any of the digest but its length, except where agreement is
  concluded: there unforgeability, the bound on faulty validators and the absence of
  collisions among the headers at hand are hypotheses of the theorems.

  \<^bold>\<open>Not modelled.\<close> The code that \<^verbatim>\<open>serde\<close>, \<^verbatim>\<open>prost\<close> and \<^verbatim>\<open>rlp_derive\<close> generate, and the HTTP, JSON
  and command-line crates of the sync program: they are parameters. The JSON forms of validator,
  configuration and snapshot, which nothing in the repository writes or reads. The context attached to
  errors and the values interpolated into messages are left out, except where computing them
  can panic; arguments a handler ignores are omitted, and so are module declarations,
  re-exports and the entry points generated for the contract.
\<close>

end
